(* ===== verification/Prelude.thy ===== *)
theory Prelude
  imports Main "HOL-Library.Word"
begin

text \<open>
  Prelude of the oathgate development: the machine integers, the outcome type of a Rust
  function, slices and byte buffers, and the little/big endian conversions of
  \<^verbatim>\<open>std\<close> that every component uses.

  A Rust function of type \<open>Result<T, E>\<close> has three outcomes: it returns \<open>Ok\<close>, it returns
  \<open>Err\<close>, or it panics (an index or a slice out of range, a failed \<open>unwrap\<close>, a \<open>todo!\<close>),
  which ends the thread that runs it. The type \<open>res\<close> keeps the three apart. Integer
  arithmetic wraps at its width, as in the release profile the README builds with.
  Lengths and indices (\<open>usize\<close>) are \<open>nat\<close>.
\<close>

unbundle bit_operations_syntax

section \<open>Machine integers\<close>

type_synonym u8 = "8 word"
type_synonym u16 = "16 word"
type_synonym u32 = "32 word"
type_synonym u64 = "64 word"
type_synonym u128 = "128 word"
type_synonym bytes = "u8 list"

named_theorems buf_simps \<open>reading and writing byte buffers\<close>
named_theorems code_defs \<open>definitions that translate one source function\<close>

section \<open>Outcomes of a Rust function\<close>

datatype ('a, 'e) res = Ok 'a | Err 'e | Panic

text \<open>\<open>x?\<close> followed by the rest of the function, and \<open>Result::and_then\<close>.\<close>

fun and_then :: "('a, 'e) res \<Rightarrow> ('a \<Rightarrow> ('b, 'e) res) \<Rightarrow> ('b, 'e) res" where
  "and_then (Ok x) f = f x"
| "and_then (Err e) f = Err e"
| "and_then Panic f = Panic"

text \<open>\<open>Result::map_err\<close>, also the conversion of an error by \<open>?\<close> through \<open>From\<close>.\<close>

fun map_err :: "('e \<Rightarrow> 'f) \<Rightarrow> ('a, 'e) res \<Rightarrow> ('a, 'f) res" where
  "map_err f (Ok x) = Ok x"
| "map_err f (Err e) = Err (f e)"
| "map_err f Panic = Panic"

text \<open>\<open>Option::ok_or\<close> and \<open>Result::unwrap\<close>.\<close>

fun ok_or :: "'a option \<Rightarrow> 'e \<Rightarrow> ('a, 'e) res" where
  "ok_or (Some x) e = Ok x"
| "ok_or None e = Err e"

fun unwrap :: "('a, 'e) res \<Rightarrow> ('a, 'f) res" where
  "unwrap (Ok x) = Ok x"
| "unwrap (Err e) = Panic"
| "unwrap Panic = Panic"

lemma and_then_eq_Ok: "and_then m f = Ok y \<longleftrightarrow> (\<exists>x. m = Ok x \<and> f x = Ok y)"
  by (cases m) auto

lemma and_then_eq_Err: "and_then m f = Err e \<longleftrightarrow> m = Err e \<or> (\<exists>x. m = Ok x \<and> f x = Err e)"
  by (cases m) auto

lemma and_then_eq_Panic: "and_then m f = Panic \<longleftrightarrow> m = Panic \<or> (\<exists>x. m = Ok x \<and> f x = Panic)"
  by (cases m) auto

lemma and_then_const_Panic: "(\<And>e. m \<noteq> Err e) \<Longrightarrow> and_then m (\<lambda>_. Panic) = Panic"
  by (cases m) auto

lemma and_then_assoc: "and_then (and_then m f) g = and_then m (\<lambda>x. and_then (f x) g)"
  by (cases m) auto

lemma map_err_eq_Ok [simp]: "map_err f m = Ok x \<longleftrightarrow> m = Ok x"
  by (cases m) auto

lemma map_err_eq_Panic [simp]: "map_err f m = Panic \<longleftrightarrow> m = Panic"
  by (cases m) auto

text \<open>A \<open>for\<close> loop over a list whose body may return early or panic.\<close>

fun fold_res :: "('s \<Rightarrow> 'x \<Rightarrow> ('s, 'e) res) \<Rightarrow> 's \<Rightarrow> 'x list \<Rightarrow> ('s, 'e) res" where
  "fold_res f s [] = Ok s"
| "fold_res f s (x # xs) = and_then (f s x) (\<lambda>s. fold_res f s xs)"

lemma fold_res_append: "fold_res f s (xs @ ys) = and_then (fold_res f s xs) (\<lambda>s. fold_res f s ys)"
  by (induction xs arbitrary: s) (simp_all add: and_then_assoc)

lemma fold_res_inv:
  assumes "fold_res f s xs = Ok s'" and "P s" and "\<And>s x s'. x \<in> set xs \<Longrightarrow> P s \<Longrightarrow> f s x = Ok s' \<Longrightarrow> P s'"
  shows "P s'"
  using assms
proof (induction xs arbitrary: s)
  case (Cons x xs)
  then obtain s1 where "f s x = Ok s1" "fold_res f s1 xs = Ok s'" by (auto simp: and_then_eq_Ok)
  with Cons show ?case by (metis list.set_intros(1) list.set_intros(2))
qed simp

section \<open>Functions with state\<close>

text \<open>
  A method that changes a state and may return early: its outcome and the state afterwards, kept also
  when it fails. \<open>bind\<close> is the sequence with the early return of \<open>?\<close>, \<open>give\<close> a result that leaves the
  state alone, \<open>on_err\<close> a conversion of the error.
\<close>

type_synonym ('a, 'e, 's) act = "'s \<Rightarrow> ('a, 'e) res \<times> 's"

definition bind :: "('a, 'e, 's) act \<Rightarrow> ('a \<Rightarrow> ('b, 'e, 's) act) \<Rightarrow> ('b, 'e, 's) act" where
  "bind m f s = (case m s of (Ok x, s) \<Rightarrow> f x s | (Err e, s) \<Rightarrow> (Err e, s) | (Panic, s) \<Rightarrow> (Panic, s))"

definition give :: "('a, 'e) res \<Rightarrow> ('a, 'e, 's) act" where
  "give r s = (r, s)"

definition on_err :: "('e \<Rightarrow> 'f) \<Rightarrow> ('a, 'e, 's) act \<Rightarrow> ('a, 'f, 's) act" where
  "on_err f m s = (case m s of (r, s) \<Rightarrow> (map_err f r, s))"

lemma bind_eq_Ok:
  "bind m f s = (Ok y, s') \<longleftrightarrow> (\<exists>x s1. m s = (Ok x, s1) \<and> f x s1 = (Ok y, s'))"
  by (auto simp: bind_def split: prod.splits res.splits)

text \<open>Files and sockets: descriptors, and the errors of the system calls.\<close>

type_synonym rawfd = nat

datatype errno = EWOULDBLOCK | OtherErrno string

datatype io_error = Os errno | OtherError string

text \<open>What a receiving call leaves in a zeroed buffer of \<open>n\<close> bytes when it received the bytes \<open>b\<close>.\<close>

definition filled :: "nat \<Rightarrow> bytes \<Rightarrow> bytes" where
  "filled n b = take n b @ replicate (n - length b) 0"

lemma length_filled [simp]: "length (filled n b) = n"
  by (simp add: filled_def)

lemma filled_exact [simp]: "length b = n \<Longrightarrow> filled n b = b"
  by (simp add: filled_def)

text \<open>The levels of \<open>tracing\<close>, ordered by how verbose they are.\<close>

datatype tracing_level = ERROR | WARN | INFO | DEBUG | TRACE

fun level_rank :: "tracing_level \<Rightarrow> nat" where
  "level_rank ERROR = 0"
| "level_rank WARN = 1"
| "level_rank INFO = 2"
| "level_rank DEBUG = 3"
| "level_rank TRACE = 4"

instantiation tracing_level :: linorder
begin

definition less_eq_tracing_level :: "tracing_level \<Rightarrow> tracing_level \<Rightarrow> bool" where
  "a \<le> b \<longleftrightarrow> level_rank a \<le> level_rank b"

definition less_tracing_level :: "tracing_level \<Rightarrow> tracing_level \<Rightarrow> bool" where
  "a < b \<longleftrightarrow> level_rank a < level_rank b"

instance
proof
  fix a b :: tracing_level
  show "a \<le> b \<Longrightarrow> b \<le> a \<Longrightarrow> a = b"
    by (cases a; cases b) (simp_all add: less_eq_tracing_level_def)
qed (auto simp: less_eq_tracing_level_def less_tracing_level_def)

end

section \<open>Indexing, slicing and writing a buffer\<close>

text \<open>\<open>xs[i]\<close>, \<open>&xs[a..b]\<close>, \<open>&xs[a..]\<close>: each panics out of range.\<close>

definition get_at :: "'a list \<Rightarrow> nat \<Rightarrow> ('a, 'e) res" where
  "get_at xs i = (if i < length xs then Ok (xs ! i) else Panic)"

definition get_slice :: "'a list \<Rightarrow> nat \<Rightarrow> nat \<Rightarrow> ('a list, 'e) res" where
  "get_slice xs a b = (if a \<le> b \<and> b \<le> length xs then Ok (take (b - a) (drop a xs)) else Panic)"

definition get_from :: "'a list \<Rightarrow> nat \<Rightarrow> ('a list, 'e) res" where
  "get_from xs a = (if a \<le> length xs then Ok (drop a xs) else Panic)"

text \<open>
  \<open>xs[i] = v\<close> and \<open>xs[a..b].copy_from_slice(src)\<close>; the latter also panics when the
  two lengths differ.
\<close>

definition put_at :: "'a list \<Rightarrow> nat \<Rightarrow> 'a \<Rightarrow> ('a list, 'e) res" where
  "put_at xs i v = (if i < length xs then Ok (xs[i := v]) else Panic)"

definition put_slice :: "'a list \<Rightarrow> nat \<Rightarrow> nat \<Rightarrow> 'a list \<Rightarrow> ('a list, 'e) res" where
  "put_slice xs a b src =
     (if a \<le> b \<and> b \<le> length xs \<and> length src = b - a
      then Ok (take a xs @ src @ drop b xs) else Panic)"

lemma get_at_in [buf_simps]: "i < length xs \<Longrightarrow> get_at xs i = Ok (xs ! i)"
  by (simp add: get_at_def)

lemma get_at_out [buf_simps]: "\<not> i < length xs \<Longrightarrow> get_at xs i = Panic"
  by (simp add: get_at_def)

lemma get_slice_in [buf_simps]:
  "a \<le> b \<Longrightarrow> b \<le> length xs \<Longrightarrow> get_slice xs a b = Ok (take (b - a) (drop a xs))"
  by (simp add: get_slice_def)

lemma get_slice_out [buf_simps]: "length xs < b \<Longrightarrow> get_slice xs a b = Panic"
  by (simp add: get_slice_def)

lemma get_from_in [buf_simps]: "a \<le> length xs \<Longrightarrow> get_from xs a = Ok (drop a xs)"
  by (simp add: get_from_def)

lemma get_from_out [buf_simps]: "length xs < a \<Longrightarrow> get_from xs a = Panic"
  by (simp add: get_from_def)

lemma put_at_in [buf_simps]: "i < length xs \<Longrightarrow> put_at xs i v = Ok (take i xs @ [v] @ drop (i + 1) xs)"
  by (simp add: put_at_def upd_conv_take_nth_drop)

lemma put_slice_in [buf_simps]:
  "a \<le> b \<Longrightarrow> b \<le> length xs \<Longrightarrow> length src = b - a \<Longrightarrow>
   put_slice xs a b src = Ok (take a xs @ src @ drop b xs)"
  by (simp add: put_slice_def)

lemma buffer_ops_no_Err [simp]:
  "get_at xs i \<noteq> Err e" "get_slice xs a b \<noteq> Err e" "get_from xs a \<noteq> Err e"
  "put_at xs i v \<noteq> Err e" "put_slice xs a b src \<noteq> Err e"
  by (simp_all add: get_at_def get_slice_def get_from_def put_at_def put_slice_def)

lemma put_slice_length: "put_slice xs a b src = Ok ys \<Longrightarrow> length ys = length xs"
  by (auto simp: put_slice_def split: if_splits)

lemma put_at_length: "put_at xs i v = Ok ys \<Longrightarrow> length ys = length xs"
  by (auto simp: put_at_def split: if_splits)

text \<open>A list with at least \<open>n\<close> elements, opened for evaluation.\<close>

lemma length_ge_Suc_conv: "Suc n \<le> length xs \<longleftrightarrow> (\<exists>y ys. xs = y # ys \<and> n \<le> length ys)"
  by (cases xs) auto

lemma length_ge_2E:
  assumes "n + 2 \<le> length xs"
  obtains a b ys where "xs = a # b # ys" "n \<le> length ys"
proof -
  have "Suc (Suc n) \<le> length xs" using assms by simp
  then show ?thesis using that unfolding length_ge_Suc_conv by blast
qed

lemma length_eq_Suc_conv: "length xs = Suc n \<longleftrightarrow> (\<exists>y ys. xs = y # ys \<and> length ys = n)"
  by (cases xs) auto

lemma length4_conv: "length xs = 4 \<longleftrightarrow> (\<exists>a b c d. xs = [a, b, c, d])"
  by (auto simp: eval_nat_numeral length_Suc_conv)

section \<open>Bytes of an integer\<close>

text \<open>\<open>uN::from_le_bytes\<close>, \<open>uN::to_le_bytes\<close> and their big endian versions.\<close>

fun from_le_bytes :: "bytes \<Rightarrow> 'a::len word" where
  "from_le_bytes [] = 0"
| "from_le_bytes (b # bs) = ucast b OR push_bit 8 (from_le_bytes bs)"

fun to_le_bytes :: "nat \<Rightarrow> 'a::len word \<Rightarrow> bytes" where
  "to_le_bytes 0 w = []"
| "to_le_bytes (Suc n) w = ucast w # to_le_bytes n (drop_bit 8 w)"

definition from_be_bytes :: "bytes \<Rightarrow> 'a::len word" where
  "from_be_bytes bs = from_le_bytes (rev bs)"

definition to_be_bytes :: "nat \<Rightarrow> 'a::len word \<Rightarrow> bytes" where
  "to_be_bytes n w = rev (to_le_bytes n w)"

lemma length_to_le_bytes [simp]: "length (to_le_bytes n w) = n"
  by (induction n arbitrary: w) auto

lemma length_to_be_bytes [simp]: "length (to_be_bytes n w) = n"
  by (simp add: to_be_bytes_def)

lemma to_be_bytes_2: "to_be_bytes 2 w = [ucast (drop_bit 8 w), ucast w]"
  by (simp add: to_be_bytes_def numeral_2_eq_2)

lemma to_be_bytes_4: "to_be_bytes 4 w =
   [ucast (drop_bit 8 (drop_bit 8 (drop_bit 8 w))), ucast (drop_bit 8 (drop_bit 8 w)), ucast (drop_bit 8 w), ucast w]"
  by (simp add: to_be_bytes_def eval_nat_numeral)

lemma low_be_bytes: "take 2 (drop 6 (to_be_bytes 8 w)) = to_be_bytes 2 (ucast w :: u16)" for w :: u64
proof -
  have "(ucast (drop_bit 8 (ucast w :: u16)) :: u8) = ucast (drop_bit 8 w)"
    by (rule bit_word_eqI) (auto simp: bit_simps)
  moreover have "(ucast (ucast w :: u16) :: u8) = ucast w" by (rule bit_word_eqI) (auto simp: bit_simps)
  moreover have "take 2 (to_le_bytes n w) = [ucast w, ucast (drop_bit 8 w)]" if "n = Suc (Suc k)" for n k
    using that by (simp add: numeral_2_eq_2)
  then have "take 2 (to_le_bytes 8 w) = [ucast w, ucast (drop_bit 8 w)]" by (simp add: eval_nat_numeral)
  ultimately show ?thesis
    unfolding to_be_bytes_2 by (simp add: to_be_bytes_def drop_rev take_rev)
qed

lemma ucast_word_of_nat: "ucast (word_of_nat n :: u64) = (word_of_nat n :: u16)"
  by (simp add: word_unat_eq_iff unsigned_ucast_eq unsigned_of_nat)

lemma bit_from_le_bytes:
  "bit (from_le_bytes bs :: 'a::len word) i \<longleftrightarrow>
     i < LENGTH('a) \<and> i div 8 < length bs \<and> bit (bs ! (i div 8)) (i mod 8)"
proof (induction bs arbitrary: i)
  case Nil
  then show ?case by simp
next
  case (Cons b bs)
  show ?case
  proof (cases "i < 8")
    case True
    then show ?thesis
      by (auto simp: bit_or_iff bit_push_bit_iff bit_ucast_iff)
  next
    case False
    then have i: "i div 8 = Suc ((i - 8) div 8)" "i mod 8 = (i - 8) mod 8"
      by (simp_all add: le_div_geq le_mod_geq)
    have "\<not> bit b i" using False by (auto dest: bit_imp_le_length)
    with False show ?thesis
      by (auto simp: bit_or_iff bit_push_bit_iff bit_ucast_iff Cons.IH i(1) i(2) not_less)
  qed
qed

lemma nth_to_le_bytes: "i < n \<Longrightarrow> to_le_bytes n w ! i = ucast (drop_bit (8 * i) w)"
proof (induction n arbitrary: w i)
  case (Suc n)
  then show ?case
    by (cases i) (simp_all add: drop_bit_drop_bit add.commute)
qed simp

lemma from_le_to_le_bytes:
  "LENGTH('a) \<le> 8 * n \<Longrightarrow> from_le_bytes (to_le_bytes n w) = (w :: 'a::len word)"
proof (rule bit_word_eqI)
  fix i assume n: "LENGTH('a) \<le> 8 * n" and i: "i < LENGTH('a)"
  then have d: "i div 8 < n" by (simp add: less_mult_imp_div_less mult.commute)
  have "8 * (i div 8) + i mod 8 = i" by simp
  with d i show "bit (from_le_bytes (to_le_bytes n w) :: 'a word) i = bit w i"
    by (simp add: bit_from_le_bytes nth_to_le_bytes bit_ucast_iff bit_drop_bit_eq)
qed

lemma to_le_from_le_bytes:
  assumes "8 * length bs \<le> LENGTH('a)"
  shows "to_le_bytes (length bs) (from_le_bytes bs :: 'a::len word) = bs"
proof (rule nth_equalityI)
  fix i assume "i < length (to_le_bytes (length bs) (from_le_bytes bs :: 'a word))"
  then have i: "i < length bs" by simp
  show "to_le_bytes (length bs) (from_le_bytes bs :: 'a word) ! i = bs ! i"
  proof (rule bit_word_eqI)
    fix j assume j: "j < LENGTH(8)"
    have "8 * i + j < LENGTH('a)" using assms i j by (simp add: algebra_simps)
    with i j show "bit (to_le_bytes (length bs) (from_le_bytes bs :: 'a word) ! i) j = bit (bs ! i) j"
      by (simp add: nth_to_le_bytes bit_ucast_iff bit_drop_bit_eq bit_from_le_bytes)
  qed
qed simp

lemma from_be_to_be_bytes [simp]:
  "LENGTH('a) \<le> 8 * n \<Longrightarrow> from_be_bytes (to_be_bytes n w) = (w :: 'a::len word)"
  by (simp add: from_be_bytes_def to_be_bytes_def from_le_to_le_bytes)

lemma from_be_pair [simp]: "from_be_bytes [ucast (drop_bit 8 w), ucast w] = (w :: u16)"
  using from_be_to_be_bytes [of 2 w] by (simp add: to_be_bytes_2)

lemma to_be_from_be_bytes:
  "8 * length bs \<le> LENGTH('a) \<Longrightarrow> length bs = n \<Longrightarrow>
     to_be_bytes n (from_be_bytes bs :: 'a::len word) = bs"
  using to_le_from_le_bytes [of "rev bs", where 'a = 'a]
  by (auto simp: from_be_bytes_def to_be_bytes_def)

text \<open>
  The \<open>cast!\<close> macro (\<^verbatim>\<open>oathgate-net/src/macros.rs\<close>) reads the first \<open>n\<close> bytes of a
  slice and panics when there are fewer.
\<close>

definition cast_be :: "nat \<Rightarrow> bytes \<Rightarrow> ('a::len word, 'e) res" where
  "cast_be n b = (if n \<le> length b then Ok (from_be_bytes (take n b)) else Panic)"

definition cast_le :: "nat \<Rightarrow> bytes \<Rightarrow> ('a::len word, 'e) res" where
  "cast_le n b = (if n \<le> length b then Ok (from_le_bytes (take n b)) else Panic)"

lemma cast_be_in [buf_simps]: "n \<le> length b \<Longrightarrow> cast_be n b = Ok (from_be_bytes (take n b))"
  by (simp add: cast_be_def)

lemma cast_le_in [buf_simps]: "n \<le> length b \<Longrightarrow> cast_le n b = Ok (from_le_bytes (take n b))"
  by (simp add: cast_le_def)

end
