(* ===== verification/Text_Format.thy ===== *)
theory Text_Format
  imports Prelude
begin

text \<open>
  The parts of Rust's string formatting and parsing that the program uses: decimal and
  zero-padded hexadecimal numbers, \<open>from_str_radix\<close> and \<open>str::split\<close>, and joining paths. A \<open>str\<close> is its
  sequence of bytes; every delimiter and digit of the program is ASCII. The lemmas are the
  round trips from a number to its text and back, and from joined parts to the parts.
\<close>

section \<open>Digits\<close>

definition digit_char :: "nat \<Rightarrow> char" where
  "digit_char d = char_of (if d < 10 then 48 + d else 87 + d)"

text \<open>\<open>char::to_digit\<close>: the value of a character in a radix up to 36.\<close>

definition char_digit :: "nat \<Rightarrow> char \<Rightarrow> nat option" where
  "char_digit radix c =
     (let n = of_char c;
          d = (if 48 \<le> n \<and> n \<le> 57 then n - 48
               else if 97 \<le> n \<and> n \<le> 122 then n - 87
               else if 65 \<le> n \<and> n \<le> 90 then n - 55 else radix)
      in if d < radix then Some d else None)"

lemma of_char_digit_char: "d < 36 \<Longrightarrow> of_char (digit_char d) = (if d < 10 then 48 + d else 87 + d)"
  by (simp add: digit_char_def)

lemma char_digit_digit_char [simp]: "d < radix \<Longrightarrow> radix \<le> 36 \<Longrightarrow> char_digit radix (digit_char d) = Some d"
  by (auto simp: char_digit_def of_char_digit_char Let_def)

section \<open>Printing numbers\<close>

text \<open>The digits of a number, most significant first, without leading zeros.\<close>

fun show_radix :: "nat \<Rightarrow> nat \<Rightarrow> string" where
  "show_radix radix n =
     (if n < radix \<or> radix < 2 then [digit_char n]
      else show_radix radix (n div radix) @ [digit_char (n mod radix)])"

declare show_radix.simps [simp del]

text \<open>\<open>{}\<close> and \<open>{:0wx}\<close>.\<close>

definition show_dec :: "nat \<Rightarrow> string" where
  "show_dec n = show_radix 10 n"

definition show_int :: "int \<Rightarrow> string" where
  "show_int i = (if i < 0 then CHR ''-'' # show_dec (nat (- i)) else show_dec (nat i))"

definition show_hex_pad :: "nat \<Rightarrow> nat \<Rightarrow> string" where
  "show_hex_pad w n = (let s = show_radix 16 n in replicate (w - length s) (CHR ''0'') @ s)"

section \<open>Parsing numbers\<close>

text \<open>
  \<open>uN::from_str_radix\<close>: an optional \<open>+\<close>, then at least one digit, each step checked
  against the largest value of the type.
\<close>

fun digits_value :: "nat \<Rightarrow> nat \<Rightarrow> nat \<Rightarrow> string \<Rightarrow> nat option" where
  "digits_value radix mx acc [] = Some acc"
| "digits_value radix mx acc (c # cs) =
     (case char_digit radix c of None \<Rightarrow> None
      | Some d \<Rightarrow> if mx < acc * radix + d then None else digits_value radix mx (acc * radix + d) cs)"

definition from_str_radix :: "nat \<Rightarrow> nat \<Rightarrow> string \<Rightarrow> nat option" where
  "from_str_radix radix mx s =
     (case s of [] \<Rightarrow> None
      | c # cs \<Rightarrow> if c = CHR ''+'' then (if cs = [] then None else digits_value radix mx 0 cs)
                 else digits_value radix mx 0 s)"

lemma digits_value_append:
  "digits_value radix mx acc (xs @ ys) =
     (case digits_value radix mx acc xs of None \<Rightarrow> None | Some v \<Rightarrow> digits_value radix mx v ys)"
  by (induction xs arbitrary: acc) (auto split: option.splits)

lemma digits_value_show_radix:
  assumes "2 \<le> radix" "radix \<le> 36"
  shows "n \<le> mx \<Longrightarrow> digits_value radix mx 0 (show_radix radix n) = Some n"
proof (induction n rule: less_induct)
  case (less n)
  show ?case
  proof (cases "n < radix")
    case True
    with assms less.prems show ?thesis by (simp add: show_radix.simps)
  next
    case False
    with assms have "n div radix < n" by simp
    moreover have "n div radix \<le> mx" using less.prems by (meson div_le_dividend le_trans)
    ultimately have "digits_value radix mx 0 (show_radix radix (n div radix)) = Some (n div radix)"
      by (rule less.IH)
    moreover have "show_radix radix n = show_radix radix (n div radix) @ [digit_char (n mod radix)]"
      using False assms by (subst show_radix.simps) simp
    moreover have "n mod radix < radix" using assms by simp
    ultimately show ?thesis
      using assms less.prems by (simp add: digits_value_append)
  qed
qed

lemma digits_value_zeros:
  "2 \<le> radix \<Longrightarrow> radix \<le> 36 \<Longrightarrow>
   digits_value radix mx 0 (replicate k (CHR ''0'') @ s) = digits_value radix mx 0 s"
  by (induction k) (auto simp: char_digit_def)

lemma show_radix_nonempty [simp]: "show_radix radix n \<noteq> []"
  by (subst show_radix.simps) simp

lemma show_radix_small: "n < radix \<Longrightarrow> show_radix radix n = [digit_char n]"
  by (subst show_radix.simps) simp

lemma show_radix_big:
  "radix \<le> n \<Longrightarrow> 2 \<le> radix \<Longrightarrow> show_radix radix n = show_radix radix (n div radix) @ [digit_char (n mod radix)]"
  by (subst show_radix.simps) simp

lemma length_show_dec_octet: "n < 256 \<Longrightarrow> length (show_radix 10 n) \<le> 3"
proof -
  assume n: "n < 256"
  consider "n < 10" | "10 \<le> n" "n div 10 < 10" | "10 \<le> n" "10 \<le> n div 10" "n div 10 div 10 < 10"
    using n by linarith
  then show ?thesis by cases (simp_all add: show_radix_small show_radix_big)
qed

lemma hd_show_radix_pos:
  assumes "2 \<le> radix" "radix \<le> 36"
  shows "0 < n \<Longrightarrow> hd (show_radix radix n) \<noteq> CHR ''0''"
proof (induction n rule: less_induct)
  case (less n)
  show ?case
  proof (cases "n < radix")
    case True
    with assms less.prems have "char_digit radix (hd (show_radix radix n)) = Some n"
      by (simp add: show_radix_small)
    with assms less.prems show ?thesis by (auto simp: char_digit_def)
  next
    case False
    with assms have "0 < n div radix" "n div radix < n" by (simp_all add: div_greater_zero_iff)
    with False assms less.IH show ?thesis by (simp add: show_radix_big)
  qed
qed

lemma set_show_radix:
  assumes "2 \<le> radix" shows "set (show_radix radix n) \<subseteq> digit_char ` {..<radix}"
proof (induction n rule: less_induct)
  case (less n)
  show ?case
  proof (cases "n < radix")
    case True
    with assms show ?thesis by (subst show_radix.simps) auto
  next
    case False
    with assms have "set (show_radix radix (n div radix)) \<subseteq> digit_char ` {..<radix}"
      by (intro less.IH) simp
    moreover have "n mod radix < radix" using assms by simp
    ultimately show ?thesis
      using False assms by (subst show_radix.simps) auto
  qed
qed

lemma digit_char_neq:
  assumes "d < 16" and "\<not> (48 \<le> (of_char c :: nat) \<and> of_char c \<le> (57::nat))"
    and "\<not> (97 \<le> (of_char c :: nat) \<and> of_char c \<le> (102::nat))"
  shows "digit_char d \<noteq> c"
proof
  assume "digit_char d = c"
  with assms(1) have "(of_char c :: nat) = (if d < 10 then 48 + d else 87 + d)"
    using of_char_digit_char [of d] by simp
  with assms show False by (auto split: if_splits)
qed

lemma not_in_show_radix:
  assumes "c \<in> set (show_radix radix n)" "2 \<le> radix" "radix \<le> 16"
  shows "(48 \<le> (of_char c :: nat) \<and> of_char c \<le> (57::nat)) \<or> (97 \<le> (of_char c :: nat) \<and> of_char c \<le> (102::nat))"
proof -
  have "c \<in> digit_char ` {..<radix}" using set_show_radix [OF assms(2)] assms(1) by blast
  then obtain d where "d < radix" and c: "c = digit_char d" by auto
  with assms(3) have "d < 16" by simp
  then show ?thesis using digit_char_neq [of d c] c by blast
qed

lemma from_str_radix_eq: "s \<noteq> [] \<Longrightarrow> hd s \<noteq> CHR ''+'' \<Longrightarrow> from_str_radix radix mx s = digits_value radix mx 0 s"
  by (cases s) (auto simp: from_str_radix_def)

lemma hd_show_radix_not_plus:
  assumes "2 \<le> radix" "radix \<le> 16" shows "hd (show_radix radix n) \<noteq> CHR ''+''"
proof
  assume "hd (show_radix radix n) = CHR ''+''"
  then have "CHR ''+'' \<in> set (show_radix radix n)" by (metis list.set_sel(1) show_radix_nonempty)
  from not_in_show_radix [OF this assms] show False by simp
qed

lemma from_str_radix_show_dec [simp]: "n \<le> mx \<Longrightarrow> from_str_radix 10 mx (show_dec n) = Some n"
  by (simp add: show_dec_def from_str_radix_eq hd_show_radix_not_plus digits_value_show_radix)

lemma from_str_radix_show_hex_pad [simp]:
  assumes "n \<le> mx" shows "from_str_radix 16 mx (show_hex_pad w n) = Some n"
proof -
  have "hd (show_hex_pad w n) \<noteq> CHR ''+''"
    by (cases "w - length (show_radix 16 n)") (simp_all add: show_hex_pad_def Let_def hd_show_radix_not_plus)
  moreover have "show_hex_pad w n \<noteq> []" by (simp add: show_hex_pad_def Let_def)
  ultimately show ?thesis
    using assms by (simp add: from_str_radix_eq show_hex_pad_def Let_def digits_value_zeros digits_value_show_radix)
qed

section \<open>Splitting\<close>

text \<open>\<open>str::split\<close> on a set of characters: always at least one part.\<close>

fun split_on :: "(char \<Rightarrow> bool) \<Rightarrow> string \<Rightarrow> string list" where
  "split_on p [] = [[]]"
| "split_on p (c # cs) =
     (if p c then [] # split_on p cs
      else case split_on p cs of [] \<Rightarrow> [[c]] | w # ws \<Rightarrow> (c # w) # ws)"

fun join_with :: "char \<Rightarrow> string list \<Rightarrow> string" where
  "join_with sep [] = []"
| "join_with sep [w] = w"
| "join_with sep (w # v # ws) = w @ sep # join_with sep (v # ws)"

lemma split_on_word: "\<forall>c \<in> set w. \<not> p c \<Longrightarrow> split_on p w = [w]"
  by (induction w) auto

lemma split_on_word_sep:
  "\<forall>c \<in> set w. \<not> p c \<Longrightarrow> p sep \<Longrightarrow> split_on p (w @ sep # rest) = w # split_on p rest"
  by (induction w) auto

lemma split_on_join_with:
  "ws \<noteq> [] \<Longrightarrow> \<forall>w \<in> set ws. \<forall>c \<in> set w. \<not> p c \<Longrightarrow> p sep \<Longrightarrow> split_on p (join_with sep ws) = ws"
proof (induction sep ws rule: join_with.induct)
  case (3 sep w v ws)
  then show ?case by (simp add: split_on_word_sep)
qed (auto simp: split_on_word)

section \<open>Paths\<close>

text \<open>\<open>PathBuf::join\<close> and \<open>with_extension\<close>, on the text of a path.\<close>

definition path_join :: "string \<Rightarrow> string \<Rightarrow> string" where
  "path_join base p =
     (if take 1 p = ''/'' then p
      else if base = [] \<or> last base = CHR ''/'' then base @ p
      else base @ ''/'' @ p)"

text \<open>A reversed path without the slashes and dots after its last component.\<close>

fun strip_tail :: "string \<Rightarrow> string" where
  "strip_tail [] = []"
| "strip_tail (c # s) =
     (if c = CHR ''/'' then strip_tail s
      else if c = CHR ''.'' \<and> take 1 s = ''/'' then strip_tail s
      else c # s)"

text \<open>The stem of a reversed file name, also reversed: without the last dot and what follows it.\<close>

definition rev_stem :: "string \<Rightarrow> string" where
  "rev_stem c =
     (let before = drop 1 (dropWhile (\<lambda>x. x \<noteq> CHR ''.'') c) in if before = [] then c else before)"

definition with_extension :: "string \<Rightarrow> string \<Rightarrow> string" where
  "with_extension p ext =
     (let r = strip_tail (rev p); c = takeWhile (\<lambda>x. x \<noteq> CHR ''/'') r in
      if c = [] \<or> c = ''..'' \<or> c = ''.'' then p
      else rev (dropWhile (\<lambda>x. x \<noteq> CHR ''/'') r) @ rev (rev_stem c) @ ''.'' @ ext)"

end
