(* ===== verification/Net_Types.thy ===== *)
theory Net_Types
  imports Text_Format
begin

text \<open>
  The network types of \<^verbatim>\<open>oathgate-net/src/types.rs\<close>, \<^verbatim>\<open>types/mac.rs\<close> and the error type of
  \<^verbatim>\<open>lib.rs\<close>: \<open>ProtocolError\<close>, \<open>EtherType\<close>, \<open>MacAddress\<close> and the IP addresses.
  A random number generator, the kernel's interface table and a socket are arguments of the
  functions that use them.
\<close>

section \<open>Errors\<close>

datatype ProtocolError =
    NotEnoughData nat nat
  | MalformedPacket string
  | ProtocolOther string

section \<open>Addresses of the standard library\<close>

type_synonym ipv4addr = u32
type_synonym ipv6addr = u128

datatype IpAddr = V4 ipv4addr | V6 ipv6addr

definition octets4 :: "ipv4addr \<Rightarrow> bytes" where
  "octets4 a = to_be_bytes 4 a"

definition octets6 :: "ipv6addr \<Rightarrow> bytes" where
  "octets6 a = to_be_bytes 16 a"

text \<open>\<open>Ipv4Addr::is_broadcast\<close>: the address 255.255.255.255.\<close>

definition is_broadcast4 :: "ipv4addr \<Rightarrow> bool" where
  "is_broadcast4 a \<longleftrightarrow> a = 0xFFFFFFFF"

lemma length_octets [simp]: "length (octets4 a) = 4" "length (octets6 b) = 16"
  by (simp_all add: octets4_def octets6_def)

section \<open>EtherType\<close>

datatype EtherType = IPv4 | IPv6 | ARP

fun EtherType_as_u16 :: "EtherType \<Rightarrow> u16" where
  "EtherType_as_u16 IPv4 = 0x0800"
| "EtherType_as_u16 IPv6 = 0x86DD"
| "EtherType_as_u16 ARP = 0x0806"

definition EtherType_try_from_u16 :: "u16 \<Rightarrow> (EtherType, ProtocolError) res" where
  "EtherType_try_from_u16 x =
     (if x = EtherType_as_u16 IPv4 then Ok IPv4
      else if x = EtherType_as_u16 IPv6 then Ok IPv6
      else if x = EtherType_as_u16 ARP then Ok ARP
      else Err (MalformedPacket (''unknown ethertype: 0x'' @ show_hex_pad 4 (unat x))))"

definition EtherType_try_from :: "bytes \<Rightarrow> (EtherType, ProtocolError) res" where
  "EtherType_try_from b =
     (if length b \<le> 1 then Err (NotEnoughData (length b) 2)
      else and_then (get_slice b 0 2) (\<lambda>s. and_then (cast_be 2 s) EtherType_try_from_u16))"

definition EtherType_debug :: "EtherType \<Rightarrow> string" where
  "EtherType_debug t = ''EtherType(0x'' @ show_hex_pad 4 (unat (EtherType_as_u16 t)) @ '')''"

lemma EtherType_try_from_u16_as_u16 [simp]: "EtherType_try_from_u16 (EtherType_as_u16 t) = Ok t"
  by (cases t) (simp_all add: EtherType_try_from_u16_def)

lemma EtherType_try_from_Ok:
  assumes "EtherType_try_from_u16 x = Ok t" shows "EtherType_as_u16 t = x"
  using assms by (auto simp: EtherType_try_from_u16_def split: if_splits)

lemma EtherType_try_from_u16_no_panic [simp]: "EtherType_try_from_u16 x \<noteq> Panic"
  by (simp add: EtherType_try_from_u16_def)

lemma EtherType_try_from_pair [simp]:
  "length b = 2 \<Longrightarrow> EtherType_try_from b = EtherType_try_from_u16 (from_be_bytes b)"
  by (simp add: EtherType_try_from_def buf_simps)

section \<open>MacAddress\<close>

text \<open>The newtype over \<open>[u8; 6]\<close>: exactly six bytes, by construction.\<close>

datatype MacAddress = MacAddress u8 u8 u8 u8 u8 u8

fun MacAddress_as_bytes :: "MacAddress \<Rightarrow> bytes" where
  "MacAddress_as_bytes (MacAddress a b c d e f) = [a, b, c, d, e, f]"

text \<open>The array that six bytes of a list form.\<close>

fun mac_of_bytes :: "bytes \<Rightarrow> (MacAddress, 'e) res" where
  "mac_of_bytes [a, b, c, d, e, f] = Ok (MacAddress a b c d e f)"
| "mac_of_bytes _ = Panic"

definition MacAddress_broadcast :: MacAddress where
  "MacAddress_broadcast = MacAddress 0xFF 0xFF 0xFF 0xFF 0xFF 0xFF"

definition MacAddress_is_broadcast :: "MacAddress \<Rightarrow> bool" where
  "MacAddress_is_broadcast m \<longleftrightarrow> m = MacAddress_broadcast"

definition MacAddress_parse :: "bytes \<Rightarrow> (MacAddress, ProtocolError) res" where
  "MacAddress_parse b =
     (if length b < 6 then Err (NotEnoughData (length b) 6)
      else and_then (get_slice b 0 6) mac_of_bytes)"

text \<open>\<open>TryFrom<&[i8]>\<close>: \<open>as u8\<close> keeps the bits, so an \<open>i8\<close> is its byte.\<close>

definition MacAddress_try_from_i8 :: "bytes \<Rightarrow> (MacAddress, ProtocolError) res" where
  "MacAddress_try_from_i8 b =
     (if length b < 6 then Err (NotEnoughData (length b) 6)
      else mac_of_bytes (map (\<lambda>i. b ! i) [0..<6]))"

text \<open>
  \<open>from_interface\<close>: the name is copied into a 16 byte array (\<open>IFNAMSIZ\<close>), and a longer name
  panics on the index. \<open>sock\<close> is the outcome of \<open>socket\<close>, \<open>ioctl\<close> that of \<open>SIOCGIFHWADDR\<close>
  (the 14 bytes of \<open>sa_data\<close>), each failing with the text of its error.
\<close>

fun copy_name :: "nat \<Rightarrow> bytes \<Rightarrow> bytes \<Rightarrow> (bytes, 'e) res" where
  "copy_name i [] acc = Ok acc"
| "copy_name i (b # bs) acc = and_then (put_at acc i b) (copy_name (Suc i) bs)"

definition MacAddress_from_interface ::
  "(unit, string) res \<Rightarrow> (bytes \<Rightarrow> (bytes, string) res) \<Rightarrow> bytes \<Rightarrow> (MacAddress, ProtocolError) res" where
  "MacAddress_from_interface sock ioctl name =
     and_then (copy_name 0 name (replicate 16 0)) (\<lambda>ifr_name.
     and_then (map_err ProtocolOther sock) (\<lambda>_.
     and_then (map_err ProtocolOther (ioctl ifr_name)) MacAddress_try_from_i8))"

text \<open>\<open>generate\<close>: the three bytes the random generator fills in are an argument.\<close>

definition MacAddress_generate :: "u8 \<times> u8 \<times> u8 \<Rightarrow> MacAddress" where
  "MacAddress_generate rng = (case rng of (r0, r1, r2) \<Rightarrow> MacAddress 0x52 0x54 0x00 r0 r1 r2)"

definition MacAddress_to_string :: "MacAddress \<Rightarrow> string" where
  "MacAddress_to_string m = join_with (CHR '':'') (map (\<lambda>b. show_hex_pad 2 (unat b)) (MacAddress_as_bytes m))"

definition MacAddress_debug :: "MacAddress \<Rightarrow> string" where
  "MacAddress_debug m = ''MacAddress('' @ MacAddress_to_string m @ '')''"

text \<open>\<open>FromStr\<close>: parts that are not hexadecimal bytes are dropped by \<open>filter_map\<close>.\<close>

definition MacAddress_from_str :: "string \<Rightarrow> (MacAddress, string) res" where
  "MacAddress_from_str s =
     (let parts = List.map_filter (from_str_radix 16 255)
                    (split_on (\<lambda>c. c = CHR '':'' \<or> c = CHR ''-'') s)
      in if length parts \<noteq> 6 then Err ''invalid MAC format, expected: 01:02:03:04:05:05''
         else mac_of_bytes (map word_of_nat (take 6 parts)))"

text \<open>\<open>Serialize\<close> and \<open>Deserialize\<close> go through the text form.\<close>

definition MacAddress_serialize :: "MacAddress \<Rightarrow> string" where
  "MacAddress_serialize m = MacAddress_to_string m"

definition MacAddress_visit_str :: "string \<Rightarrow> (MacAddress, string) res" where
  "MacAddress_visit_str v = MacAddress_from_str v"

lemma length_MacAddress_as_bytes [simp]: "length (MacAddress_as_bytes m) = 6"
  by (cases m) simp

lemma mac_of_bytes_as_bytes [simp]: "mac_of_bytes (MacAddress_as_bytes m) = Ok m"
  by (cases m) simp

lemma mac_of_bytes_length: "length b = 6 \<Longrightarrow> \<exists>m. mac_of_bytes b = Ok m \<and> MacAddress_as_bytes m = b"
  by (auto simp: eval_nat_numeral length_Suc_conv)

lemma MacAddress_parse_as_bytes [simp]: "MacAddress_parse (MacAddress_as_bytes m @ rest) = Ok m"
  by (simp add: MacAddress_parse_def buf_simps)

lemma MacAddress_parse_as_bytes' [simp]: "MacAddress_parse (MacAddress_as_bytes m) = Ok m"
  using MacAddress_parse_as_bytes [of m "[]"] by simp

lemma MacAddress_parse_Ok:
  assumes "6 \<le> length b"
  shows "\<exists>m. MacAddress_parse b = Ok m \<and> MacAddress_as_bytes m = take 6 b"
  using mac_of_bytes_length [of "take 6 b"] assms by (simp add: MacAddress_parse_def buf_simps)

lemma MacAddress_parse_no_panic [simp]: "MacAddress_parse b \<noteq> Panic"
  using MacAddress_parse_Ok [of b] by (cases "6 \<le> length b") (auto simp: MacAddress_parse_def)

lemma map_filter_Some: "\<forall>x \<in> set xs. f (g x) = Some (h x) \<Longrightarrow> List.map_filter f (map g xs) = map h xs"
  by (induction xs) auto

lemma show_hex_pad_no_sep:
  assumes "c \<in> set (show_hex_pad w n)" shows "\<not> (c = CHR '':'' \<or> c = CHR ''-'')"
proof -
  from assms consider "c = CHR ''0''" | "c \<in> set (show_radix 16 n)"
    by (auto simp: show_hex_pad_def Let_def split: if_splits)
  then show ?thesis
  proof cases
    case 2
    from not_in_show_radix [OF this] show ?thesis by auto
  qed simp
qed

lemma u8_le_255: "unat (b :: u8) \<le> 255"
proof -
  have "unat b < 2 ^ LENGTH(8)" by (rule unsigned_less)
  then show ?thesis by simp
qed

text \<open>
  Printing a MAC address and parsing the text gives the address back (the round trip of
  the tests \<open>parse_mac_good_colons\<close>, and of \<open>Serialize\<close> followed by \<open>Deserialize\<close>).
\<close>

lemma MacAddress_text_roundtrip: "MacAddress_visit_str (MacAddress_serialize m) = Ok m"
proof -
  let ?sep = "\<lambda>c. c = CHR '':'' \<or> c = CHR ''-''" and ?bs = "MacAddress_as_bytes m"
  have "split_on ?sep (MacAddress_to_string m) = map (\<lambda>b. show_hex_pad 2 (unat b)) ?bs"
    unfolding MacAddress_to_string_def
    by (rule split_on_join_with) (use show_hex_pad_no_sep in \<open>auto simp: MacAddress_as_bytes.simps\<close>, cases m, simp)
  moreover have "List.map_filter (from_str_radix 16 255) (map (\<lambda>b. show_hex_pad 2 (unat b)) ?bs) = map unat ?bs"
    by (rule map_filter_Some) (simp add: u8_le_255)
  ultimately show ?thesis
    by (simp add: MacAddress_visit_str_def MacAddress_serialize_def MacAddress_from_str_def Let_def comp_def)
qed

end
