(* ===== verification/Checksum.thy ===== *)
theory Checksum
  imports Net_Types
begin

text \<open>
  The internet checksum of \<^verbatim>\<open>oathgate-net/src/lib.rs\<close>: \<open>checksum\<close> over a buffer and
  \<open>ph_checksum\<close> over a TCP/UDP segment with its pseudo header. The specification is the ones'
  complement sum of the big endian 16-bit words, read as a natural number (\<open>wsum\<close>): a buffer
  verifies when that sum is a multiple of 65535. The code folds the carries into the low half
  once and then truncates, so it agrees with the specification exactly when the single fold
  does not carry again.
\<close>

section \<open>The code\<close>

text \<open>The loop over \<open>data.chunks(2)\<close>, with the 32-bit accumulator.\<close>

fun sum_chunks :: "u32 \<Rightarrow> bytes \<Rightarrow> u32" where
  "sum_chunks acc [] = acc"
| "sum_chunks acc [b0] = acc + from_be_bytes [0, 0, b0, 0]"
| "sum_chunks acc (b0 # b1 # rest) = sum_chunks (acc + from_be_bytes [0, 0, b0, b1]) rest"

definition fold_carry :: "u32 \<Rightarrow> u16" where
  "fold_carry acc = NOT (ucast ((acc AND 0xFFFF) + (drop_bit 16 acc AND 0xFFFF)))"

definition checksum :: "bytes \<Rightarrow> u16" where
  "checksum data = fold_carry (sum_chunks 0 data)"

definition ph_checksum :: "ipv4addr \<Rightarrow> ipv4addr \<Rightarrow> u8 \<Rightarrow> bytes \<Rightarrow> u16" where
  "ph_checksum src dst proto data =
     (let s = octets4 src; d = octets4 dst;
          acc = from_be_bytes [0, 0, s ! 2, s ! 3] + from_be_bytes [0, 0, s ! 0, s ! 1]
              + from_be_bytes [0, 0, d ! 2, d ! 3] + from_be_bytes [0, 0, d ! 0, d ! 1]
              + ucast proto + (word_of_nat (length data) AND 0xFFFF)
      in fold_carry (sum_chunks acc data))"

section \<open>The specification\<close>

fun wsum :: "bytes \<Rightarrow> nat" where
  "wsum [] = 0"
| "wsum [b] = unat b * 256"
| "wsum (b0 # b1 # rest) = unat b0 * 256 + unat b1 + wsum rest"

text \<open>The fold of the code on naturals; the carries it leaves behind.\<close>

definition fold_once :: "nat \<Rightarrow> nat" where
  "fold_once s = s mod 65536 + s div 65536"

text \<open>The ones' complement checksum of RFC 1071: fold until no carry is left, then negate.\<close>

definition rfc_checksum :: "nat \<Rightarrow> nat" where
  "rfc_checksum s = 65535 - (if s = 0 then 0 else (s - 1) mod 65535 + 1)"

section \<open>Lemmas\<close>

lemma unat_from_be_pair: "unat (from_be_bytes [0, 0, b0, b1] :: u32) = unat b0 * 256 + unat b1"
proof -
  have "(from_be_bytes [0, 0, b0, b1] :: u32) = ucast b1 OR push_bit 8 (ucast b0)"
    by (simp add: from_be_bytes_def)
  also have "\<dots> = push_bit 8 (ucast b0) + ucast b1"
    by (subst disjunctive_add) (auto simp: bit_simps or.commute dest: bit_imp_le_length)
  finally have eq: "(from_be_bytes [0, 0, b0, b1] :: u32) = push_bit 8 (ucast b0) + ucast b1" .
  have "unat b0 < 2 ^ LENGTH(8)" "unat b1 < 2 ^ LENGTH(8)" by (rule unsigned_less)+
  then show ?thesis
    by (simp add: eq push_bit_eq_mult unat_word_ariths unsigned_ucast_eq take_bit_eq_mod)
qed

lemma unat_sum_chunks: "unat (sum_chunks s d) = (unat s + wsum d) mod 2 ^ 32"
proof (induction s d rule: sum_chunks.induct)
  case (1 s)
  have "unat s < 2 ^ LENGTH(32)" by (rule unsigned_less)
  then show ?case by simp
next
  case (2 s b0)
  then show ?case by (simp add: unat_word_ariths unat_from_be_pair)
next
  case (3 s b0 b1 rest)
  then show ?case by (simp add: unat_word_ariths unat_from_be_pair mod_simps add.assoc)
qed

lemma wsum_bound: "wsum d \<le> 65535 * ((length d + 1) div 2)"
proof (induction d rule: wsum.induct)
  case (2 b)
  then show ?case using u8_le_255 [of b] by simp
next
  case (3 b0 b1 rest)
  then show ?case using u8_le_255 [of b0] u8_le_255 [of b1] by simp
qed simp

lemma wsum_append: "even (length xs) \<Longrightarrow> wsum (xs @ ys) = wsum xs + wsum ys"
  by (induction xs rule: wsum.induct) auto

lemma wsum_zeros [simp]: "wsum (replicate k 0) = 0"
proof (induction k rule: nat_less_induct)
  case (1 k)
  show ?case
  proof (cases "k < 2")
    case True
    then have "k = 0 \<or> k = 1" by auto
    then show ?thesis by auto
  next
    case False
    then obtain j where "k = Suc (Suc j)" by (metis add_2_eq_Suc le_Suc_ex not_less)
    with 1 show ?thesis by simp
  qed
qed

lemma wsum_append_zeros: "wsum (xs @ replicate k 0) = wsum xs"
proof (induction xs rule: wsum.induct)
  case (2 b)
  then show ?case by (cases k) simp_all
qed simp_all

lemma unat_fold_carry:
  "unat (fold_carry s) = 65535 - (unat s mod 65536 + unat s div 65536) mod 65536"
proof -
  let ?t = "(s AND 0xFFFF) + (drop_bit 16 s AND 0xFFFF)"
  have m: "(0xFFFF :: u32) = mask 16" by (simp add: mask_eq_exp_minus_1)
  have s: "unat s < 2 ^ LENGTH(32)" by (rule unsigned_less)
  have lo: "unat (s AND 0xFFFF) = unat s mod 65536"
    unfolding m take_bit_eq_mask [symmetric] unsigned_take_bit_eq by (simp add: take_bit_eq_mod)
  have hi: "unat (drop_bit 16 s AND 0xFFFF) = unat s div 65536"
    unfolding m take_bit_eq_mask [symmetric] unsigned_take_bit_eq unat_drop_bit_eq
    using s by (simp add: take_bit_eq_mod drop_bit_eq_div)
  have "unat s div 65536 < 65536" using s by (simp add: less_mult_imp_div_less)
  moreover have "unat s mod 65536 < 65536" by simp
  ultimately have "unat ?t = unat s mod 65536 + unat s div 65536"
    using lo hi by (simp add: unat_word_ariths)
  then have "unat (ucast ?t :: u16) = (unat s mod 65536 + unat s div 65536) mod 65536"
    by (simp add: unsigned_ucast_eq take_bit_eq_mod)
  moreover have "unat (NOT w) = 65535 - unat w" for w :: u16
  proof -
    have "NOT w = - 1 - w" by (simp add: not_eq_complement)
    then show ?thesis using unat_sub [of w "- 1"] word_n1_ge [of w]
      by (simp add: unsigned_minus_1_eq_mask mask_eq_exp_minus_1)
  qed
  ultimately show ?thesis by (simp add: fold_carry_def)
qed

lemma unat_checksum: "wsum d < 2 ^ 32 \<Longrightarrow> unat (checksum d) = 65535 - fold_once (wsum d) mod 65536"
  by (simp add: checksum_def unat_fold_carry unat_sum_chunks fold_once_def)

lemma fold_once_eq: "s = fold_once s + 65535 * (s div 65536)"
proof -
  have "s = 65536 * (s div 65536) + s mod 65536" by simp
  then show ?thesis unfolding fold_once_def by linarith
qed

lemma fold_once_mod: "fold_once s mod 65535 = s mod 65535"
  by (metis fold_once_eq mod_mult_self2)

lemma checksum_append_zeros: "checksum (d @ replicate k 0) = checksum d"
  by (simp add: checksum_def word_unat_eq_iff unat_fold_carry unat_sum_chunks wsum_append_zeros)

section \<open>Correctness\<close>

lemma rfc_checksum_fold:
  assumes "fold_once s < 65536" shows "rfc_checksum s = 65535 - fold_once s"
proof (cases "s = 0")
  case False
  then have "fold_once s \<noteq> 0" by (auto simp: fold_once_def)
  moreover from this have "s - 1 = (fold_once s - 1) + 65535 * (s div 65536)"
    using fold_once_eq [of s] by linarith
  then have "(s - 1) mod 65535 = (fold_once s - 1) mod 65535" by (metis mod_mult_self2)
  ultimately have "(s - 1) mod 65535 + 1 = fold_once s" using assms by simp
  with False show ?thesis by (simp add: rfc_checksum_def)
qed (simp add: rfc_checksum_def fold_once_def)

lemma checksum_folded:
  assumes "length d \<le> 131072" and "fold_once (wsum d) < 65536"
  shows "unat (checksum d) = 65535 - fold_once (wsum d)"
proof -
  have "65535 * ((length d + 1) div 2) < (2::nat) ^ 32" using assms(1) by simp
  with wsum_bound [of d] have "wsum d < 2 ^ 32" by linarith
  then show ?thesis using assms(2) by (simp add: unat_checksum)
qed

lemma checksum_correct_mod:
  assumes "length d \<le> 131072" and "fold_once (wsum d) < 65536"
  shows "(wsum d + unat (checksum d)) mod 65535 = 0"
proof -
  have "(wsum d + unat (checksum d)) mod 65535 = (fold_once (wsum d) + unat (checksum d)) mod 65535"
    using fold_once_mod [of "wsum d"] by (metis mod_add_left_eq)
  also have "\<dots> = 0" using checksum_folded [OF assms] assms(2) by simp
  finally show ?thesis .
qed

text \<open>
  C23: on a buffer of at most 128 KiB \<open>checksum\<close> is the RFC 1071 checksum whenever adding the
  high half of the 16-bit word sum to its low half leaves no carry; the words of the buffer
  and the checksum then add up to a multiple of 65535, which is what a receiver verifies.
\<close>

theorem checksum_correct:
  assumes "length d \<le> 131072" and "fold_once (wsum d) < 65536"
  shows "unat (checksum d) = rfc_checksum (wsum d) \<and> (wsum d + unat (checksum d)) mod 65535 = 0"
  using checksum_folded [OF assms] checksum_correct_mod [OF assms] assms(2) by (simp add: rfc_checksum_fold)

theorem checksum_correct_witness:
  "unat (checksum [0x45, 0, 0, 0x54]) = rfc_checksum (wsum [0x45, 0, 0, 0x54])"
  using checksum_correct [of "[0x45, 0, 0, 0x54]"] by (simp add: fold_once_def)

text \<open>
  Where the single fold does carry, the truncation loses the carry: the checksum of the
  six bytes FF FF 00 01 FF FF is 0xFFFF although the ones' complement checksum is 0xFFFE, and
  the words of the buffer and the computed checksum do not verify.
\<close>

lemma checksum_loses_second_carry:
  "checksum [0xFF, 0xFF, 0x00, 0x01, 0xFF, 0xFF] = 0xFFFF \<and>
   rfc_checksum (wsum [0xFF, 0xFF, 0x00, 0x01, 0xFF, 0xFF]) = 0xFFFE \<and>
   (wsum [0xFF, 0xFF, 0x00, 0x01, 0xFF, 0xFF] + unat (checksum [0xFF, 0xFF, 0x00, 0x01, 0xFF, 0xFF])) mod 65535 \<noteq> 0"
proof -
  have "unat (checksum [0xFF, 0xFF, 0x00, 0x01, 0xFF, 0xFF]) = 0xFFFF"
    by (subst unat_checksum) (simp_all add: fold_once_def)
  then show ?thesis by (simp add: word_unat_eq_iff rfc_checksum_def)
qed

lemma wsum_be16: "wsum (to_be_bytes 2 (w :: u16) @ rest) = unat w + wsum rest"
proof -
  have "unat w < 65536" using unsigned_less [of w, where 'a = nat] by simp
  then have "unat w = unat (ucast (drop_bit 8 w) :: u8) * 256 + unat (ucast w :: u8)"
    unfolding unsigned_ucast_eq unat_drop_bit_eq by (simp add: take_bit_eq_mod drop_bit_eq_div)
  then show ?thesis by (simp add: to_be_bytes_2)
qed

lemma wsum_octets4: "wsum (octets4 a @ rest) =
   unat (from_be_bytes [0, 0, octets4 a ! 2, octets4 a ! 3] :: u32)
   + unat (from_be_bytes [0, 0, octets4 a ! 0, octets4 a ! 1] :: u32) + wsum rest"
proof -
  obtain b0 b1 b2 b3 where "octets4 a = [b0, b1, b2, b3]"
    using length_octets(1) [of a] by (metis length4_conv)
  then show ?thesis by (simp add: unat_from_be_pair)
qed

lemma unat_sum6:
  "unat (a + b + c + d + e + f :: u32) = (unat a + unat b + unat c + unat d + unat e + unat f) mod 2 ^ 32"
proof -
  have plus: "unat (x + y :: u32) = (unat x + unat y) mod 2 ^ 32" for x y
    by (simp add: unat_word_ariths)
  show ?thesis by (simp only: plus mod_add_left_eq)
qed

lemma unat_len16: "unat (word_of_nat n AND 0xFFFF :: u32) = n mod 65536"
proof -
  have m: "(0xFFFF :: u32) = mask 16" by (simp add: mask_eq_exp_minus_1)
  show ?thesis
    unfolding m take_bit_eq_mask [symmetric] unsigned_take_bit_eq
    by (simp add: take_bit_eq_mod unsigned_of_nat mod_mod_cancel)
qed

lemma ph_checksum_is_pseudo_header:
  "ph_checksum src dst proto data =
     checksum (octets4 src @ octets4 dst @ [0, proto] @ to_be_bytes 2 (word_of_nat (length data) :: u16) @ data)"
proof -
  let ?len = "word_of_nat (length data) :: u16"
  have len: "wsum (to_be_bytes 2 ?len @ data) = length data mod 65536 + wsum data"
    by (simp add: wsum_be16 unsigned_of_nat take_bit_eq_mod)
  let ?w = "\<lambda>a i j. from_be_bytes [0, 0, octets4 a ! i, octets4 a ! j] :: u32"
  let ?acc = "?w src 2 3 + ?w src 0 1 + ?w dst 2 3 + ?w dst 0 1 + ucast proto + (word_of_nat (length data) AND 0xFFFF)"
  have proto: "unat (ucast proto :: u32) = unat proto" 
    using u8_le_255 [of proto] by (simp add: unsigned_ucast_eq take_bit_eq_mod)
  have acc: "unat ?acc = (unat (?w src 2 3) + unat (?w src 0 1) + unat (?w dst 2 3) + unat (?w dst 0 1)
      + unat proto + length data mod 65536) mod 2 ^ 32"
    unfolding unat_sum6 unat_len16 proto by (rule refl)
  have "(unat ?acc + wsum data) mod 2 ^ 32 =
    wsum (octets4 src @ octets4 dst @ [0, proto] @ to_be_bytes 2 ?len @ data) mod 2 ^ 32"
    unfolding acc mod_add_left_eq by (simp only: wsum_octets4 append.simps wsum.simps len) (simp add: add.assoc)
  then have "unat (sum_chunks ?acc data) =
    unat (sum_chunks 0 (octets4 src @ octets4 dst @ [0, proto] @ to_be_bytes 2 ?len @ data))"
    by (simp only: unat_sum_chunks) simp
  then have "sum_chunks ?acc data = sum_chunks 0 (octets4 src @ octets4 dst @ [0, proto] @ to_be_bytes 2 ?len @ data)"
    by (simp only: word_unat_eq_iff)
  then show ?thesis by (simp only: ph_checksum_def checksum_def Let_def)
qed

end
