(* ===== verification/Wire_Format.thy ===== *)
theory Wire_Format
  imports Net_Types
begin

text \<open>
  The contract of a fixed-size header on the wire, as a locale: what the encoder of a header
  and its parser promise each other. \<open>wire_format\<close> asks that the encoder writes a fixed number
  of bytes, that the parser reads the header back whatever follows it, and that it rejects a
  buffer that is too short; \<open>canonical_format\<close> adds that the parser accepts nothing but what
  the encoder writes. The facts derived here are used by every header of the program that
  interprets one of the two.
\<close>

locale wire_format =
  fixes enc :: "'a \<Rightarrow> bytes"
    and dec :: "bytes \<Rightarrow> ('a, 'e) res"
    and wf :: "'a \<Rightarrow> bool"
    and sz :: nat
    and short :: "nat \<Rightarrow> 'e"
  assumes enc_length: "wf x \<Longrightarrow> length (enc x) = sz"
    and dec_enc: "wf x \<Longrightarrow> dec (enc x @ rest) = Ok x"
    and dec_short: "length b < sz \<Longrightarrow> dec b = Err (short (length b))"
begin

lemma dec_exact: "wf x \<Longrightarrow> dec (enc x) = Ok x"
  using dec_enc [of x "[]"] by simp

lemma enc_inject: "wf x \<Longrightarrow> wf y \<Longrightarrow> enc x @ r = enc y @ s \<Longrightarrow> x = y"
  by (metis dec_enc res.inject(1))

lemma dec_Ok_length: "dec b = Ok x \<Longrightarrow> sz \<le> length b"
  using dec_short [of b] by (cases "length b < sz") auto

end

locale canonical_format = wire_format +
  assumes dec_canonical: "dec b = Ok x \<Longrightarrow> wf x \<and> enc x = take sz b"
begin

lemma dec_Ok_iff: "dec b = Ok x \<longleftrightarrow> wf x \<and> (\<exists>rest. b = enc x @ rest)"
  using dec_canonical [of b x] dec_enc [of x] by (metis append_take_drop_id)

lemma dec_prefix: "dec b = Ok x \<Longrightarrow> dec (b @ r) = Ok x"
  by (auto simp: dec_Ok_iff)

end

end
