(* ===== verification/Ipv4.thy ===== *)
theory Ipv4
  imports Checksum Wire_Format
begin

text \<open>
  IPv4 headers and packets, \<^verbatim>\<open>oathgate-net/src/ipv4.rs\<close>. A packet keeps its parsed header
  beside the bytes it was parsed from; \<open>masquerade\<close>, \<open>unmasquerade\<close> and \<open>finalize\<close> change the
  header and write it back into the bytes. The random packet id is an argument (\<open>rng\<close>).
\<close>

section \<open>Ipv4Header\<close>

record Ipv4Header =
  ip_version :: u8
  ip_ihl :: u8
  ip_length :: u16
  ip_id :: u16
  ip_flags :: u8
  ip_frag_offset :: u16
  ip_ttl :: u8
  ip_protocol :: u8
  ip_checksum :: u16
  ip_src :: ipv4addr
  ip_dst :: ipv4addr

definition Ipv4Header_new :: "u16 \<Rightarrow> ipv4addr \<Rightarrow> ipv4addr \<Rightarrow> u8 \<Rightarrow> u16 \<Rightarrow> Ipv4Header" where
  "Ipv4Header_new rng src dst protocol len =
     \<lparr>ip_version = 4, ip_ihl = 5, ip_length = len + 20, ip_id = rng, ip_flags = 2, ip_frag_offset = 0,
      ip_ttl = 64, ip_protocol = protocol, ip_checksum = 0, ip_src = src, ip_dst = dst\<rparr>"

definition be16_at :: "bytes \<Rightarrow> nat \<Rightarrow> (u16, 'e) res" where
  "be16_at b i = and_then (get_slice b i (i + 2)) (cast_be 2)"

definition be32_at :: "bytes \<Rightarrow> nat \<Rightarrow> (u32, 'e) res" where
  "be32_at b i = and_then (get_slice b i (i + 4)) (cast_be 4)"

definition Ipv4Header_extract_from_slice :: "bytes \<Rightarrow> (Ipv4Header, ProtocolError) res" where
  "Ipv4Header_extract_from_slice hdr =
     (if hdr = [] then Err (NotEnoughData 0 20)
      else and_then (get_at hdr 0) (\<lambda>b0.
        let ihl = b0 AND 0x0F; header_sz = unat ihl * 4
        in if length hdr < header_sz then Err (NotEnoughData (length hdr) header_sz)
           else let version = drop_bit 4 b0
           in and_then (be16_at hdr 2) (\<lambda>len.
              and_then (be16_at hdr 4) (\<lambda>id.
              and_then (get_at hdr 6) (\<lambda>b6. let flags = drop_bit 5 b6 in
              and_then (be16_at hdr 6) (\<lambda>fo. let frag_offset = (fo AND 0x1FFF) * 8 in
              and_then (get_at hdr 8) (\<lambda>ttl.
              and_then (get_at hdr 9) (\<lambda>protocol.
              and_then (be16_at hdr 10) (\<lambda>csum.
              and_then (be32_at hdr 12) (\<lambda>src.
              and_then (be32_at hdr 16) (\<lambda>dst.
              Ok \<lparr>ip_version = version, ip_ihl = ihl, ip_length = len, ip_id = id, ip_flags = flags,
                  ip_frag_offset = frag_offset, ip_ttl = ttl, ip_protocol = protocol, ip_checksum = csum,
                  ip_src = src, ip_dst = dst\<rparr>)))))))))))"

text \<open>\<open>extract\<close> drains the first 20 bytes; the packet afterwards is the second component.\<close>

definition Ipv4Header_extract :: "bytes \<Rightarrow> (Ipv4Header, ProtocolError) res \<times> bytes" where
  "Ipv4Header_extract pkt =
     (if length pkt < 20 then (Err (NotEnoughData (length pkt) 20), pkt)
      else (Ipv4Header_extract_from_slice (take 20 pkt), drop 20 pkt))"

definition Ipv4Header_header_length :: "Ipv4Header \<Rightarrow> nat" where
  "Ipv4Header_header_length self = unat (ip_ihl self) * 4"

definition Ipv4Header_gen_reply :: "u16 \<Rightarrow> Ipv4Header \<Rightarrow> bytes \<Rightarrow> Ipv4Header" where
  "Ipv4Header_gen_reply rng self payload =
     Ipv4Header_new rng (ip_dst self) (ip_src self) (ip_protocol self) (word_of_nat (length payload))"

text \<open>\<open>masquerade\<close> and \<open>unmasquerade\<close> of the header return the old address as well.\<close>

definition Ipv4Header_masquerade :: "Ipv4Header \<Rightarrow> ipv4addr \<Rightarrow> Ipv4Header \<times> ipv4addr" where
  "Ipv4Header_masquerade self src = (self\<lparr>ip_src := src\<rparr>, ip_src self)"

definition Ipv4Header_unmasquerade :: "Ipv4Header \<Rightarrow> ipv4addr \<Rightarrow> Ipv4Header \<times> ipv4addr" where
  "Ipv4Header_unmasquerade self dst = (self\<lparr>ip_dst := dst\<rparr>, ip_dst self)"

definition Ipv4Header_as_bytes :: "Ipv4Header \<Rightarrow> bytes \<Rightarrow> (bytes, 'e) res" where
  "Ipv4Header_as_bytes self rpkt =
     (let flags_frag = push_bit 13 (ucast (ip_flags self)) OR ip_frag_offset self :: u16
      in and_then (put_at rpkt 0 (push_bit 4 (ip_version self) OR 5)) (\<lambda>rpkt.
         and_then (put_slice rpkt 2 4 (to_be_bytes 2 (ip_length self))) (\<lambda>rpkt.
         and_then (put_slice rpkt 4 6 (to_be_bytes 2 (ip_id self))) (\<lambda>rpkt.
         and_then (put_slice rpkt 6 8 (to_be_bytes 2 flags_frag)) (\<lambda>rpkt.
         and_then (put_at rpkt 8 (ip_ttl self)) (\<lambda>rpkt.
         and_then (put_at rpkt 9 (ip_protocol self)) (\<lambda>rpkt.
         and_then (put_slice rpkt 10 12 [0, 0]) (\<lambda>rpkt.
         and_then (put_slice rpkt 12 16 (octets4 (ip_src self))) (\<lambda>rpkt.
         and_then (put_slice rpkt 16 20 (octets4 (ip_dst self))) (\<lambda>rpkt.
         and_then (get_slice rpkt 0 20) (\<lambda>h.
         put_slice rpkt 10 12 (to_be_bytes 2 (checksum h)))))))))))))"

definition Ipv4Header_into_bytes :: "Ipv4Header \<Rightarrow> (bytes, 'e) res" where
  "Ipv4Header_into_bytes self = Ipv4Header_as_bytes self (replicate 20 0)"

section \<open>Ipv4Packet\<close>

record Ipv4Packet =
  packet_header :: Ipv4Header
  packet_data :: bytes

definition Ipv4Packet_parse :: "bytes \<Rightarrow> (Ipv4Packet, ProtocolError) res" where
  "Ipv4Packet_parse data =
     and_then (Ipv4Header_extract_from_slice data) (\<lambda>header.
     Ok \<lparr>packet_header = header, packet_data = data\<rparr>)"

definition Ipv4Packet_id :: "Ipv4Packet \<Rightarrow> u16" where
  "Ipv4Packet_id self = ip_id (packet_header self)"

definition Ipv4Packet_flags :: "Ipv4Packet \<Rightarrow> u8" where
  "Ipv4Packet_flags self = ip_flags (packet_header self)"

definition Ipv4Packet_has_fragments :: "Ipv4Packet \<Rightarrow> bool" where
  "Ipv4Packet_has_fragments self \<longleftrightarrow> ip_flags (packet_header self) AND 0x01 = 0x01"

definition Ipv4Packet_fragment_offset :: "Ipv4Packet \<Rightarrow> u16" where
  "Ipv4Packet_fragment_offset self = ip_frag_offset (packet_header self)"

definition Ipv4Packet_protocol :: "Ipv4Packet \<Rightarrow> u8" where
  "Ipv4Packet_protocol self = ip_protocol (packet_header self)"

definition Ipv4Packet_len :: "Ipv4Packet \<Rightarrow> u16" where
  "Ipv4Packet_len self = ip_length (packet_header self)"

definition Ipv4Packet_src :: "Ipv4Packet \<Rightarrow> ipv4addr" where
  "Ipv4Packet_src self = ip_src (packet_header self)"

definition Ipv4Packet_dest :: "Ipv4Packet \<Rightarrow> ipv4addr" where
  "Ipv4Packet_dest self = ip_dst (packet_header self)"

definition Ipv4Packet_header_length :: "Ipv4Packet \<Rightarrow> nat" where
  "Ipv4Packet_header_length self = Ipv4Header_header_length (packet_header self)"

definition Ipv4Packet_payload :: "Ipv4Packet \<Rightarrow> (bytes, 'e) res" where
  "Ipv4Packet_payload self = get_from (packet_data self) (Ipv4Header_header_length (packet_header self))"

definition Ipv4Packet_as_bytes :: "Ipv4Packet \<Rightarrow> bytes" where
  "Ipv4Packet_as_bytes self = packet_data self"

definition Ipv4Packet_into_bytes :: "Ipv4Packet \<Rightarrow> bytes" where
  "Ipv4Packet_into_bytes self = packet_data self"

text \<open>\<open>Vec::resize\<close> with zeros: longer vectors are cut, shorter ones padded.\<close>

definition resize0 :: "bytes \<Rightarrow> nat \<Rightarrow> bytes" where
  "resize0 b n = take n b @ replicate (n - length b) 0"

definition Ipv4Packet_add_fragment_data :: "Ipv4Packet \<Rightarrow> u16 \<Rightarrow> bytes \<Rightarrow> (Ipv4Packet, 'e) res" where
  "Ipv4Packet_add_fragment_data self offset payload =
     and_then (Ipv4Packet_payload self) (\<lambda>p.
       let uoffset = unat offset; eop = length p; hdr = packet_header self
       in if uoffset = eop then
            Ok (self\<lparr>packet_data := packet_data self @ payload,
                     packet_header := hdr\<lparr>ip_length := ip_length hdr + word_of_nat (length payload)\<rparr>\<rparr>)
          else if eop < uoffset then
            Ok (self\<lparr>packet_data := resize0 (packet_data self) uoffset @ payload,
                     packet_header := hdr\<lparr>ip_length := offset + word_of_nat (length payload)\<rparr>\<rparr>)
          else and_then (put_slice (packet_data self) uoffset (uoffset + length payload) payload) (\<lambda>d.
            Ok (self\<lparr>packet_data := d\<rparr>)))"

definition Ipv4Packet_finalize :: "Ipv4Packet \<Rightarrow> (Ipv4Packet, 'e) res" where
  "Ipv4Packet_finalize self =
     (let hdr = (packet_header self)\<lparr>ip_flags := 0, ip_frag_offset := 0\<rparr>
      in and_then (Ipv4Header_as_bytes hdr (packet_data self)) (\<lambda>d.
         Ok \<lparr>packet_header = hdr, packet_data = d\<rparr>))"

definition NET_PROTOCOL_ICMP :: u8 where "NET_PROTOCOL_ICMP = 1"
definition NET_PROTOCOL_TCP :: u8 where "NET_PROTOCOL_TCP = 6"
definition NET_PROTOCOL_UDP :: u8 where "NET_PROTOCOL_UDP = 17"

text \<open>The transport checksum is cleared and recomputed over the payload, in place.\<close>

definition Ipv4Packet_fix_transport_checksum :: "Ipv4Packet \<Rightarrow> (Ipv4Packet, 'e) res" where
  "Ipv4Packet_fix_transport_checksum self =
     (let src = Ipv4Packet_src self; dst = Ipv4Packet_dest self; proto = Ipv4Packet_protocol self;
          offset = Ipv4Header_header_length (packet_header self)
      in and_then (get_from (packet_data self) offset) (\<lambda>payload.
         let fix = (\<lambda>s e.
           and_then (put_slice payload s e [0, 0]) (\<lambda>payload.
           and_then (put_slice payload s e (to_be_bytes 2 (ph_checksum src dst proto payload))) (\<lambda>payload.
           Ok (self\<lparr>packet_data := take offset (packet_data self) @ payload\<rparr>))))
         in if proto = NET_PROTOCOL_TCP then fix 16 18
            else if proto = NET_PROTOCOL_UDP then fix 6 8
            else Ok self))"

definition Ipv4Packet_masquerade :: "Ipv4Packet \<Rightarrow> ipv4addr \<Rightarrow> (Ipv4Packet, 'e) res" where
  "Ipv4Packet_masquerade self ip =
     (let hdr = fst (Ipv4Header_masquerade (packet_header self) ip)
      in and_then (Ipv4Header_as_bytes hdr (packet_data self)) (\<lambda>d.
         Ipv4Packet_fix_transport_checksum \<lparr>packet_header = hdr, packet_data = d\<rparr>))"

definition Ipv4Packet_checksum :: "Ipv4Packet \<Rightarrow> (u16, 'e) res" where
  "Ipv4Packet_checksum self =
     and_then (get_at (packet_data self) 10) (\<lambda>a.
     and_then (get_at (packet_data self) 11) (\<lambda>b. Ok (from_be_bytes [a, b])))"

definition Ipv4Packet_unmasquerade :: "Ipv4Packet \<Rightarrow> ipv4addr \<Rightarrow> (Ipv4Packet, 'e) res" where
  "Ipv4Packet_unmasquerade self ip =
     (let hdr = fst (Ipv4Header_unmasquerade (packet_header self) ip)
      in and_then (Ipv4Header_as_bytes hdr (packet_data self)) (\<lambda>d.
         Ipv4Packet_fix_transport_checksum \<lparr>packet_header = hdr, packet_data = d\<rparr>))"

definition Ipv4Packet_reply :: "u16 \<Rightarrow> Ipv4Packet \<Rightarrow> bytes \<Rightarrow> Ipv4Header" where
  "Ipv4Packet_reply rng self payload = Ipv4Header_gen_reply rng (packet_header self) payload"

section \<open>Parsing a header\<close>

text \<open>The header that 20 bytes stand for.\<close>

definition header_of_bytes :: "bytes \<Rightarrow> Ipv4Header" where
  "header_of_bytes b =
     \<lparr>ip_version = drop_bit 4 (b ! 0), ip_ihl = b ! 0 AND 0x0F,
      ip_length = from_be_bytes (take 2 (drop 2 b)), ip_id = from_be_bytes (take 2 (drop 4 b)),
      ip_flags = drop_bit 5 (b ! 6), ip_frag_offset = (from_be_bytes (take 2 (drop 6 b)) AND 0x1FFF) * 8,
      ip_ttl = b ! 8, ip_protocol = b ! 9, ip_checksum = from_be_bytes (take 2 (drop 10 b)),
      ip_src = from_be_bytes (take 4 (drop 12 b)), ip_dst = from_be_bytes (take 4 (drop 16 b))\<rparr>"

lemma be_at_in [buf_simps]:
  "i + 2 \<le> length b \<Longrightarrow> be16_at b i = Ok (from_be_bytes (take 2 (drop i b)))"
  "j + 4 \<le> length b \<Longrightarrow> be32_at b j = Ok (from_be_bytes (take 4 (drop j b)))"
  by (simp_all add: be16_at_def be32_at_def get_slice_def cast_be_def)

lemma be_at_out [buf_simps]: "length b < j + 4 \<Longrightarrow> be32_at b j = Panic"
  by (simp add: be32_at_def get_slice_def)

lemma be_at_no_Err [simp]: "be16_at b i \<noteq> Err e" "be32_at b i \<noteq> Err e"
  by (simp_all add: be16_at_def be32_at_def get_slice_def cast_be_def)

text \<open>The outcome of parsing a header, on every branch.\<close>

lemma Ipv4Header_extract_from_slice_eq:
  "Ipv4Header_extract_from_slice b =
     (if b = [] then Err (NotEnoughData 0 20)
      else if length b < unat (b ! 0 AND 0x0F) * 4
        then Err (NotEnoughData (length b) (unat (b ! 0 AND 0x0F) * 4))
      else if length b < 20 then Panic
      else Ok (header_of_bytes b))"
proof (cases "b = [] \<or> length b < unat (b ! 0 AND 0x0F) * 4")
  case True
  then show ?thesis by (auto simp: Ipv4Header_extract_from_slice_def buf_simps Let_def)
next
  case False
  then have b0: "get_at b 0 = (Ok (b ! 0) :: (u8, ProtocolError) res)" by (simp add: buf_simps)
  show ?thesis
  proof (cases "length b < 20")
    case True
    then have last: "be32_at b 16 = (Panic :: (u32, ProtocolError) res)" by (simp add: buf_simps)
    have "Ipv4Header_extract_from_slice b = Panic"
      using False b0 by (simp add: Ipv4Header_extract_from_slice_def Let_def last and_then_const_Panic)
    then show ?thesis using False True by simp
  next
    case long: False
    then show ?thesis
      using False b0
      by (simp add: Ipv4Header_extract_from_slice_def Let_def header_of_bytes_def buf_simps)
  qed
qed

section \<open>Writing a header\<close>

text \<open>The header as the 20 bytes \<open>as_bytes\<close> writes; \<open>tos\<close> is the byte it leaves alone.\<close>

definition header_front :: "Ipv4Header \<Rightarrow> u8 \<Rightarrow> bytes" where
  "header_front h tos =
     [push_bit 4 (ip_version h) OR 5, tos] @ to_be_bytes 2 (ip_length h) @ to_be_bytes 2 (ip_id h)
     @ to_be_bytes 2 (push_bit 13 (ucast (ip_flags h)) OR ip_frag_offset h) @ [ip_ttl h, ip_protocol h]"

definition header_bytes :: "Ipv4Header \<Rightarrow> u8 \<Rightarrow> u16 \<Rightarrow> bytes" where
  "header_bytes h tos csum = header_front h tos @ to_be_bytes 2 csum @ octets4 (ip_src h) @ octets4 (ip_dst h)"

definition header_checksum :: "Ipv4Header \<Rightarrow> u8 \<Rightarrow> u16" where
  "header_checksum h tos = checksum (header_bytes h tos 0)"

lemma length_header_front [simp]: "length (header_front h tos) = 10"
  by (simp add: header_front_def)

lemma length_header_bytes [simp]: "length (header_bytes h tos c) = 20"
  by (simp add: header_bytes_def)

lemma to_be_bytes_zero2: "to_be_bytes 2 (0 :: u16) = [0, 0]"
  by (simp add: to_be_bytes_2)

lemma Ipv4Header_as_bytes_eq:
  assumes "20 \<le> length b"
  shows "Ipv4Header_as_bytes h b = Ok (header_bytes h (b ! 1) (header_checksum h (b ! 1)) @ drop 20 b)"
proof -
  obtain b0 b1 rest where "b = b0 # b1 # rest" "18 \<le> length rest"
    using assms length_ge_2E [of 18 b] by auto
  then show ?thesis
    by (simp add: Ipv4Header_as_bytes_def header_bytes_def header_front_def header_checksum_def
        to_be_bytes_zero2 buf_simps Let_def)
qed

lemma bit_less_exp: "w < 2 ^ n \<Longrightarrow> bit (w :: 'a::len word) i \<Longrightarrow> i < n"
  by (metis bit_and_iff bit_mask_iff less_mask_eq)

lemma version_nibbles:
  assumes "v < 16"
  shows "drop_bit 4 (push_bit 4 v OR 5 :: u8) = v" "(push_bit 4 v OR 5 :: u8) AND 0x0F = 5"
proof -
  have v: "i < 4" if "bit v i" for i using bit_less_exp [of v 4 i] assms that by simp
  have "drop_bit 4 (5 :: u8) = 0" by simp
  moreover have "drop_bit 4 (push_bit 4 v) = v"
    by (rule bit_word_eqI) (auto simp: bit_simps dest: v)
  ultimately show "drop_bit 4 (push_bit 4 v OR 5 :: u8) = v" by (simp add: drop_bit_or)
  have m: "(0x0F :: u8) = mask 4" by (simp add: mask_eq_exp_minus_1)
  have "take_bit 4 (push_bit 4 v) = (0 :: u8)"
    by (rule bit_word_eqI) (auto simp: bit_simps)
  then show "(push_bit 4 v OR 5 :: u8) AND 0x0F = 5"
    unfolding m take_bit_eq_mask [symmetric] by simp
qed

lemma flags_bits:
  assumes "f < (8 :: u8)"
  shows "drop_bit 5 (ucast (drop_bit 8 (push_bit 13 (ucast f) :: u16)) :: u8) = f"
    and "(push_bit 13 (ucast f) :: u16) AND 0x1FFF = 0"
proof -
  have f: "i < 3" if "bit f i" for i using bit_less_exp [of f 3 i] assms that by simp
  show "drop_bit 5 (ucast (drop_bit 8 (push_bit 13 (ucast f) :: u16)) :: u8) = f"
    by (rule bit_word_eqI) (auto simp: bit_simps dest: f)
  have m: "(0x1FFF :: u16) = mask 13" by (simp add: mask_eq_exp_minus_1)
  show "(push_bit 13 (ucast f) :: u16) AND 0x1FFF = 0"
    unfolding m by (rule bit_word_eqI) (auto simp: bit_simps)
qed

definition plain_header :: "Ipv4Header \<Rightarrow> bool" where
  "plain_header h \<longleftrightarrow> ip_version h < 16 \<and> ip_ihl h = 5 \<and> ip_flags h < 8 \<and> ip_frag_offset h = 0"

lemma header_of_header_bytes:
  assumes "plain_header h"
  shows "header_of_bytes (header_bytes h tos c @ rest) = h\<lparr>ip_checksum := c\<rparr>"
  using assms version_nibbles [of "ip_version h"] flags_bits [of "ip_flags h"]
  by (cases h) (simp add: plain_header_def header_of_bytes_def header_bytes_def header_front_def to_be_bytes_2
      octets4_def)

text \<open>
  C26: writing a header without options and fragment offset into a buffer of at least 20 bytes
  and parsing the buffer gives the header back, with its checksum filled in; the byte the
  header has no field for and everything after the header stay as they were.
\<close>

theorem Ipv4Header_roundtrip:
  assumes "plain_header h" and "20 \<le> length buf"
  shows "\<exists>out. Ipv4Header_as_bytes h buf = (Ok out :: (bytes, ProtocolError) res) \<and>
           drop 20 out = drop 20 buf \<and> out ! 1 = buf ! 1 \<and>
           Ipv4Header_extract_from_slice out = Ok (h\<lparr>ip_checksum := header_checksum h (buf ! 1)\<rparr>)"
proof -
  let ?out = "header_bytes h (buf ! 1) (header_checksum h (buf ! 1)) @ drop 20 buf"
  have tos: "?out ! 1 = buf ! 1" and b0: "?out ! 0 = push_bit 4 (ip_version h) OR 5"
    by (simp_all add: header_bytes_def header_front_def)
  have v: "ip_version h < 16" using assms by (simp add: plain_header_def)
  have "unat (?out ! 0 AND 0x0F) * 4 = 20"
    unfolding b0 version_nibbles(2) [OF v] by simp
  moreover have "?out \<noteq> []" by (metis append_is_Nil_conv length_header_bytes list.size(3) zero_neq_numeral)
  ultimately have "Ipv4Header_extract_from_slice ?out = Ok (header_of_bytes ?out)"
    using assms(2) by (simp add: Ipv4Header_extract_from_slice_eq)
  with tos show ?thesis
    using assms by (simp add: Ipv4Header_as_bytes_eq header_of_header_bytes)
qed

theorem Ipv4Header_roundtrip_witness:
  "\<exists>out. Ipv4Header_as_bytes (Ipv4Header_new 7 0x0A000001 0x0A000002 17 8) (replicate 20 0)
           = (Ok out :: (bytes, ProtocolError) res) \<and>
         Ipv4Header_extract_from_slice out =
           Ok ((Ipv4Header_new 7 0x0A000001 0x0A000002 17 8)
                 \<lparr>ip_checksum := header_checksum (Ipv4Header_new 7 0x0A000001 0x0A000002 17 8) 0\<rparr>)"
  using Ipv4Header_roundtrip [of "Ipv4Header_new 7 0x0A000001 0x0A000002 17 8" "replicate 20 0"]
  by (auto simp: plain_header_def Ipv4Header_new_def)

lemma wsum_header_bytes: "wsum (header_bytes h tos c) = wsum (header_bytes h tos 0) + unat c"
  by (simp add: header_bytes_def wsum_append wsum_be16)

text \<open>
  The 20 header bytes written by \<open>as_bytes\<close> verify (their 16-bit words add up to a multiple
  of 65535) as long as the checksum's single fold leaves no carry.
\<close>

lemma Ipv4Header_checksum_verifies:
  assumes "20 \<le> length buf" and "fold_once (wsum (header_bytes h (buf ! 1) 0)) < 65536"
  shows "\<exists>out. Ipv4Header_as_bytes h buf = (Ok out :: (bytes, 'e) res) \<and> wsum (take 20 out) mod 65535 = 0"
proof -
  have "(wsum (header_bytes h (buf ! 1) 0) + unat (checksum (header_bytes h (buf ! 1) 0))) mod 65535 = 0"
    using assms(2) by (intro checksum_correct_mod) simp_all
  then have "wsum (header_bytes h (buf ! 1) (header_checksum h (buf ! 1))) mod 65535 = 0"
    unfolding header_checksum_def wsum_header_bytes [of h "buf ! 1" "checksum (header_bytes h (buf ! 1) 0)"] .
  then show ?thesis using assms(1) by (simp add: Ipv4Header_as_bytes_eq)
qed

section \<open>Address translation of a packet\<close>

text \<open>
  The position of the transport checksum in the payload, the payload with another checksum in
  it, and the payload with the checksum the addresses of the header call for.
\<close>

definition csum_pos :: "u8 \<Rightarrow> nat option" where
  "csum_pos proto = (if proto = NET_PROTOCOL_TCP then Some 16 else if proto = NET_PROTOCOL_UDP then Some 6 else None)"

definition with_csum :: "nat \<Rightarrow> u16 \<Rightarrow> bytes \<Rightarrow> bytes" where
  "with_csum i c pl = take i pl @ to_be_bytes 2 c @ drop (i + 2) pl"

definition transport_fixed :: "Ipv4Header \<Rightarrow> bytes \<Rightarrow> bytes" where
  "transport_fixed h pl =
     (case csum_pos (ip_protocol h) of
        None \<Rightarrow> pl
      | Some i \<Rightarrow> with_csum i (ph_checksum (ip_src h) (ip_dst h) (ip_protocol h) (with_csum i 0 pl)) pl)"

definition transport_fits :: "Ipv4Header \<Rightarrow> bytes \<Rightarrow> bool" where
  "transport_fits h pl \<longleftrightarrow> (case csum_pos (ip_protocol h) of None \<Rightarrow> True | Some i \<Rightarrow> i + 2 \<le> length pl)"

text \<open>The bytes a receiver sums up to verify a segment: the pseudo header and the segment.\<close>

definition pseudo_segment :: "Ipv4Header \<Rightarrow> bytes \<Rightarrow> bytes" where
  "pseudo_segment h pl =
     octets4 (ip_src h) @ octets4 (ip_dst h) @ [0, ip_protocol h] @ to_be_bytes 2 (word_of_nat (length pl) :: u16) @ pl"

lemma length_with_csum [simp]: "i + 2 \<le> length pl \<Longrightarrow> length (with_csum i c pl) = length pl"
  by (simp add: with_csum_def)

lemma even_csum_pos: "csum_pos proto = Some i \<Longrightarrow> even i"
  by (auto simp: csum_pos_def split: if_splits)

lemma length_transport_fixed [simp]: "transport_fits h pl \<Longrightarrow> length (transport_fixed h pl) = length pl"
  by (simp add: transport_fixed_def transport_fits_def split: option.splits)

lemma wsum_with_csum:
  "even i \<Longrightarrow> i + 2 \<le> length pl \<Longrightarrow> wsum (with_csum i c pl) = wsum (with_csum i 0 pl) + unat c"
  by (simp add: with_csum_def wsum_append wsum_be16)

lemma wsum_pseudo_segment: "wsum (pseudo_segment h pl) = wsum (pseudo_segment h []) + length pl mod 65536 + wsum pl"
  by (simp add: pseudo_segment_def wsum_octets4 wsum_be16 unsigned_of_nat take_bit_eq_mod)
    (simp add: to_be_bytes_2)

lemma fix_transport_checksum_eq:
  assumes "ip_ihl h = 5" and "length hb = 20" and "transport_fits h pl"
  shows "Ipv4Packet_fix_transport_checksum \<lparr>packet_header = h, packet_data = hb @ pl\<rparr> =
           Ok \<lparr>packet_header = h, packet_data = hb @ transport_fixed h pl\<rparr>"
proof -
  have off: "Ipv4Header_header_length h = 20" using assms(1) by (simp add: Ipv4Header_header_length_def)
  show ?thesis
    using assms(2,3)
    by (auto simp: Ipv4Packet_fix_transport_checksum_def off buf_simps Let_def transport_fixed_def transport_fits_def
        csum_pos_def with_csum_def to_be_bytes_zero2 Ipv4Packet_src_def Ipv4Packet_dest_def Ipv4Packet_protocol_def
        NET_PROTOCOL_TCP_def NET_PROTOCOL_UDP_def)
qed

lemma translate_packet:
  assumes "ip_ihl h = 5" and "20 \<le> length d" and "transport_fits h (drop 20 d)"
  shows "and_then (Ipv4Header_as_bytes h d) (\<lambda>d. Ipv4Packet_fix_transport_checksum \<lparr>packet_header = h, packet_data = d\<rparr>)
     = Ok \<lparr>packet_header = h,
           packet_data = header_bytes h (d ! 1) (header_checksum h (d ! 1)) @ transport_fixed h (drop 20 d)\<rparr>"
  using assms by (simp add: Ipv4Header_as_bytes_eq fix_transport_checksum_eq)

lemma transport_fixed_verifies:
  assumes "csum_pos (ip_protocol h) = Some i" and "i + 2 \<le> length pl" and "length pl \<le> 65535"
    and "fold_once (wsum (pseudo_segment h (with_csum i 0 pl))) < 65536"
  shows "wsum (pseudo_segment h (transport_fixed h pl)) mod 65535 = 0"
proof -
  let ?z = "with_csum i 0 pl"
  let ?c = "ph_checksum (ip_src h) (ip_dst h) (ip_protocol h) ?z"
  have c: "?c = checksum (pseudo_segment h ?z)"
    by (simp only: ph_checksum_is_pseudo_header pseudo_segment_def)
  have len: "length (pseudo_segment h ?z) \<le> 131072" using assms(2,3) by (simp add: pseudo_segment_def)
  have "wsum (pseudo_segment h (transport_fixed h pl)) = wsum (pseudo_segment h ?z) + unat ?c"
    using assms(1,2) even_csum_pos [OF assms(1)]
    by (simp add: transport_fixed_def wsum_pseudo_segment [of h "with_csum _ _ _"] wsum_with_csum [of _ _ ?c])
  also have "\<dots> mod 65535 = 0"
    unfolding c by (rule checksum_correct_mod [OF len assms(4)])
  finally show ?thesis .
qed

lemma header_of_bytes_bounds: "ip_version (header_of_bytes b) < 16" "ip_flags (header_of_bytes b) < 8"
proof -
  have lt: "unat (drop_bit n w) < 2 ^ (8 - n)" if "n \<le> 8" for n and w :: u8
  proof -
    have "unat w < 2 ^ LENGTH(8)" by (rule unsigned_less)
    then show ?thesis
      using that unfolding unat_drop_bit_eq
      by (simp add: drop_bit_eq_div less_mult_imp_div_less flip: power_add)
  qed
  show "ip_version (header_of_bytes b) < 16" "ip_flags (header_of_bytes b) < 8"
    using lt [of 4 "b ! 0"] lt [of 5 "b ! 6"] by (simp_all add: header_of_bytes_def word_less_nat_alt)
qed

lemma Ipv4Packet_parse_eq_Ok:
  "Ipv4Packet_parse b = Ok p \<longleftrightarrow>
     20 \<le> length b \<and> unat (b ! 0 AND 0x0F) * 4 \<le> length b \<and>
     p = \<lparr>packet_header = header_of_bytes b, packet_data = b\<rparr>"
  by (auto simp: Ipv4Packet_parse_def and_then_eq_Ok Ipv4Header_extract_from_slice_eq split: if_splits)

text \<open>
  C27: the outcome of parsing an IPv4 packet, on every branch. A buffer shorter than the header
  length its first byte announces is an error; a buffer of less than 20 bytes that announces
  no more than it has makes the parser panic; any other buffer gives the header its first 20
  bytes stand for, with the buffer kept as the packet's bytes.
\<close>

theorem Ipv4Packet_parse_outcome:
  "Ipv4Packet_parse b =
     (if b = [] then Err (NotEnoughData 0 20)
      else if length b < unat (b ! 0 AND 0x0F) * 4
        then Err (NotEnoughData (length b) (unat (b ! 0 AND 0x0F) * 4))
      else if length b < 20 then Panic
      else Ok \<lparr>packet_header = header_of_bytes b, packet_data = b\<rparr>)"
  by (simp add: Ipv4Packet_parse_def Ipv4Header_extract_from_slice_eq)

lemma parsed_plain:
  assumes "Ipv4Packet_parse b = Ok p" and "ip_ihl (packet_header p) = 5" and "ip_frag_offset (packet_header p) = 0"
  shows "plain_header (packet_header p)" and "20 \<le> length b" and "packet_data p = b"
  using assms header_of_bytes_bounds [of b] by (auto simp: Ipv4Packet_parse_eq_Ok plain_header_def)

lemma parse_written:
  assumes "plain_header h"
  shows "Ipv4Packet_parse (header_bytes h tos c @ pl) =
           Ok \<lparr>packet_header = h\<lparr>ip_checksum := c\<rparr>, packet_data = header_bytes h tos c @ pl\<rparr>"
proof -
  let ?b = "header_bytes h tos c @ pl"
  have v: "ip_version h < 16" using assms by (simp add: plain_header_def)
  have "?b ! 0 = push_bit 4 (ip_version h) OR 5" by (simp add: header_bytes_def header_front_def)
  then have "unat (?b ! 0 AND 0x0F) * 4 = 20" using version_nibbles(2) [OF v] by simp
  then show ?thesis by (simp add: Ipv4Packet_parse_eq_Ok header_of_header_bytes [OF assms])
qed

text \<open>A packet whose header is replaced by a plain one, as both directions of the translation do it.\<close>

definition translated :: "Ipv4Header \<Rightarrow> bytes \<Rightarrow> Ipv4Packet \<Rightarrow> bool" where
  "translated h b q \<longleftrightarrow>
     packet_header q = h \<and> length (packet_data q) = length b \<and>
     drop 20 (packet_data q) = transport_fixed h (drop 20 b) \<and>
     Ipv4Packet_parse (packet_data q) =
       Ok \<lparr>packet_header = h\<lparr>ip_checksum := header_checksum h (b ! 1)\<rparr>, packet_data = packet_data q\<rparr>"

lemma translate_packet_translated:
  assumes "plain_header h" and "20 \<le> length d" and "transport_fits h (drop 20 d)"
  shows "\<exists>q. and_then (Ipv4Header_as_bytes h d)
               (\<lambda>d. Ipv4Packet_fix_transport_checksum \<lparr>packet_header = h, packet_data = d\<rparr>)
               = (Ok q :: (Ipv4Packet, 'e) res) \<and> translated h d q"
  using assms parse_written [OF assms(1)]
  by (simp add: translate_packet plain_header_def translated_def)

text \<open>A UDP packet from 10.0.0.1 to 10.0.0.2 without payload, used to evaluate the properties below.\<close>

definition sample_udp :: bytes where
  "sample_udp = [0x45, 0, 0, 28, 0, 1, 0x40, 0, 64, 17, 0, 0, 10, 0, 0, 1, 10, 0, 0, 2, 0, 7, 0, 8, 0, 8, 0, 0]"

lemma sample_udp_header:
  "Ipv4Packet_parse sample_udp = Ok \<lparr>packet_header = header_of_bytes sample_udp, packet_data = sample_udp\<rparr>"
  "ip_ihl (header_of_bytes sample_udp) = 5" "ip_frag_offset (header_of_bytes sample_udp) = 0"
  "ip_protocol (header_of_bytes sample_udp) = 17" "ip_src (header_of_bytes sample_udp) = 0x0A000001"
  "ip_dst (header_of_bytes sample_udp) = 0x0A000002" "length sample_udp = 28"
  by (simp_all add: Ipv4Packet_parse_eq_Ok sample_udp_def header_of_bytes_def from_be_bytes_def)

lemma sample_udp_fits: "transport_fits (header_of_bytes sample_udp) (drop 20 sample_udp)"
  by (simp add: transport_fits_def sample_udp_header csum_pos_def NET_PROTOCOL_TCP_def NET_PROTOCOL_UDP_def)

lemma Ipv4Packet_masquerade_translated:
  assumes "Ipv4Packet_parse b = Ok p" and "ip_ihl (packet_header p) = 5"
    and "ip_frag_offset (packet_header p) = 0" and "transport_fits (packet_header p) (drop 20 b)"
  shows "\<exists>q. Ipv4Packet_masquerade p ip = (Ok q :: (Ipv4Packet, 'e) res) \<and>
             translated ((packet_header p)\<lparr>ip_src := ip\<rparr>) b q"
proof -
  have "plain_header ((packet_header p)\<lparr>ip_src := ip\<rparr>)"
    using parsed_plain(1) [OF assms(1-3)] by (simp add: plain_header_def)
  moreover have "transport_fits ((packet_header p)\<lparr>ip_src := ip\<rparr>) (drop 20 b)"
    using assms(4) by (simp add: transport_fits_def)
  ultimately show ?thesis
    using translate_packet_translated [of _ b, where 'e = 'e] parsed_plain(2,3) [OF assms(1-3)]
    by (simp add: Ipv4Packet_masquerade_def Ipv4Header_masquerade_def Let_def)
qed

text \<open>
  C24: \<open>masquerade\<close> on a parsed packet without options and fragment offset, which is long enough for
  the checksum field of its transport protocol, succeeds and changes
  nothing but the source address and the two checksums: the rewritten bytes parse to the old
  header with the new source address and a recomputed header checksum, and the payload is the
  old one with the transport checksum of the new addresses.
\<close>

theorem Ipv4Packet_masquerade_correct:
  assumes "Ipv4Packet_parse b = Ok p" and "ip_ihl (packet_header p) = 5"
    and "ip_frag_offset (packet_header p) = 0" and "transport_fits (packet_header p) (drop 20 b)"
  shows "\<exists>q. Ipv4Packet_masquerade p ip = (Ok q :: (Ipv4Packet, 'e) res) \<and>
             translated ((packet_header p)\<lparr>ip_src := ip\<rparr>) b q"
  using assms by (rule Ipv4Packet_masquerade_translated)

theorem Ipv4Packet_masquerade_correct_witness:
  "\<exists>p q. Ipv4Packet_parse sample_udp = Ok p \<and> Ipv4Packet_masquerade p 0xC0A80001 = (Ok q :: (Ipv4Packet, unit) res) \<and>
         translated ((packet_header p)\<lparr>ip_src := 0xC0A80001\<rparr>) sample_udp q"
  using Ipv4Packet_masquerade_correct [OF sample_udp_header(1), where ip = "0xC0A80001" and 'e = unit]
  by (simp add: sample_udp_header sample_udp_fits)

lemma Ipv4Packet_unmasquerade_translated:
  assumes "Ipv4Packet_parse b = Ok p" and "ip_ihl (packet_header p) = 5"
    and "ip_frag_offset (packet_header p) = 0" and "transport_fits (packet_header p) (drop 20 b)"
  shows "\<exists>q. Ipv4Packet_unmasquerade p ip = (Ok q :: (Ipv4Packet, 'e) res) \<and>
             translated ((packet_header p)\<lparr>ip_dst := ip\<rparr>) b q"
proof -
  have "plain_header ((packet_header p)\<lparr>ip_dst := ip\<rparr>)"
    using parsed_plain(1) [OF assms(1-3)] by (simp add: plain_header_def)
  moreover have "transport_fits ((packet_header p)\<lparr>ip_dst := ip\<rparr>) (drop 20 b)"
    using assms(4) by (simp add: transport_fits_def)
  ultimately show ?thesis
    using translate_packet_translated [of _ b, where 'e = 'e] parsed_plain(2,3) [OF assms(1-3)]
    by (simp add: Ipv4Packet_unmasquerade_def Ipv4Header_unmasquerade_def Let_def)
qed

text \<open>
  C25: the transport checksum of a masqueraded TCP or UDP packet without options and fragment
  offset verifies against the new addresses, as long as the single fold of \<open>ph_checksum\<close> leaves no
  carry.
\<close>

theorem Ipv4Packet_masquerade_transport_verifies:
  assumes "Ipv4Packet_parse b = Ok p" and "ip_ihl (packet_header p) = 5" and "ip_frag_offset (packet_header p) = 0"
    and "csum_pos (ip_protocol (packet_header p)) = Some i" and "i + 22 \<le> length b" and "length b \<le> 65535"
    and "fold_once (wsum (pseudo_segment ((packet_header p)\<lparr>ip_src := ip\<rparr>) (with_csum i 0 (drop 20 b)))) < 65536"
  shows "\<exists>q. Ipv4Packet_masquerade p ip = (Ok q :: (Ipv4Packet, 'e) res) \<and>
             wsum (pseudo_segment (packet_header q) (drop 20 (packet_data q))) mod 65535 = 0"
proof -
  let ?h = "(packet_header p)\<lparr>ip_src := ip\<rparr>"
  have "plain_header ?h" using parsed_plain(1) [OF assms(1-3)] by (simp add: plain_header_def)
  moreover have "transport_fits ?h (drop 20 b)" using assms(4,5) by (simp add: transport_fits_def)
  ultimately obtain q where "Ipv4Packet_masquerade p ip = (Ok q :: (Ipv4Packet, 'e) res)" "translated ?h b q"
    using translate_packet_translated [of ?h b, where 'e = 'e] parsed_plain(2,3) [OF assms(1-3)]
    by (auto simp: Ipv4Packet_masquerade_def Ipv4Header_masquerade_def Let_def)
  moreover have "wsum (pseudo_segment ?h (transport_fixed ?h (drop 20 b))) mod 65535 = 0"
    using assms(4-7) by (intro transport_fixed_verifies [of _ i]) simp_all
  ultimately show ?thesis by (auto simp: translated_def)
qed

theorem Ipv4Packet_masquerade_transport_verifies_witness:
  "\<exists>p q. Ipv4Packet_parse sample_udp = Ok p \<and> Ipv4Packet_masquerade p 0xC0A80001 = (Ok q :: (Ipv4Packet, unit) res) \<and>
         wsum (pseudo_segment (packet_header q) (drop 20 (packet_data q))) mod 65535 = 0"
proof -
  let ?h = "header_of_bytes sample_udp"
  have pos: "csum_pos 17 = Some 6" by (simp add: csum_pos_def NET_PROTOCOL_TCP_def NET_PROTOCOL_UDP_def)
  have "fold_once (wsum (pseudo_segment (?h\<lparr>ip_src := 0xC0A80001\<rparr>) (with_csum 6 0 (drop 20 sample_udp)))) < 65536"
    by (simp add: pseudo_segment_def sample_udp_header octets4_def to_be_bytes_2 to_be_bytes_4 fold_once_def)
      (simp add: with_csum_def sample_udp_def to_be_bytes_2)
  with pos show ?thesis
    using Ipv4Packet_masquerade_transport_verifies
      [OF sample_udp_header(1), where ip = "0xC0A80001" and i = 6 and 'e = unit]
    by (simp add: sample_udp_header)
qed

text \<open>
  A fragment does not survive the translation. The parser multiplies the 13-bit fragment
  offset by 8, the writer puts the product back without dividing: a packet at fragment offset
  8 (field 1) leaves \<open>masquerade\<close> at offset 64 (field 8).
\<close>

lemma Ipv4Packet_masquerade_scales_fragment_offset:
  "\<exists>p q r. Ipv4Packet_parse [0x45, 0, 0, 20, 0, 1, 0, 1, 64, 1, 0, 0, 10, 0, 0, 1, 10, 0, 0, 2] = Ok p \<and>
     Ipv4Packet_fragment_offset p = 8 \<and> Ipv4Packet_masquerade p 0xC0A80001 = (Ok q :: (Ipv4Packet, unit) res) \<and>
     Ipv4Packet_parse (packet_data q) = Ok r \<and> Ipv4Packet_fragment_offset r = 64"
proof -
  let ?b = "[0x45, 0, 0, 20, 0, 1, 0, 1, 64, 1, 0, 0, 10, 0, 0, 1, 10, 0, 0, 2] :: bytes"
  let ?p = "\<lparr>packet_header = header_of_bytes ?b, packet_data = ?b\<rparr>"
  let ?h = "(header_of_bytes ?b)\<lparr>ip_src := 0xC0A80001\<rparr>"
  let ?d = "header_bytes ?h 0 (header_checksum ?h 0)"
  have h: "ip_ihl ?h = 5" "ip_version ?h = 4" "ip_flags ?h = 0" "ip_frag_offset ?h = 8"
    "transport_fits ?h []"
    by (simp_all add: header_of_bytes_def from_be_bytes_def transport_fits_def csum_pos_def NET_PROTOCOL_TCP_def
        NET_PROTOCOL_UDP_def)
  then have "Ipv4Packet_masquerade ?p 0xC0A80001 = (Ok \<lparr>packet_header = ?h, packet_data = ?d @ transport_fixed ?h []\<rparr>
      :: (Ipv4Packet, unit) res)"
    by (simp add: Ipv4Packet_masquerade_def Ipv4Header_masquerade_def Let_def translate_packet)
  moreover have "Ipv4Packet_parse ?b = Ok ?p" by (simp add: Ipv4Packet_parse_eq_Ok)
  moreover have "?d ! 0 = 0x45" "take 2 (drop 6 ?d) = [0, 8]"
    unfolding header_bytes_def header_front_def h by (simp_all add: to_be_bytes_2)
  then have "Ipv4Packet_parse (?d @ pl) = Ok \<lparr>packet_header = header_of_bytes (?d @ pl), packet_data = ?d @ pl\<rparr>"
    "ip_frag_offset (header_of_bytes (?d @ pl)) = 64" for pl
    by (simp_all add: Ipv4Packet_parse_eq_Ok nth_append header_of_bytes_def from_be_bytes_def)
  ultimately show ?thesis
    using h(4) by (auto simp: Ipv4Packet_fragment_offset_def)
qed

end
