(* ===== verification/Icmp.thy ===== *)
theory Icmp
  imports Ipv4
begin

text \<open>
  ICMP packets, \<^verbatim>\<open>oathgate-net/src/protocols/icmp.rs\<close>. \<open>IcmpPacket\<close> is a struct with the one
  private field \<open>ty\<close>; its two echo constructors and the other arms of \<open>parse\<close> are \<open>todo!\<close> in
  the source, which panics.
\<close>

definition ICMP_HDR_SZ :: nat where "ICMP_HDR_SZ = 4"
definition ICMP_TY_ECHO_REPLY :: u8 where "ICMP_TY_ECHO_REPLY = 0"
definition ICMP_TY_DESTINATION_UNREACHABLE :: u8 where "ICMP_TY_DESTINATION_UNREACHABLE = 3"
definition ICMP_TY_ECHO_REQUEST :: u8 where "ICMP_TY_ECHO_REQUEST = 8"

datatype DestinationUnreachableCode =
    NetworkUnreachable
  | HostUnreachable
  | ProtocolUnreachable
  | PortUnreachable
  | FragmentationRequired
  | SourceRouteFailed
  | NetworkUnknown
  | HostUnknown
  | SourceHostIsolated
  | NetworkAdminProhibited
  | HostAdminProhibited
  | NetworkUnreachableToS
  | HostUnreachableToS
  | CommAdminProhibited
  | HostPrecedenceViolation
  | PrecedenceCutoff

text \<open>The array of a \<open>DestinationUnreachable\<close> is its list of 28 bytes.\<close>

datatype IcmpType =
    EchoReply u16 u16 bytes
  | DestinationUnreachable DestinationUnreachableCode bytes
  | Redirect
  | EchoRequest u16 u16 bytes

fun DestinationUnreachableCode_as_u8 :: "DestinationUnreachableCode \<Rightarrow> u8" where
  "DestinationUnreachableCode_as_u8 NetworkUnreachable = 0"
| "DestinationUnreachableCode_as_u8 HostUnreachable = 1"
| "DestinationUnreachableCode_as_u8 ProtocolUnreachable = 2"
| "DestinationUnreachableCode_as_u8 PortUnreachable = 3"
| "DestinationUnreachableCode_as_u8 FragmentationRequired = 4"
| "DestinationUnreachableCode_as_u8 SourceRouteFailed = 5"
| "DestinationUnreachableCode_as_u8 NetworkUnknown = 6"
| "DestinationUnreachableCode_as_u8 HostUnknown = 7"
| "DestinationUnreachableCode_as_u8 SourceHostIsolated = 8"
| "DestinationUnreachableCode_as_u8 NetworkAdminProhibited = 9"
| "DestinationUnreachableCode_as_u8 HostAdminProhibited = 10"
| "DestinationUnreachableCode_as_u8 NetworkUnreachableToS = 11"
| "DestinationUnreachableCode_as_u8 HostUnreachableToS = 12"
| "DestinationUnreachableCode_as_u8 CommAdminProhibited = 13"
| "DestinationUnreachableCode_as_u8 HostPrecedenceViolation = 14"
| "DestinationUnreachableCode_as_u8 PrecedenceCutoff = 15"

fun IcmpType_as_u8 :: "IcmpType \<Rightarrow> u16" where
  "IcmpType_as_u8 (EchoReply ident seq d) = 0"
| "IcmpType_as_u8 (DestinationUnreachable code d) = push_bit 8 3 OR ucast (DestinationUnreachableCode_as_u8 code)"
| "IcmpType_as_u8 Redirect = 5"
| "IcmpType_as_u8 (EchoRequest ident seq d) = 8"

record IcmpPacket =
  icmp_ty :: IcmpType

definition IcmpPacket_destination_unreachable ::
  "DestinationUnreachableCode \<Rightarrow> Ipv4Header \<Rightarrow> bytes \<Rightarrow> (IcmpPacket, 'e) res" where
  "IcmpPacket_destination_unreachable code hdr payload =
     and_then (Ipv4Header_as_bytes hdr (replicate 28 0)) (\<lambda>buf.
     and_then (get_slice payload 0 8) (\<lambda>p.
     and_then (put_slice buf 20 28 p) (\<lambda>buf.
     Ok \<lparr>icmp_ty = DestinationUnreachable code buf\<rparr>)))"

definition IcmpPacket_parse :: "bytes \<Rightarrow> (IcmpPacket, ProtocolError) res" where
  "IcmpPacket_parse data =
     (let echo = (\<lambda>C.
        and_then (get_at data 4) (\<lambda>b4. and_then (get_at data 5) (\<lambda>b5.
        and_then (get_at data 6) (\<lambda>b6. and_then (get_at data 7) (\<lambda>b7.
        and_then (get_from data 8) (\<lambda>d.
        Ok \<lparr>icmp_ty = C (from_be_bytes [b4, b5]) (from_be_bytes [b6, b7]) d\<rparr>))))))
      in if length data < ICMP_HDR_SZ then Err (NotEnoughData (length data) ICMP_HDR_SZ)
         else and_then (get_at data 0) (\<lambda>t.
           if t = ICMP_TY_ECHO_REPLY then echo EchoReply
           else if t = ICMP_TY_ECHO_REQUEST then echo EchoRequest
           else Panic))"

text \<open>\<open>as_bytes\<close> writes into the buffer and returns the number of bytes written.\<close>

definition IcmpPacket_echo_as_bytes :: "u8 \<Rightarrow> u16 \<Rightarrow> u16 \<Rightarrow> bytes \<Rightarrow> bytes \<Rightarrow> (bytes \<times> nat, 'e) res" where
  "IcmpPacket_echo_as_bytes ty ident seq data buf =
     (let e = 8 + length data in
      and_then (put_at buf 0 ty) (\<lambda>buf.
      and_then (put_at buf 1 0) (\<lambda>buf.
      and_then (put_slice buf 2 4 [0, 0]) (\<lambda>buf.
      and_then (put_slice buf 4 6 (to_be_bytes 2 ident)) (\<lambda>buf.
      and_then (put_slice buf 6 8 (to_be_bytes 2 seq)) (\<lambda>buf.
      and_then (put_slice buf 8 e data) (\<lambda>buf.
      and_then (get_slice buf 0 e) (\<lambda>s.
      and_then (put_slice buf 2 4 (to_be_bytes 2 (checksum s))) (\<lambda>buf.
      Ok (buf, e))))))))))"

fun IcmpType_as_bytes :: "IcmpType \<Rightarrow> bytes \<Rightarrow> (bytes \<times> nat, 'e) res" where
  "IcmpType_as_bytes (EchoRequest ident seq data) buf = IcmpPacket_echo_as_bytes ICMP_TY_ECHO_REQUEST ident seq data buf"
| "IcmpType_as_bytes (EchoReply ident seq data) buf = IcmpPacket_echo_as_bytes ICMP_TY_ECHO_REPLY ident seq data buf"
| "IcmpType_as_bytes Redirect buf = Ok (buf, 0)"
| "IcmpType_as_bytes (DestinationUnreachable code data) buf =
     and_then (put_at buf 0 ICMP_TY_DESTINATION_UNREACHABLE) (\<lambda>buf.
     and_then (put_at buf 1 (DestinationUnreachableCode_as_u8 code)) (\<lambda>buf.
     and_then (put_slice buf 2 8 [0, 0, 0, 0, 0, 0]) (\<lambda>buf.
     and_then (put_slice buf 8 36 data) (\<lambda>buf.
     and_then (get_slice buf 0 36) (\<lambda>s.
     and_then (put_slice buf 2 4 (to_be_bytes 2 (checksum s))) (\<lambda>buf.
     Ok (buf, 36)))))))"

definition IcmpPacket_as_bytes :: "IcmpPacket \<Rightarrow> bytes \<Rightarrow> (bytes \<times> nat, 'e) res" where
  "IcmpPacket_as_bytes self buf = IcmpType_as_bytes (icmp_ty self) buf"

section \<open>Echo packets\<close>

text \<open>An echo packet as bytes with a given checksum field.\<close>

definition echo_bytes :: "u8 \<Rightarrow> u16 \<Rightarrow> u16 \<Rightarrow> u16 \<Rightarrow> bytes \<Rightarrow> bytes" where
  "echo_bytes ty c ident seq d = [ty, 0] @ to_be_bytes 2 c @ to_be_bytes 2 ident @ to_be_bytes 2 seq @ d"

lemma length_echo_bytes [simp]: "length (echo_bytes ty c ident seq d) = 8 + length d"
  by (simp add: echo_bytes_def)

lemma wsum_echo_bytes: "wsum (echo_bytes ty c ident seq d) = wsum (echo_bytes ty 0 ident seq d) + unat c"
  by (simp add: echo_bytes_def wsum_be16)

lemma IcmpPacket_echo_as_bytes_eq:
  assumes "8 + length d \<le> length buf"
  shows "IcmpPacket_echo_as_bytes ty ident seq d buf =
     Ok (echo_bytes ty (checksum (echo_bytes ty 0 ident seq d)) ident seq d @ drop (8 + length d) buf, 8 + length d)"
proof -
  obtain b0 b1 rest where "buf = b0 # b1 # rest" "6 + length d \<le> length rest"
    using assms length_ge_2E [of "6 + length d" buf] by auto
  then show ?thesis
    by (simp add: IcmpPacket_echo_as_bytes_def echo_bytes_def to_be_bytes_2 buf_simps Let_def take_Cons' drop_Cons'
        add.commute [of 6])
qed

lemma IcmpPacket_parse_echo_bytes:
  "IcmpPacket_parse (echo_bytes ICMP_TY_ECHO_REQUEST c ident seq d) = Ok \<lparr>icmp_ty = EchoRequest ident seq d\<rparr>"
  "IcmpPacket_parse (echo_bytes ICMP_TY_ECHO_REPLY c ident seq d) = Ok \<lparr>icmp_ty = EchoReply ident seq d\<rparr>"
  by (simp_all add: IcmpPacket_parse_def echo_bytes_def to_be_bytes_2 buf_simps Let_def ICMP_HDR_SZ_def
      ICMP_TY_ECHO_REQUEST_def ICMP_TY_ECHO_REPLY_def)

text \<open>
  An echo packet written into a large enough buffer reads back as it was: \<open>as_bytes\<close> reports
  \<open>8 + length data\<close> bytes, parsing those gives the packet, and the rest of the buffer is kept.
\<close>

lemma IcmpPacket_echo_roundtrip:
  assumes "p = \<lparr>icmp_ty = EchoRequest ident seq data\<rparr> \<or> p = \<lparr>icmp_ty = EchoReply ident seq data\<rparr>"
    and "8 + length data \<le> length buf"
  shows "\<exists>out. IcmpPacket_as_bytes p buf = (Ok (out, 8 + length data) :: (bytes \<times> nat, 'e) res) \<and>
           IcmpPacket_parse (take (8 + length data) out) = Ok p \<and>
           drop (8 + length data) out = drop (8 + length data) buf"
  using assms by (auto simp: IcmpPacket_as_bytes_def IcmpPacket_echo_as_bytes_eq IcmpPacket_parse_echo_bytes)

lemma IcmpPacket_parse_eq:
  "IcmpPacket_parse data =
     (if length data < 4 then Err (NotEnoughData (length data) 4)
      else if 8 \<le> length data \<and> data ! 0 = 8 then
        Ok \<lparr>icmp_ty = EchoRequest (from_be_bytes (take 2 (drop 4 data))) (from_be_bytes (take 2 (drop 6 data))) (drop 8 data)\<rparr>
      else if 8 \<le> length data \<and> data ! 0 = 0 then
        Ok \<lparr>icmp_ty = EchoReply (from_be_bytes (take 2 (drop 4 data))) (from_be_bytes (take 2 (drop 6 data))) (drop 8 data)\<rparr>
      else Panic)"
proof (cases "length data < 8")
  case True
  have "get_from data 8 = (Panic :: (bytes, ProtocolError) res)" using True by (simp add: buf_simps)
  moreover have "get_at data 0 = (Ok (data ! 0) :: (u8, ProtocolError) res)" if "4 \<le> length data"
    using that by (intro get_at_in) linarith
  ultimately show ?thesis
    using True by (auto simp: IcmpPacket_parse_def Let_def ICMP_HDR_SZ_def and_then_const_Panic)
next
  case False
  have two: "take 2 (drop i data) = [data ! i, data ! Suc i]" if "i + 2 \<le> length data" for i
    using that by (simp add: numeral_2_eq_2 Cons_nth_drop_Suc [symmetric])
  have two4: "take 2 (drop 4 data) = [data ! 4, data ! 5]" "take 2 (drop 6 data) = [data ! 6, data ! 7]"
    using False two [of 4] two [of 6] by simp_all
  moreover have "get_at data 0 = (Ok (data ! 0) :: (u8, ProtocolError) res)"
    using False by (intro get_at_in) linarith
  ultimately show ?thesis
    using False
    by (auto simp: IcmpPacket_parse_def Let_def ICMP_HDR_SZ_def buf_simps ICMP_TY_ECHO_REQUEST_def ICMP_TY_ECHO_REPLY_def)
qed

text \<open>
  A destination unreachable message quotes the header it answers to and the first eight
  bytes of its payload, and panics when the payload has fewer than eight bytes.
\<close>

lemma IcmpPacket_destination_unreachable_quotes:
  "IcmpPacket_destination_unreachable code h payload =
     (if length payload < 8 then Panic
      else Ok \<lparr>icmp_ty = DestinationUnreachable code (header_bytes h 0 (header_checksum h 0) @ take 8 payload)\<rparr>)"
  by (simp add: IcmpPacket_destination_unreachable_def Ipv4Header_as_bytes_eq buf_simps)

end
