(* ===== verification/Handlers.thy ===== *)
theory Handlers
  imports Icmp
begin

text \<open>
  The protocol handlers of the router, \<^verbatim>\<open>oathgate-bridge/src/net/router/handler.rs\<close>,
  \<^verbatim>\<open>handler/icmp.rs\<close> and \<^verbatim>\<open>handler/udp.rs\<close>. A handler reads a packet and writes its
  answer into a buffer. The traits \<open>ProtocolHandler\<close> and \<open>PortHandler\<close> are locales: the
  operation, the invariant of the handler's state, and what the caller relies on (the answer
  fits the buffer, the buffer keeps its length). A handler that returns an error has still
  changed its state, so an operation returns its outcome and the state.
\<close>

section \<open>The traits\<close>

type_synonym ('s) port_op = "'s \<Rightarrow> bytes \<Rightarrow> bytes \<Rightarrow> (nat \<times> bytes, ProtocolError) res \<times> 's"
type_synonym ('s) protocol_op = "'s \<Rightarrow> Ipv4Packet \<Rightarrow> bytes \<Rightarrow> (nat \<times> bytes, ProtocolError) res \<times> 's"

locale port_handler =
  fixes handle_port :: "'s port_op"
    and inv :: "'s \<Rightarrow> bool"
  assumes handle_port_inv: "inv s \<Longrightarrow> handle_port s data buf = (r, s') \<Longrightarrow> inv s'"
    and handle_port_fits: "handle_port s data buf = (Ok (n, buf'), s') \<Longrightarrow> n \<le> length buf \<and> length buf' = length buf"

locale protocol_handler =
  fixes handle_protocol :: "'s protocol_op"
    and inv :: "'s \<Rightarrow> bool"
  assumes handle_protocol_inv: "inv s \<Longrightarrow> handle_protocol s pkt buf = (r, s') \<Longrightarrow> inv s'"
    and handle_protocol_fits:
      "handle_protocol s pkt buf = (Ok (n, buf'), s') \<Longrightarrow> n \<le> length buf \<and> length buf' = length buf"

section \<open>IcmpHandler\<close>

datatype IcmpHandler = IcmpHandler

definition IcmpHandler_protocol :: "IcmpHandler \<Rightarrow> u8" where
  "IcmpHandler_protocol self = NET_PROTOCOL_ICMP"

definition IcmpHandler_handle_protocol :: "IcmpHandler protocol_op" where
  "IcmpHandler_handle_protocol self pkt buf =
     (and_then (Ipv4Packet_payload pkt) (\<lambda>payload.
      if length payload < ICMP_HDR_SZ then Err (NotEnoughData (length payload) ICMP_HDR_SZ)
      else and_then (get_at payload 0) (\<lambda>t.
        if t = ICMP_TY_ECHO_REQUEST then
          let len = length payload in
          and_then (get_from payload ICMP_HDR_SZ) (\<lambda>tl.
          and_then (put_slice buf ICMP_HDR_SZ len tl) (\<lambda>buf.
          and_then (put_slice buf 2 4 (to_be_bytes 2 (checksum buf))) (\<lambda>buf.
          Ok (length payload, buf))))
        else Ok (0, buf))), self)"

section \<open>UdpHandler\<close>

definition UDP_HDR_SZ :: nat where "UDP_HDR_SZ = 8"

text \<open>The map from a port to the handler registered for it; \<open>'h\<close> is the state of a \<open>PortHandler\<close>.\<close>

record 'h UdpHandler =
  port_handlers :: "u16 \<rightharpoonup> 'h"

definition UdpHandler_default :: "'h UdpHandler" where
  "UdpHandler_default = \<lparr>port_handlers = Map.empty\<rparr>"

definition UdpHandler_register_port_handler :: "('h \<Rightarrow> u16) \<Rightarrow> 'h UdpHandler \<Rightarrow> 'h \<Rightarrow> 'h UdpHandler" where
  "UdpHandler_register_port_handler port self handler =
     self\<lparr>port_handlers := (port_handlers self)(port handler \<mapsto> handler)\<rparr>"

definition UdpHandler_protocol :: "'h UdpHandler \<Rightarrow> u8" where
  "UdpHandler_protocol self = NET_PROTOCOL_UDP"

text \<open>The UDP header in front of the answer that a port handler left behind the first eight bytes.\<close>

definition UdpHandler_finish :: "u16 \<Rightarrow> u16 \<Rightarrow> nat \<Rightarrow> bytes \<Rightarrow> (nat \<times> bytes, 'e) res" where
  "UdpHandler_finish src_port dst_port len buf =
     (let len = len + 8 in
      and_then (put_slice buf 0 2 (to_be_bytes 2 dst_port)) (\<lambda>buf.
      and_then (put_slice buf 2 4 (to_be_bytes 2 src_port)) (\<lambda>buf.
      and_then (get_slice (to_be_bytes 8 (word_of_nat len :: u64)) 6 8) (\<lambda>l.
      and_then (put_slice buf 4 6 l) (\<lambda>buf.
      and_then (put_slice buf 6 8 [0, 0]) (\<lambda>buf.
      Ok (len, buf)))))))"

definition UdpHandler_handle_protocol :: "'h port_op \<Rightarrow> 'h UdpHandler protocol_op" where
  "UdpHandler_handle_protocol handle_port self pkt buf =
     (case Ipv4Packet_payload pkt of
        Err e \<Rightarrow> (Err e, self)
      | Panic \<Rightarrow> (Panic, self)
      | Ok payload \<Rightarrow>
          if length payload < UDP_HDR_SZ then (Err (NotEnoughData (length payload) UDP_HDR_SZ), self)
          else
            let src_port = from_be_bytes [payload ! 0, payload ! 1];
                dst_port = from_be_bytes [payload ! 2, payload ! 3]
            in case port_handlers self dst_port of
                 None \<Rightarrow> (Ok (0, buf), self)
               | Some handler \<Rightarrow>
                   if length buf < 8 then (Panic, self)
                   else case handle_port handler (drop 8 payload) (drop 8 buf) of
                     (r, handler) \<Rightarrow>
                       (and_then r (\<lambda>(len, tl). UdpHandler_finish src_port dst_port len (take 8 buf @ tl)),
                        self\<lparr>port_handlers := (port_handlers self)(dst_port \<mapsto> handler)\<rparr>))"

section \<open>What the handlers promise\<close>

lemma UdpHandler_finish_eq:
  assumes "8 \<le> length buf"
  shows "UdpHandler_finish sp dp len buf =
     Ok (len + 8, to_be_bytes 2 dp @ to_be_bytes 2 sp @ to_be_bytes 2 (word_of_nat (len + 8) :: u16) @ [0, 0] @ drop 8 buf)"
  using assms by (simp add: UdpHandler_finish_def buf_simps Let_def low_be_bytes ucast_word_of_nat del: of_nat_add)

interpretation icmp_handler: protocol_handler IcmpHandler_handle_protocol "\<lambda>_. True"
proof unfold_locales
  fix s :: IcmpHandler and pkt buf n buf' s'
  assume "IcmpHandler_handle_protocol s pkt buf = (Ok (n, buf'), s')"
  then show "n \<le> length buf \<and> length buf' = length buf"
    by (auto simp: IcmpHandler_handle_protocol_def and_then_eq_Ok Let_def put_slice_def ICMP_HDR_SZ_def
        split: if_splits)
qed simp

context port_handler
begin

definition udp_inv :: "'s UdpHandler \<Rightarrow> bool" where
  "udp_inv u \<longleftrightarrow> (\<forall>p h. port_handlers u p = Some h \<longrightarrow> inv h)"

lemma udp_inv_handle:
  assumes "udp_inv u" and "UdpHandler_handle_protocol handle_port u pkt buf = (r, u')"
  shows "udp_inv u'"
proof -
  have keep: "udp_inv (u\<lparr>port_handlers := (port_handlers u)(p \<mapsto> h')\<rparr>)"
    if "port_handlers u p = Some h" "handle_port h d b = (r, h')" for p h h' d b r
    using that(1) assms(1) handle_port_inv [OF _ that(2)] by (auto simp: udp_inv_def)
  show ?thesis
    using assms
    by (auto simp: UdpHandler_handle_protocol_def Let_def
        split: res.splits if_splits option.splits prod.splits intro: keep)
qed

lemma udp_fits:
  assumes "UdpHandler_handle_protocol handle_port u pkt buf = (Ok (n, buf'), u')"
  shows "n \<le> length buf \<and> length buf' = length buf"
  using assms
  by (auto simp: UdpHandler_handle_protocol_def Let_def and_then_eq_Ok UdpHandler_finish_eq
      split: res.splits if_splits option.splits prod.splits dest!: handle_port_fits)

end

sublocale port_handler \<subseteq> udp_handler: protocol_handler "UdpHandler_handle_protocol handle_port" udp_inv
  by unfold_locales (auto dest: udp_inv_handle udp_fits)

text \<open>
  The router answers an echo request. Into a zeroed buffer that is large enough, the ICMP
  handler writes the echo reply to the request: same identifier, sequence number and data, and
  a checksum that verifies whenever the checksum's single fold leaves no carry.
\<close>

lemma IcmpHandler_echo_reply:
  assumes "Ipv4Packet_payload pkt = (Ok payload :: (bytes, ProtocolError) res)"
    and "IcmpPacket_parse payload = Ok \<lparr>icmp_ty = EchoRequest ident seq d\<rparr>"
    and "length payload \<le> n" and "n \<le> 65536"
  shows "\<exists>out. IcmpHandler_handle_protocol h pkt (replicate n 0) = (Ok (length payload, out), h) \<and>
     IcmpPacket_parse (take (length payload) out) = Ok \<lparr>icmp_ty = EchoReply ident seq d\<rparr> \<and>
     (fold_once (wsum (echo_bytes 0 0 ident seq d)) < 65536 \<longrightarrow>
        wsum (take (length payload) out) mod 65535 = 0)"
proof -
  have pl: "8 \<le> length payload" "payload ! 0 = 8" "d = drop 8 payload"
    "ident = from_be_bytes (take 2 (drop 4 payload))" "seq = from_be_bytes (take 2 (drop 6 payload))"
    using assms(2) by (auto simp: IcmpPacket_parse_eq split: if_splits)
  have rest: "drop 4 payload = to_be_bytes 2 ident @ to_be_bytes 2 seq @ d"
  proof -
    have "drop n payload = take 2 (drop n payload) @ drop (n + 2) payload" for n
      by (metis add.commute append_take_drop_id drop_drop)
    from this [of 4] this [of 6] have "drop 4 payload = take 2 (drop 4 payload) @ take 2 (drop 6 payload) @ drop 8 payload"
      by simp
    then show ?thesis using pl by (simp add: to_be_from_be_bytes)
  qed
  let ?zero = "echo_bytes 0 0 ident seq d"
  have len: "length payload = 8 + length d" using pl by simp
  have buf: "take 4 (replicate n 0) @ drop 4 payload @ drop (length payload) (replicate n 0)
      = ?zero @ replicate (n - length payload) (0 :: u8)"
  proof -
    have "replicate 4 (0 :: u8) = [0, 0, 0, 0]" by (simp add: eval_nat_numeral)
    then show ?thesis using assms(3) len by (simp add: rest echo_bytes_def to_be_bytes_zero2 min_def)
  qed
  let ?c = "checksum ?zero"
  have out: "IcmpHandler_handle_protocol h pkt (replicate n 0) =
      (Ok (length payload, echo_bytes 0 ?c ident seq d @ replicate (n - length payload) 0), h)"
  proof -
    have "get_at payload 0 = (Ok 8 :: (u8, ProtocolError) res)" using pl(1,2) by (auto simp: get_at_def)
    moreover have "put_slice (replicate n 0) 4 (length payload) (drop 4 payload) =
        (Ok (?zero @ replicate (n - length payload) 0) :: (bytes, ProtocolError) res)"
      using assms(3) pl(1) by (simp only: put_slice_def buf) simp
    moreover have "put_slice (?zero @ r) 2 4 (to_be_bytes 2 ?c) = (Ok (echo_bytes 0 ?c ident seq d @ r) :: (bytes, ProtocolError) res)"
      for r by (simp add: echo_bytes_def put_slice_def to_be_bytes_2)
    ultimately show ?thesis
      using assms(1) pl(1)
      by (simp add: IcmpHandler_handle_protocol_def ICMP_HDR_SZ_def ICMP_TY_ECHO_REQUEST_def Let_def get_from_in
          checksum_append_zeros)
  qed
  have "wsum (echo_bytes 0 ?c ident seq d) mod 65535 = 0" if "fold_once (wsum ?zero) < 65536"
  proof -
    have "(wsum ?zero + unat ?c) mod 65535 = 0"
      using assms(3,4) len that by (intro checksum_correct_mod) simp_all
    then show ?thesis unfolding wsum_echo_bytes [of 0 ?c ident seq d] .
  qed
  then show ?thesis
    unfolding out using len IcmpPacket_parse_echo_bytes(2) [of ?c ident seq d]
    by (simp add: ICMP_TY_ECHO_REPLY_def)
qed

text \<open>
  The UDP handler answers from the port the datagram was sent to, to the port it came from:
  the answer of the registered port handler behind an eight-byte header with the ports swapped,
  the length of the datagram and no checksum. A port without a handler gets no answer.
\<close>

lemma UdpHandler_answers_sender:
  assumes "Ipv4Packet_payload pkt = (Ok payload :: (bytes, ProtocolError) res)" and "8 \<le> length payload" and "8 \<le> length buf"
  shows "UdpHandler_handle_protocol hp u pkt buf =
     (let sp = from_be_bytes [payload ! 0, payload ! 1] :: u16; dp = from_be_bytes [payload ! 2, payload ! 3]
      in case port_handlers u dp of
           None \<Rightarrow> (Ok (0, buf), u)
         | Some h \<Rightarrow>
             (case hp h (drop 8 payload) (drop 8 buf) of
                (r, h') \<Rightarrow>
                  (and_then r (\<lambda>(n, tl).
                     Ok (n + 8, to_be_bytes 2 dp @ to_be_bytes 2 sp @ to_be_bytes 2 (word_of_nat (n + 8) :: u16) @ [0, 0] @ tl)),
                   u\<lparr>port_handlers := (port_handlers u)(dp \<mapsto> h')\<rparr>)))"
  using assms
  by (simp add: UdpHandler_handle_protocol_def UDP_HDR_SZ_def UdpHandler_finish_eq Let_def split: option.splits prod.splits)

text \<open>
  The echo request is copied into the answer buffer without a check of its size: a request
  that is longer than the buffer (1540 bytes in the router) makes the handler panic.
\<close>

lemma IcmpHandler_long_request_panics:
  assumes "Ipv4Packet_payload pkt = (Ok (8 # rest) :: (bytes, ProtocolError) res)" and "length buf \<le> length rest"
    and "3 \<le> length rest"
  shows "IcmpHandler_handle_protocol h pkt buf = (Panic, h)"
  using assms
  by (simp add: IcmpHandler_handle_protocol_def ICMP_HDR_SZ_def ICMP_TY_ECHO_REQUEST_def get_at_def get_from_def put_slice_def Let_def)

end
