(* ===== verification/Ip_Network.thy ===== *)
theory Ip_Network
  imports Net_Types
begin

text \<open>
  \<^verbatim>\<open>oathgate-net/src/types/netaddress.rs\<close>: an address together with a subnet mask. The
  mask loop, the number of one bits and the address arithmetic are written once for words of
  any length and used at 32 bits (\<open>Ipv4Network\<close>) and 128 bits (\<open>Ipv6Network\<close>).
  The lemmas read the bit operations as arithmetic: a network of mask length \<open>m\<close> is an
  aligned block of \<open>2 ^ (32 - m)\<close> addresses, \<open>contains\<close> is membership in that block, and
  \<open>next\<close> walks through it.
\<close>

section \<open>Masks\<close>

text \<open>
  \<open>for idx in 0..n { subnet = subnet ^ (1 << idx) }\<close>, from all ones. A shift by more than the
  width shifts by the remainder, as the release profile does.
\<close>

definition subnet_loop :: "nat \<Rightarrow> 'a::len word" where
  "subnet_loop n = fold (\<lambda>idx subnet. subnet XOR push_bit (idx mod LENGTH('a)) 1) [0..<n] (- 1)"

definition count_ones :: "'a::len word \<Rightarrow> nat" where
  "count_ones w = length (filter (bit w) [0..<LENGTH('a)])"

lemma subnet_loop_Suc: "subnet_loop (Suc n) = (subnet_loop n :: 'a::len word) XOR push_bit (n mod LENGTH('a)) 1"
  by (simp add: subnet_loop_def)

lemma subnet_loop_eq: "n \<le> LENGTH('a) \<Longrightarrow> subnet_loop n = (NOT (mask n) :: 'a::len word)"
proof (induction n)
  case 0
  then show ?case by (simp add: subnet_loop_def)
next
  case (Suc n)
  then have "subnet_loop n = (NOT (mask n) :: 'a word)" and "n mod LENGTH('a) = n" by simp_all
  then show ?case
    by (intro bit_word_eqI)
       (auto simp: subnet_loop_Suc bit_xor_iff bit_push_bit_iff bit_not_iff bit_mask_iff bit_exp_iff less_Suc_eq)
qed

lemma filter_ge_upt: "filter (\<lambda>i. k \<le> i) [0..<n] = [k..<n]"
  by (induction n) (auto simp: not_le)

lemma count_ones_not_mask: "n \<le> LENGTH('a) \<Longrightarrow> count_ones (NOT (mask n) :: 'a::len word) = LENGTH('a) - n"
proof -
  assume n: "n \<le> LENGTH('a)"
  have "filter (bit (NOT (mask n) :: 'a word)) [0..<LENGTH('a)] = filter (\<lambda>i. n \<le> i) [0..<LENGTH('a)]"
    by (rule filter_cong) (auto simp: bit_not_iff bit_mask_iff)
  then show ?thesis by (simp add: count_ones_def filter_ge_upt)
qed

lemma unat_and_not_mask: "unat (x AND NOT (mask n) :: 'a::len word) = unat x div 2 ^ n * 2 ^ n"
proof -
  have "unat (x AND NOT (mask n)) = push_bit n (drop_bit n (unat x))"
    by (rule bit_eqI)
       (auto simp: bit_unsigned_iff bit_and_iff bit_not_iff bit_mask_iff bit_push_bit_iff bit_drop_bit_eq
             dest: bit_imp_le_length)
  then show ?thesis by (simp add: push_bit_eq_mult drop_bit_eq_div)
qed

lemma unat_mask: "n \<le> LENGTH('a) \<Longrightarrow> unat (mask n :: 'a::len word) = 2 ^ n - 1"
proof -
  assume "n \<le> LENGTH('a)"
  then have "unat (mask n :: 'a word) = mask n"
    by (intro bit_eqI) (auto simp: bit_unsigned_iff bit_mask_iff)
  then show ?thesis by (simp add: mask_eq_exp_minus_1)
qed

lemma unat_or_mask:
  assumes "n \<le> LENGTH('a)"
  shows "unat (x OR mask n :: 'a::len word) = unat x div 2 ^ n * 2 ^ n + (2 ^ n - 1)"
proof -
  have "x OR mask n = (x AND NOT (mask n)) OR mask n"
    by (rule bit_word_eqI) (auto simp: bit_simps)
  also have "\<dots> = (x AND NOT (mask n)) + mask n"
    by (rule disjunctive_add [symmetric]) (auto simp: bit_simps)
  finally have eq: "x OR mask n = (x AND NOT (mask n)) + mask n" .
  have m: "unat (mask n :: 'a word) = 2 ^ n - 1"
    using assms by (rule unat_mask)
  have "unat (x AND NOT (mask n)) + unat (mask n :: 'a word) < 2 ^ LENGTH('a)"
  proof -
    have "unat x < 2 ^ (LENGTH('a) - n) * 2 ^ n"
      using assms unsigned_less [of x, where 'a = nat] by (simp add: power_add [symmetric])
    then have "unat x div 2 ^ n < 2 ^ (LENGTH('a) - n)" by (rule less_mult_imp_div_less)
    then have "(unat x div 2 ^ n + 1) * 2 ^ n \<le> 2 ^ (LENGTH('a) - n) * 2 ^ n"
      by (intro mult_right_mono) simp_all
    also have "\<dots> = 2 ^ LENGTH('a)" using assms by (simp add: power_add [symmetric])
    finally have "unat x div 2 ^ n * 2 ^ n + 2 ^ n \<le> 2 ^ LENGTH('a)" by simp
    moreover have "(2::nat) ^ n - 1 < 2 ^ n" by simp
    ultimately show ?thesis unfolding m unat_and_not_mask by linarith
  qed
  then show ?thesis by (simp add: eq unat_word_ariths m unat_and_not_mask)
qed

section \<open>Blocks of addresses\<close>

lemma same_block_iff:
  "(a AND NOT (mask n) = b AND NOT (mask n)) \<longleftrightarrow> unat a div 2 ^ n = unat (b :: 'a::len word) div 2 ^ n"
  by (simp add: word_unat_eq_iff unat_and_not_mask)

lemma div_eq_iff_range:
  assumes "0 < (k::nat)"
  shows "x div k = q \<longleftrightarrow> q * k \<le> x \<and> x \<le> q * k + (k - 1)"
proof
  assume "x div k = q"
  then have "x = q * k + x mod k" by (metis div_mult_mod_eq)
  moreover have "x mod k \<le> k - 1" using mod_less_divisor [OF assms, of x] by linarith
  ultimately show "q * k \<le> x \<and> x \<le> q * k + (k - 1)" by linarith
next
  assume "q * k \<le> x \<and> x \<le> q * k + (k - 1)"
  then have lo: "k * q \<le> x" and "x < q * k + k" using assms by (auto simp: mult.commute)
  then have "x < k * Suc q" by (simp add: mult.commute)
  with lo show "x div k = q" by (rule div_nat_eqI)
qed

lemma in_block_iff_range:
  assumes "n \<le> LENGTH('a)"
  shows "(a AND NOT (mask n) = b AND NOT (mask n)) \<longleftrightarrow>
           b AND NOT (mask n) \<le> a \<and> a \<le> (b OR mask n :: 'a::len word)"
  using div_eq_iff_range [of "2 ^ n" "unat a" "unat b div 2 ^ n"] assms
  by (simp add: same_block_iff word_le_nat_alt unat_and_not_mask unat_or_mask)

lemma succ_in_block:
  assumes "n \<le> LENGTH('a)" and "a \<noteq> a OR mask n"
  shows "unat (a + 1) = unat a + 1" and "unat (a + 1) div 2 ^ n = unat (a :: 'a::len word) div 2 ^ n"
proof -
  have le: "unat a \<le> unat a div 2 ^ n * 2 ^ n + (2 ^ n - 1)"
    using div_eq_iff_range [of "2 ^ n" "unat a" "unat a div 2 ^ n"] by simp
  with assms have lt: "unat a < unat a div 2 ^ n * 2 ^ n + (2 ^ n - 1)"
    by (metis le_neq_implies_less unat_or_mask word_unat_eq_iff)
  moreover have "unat (a OR mask n) < 2 ^ LENGTH('a)" by (rule unsigned_less)
  ultimately have "unat a + 1 < 2 ^ LENGTH('a)" using assms by (simp add: unat_or_mask)
  then show succ: "unat (a + 1) = unat a + 1" by (simp add: unat_word_ariths)
  show "unat (a + 1) div 2 ^ n = unat a div 2 ^ n"
    unfolding succ using div_eq_iff_range [of "2 ^ n" "unat a + 1" "unat a div 2 ^ n"] lt
    by (simp add: Suc_le_eq) (meson div_times_less_eq_dividend le_SucI)
qed

section \<open>Ipv4Network\<close>

record Ipv4Network =
  ip4 :: ipv4addr
  mask4 :: ipv4addr

definition Ipv4Network_new :: "ipv4addr \<Rightarrow> u8 \<Rightarrow> Ipv4Network" where
  "Ipv4Network_new ip m = \<lparr>ip4 = ip, mask4 = subnet_loop (unat (32 - m))\<rparr>"

definition Ipv4Network_subnet_mask :: "Ipv4Network \<Rightarrow> ipv4addr" where
  "Ipv4Network_subnet_mask self = mask4 self"

definition Ipv4Network_subnet_mask_bits :: "Ipv4Network \<Rightarrow> u8" where
  "Ipv4Network_subnet_mask_bits self = word_of_nat (count_ones (mask4 self))"

definition Ipv4Network_ip :: "Ipv4Network \<Rightarrow> ipv4addr" where
  "Ipv4Network_ip self = ip4 self"

definition Ipv4Network_network :: "Ipv4Network \<Rightarrow> ipv4addr" where
  "Ipv4Network_network self = ip4 self AND mask4 self"

definition Ipv4Network_broadcast :: "Ipv4Network \<Rightarrow> ipv4addr" where
  "Ipv4Network_broadcast self = ip4 self OR NOT (mask4 self)"

definition Ipv4Network_contains :: "Ipv4Network \<Rightarrow> ipv4addr \<Rightarrow> bool" where
  "Ipv4Network_contains self ip \<longleftrightarrow> ip AND mask4 self = Ipv4Network_network self"

definition Ipv4Network_next :: "Ipv4Network \<Rightarrow> Ipv4Network option" where
  "Ipv4Network_next self =
     (let ip = ip4 self + 1
      in if ip = Ipv4Network_network self \<or> ip = Ipv4Network_broadcast self then None
         else Some (Ipv4Network_new ip (Ipv4Network_subnet_mask_bits self)))"

text \<open>\<open>PartialEq<Ipv4Addr>\<close>: a network equals an address when its own address does.\<close>

definition Ipv4Network_eq_addr :: "Ipv4Network \<Rightarrow> ipv4addr \<Rightarrow> bool" where
  "Ipv4Network_eq_addr self other \<longleftrightarrow> ip4 self = other"

section \<open>Ipv6Network\<close>

record Ipv6Network =
  ip6 :: ipv6addr
  mask6 :: ipv6addr

definition Ipv6Network_new :: "ipv6addr \<Rightarrow> u8 \<Rightarrow> Ipv6Network" where
  "Ipv6Network_new ip m = \<lparr>ip6 = ip, mask6 = subnet_loop (unat (128 - m))\<rparr>"

definition Ipv6Network_subnet_mask :: "Ipv6Network \<Rightarrow> ipv6addr" where
  "Ipv6Network_subnet_mask self = mask6 self"

definition Ipv6Network_subnet_mask_bits :: "Ipv6Network \<Rightarrow> u8" where
  "Ipv6Network_subnet_mask_bits self = word_of_nat (count_ones (mask6 self))"

definition Ipv6Network_ip :: "Ipv6Network \<Rightarrow> ipv6addr" where
  "Ipv6Network_ip self = ip6 self"

definition Ipv6Network_network :: "Ipv6Network \<Rightarrow> ipv6addr" where
  "Ipv6Network_network self = ip6 self AND mask6 self"

definition Ipv6Network_broadcast :: "Ipv6Network \<Rightarrow> ipv6addr" where
  "Ipv6Network_broadcast self = ip6 self OR NOT (mask6 self)"

definition Ipv6Network_contains :: "Ipv6Network \<Rightarrow> ipv6addr \<Rightarrow> bool" where
  "Ipv6Network_contains self ip \<longleftrightarrow> ip AND mask6 self = Ipv6Network_network self"

definition Ipv6Network_next :: "Ipv6Network \<Rightarrow> Ipv6Network option" where
  "Ipv6Network_next self =
     (let ip = ip6 self + 1
      in if ip = Ipv6Network_network self \<or> ip = Ipv6Network_broadcast self then None
         else Some (Ipv6Network_new ip (Ipv6Network_subnet_mask_bits self)))"

datatype IpNetwork = IpNetwork_V4 Ipv4Network | IpNetwork_V6 Ipv6Network

section \<open>Text form\<close>

text \<open>\<open>Display\<close> and \<open>FromStr\<close> of \<open>Ipv4Addr\<close>: four decimal octets without leading zeros.\<close>

definition Ipv4Addr_to_string :: "ipv4addr \<Rightarrow> string" where
  "Ipv4Addr_to_string a = join_with (CHR ''.'') (map (\<lambda>b. show_dec (unat b)) (octets4 a))"

definition parse_octet :: "string \<Rightarrow> nat option" where
  "parse_octet s =
     (if s = [] \<or> 3 < length s \<or> (hd s = CHR ''0'' \<and> 1 < length s) then None
      else digits_value 10 255 0 s)"

definition Ipv4Addr_from_str :: "string \<Rightarrow> ipv4addr option" where
  "Ipv4Addr_from_str s =
     (case map parse_octet (split_on (\<lambda>c. c = CHR ''.'') s) of
        [Some a, Some b, Some c, Some d] \<Rightarrow> Some (from_be_bytes (map word_of_nat [a, b, c, d]))
      | _ \<Rightarrow> None)"

definition Ipv4Network_to_string :: "Ipv4Network \<Rightarrow> string" where
  "Ipv4Network_to_string self = Ipv4Addr_to_string (ip4 self) @ ''/'' @ show_dec (count_ones (mask4 self))"

definition Ipv4Network_from_str :: "string \<Rightarrow> (Ipv4Network, string) res" where
  "Ipv4Network_from_str s =
     (case split_on (\<lambda>c. c = CHR ''/'') s of
        [] \<Rightarrow> Err ''missing ip component''
      | ip # rest \<Rightarrow>
          let m = (case rest of [] \<Rightarrow> ''32'' | q # _ \<Rightarrow> q)
          in and_then (ok_or (Ipv4Addr_from_str ip) ''unable to parse ip address'') (\<lambda>ip.
             and_then (ok_or (from_str_radix 10 255 m) ''unable to parse subnet mask'') (\<lambda>m.
             Ok (Ipv4Network_new ip (word_of_nat m)))))"

definition Ipv4Network_visit_str :: "string \<Rightarrow> (Ipv4Network, string) res" where
  "Ipv4Network_visit_str v = Ipv4Network_from_str v"

definition Ipv4Network_serialize :: "Ipv4Network \<Rightarrow> string" where
  "Ipv4Network_serialize self = Ipv4Network_to_string self"

section \<open>Correctness of the address arithmetic\<close>

lemma unat_sub_mask_len: "m \<le> 32 \<Longrightarrow> unat (32 - m :: u8) = 32 - unat m"
  by (simp add: unat_sub)

lemma unat_sub_mask_len6: "m \<le> 128 \<Longrightarrow> unat (128 - m :: u8) = 128 - unat m"
  by (simp add: unat_sub)

lemma mask4_new: "m \<le> 32 \<Longrightarrow> mask4 (Ipv4Network_new ip m) = NOT (mask (32 - unat m))"
  by (simp add: Ipv4Network_new_def subnet_loop_eq unat_sub_mask_len)

lemma ip4_new [simp]: "ip4 (Ipv4Network_new ip m) = ip"
  by (simp add: Ipv4Network_new_def)

lemma ip6_new [simp]: "ip6 (Ipv6Network_new ip m) = ip"
  by (simp add: Ipv6Network_new_def)

lemma mask6_new: "m \<le> 128 \<Longrightarrow> mask6 (Ipv6Network_new ip m) = NOT (mask (128 - unat m))"
  by (simp add: Ipv6Network_new_def subnet_loop_eq unat_sub_mask_len6)

lemma unat_le_of_le: "m \<le> k \<Longrightarrow> unat m \<le> unat (k :: 'a::len word)"
  by (simp add: word_le_nat_alt)

lemma subnet_mask_bits_new: "m \<le> 32 \<Longrightarrow> Ipv4Network_subnet_mask_bits (Ipv4Network_new ip m) = m"
  using unat_le_of_le [of m 32]
  by (simp add: Ipv4Network_subnet_mask_bits_def mask4_new count_ones_not_mask)

lemma subnet_mask_bits_new6: "m \<le> 128 \<Longrightarrow> Ipv6Network_subnet_mask_bits (Ipv6Network_new ip m) = m"
  using unat_le_of_le [of m 128]
  by (simp add: Ipv6Network_subnet_mask_bits_def mask6_new count_ones_not_mask)

text \<open>
  C37: a network built from an address and a mask length of at most 32 contains exactly the
  addresses between its network address and its broadcast address, its own address among
  them, and it reports the mask length it was built with.
\<close>

theorem Ipv4Network_contains_range:
  assumes "m \<le> 32"
  shows "(Ipv4Network_contains (Ipv4Network_new ip m) a \<longleftrightarrow>
            Ipv4Network_network (Ipv4Network_new ip m) \<le> a \<and>
            a \<le> Ipv4Network_broadcast (Ipv4Network_new ip m)) \<and>
         Ipv4Network_contains (Ipv4Network_new ip m) ip \<and>
         Ipv4Network_subnet_mask_bits (Ipv4Network_new ip m) = m"
  using in_block_iff_range [of "32 - unat m" a ip] assms
  by (simp add: Ipv4Network_contains_def Ipv4Network_network_def Ipv4Network_broadcast_def
      mask4_new subnet_mask_bits_new)

theorem Ipv4Network_contains_range_witness:
  "Ipv4Network_contains (Ipv4Network_new 0x0A0A0A01 24) 0x0A0A0A2D \<and>
   \<not> Ipv4Network_contains (Ipv4Network_new 0x0A0A0A01 24) 0x0A0A0B2D"
  using Ipv4Network_contains_range [of 24 "0x0A0A0A01" "0x0A0A0A2D"]
    Ipv4Network_contains_range [of 24 "0x0A0A0A01" "0x0A0A0B2D"]
  by (simp add: Ipv4Network_network_def Ipv4Network_broadcast_def mask4_new mask_eq_exp_minus_1)

lemma network_le_ip:
  assumes "m \<le> 32" shows "Ipv4Network_network (Ipv4Network_new ip m) \<le> ip"
  using in_block_iff_range [of "32 - unat m" ip ip] assms by (simp add: Ipv4Network_network_def mask4_new)

lemma next_new:
  assumes "m \<le> 32"
  shows "Ipv4Network_next (Ipv4Network_new ip m) =
    (if ip + 1 = Ipv4Network_network (Ipv4Network_new ip m) \<or> ip + 1 = Ipv4Network_broadcast (Ipv4Network_new ip m)
     then None else Some (Ipv4Network_new (ip + 1) m))"
  using assms by (simp add: Ipv4Network_next_def Let_def subnet_mask_bits_new)

text \<open>Below the broadcast address \<open>next\<close> steps to the following address of the same network, and stops before the broadcast address.\<close>

lemma Ipv4Network_next_walk:
  assumes "m \<le> 32" and "ip \<noteq> Ipv4Network_broadcast (Ipv4Network_new ip m)"
  shows "Ipv4Network_next (Ipv4Network_new ip m) =
           (if ip + 1 = Ipv4Network_broadcast (Ipv4Network_new ip m) then None
            else Some (Ipv4Network_new (ip + 1) m)) \<and>
         unat (ip + 1) = unat ip + 1 \<and> Ipv4Network_contains (Ipv4Network_new ip m) (ip + 1)"
proof -
  let ?n = "32 - unat m"
  have "ip \<noteq> ip OR mask ?n" using assms by (simp add: Ipv4Network_broadcast_def mask4_new)
  then have succ: "unat (ip + 1) = unat ip + 1" "unat (ip + 1) div 2 ^ ?n = unat ip div 2 ^ ?n"
    using succ_in_block [of ?n ip] by simp_all
  then have "ip + 1 \<noteq> Ipv4Network_network (Ipv4Network_new ip m)"
    using network_le_ip [OF assms(1), of ip] by (auto simp: word_le_nat_alt)
  then show ?thesis
    using assms(1) succ
    by (simp add: next_new Ipv4Network_contains_def Ipv4Network_network_def mask4_new same_block_iff)
qed

text \<open>At mask length 32 every address is its own network, and \<open>next\<close> walks out of it.\<close>

lemma Ipv4Network_next_leaves_host_network:
  "Ipv4Network_next (Ipv4Network_new ip 32) = Some (Ipv4Network_new (ip + 1) 32) \<and>
   \<not> Ipv4Network_contains (Ipv4Network_new ip 32) (ip + 1)"
  by (simp add: next_new Ipv4Network_network_def Ipv4Network_broadcast_def Ipv4Network_contains_def mask4_new)

section \<open>Correctness of the text form\<close>

lemma parse_octet_show_dec:
  assumes "n < 256" shows "parse_octet (show_dec n) = Some n"
proof -
  have "\<not> 3 < length (show_radix 10 n)" using length_show_dec_octet [OF assms] by simp
  moreover have "\<not> (hd (show_radix 10 n) = CHR ''0'' \<and> 1 < length (show_radix 10 n))"
    using hd_show_radix_pos [of 10 n] by (cases "n = 0") (simp_all add: show_radix_small)
  ultimately show ?thesis
    using assms by (simp add: parse_octet_def show_dec_def digits_value_show_radix)
qed

lemma show_dec_chars: "c \<in> set (show_dec n) \<Longrightarrow> c \<noteq> CHR ''.'' \<and> c \<noteq> CHR ''/''"
  using not_in_show_radix [of c 10 n] by (auto simp: show_dec_def)

lemma Ipv4Addr_from_to_string [simp]: "Ipv4Addr_from_str (Ipv4Addr_to_string a) = Some a"
proof -
  obtain b0 b1 b2 b3 where o: "octets4 a = [b0, b1, b2, b3]"
    using length_octets(1) [of a] by (metis length4_conv)
  have "split_on (\<lambda>c. c = CHR ''.'') (Ipv4Addr_to_string a) = map (\<lambda>b. show_dec (unat b)) (octets4 a)"
    unfolding Ipv4Addr_to_string_def by (rule split_on_join_with) (auto simp: o dest: show_dec_chars)
  moreover have "unat b < 256" for b :: u8 using u8_le_255 [of b] by simp
  moreover have "from_be_bytes (octets4 a) = a" by (simp add: octets4_def)
  ultimately show ?thesis by (simp add: Ipv4Addr_from_str_def o parse_octet_show_dec)
qed

lemma Ipv4Addr_to_string_no_slash: "c \<in> set (Ipv4Addr_to_string a) \<Longrightarrow> c \<noteq> CHR ''/''"
proof -
  obtain b0 b1 b2 b3 where o: "octets4 a = [b0, b1, b2, b3]"
    using length_octets(1) [of a] by (metis length4_conv)
  then show "c \<in> set (Ipv4Addr_to_string a) \<Longrightarrow> c \<noteq> CHR ''/''"
    by (auto simp: Ipv4Addr_to_string_def dest: show_dec_chars)
qed

text \<open>
  Writing a network as text (\<open>Display\<close>, \<open>Serialize\<close>) and reading it back (\<open>FromStr\<close>,
  \<open>Deserialize\<close>) gives the same address and mask.
\<close>

lemma Ipv4Network_text_roundtrip:
  assumes "m \<le> 32"
  shows "Ipv4Network_visit_str (Ipv4Network_serialize (Ipv4Network_new ip m)) = Ok (Ipv4Network_new ip m)"
proof -
  let ?ones = "count_ones (mask4 (Ipv4Network_new ip m))" and ?slash = "\<lambda>c. c = CHR ''/''"
  have ones: "?ones = unat m"
    using assms unat_le_of_le [OF assms] by (simp add: mask4_new count_ones_not_mask)
  have "split_on ?slash (Ipv4Network_serialize (Ipv4Network_new ip m)) = [Ipv4Addr_to_string ip, show_dec ?ones]"
    using split_on_word_sep [of "Ipv4Addr_to_string ip" ?slash "CHR ''/''" "show_dec ?ones"]
      split_on_word [of "show_dec ?ones" ?slash]
    by (simp add: Ipv4Network_serialize_def Ipv4Network_to_string_def Ipv4Addr_to_string_no_slash show_dec_chars
        Ball_def del: split_on.simps)
  then show ?thesis
    using u8_le_255 [of m] by (simp add: Ipv4Network_visit_str_def Ipv4Network_from_str_def ones)
qed

end
