(* ===== verification/Dhcp.thy ===== *)
theory Dhcp
  imports Handlers Ip_Network
begin

text \<open>
  The DHCP server, \<^verbatim>\<open>oathgate-bridge/src/net/dhcp.rs\<close>, and its configuration,
  \<^verbatim>\<open>config/dhcp.rs\<close>. DHCP messages belong to the crate \<open>dhcproto\<close>, which is an argument of
  the model (\<open>dhcproto\<close>): decoding and encoding, the default message, the getters the server
  reads and one function that applies a setter. What the server relies on of them is
  \<open>message_laws\<close>.
\<close>

section \<open>Configuration\<close>

record DhcpConfig =
  cfg_start :: ipv4addr
  cfg_end :: ipv4addr

definition DhcpConfig_from_str :: "string \<Rightarrow> (DhcpConfig, string) res" where
  "DhcpConfig_from_str s =
     (let parts = split_on (\<lambda>c. c = CHR ''-'') s in
      case parts of
        [] \<Rightarrow> Err ''start address not specified''
      | [_] \<Rightarrow> Err ''end address not specified''
      | start # end # _ \<Rightarrow>
          and_then (ok_or (Ipv4Addr_from_str start) ''invalid start address'') (\<lambda>start.
          and_then (ok_or (Ipv4Addr_from_str end) ''invalid end address'') (\<lambda>end.
          if end < start then Err ''end address is before start address''
          else Ok \<lparr>cfg_start = start, cfg_end = end\<rparr>)))"

section \<open>Messages of \<open>dhcproto\<close>\<close>

datatype MessageType = Discover | Offer | Request | Decline | Ack | Nak | Release | Inform | OtherType u8

datatype Opcode = BootRequest | BootReply | OtherOpcode u8

datatype DhcpOption =
    OptMessageType MessageType
  | OptAddressLeaseTime u32
  | OptServerIdentifier ipv4addr
  | OptSubnetMask ipv4addr
  | OptBroadcastAddr ipv4addr
  | OptRouter "ipv4addr list"
  | OptDomainNameServer "ipv4addr list"

text \<open>The calls \<open>msg.set_*(..)\<close> and \<open>msg.opts_mut().insert(..)\<close>; \<open>htype\<close> is an abstract type of the crate.\<close>

datatype 'htype setter =
    set_flags u16
  | set_opcode Opcode
  | set_htype 'htype
  | set_xid u32
  | set_yiaddr ipv4addr
  | set_ciaddr ipv4addr
  | set_siaddr ipv4addr
  | set_giaddr ipv4addr
  | set_chaddr bytes
  | opts_insert DhcpOption

record ('m, 'htype) dhcproto =
  decode :: "bytes \<Rightarrow> ('m, string) res"
  encode :: "'m \<Rightarrow> (bytes, string) res"
  default_message :: 'm
  apply_setter :: "'htype setter \<Rightarrow> 'm \<Rightarrow> 'm"
  msg_flags :: "'m \<Rightarrow> u16"
  msg_htype :: "'m \<Rightarrow> 'htype"
  msg_xid :: "'m \<Rightarrow> u32"
  msg_yiaddr :: "'m \<Rightarrow> ipv4addr"
  msg_ciaddr :: "'m \<Rightarrow> ipv4addr"
  msg_giaddr :: "'m \<Rightarrow> ipv4addr"
  msg_chaddr :: "'m \<Rightarrow> bytes"
  opt_requested_ip :: "'m \<Rightarrow> ipv4addr option"
  opts_msg_type :: "'m \<Rightarrow> MessageType option"

section \<open>The server\<close>

record DhcpServer =
  dhcp_network :: Ipv4Network
  lease_time :: u32
  available :: "ipv4addr list"
  leased :: "ipv4addr \<rightharpoonup> MacAddress"

text \<open>The loop of \<open>new\<close> that fills the pool; it does not return when it is undefined (\<open>None\<close>).\<close>

partial_function (option) pool_loop :: "ipv4addr \<Rightarrow> Ipv4Network \<Rightarrow> ipv4addr list \<Rightarrow> ipv4addr list option" where
  "pool_loop end next_avail acc =
     (let acc = acc @ [Ipv4Network_ip next_avail] in
      case Ipv4Network_next next_avail of
        None \<Rightarrow> Some acc
      | Some nxt \<Rightarrow>
          if end < Ipv4Network_ip nxt then Some acc
          else pool_loop end nxt acc)"

definition DhcpServer_new :: "Ipv4Network \<Rightarrow> DhcpConfig \<Rightarrow> DhcpServer option" where
  "DhcpServer_new network cfg =
     (let next_avail = Ipv4Network_new (cfg_start cfg) (Ipv4Network_subnet_mask_bits network)
      in map_option (\<lambda>acc. \<lparr>dhcp_network = network, lease_time = 86400, available = acc, leased = Map.empty\<rparr>)
           (pool_loop (cfg_end cfg) next_avail []))"

definition DhcpServer_get_requested_ip :: "('m, 'htype) dhcproto \<Rightarrow> 'm \<Rightarrow> ipv4addr option" where
  "DhcpServer_get_requested_ip D msg = opt_requested_ip D msg"

text \<open>\<open>VecDeque::pop_front\<close>\<close>

fun pop_front :: "'a list \<Rightarrow> 'a option \<times> 'a list" where
  "pop_front [] = (None, [])"
| "pop_front (x # xs) = (Some x, xs)"

definition DhcpServer_choose :: "DhcpServer \<Rightarrow> MacAddress \<Rightarrow> ipv4addr option \<Rightarrow> ipv4addr option \<times> ipv4addr list" where
  "DhcpServer_choose self client_mac requested =
     (case requested of
        Some ria \<Rightarrow>
          (case leased self ria of
             None \<Rightarrow> (Some ria, filter (\<lambda>ip. ip \<noteq> ria) (available self))
           | Some mac \<Rightarrow>
               if mac = client_mac then (Some ria, filter (\<lambda>ip. ip \<noteq> ria) (available self))
               else pop_front (available self))
      | None \<Rightarrow> pop_front (available self))"

definition DhcpServer_lease_ip ::
  "('m, 'htype) dhcproto \<Rightarrow> DhcpServer \<Rightarrow> 'm \<Rightarrow> (Ipv4Network option, 'e) res \<times> DhcpServer" where
  "DhcpServer_lease_ip D self msg =
     (case MacAddress_parse (msg_chaddr D msg) of
        Ok client_mac \<Rightarrow>
          (case DhcpServer_choose self client_mac (DhcpServer_get_requested_ip D msg) of
             (Some ip, avail) \<Rightarrow>
               (Ok (Some (Ipv4Network_new ip (Ipv4Network_subnet_mask_bits (dhcp_network self)))),
                self\<lparr>available := avail, leased := (leased self)(ip \<mapsto> client_mac)\<rparr>)
           | (None, avail) \<Rightarrow> (Ok None, self\<lparr>available := avail\<rparr>))
      | _ \<Rightarrow> (Panic, self))"

definition DhcpServer_build_message ::
  "('m, 'htype) dhcproto \<Rightarrow> DhcpServer \<Rightarrow> 'm \<Rightarrow> Ipv4Network \<Rightarrow> MessageType \<Rightarrow> 'm" where
  "DhcpServer_build_message D self msg ip ty =
     fold (apply_setter D)
       ([set_flags (msg_flags D msg), set_opcode BootReply, set_htype (msg_htype D msg), set_xid (msg_xid D msg),
         set_yiaddr (Ipv4Network_ip ip)]
        @ (if Ack = ty then [set_ciaddr (msg_ciaddr D msg)] else [])
        @ [set_siaddr (Ipv4Network_ip (dhcp_network self)), set_giaddr (msg_giaddr D msg),
           set_chaddr (msg_chaddr D msg),
           opts_insert (OptMessageType ty),
           opts_insert (OptAddressLeaseTime (lease_time self)),
           opts_insert (OptServerIdentifier (Ipv4Network_ip (dhcp_network self))),
           opts_insert (OptSubnetMask (Ipv4Network_subnet_mask (dhcp_network self))),
           opts_insert (OptBroadcastAddr (Ipv4Network_broadcast (dhcp_network self))),
           opts_insert (OptRouter [Ipv4Network_ip (dhcp_network self)]),
           opts_insert (OptDomainNameServer [0x01010101])])
       (default_message D)"

definition DhcpServer_handle_discover ::
  "('m, 'htype) dhcproto \<Rightarrow> DhcpServer \<Rightarrow> 'm \<Rightarrow> ('m, ProtocolError) res \<times> DhcpServer" where
  "DhcpServer_handle_discover D self msg =
     (case DhcpServer_lease_ip D self msg of
        (r, self) \<Rightarrow>
          (and_then r (\<lambda>ip. case ip of
             Some ip \<Rightarrow> Ok (DhcpServer_build_message D self msg ip Offer)
           | None \<Rightarrow> Err (ProtocolOther ''address space exhausted'')), self))"

definition DhcpServer_handle_request ::
  "('m, 'htype) dhcproto \<Rightarrow> DhcpServer \<Rightarrow> 'm \<Rightarrow> ('m, ProtocolError) res \<times> DhcpServer" where
  "DhcpServer_handle_request D self msg =
     (case DhcpServer_lease_ip D self msg of
        (r, self) \<Rightarrow>
          (and_then r (\<lambda>ip. case ip of
             Some ip \<Rightarrow> Ok (DhcpServer_build_message D self msg ip Ack)
           | None \<Rightarrow> Err (ProtocolOther ''address space exhausted'')), self))"

definition DhcpServer_port :: "DhcpServer \<Rightarrow> u16" where
  "DhcpServer_port self = 67"

text \<open>The bytes \<open>handle_port\<close> encodes into its vector, empty for the messages it ignores.\<close>

definition DhcpServer_answer ::
  "('m, 'htype) dhcproto \<Rightarrow> DhcpServer \<Rightarrow> 'm \<Rightarrow> MessageType \<Rightarrow> (bytes, ProtocolError) res \<times> DhcpServer" where
  "DhcpServer_answer D self msg ty =
     (case ty of
        Discover \<Rightarrow>
          (case DhcpServer_handle_discover D self msg of
             (r, self) \<Rightarrow> (and_then r (\<lambda>m. map_err ProtocolOther (encode D m)), self))
      | Request \<Rightarrow>
          (case DhcpServer_handle_request D self msg of
             (r, self) \<Rightarrow> (and_then r (\<lambda>m. map_err ProtocolOther (encode D m)), self))
      | _ \<Rightarrow> (Ok [], self))"

definition DhcpServer_handle_port :: "('m, 'htype) dhcproto \<Rightarrow> DhcpServer port_op" where
  "DhcpServer_handle_port D self data buf =
     (case map_err ProtocolOther (decode D data) of
        Err e \<Rightarrow> (Err e, self)
      | Panic \<Rightarrow> (Panic, self)
      | Ok msg \<Rightarrow>
          (case opts_msg_type D msg of
             None \<Rightarrow> (Err (ProtocolOther ''dhcp missing msg type''), self)
           | Some ty \<Rightarrow>
               (case DhcpServer_answer D self msg ty of
                  (r, self) \<Rightarrow>
                    (and_then r (\<lambda>vbuf. let len = length vbuf in
                       and_then (put_slice buf 0 len vbuf) (\<lambda>buf. Ok (len, buf))), self))))"

section \<open>The pool\<close>

definition addresses :: "nat \<Rightarrow> nat \<Rightarrow> ipv4addr list" where
  "addresses a b = map word_of_nat [a..<b]"

lemma addresses_Cons: "a < b \<Longrightarrow> addresses a b = word_of_nat a # addresses (Suc a) b"
  by (simp add: addresses_def upt_rec)

lemma distinct_addresses:
  assumes "b \<le> 2 ^ 32" shows "distinct (addresses a b)"
proof -
  have "inj_on (word_of_nat :: nat \<Rightarrow> ipv4addr) {a..<b}"
  proof (rule inj_onI)
    fix x y assume "x \<in> {a..<b}" "y \<in> {a..<b}" "(word_of_nat x :: ipv4addr) = word_of_nat y"
    then have "take_bit 32 x = take_bit 32 y" by (simp add: word_of_nat_eq_iff)
    with \<open>x \<in> {a..<b}\<close> \<open>y \<in> {a..<b}\<close> assms show "x = y" by (simp add: take_bit_nat_eq_self)
  qed
  then show ?thesis by (simp add: addresses_def distinct_map)
qed

lemma broadcast_same_network:
  assumes "m \<le> 32" and "ip \<noteq> Ipv4Network_broadcast (Ipv4Network_new ip m)"
  shows "Ipv4Network_broadcast (Ipv4Network_new (ip + 1) m) = Ipv4Network_broadcast (Ipv4Network_new ip m)"
proof -
  have "ip \<noteq> ip OR mask (32 - unat m)" using assms by (simp add: Ipv4Network_broadcast_def mask4_new)
  from succ_in_block(2) [OF _ this] show ?thesis
    using assms(1) by (simp add: Ipv4Network_broadcast_def mask4_new word_unat_eq_iff unat_or_mask)
qed

lemma ip_le_broadcast: "m \<le> 32 \<Longrightarrow> ip \<le> Ipv4Network_broadcast (Ipv4Network_new ip m)"
  using in_block_iff_range [of "32 - unat m" ip ip] by (simp add: Ipv4Network_broadcast_def mask4_new)

lemma pool_loop_eq:
  assumes "m \<le> 32" and "ip < Ipv4Network_broadcast (Ipv4Network_new ip m)"
  shows "pool_loop end (Ipv4Network_new ip m) acc =
     Some (acc @ addresses (unat ip)
       (max (Suc (unat ip)) (min (Suc (unat end)) (unat (Ipv4Network_broadcast (Ipv4Network_new ip m))))))"
  using assms(2)
proof (induction "unat (Ipv4Network_broadcast (Ipv4Network_new ip m)) - unat ip" arbitrary: ip acc rule: less_induct)
  case less
  let ?B = "\<lambda>ip. Ipv4Network_broadcast (Ipv4Network_new ip m)"
  from less.prems have ne: "ip \<noteq> ?B ip" by simp
  note walk = Ipv4Network_next_walk [OF assms(1) ne] and same = broadcast_same_network [OF assms(1) ne]
  have step: "pool_loop end (Ipv4Network_new ip m) acc =
      (if ip + 1 = ?B ip \<or> end < ip + 1 then Some (acc @ [ip]) else pool_loop end (Ipv4Network_new (ip + 1) m) (acc @ [ip]))"
    by (subst pool_loop.simps) (use walk in \<open>simp add: Ipv4Network_ip_def Let_def\<close>)
  have lt: "unat ip < unat (?B ip)" using less.prems by (simp add: word_less_nat_alt)
  show ?case
  proof (cases "ip + 1 = ?B ip \<or> end < ip + 1")
    case True
    then have "unat (?B ip) = Suc (unat ip) \<or> Suc (unat end) \<le> Suc (unat ip)"
      using walk by (auto simp: word_less_nat_alt)
    then show ?thesis using True lt by (auto simp: step addresses_def max_def min_def word_unat_eq_iff)
  next
    case False
    then have "ip + 1 < ?B (ip + 1)"
      using same ip_le_broadcast [OF assms(1), of "ip + 1"] by (simp add: order_less_le)
    moreover have "unat (?B (ip + 1)) - unat (ip + 1) < unat (?B ip) - unat ip"
      using walk same lt by simp
    ultimately have "pool_loop end (Ipv4Network_new (ip + 1) m) (acc @ [ip]) = Some (acc @ [ip] @ addresses (unat (ip + 1))
        (max (Suc (unat (ip + 1))) (min (Suc (unat end)) (unat (?B ip)))))"
      using less.hyps [of "ip + 1"] same by simp
    moreover have "Suc (unat ip) \<le> unat end" "Suc (unat ip) < unat (?B ip)"
      using False walk \<open>ip + 1 < ?B (ip + 1)\<close> same by (auto simp: word_less_nat_alt not_less)
    then have m: "Suc (Suc (unat ip)) \<le> min (Suc (unat end)) (unat (?B ip))" by simp
    then have "addresses (unat ip) (min (Suc (unat end)) (unat (?B ip)))
        = ip # addresses (Suc (unat ip)) (min (Suc (unat end)) (unat (?B ip)))"
      using addresses_Cons [of "unat ip"] by simp
    moreover have "unat (ip + 1) = Suc (unat ip)" using walk by simp
    ultimately show ?thesis
      using False m max_absorb2 [OF m] max_absorb2 [OF Suc_leD [OF m]] by (simp only: step) simp
  qed
qed

text \<open>
  C36: the address pool. For a start address below the broadcast address of its network the
  loop of \<open>new\<close> ends, and the pool is every address from the start up to the end address or
  the last host address of the network, whichever comes first, in order and without
  duplicates; the start address is in the pool even when the end lies before it.
\<close>

theorem DhcpServer_new_pool:
  assumes "m \<le> 32" and "cfg_start cfg < Ipv4Network_broadcast (Ipv4Network_new (cfg_start cfg) m)"
  shows "\<exists>s. DhcpServer_new (Ipv4Network_new ip m) cfg = Some s \<and> leased s = Map.empty \<and>
     available s = map word_of_nat [unat (cfg_start cfg) ..<
       max (Suc (unat (cfg_start cfg)))
         (min (Suc (unat (cfg_end cfg))) (unat (Ipv4Network_broadcast (Ipv4Network_new (cfg_start cfg) m))))] \<and>
     distinct (available s)"
proof -
  let ?b = "max (Suc (unat (cfg_start cfg)))
    (min (Suc (unat (cfg_end cfg))) (unat (Ipv4Network_broadcast (Ipv4Network_new (cfg_start cfg) m))))"
  have "unat w \<le> 2 ^ 32" "Suc (unat w) \<le> 2 ^ 32" for w :: ipv4addr
    using unsigned_less [of w, where 'a = nat] by auto
  then have "?b \<le> 2 ^ 32" by (simp add: min_le_iff_disj)
  then show ?thesis
    using assms distinct_addresses [of ?b "unat (cfg_start cfg)"]
    by (simp add: DhcpServer_new_def Let_def subnet_mask_bits_new pool_loop_eq addresses_def)
qed

theorem DhcpServer_new_pool_witness:
  "\<exists>s. DhcpServer_new (Ipv4Network_new 0x0A0A0A01 24) \<lparr>cfg_start = 0x0A0A0A64, cfg_end = 0x0A0A0A66\<rparr> = Some s \<and>
     available s = [0x0A0A0A64, 0x0A0A0A65, 0x0A0A0A66]"
  using DhcpServer_new_pool [of 24 "\<lparr>cfg_start = 0x0A0A0A64, cfg_end = 0x0A0A0A66\<rparr>" "0x0A0A0A01"]
  by (auto simp: Ipv4Network_broadcast_def mask4_new mask_eq_exp_minus_1 upt_rec [of _ "Suc _"] upt_conv_Cons)

text \<open>
  With a mask length of 32 and an end address of 255.255.255.255 the loop never ends: every
  address is followed by another, since none is past the end and a one-address network never
  stops \<open>next\<close>.
\<close>

lemma DhcpServer_new_diverges:
  "DhcpServer_new (Ipv4Network_new ip 32) \<lparr>cfg_start = a, cfg_end = 0xFFFFFFFF\<rparr> = None"
proof -
  have "\<not> (e = 0xFFFFFFFF \<and> (\<exists>a. n = Ipv4Network_new a 32))" if "pool_loop e n acc = Some r" for e n acc r
  proof (rule pool_loop.raw_induct [OF _ that], rule notI)
    fix loop e n acc r
    assume IH: "\<And>e n acc r. loop e n acc = Some r \<Longrightarrow> \<not> (e = 0xFFFFFFFF \<and> (\<exists>a. n = Ipv4Network_new a 32))"
      and run: "(let acc = acc @ [Ipv4Network_ip n] in case Ipv4Network_next n of None \<Rightarrow> Some acc
          | Some nxt \<Rightarrow> if e < Ipv4Network_ip nxt then Some acc else loop e nxt acc) = Some r"
      and "e = 0xFFFFFFFF \<and> (\<exists>a. n = Ipv4Network_new a 32)"
    then obtain a where n: "e = 0xFFFFFFFF" "n = Ipv4Network_new a 32" by blast
    have "\<not> (0xFFFFFFFF :: ipv4addr) < w" for w
      using unsigned_less [of w, where 'a = nat] by (simp add: word_less_nat_alt)
    with run n have "loop e (Ipv4Network_new (a + 1) 32) (acc @ [a]) = Some r"
      by (simp add: Ipv4Network_next_leaves_host_network Ipv4Network_ip_def Let_def)
    from IH [OF this] n show False by blast
  qed
  then have "pool_loop 0xFFFFFFFF (Ipv4Network_new a 32) acc = None" for acc
    by (cases "pool_loop 0xFFFFFFFF (Ipv4Network_new a 32) acc") blast+
  then show ?thesis by (simp add: DhcpServer_new_def subnet_mask_bits_new Let_def)
qed

section \<open>Leases\<close>

text \<open>The addresses still to be given out are distinct and none of them is leased.\<close>

definition dhcp_inv :: "DhcpServer \<Rightarrow> bool" where
  "dhcp_inv s \<longleftrightarrow> distinct (available s) \<and> set (available s) \<inter> dom (leased s) = {}"

lemma choose_spec:
  assumes "dhcp_inv s" and "DhcpServer_choose s mac req = (r, avail)"
  shows "distinct avail \<and> set avail \<subseteq> set (available s) \<and>
     (case r of None \<Rightarrow> avail = [] \<and> available s = []
      | Some ip \<Rightarrow> ip \<notin> set avail \<and> (leased s ip = None \<or> leased s ip = Some mac) \<and>
                   (ip \<in> set (available s) \<or> req = Some ip))"
proof -
  have pop: "r = None \<and> avail = [] \<and> available s = [] \<or>
      (\<exists>ip. r = Some ip \<and> available s = ip # avail)" if "pop_front (available s) = (r, avail)"
    using that by (cases "available s") auto
  show ?thesis
    using assms pop
    by (auto simp: DhcpServer_choose_def dhcp_inv_def split: option.splits if_splits)
qed

lemma lease_ip_step:
  assumes "dhcp_inv s" and "DhcpServer_lease_ip D s msg = (r, s')"
  shows "dhcp_inv s'" and "leased s \<subseteq>\<^sub>m leased s'"
    and "r = Ok (Some n) \<Longrightarrow> \<exists>mac. MacAddress_parse (msg_chaddr D msg) = Ok mac \<and>
           leased s' = (leased s)(ip4 n \<mapsto> mac)"
proof -
  have step: "dhcp_inv s' \<and> leased s \<subseteq>\<^sub>m leased s' \<and>
     (r = Ok (Some n) \<longrightarrow> (\<exists>mac. MacAddress_parse (msg_chaddr D msg) = Ok mac \<and> leased s' = (leased s)(ip4 n \<mapsto> mac)))"
  proof (cases "MacAddress_parse (msg_chaddr D msg)")
    case (Ok mac)
    obtain q avail where c: "DhcpServer_choose s mac (DhcpServer_get_requested_ip D msg) = (q, avail)" by fastforce
    have "\<forall>x \<in> set avail. leased s x = None" using choose_spec [OF assms(1) c] assms(1) by (auto simp: dhcp_inv_def)
    with choose_spec [OF assms(1) c] show ?thesis
      using assms(2) Ok c
      by (auto simp: DhcpServer_lease_ip_def dhcp_inv_def map_le_def split: option.splits if_splits)
  qed (use assms in \<open>auto simp: DhcpServer_lease_ip_def\<close>)
  then show "dhcp_inv s'" "leased s \<subseteq>\<^sub>m leased s'"
    "r = Ok (Some n) \<Longrightarrow> \<exists>mac. MacAddress_parse (msg_chaddr D msg) = Ok mac \<and> leased s' = (leased s)(ip4 n \<mapsto> mac)"
    by blast+
qed

lemma answer_step:
  assumes "dhcp_inv s" and "DhcpServer_answer D s msg ty = (r, s')"
  shows "dhcp_inv s' \<and> leased s \<subseteq>\<^sub>m leased s'"
  using assms
  by (auto simp: DhcpServer_answer_def DhcpServer_handle_discover_def DhcpServer_handle_request_def
      split: MessageType.splits prod.splits dest: lease_ip_step(1,2))

lemma handle_port_step:
  assumes "dhcp_inv s" and "DhcpServer_handle_port D s data buf = (r, s')"
  shows "dhcp_inv s' \<and> leased s \<subseteq>\<^sub>m leased s'"
  using assms
  by (auto simp: DhcpServer_handle_port_def split: res.splits option.splits prod.splits dest: answer_step)

text \<open>The server keeps its invariant and any set of leases it once gave.\<close>

interpretation dhcp: port_handler "DhcpServer_handle_port D" "\<lambda>s. dhcp_inv s \<and> L \<subseteq>\<^sub>m leased s" for D L
proof unfold_locales
  fix s data buf r s'
  assume "dhcp_inv s \<and> L \<subseteq>\<^sub>m leased s" "DhcpServer_handle_port D s data buf = (r, s')"
  then show "dhcp_inv s' \<and> L \<subseteq>\<^sub>m leased s'" using handle_port_step [of s D data buf r s'] by (blast intro: map_le_trans)
next
  fix s data buf n buf' s'
  assume "DhcpServer_handle_port D s data buf = (Ok (n, buf'), s')"
  then show "n \<le> length buf \<and> length buf' = length buf"
    by (auto simp: DhcpServer_handle_port_def and_then_eq_Ok Let_def put_slice_def
        split: res.splits option.splits prod.splits if_splits)
qed

lemma new_dhcp_inv:
  assumes "m \<le> 32" and "cfg_start cfg < Ipv4Network_broadcast (Ipv4Network_new (cfg_start cfg) m)"
    and "DhcpServer_new (Ipv4Network_new ip m) cfg = Some s"
  shows "dhcp_inv s"
proof -
  have "unat w \<le> 2 ^ 32" "Suc (unat w) \<le> 2 ^ 32" for w :: ipv4addr
    using unsigned_less [of w, where 'a = nat] by auto
  then have "distinct (addresses (unat (cfg_start cfg)) (max (Suc (unat (cfg_start cfg)))
    (min (Suc (unat (cfg_end cfg))) (unat (Ipv4Network_broadcast (Ipv4Network_new (cfg_start cfg) m))))))"
    by (intro distinct_addresses) (simp add: min_le_iff_disj)
  with assms show ?thesis
    by (auto simp: DhcpServer_new_def Let_def subnet_mask_bits_new pool_loop_eq dhcp_inv_def)
qed

text \<open>
  A lease is never taken away or given to another client. From a fresh server on, whatever
  datagrams arrive and whatever \<open>handle_port\<close> answers to them (errors included), every address
  that was leased to a client stays leased to that client, and no leased address is in the
  pool.
\<close>

lemma DhcpServer_leases_kept:
  assumes "DhcpServer_new network cfg = Some s0" and "distinct (available s0)"
    and "s1 = foldl (\<lambda>s (data, buf). snd (DhcpServer_handle_port D s data buf)) s0 before"
    and "s2 = foldl (\<lambda>s (data, buf). snd (DhcpServer_handle_port D s data buf)) s1 after"
  shows "leased s1 \<subseteq>\<^sub>m leased s2 \<and> set (available s2) \<inter> dom (leased s2) = {}"
proof -
  let ?run = "foldl (\<lambda>s (data, buf). snd (DhcpServer_handle_port D s data buf))"
  have run: "dhcp_inv (?run s ds) \<and> leased s \<subseteq>\<^sub>m leased (?run s ds)" if "dhcp_inv s" for s ds
    using that
  proof (induction ds arbitrary: s)
    case (Cons d ds)
    obtain data buf where d: "d = (data, buf)" by fastforce
    obtain r s' where s': "DhcpServer_handle_port D s data buf = (r, s')" by fastforce
    from handle_port_step [OF Cons.prems s'] Cons.IH [of s'] show ?case
      using d s' by (auto intro: map_le_trans)
  qed simp
  have "dhcp_inv s0"
    using assms(1,2) by (auto simp: DhcpServer_new_def Let_def dhcp_inv_def)
  then show ?thesis using run [of s0 before] run [of s1 after] assms(3,4) by (auto simp: dhcp_inv_def)
qed

text \<open>An instance of the crate to evaluate the properties at: messages with just the fields the server uses.\<close>

record sample_message =
  sm_xid :: u32
  sm_yiaddr :: ipv4addr
  sm_chaddr :: bytes
  sm_requested :: "ipv4addr option"
  sm_type :: "MessageType option"

fun sample_setter :: "unit setter \<Rightarrow> sample_message \<Rightarrow> sample_message" where
  "sample_setter (set_xid x) m = m\<lparr>sm_xid := x\<rparr>"
| "sample_setter (set_yiaddr a) m = m\<lparr>sm_yiaddr := a\<rparr>"
| "sample_setter (set_chaddr c) m = m\<lparr>sm_chaddr := c\<rparr>"
| "sample_setter (opts_insert (OptMessageType t)) m = m\<lparr>sm_type := Some t\<rparr>"
| "sample_setter _ m = m"

definition sample_msg :: "MessageType \<Rightarrow> u8 \<Rightarrow> ipv4addr option \<Rightarrow> sample_message" where
  "sample_msg ty host req =
     \<lparr>sm_xid = 77, sm_yiaddr = 0, sm_chaddr = [2, 0, 0, 0, 0, host], sm_requested = req, sm_type = Some ty\<rparr>"

text \<open>One byte stands for a \<open>Discover\<close> of the host with that number, two for a \<open>Request\<close> of an address.\<close>

definition sample_dhcproto :: "(sample_message, unit) dhcproto" where
  "sample_dhcproto =
     \<lparr>decode = (\<lambda>b. case b of [h] \<Rightarrow> Ok (sample_msg Discover h None)
        | [h, a] \<Rightarrow> Ok (sample_msg Request h (Some (0x0A0A0A00 + ucast a))) | _ \<Rightarrow> Err []),
      encode = (\<lambda>m. Ok (octets4 (sm_yiaddr m))), default_message = \<lparr>sm_xid = 0, sm_yiaddr = 0, sm_chaddr = [], sm_requested = None, sm_type = None\<rparr>,
      apply_setter = sample_setter, msg_flags = (\<lambda>_. 0), msg_htype = (\<lambda>_. ()), msg_xid = sm_xid, msg_yiaddr = sm_yiaddr,
      msg_ciaddr = (\<lambda>_. 0), msg_giaddr = (\<lambda>_. 0), msg_chaddr = sm_chaddr, opt_requested_ip = sm_requested,
      opts_msg_type = sm_type\<rparr>"

definition sample_server :: DhcpServer where
  "sample_server = \<lparr>dhcp_network = Ipv4Network_new 0x0A0A0A01 24, lease_time = 86400,
     available = [0x0A0A0A64, 0x0A0A0A65, 0x0A0A0A66], leased = Map.empty\<rparr>"

lemma sample_server_new:
  "DhcpServer_new (Ipv4Network_new 0x0A0A0A01 24) \<lparr>cfg_start = 0x0A0A0A64, cfg_end = 0x0A0A0A66\<rparr> = Some sample_server"
  by (simp add: DhcpServer_new_def sample_server_def subnet_mask_bits_new pool_loop_eq Let_def
      Ipv4Network_broadcast_def mask4_new mask_eq_exp_minus_1 addresses_def upt_conv_Cons)

section \<open>Answers\<close>

text \<open>What the server relies on of \<open>dhcproto\<close>: a getter returns what its setter stored last.\<close>

definition message_laws :: "('m, 'htype) dhcproto \<Rightarrow> bool" where
  "message_laws D \<longleftrightarrow>
     (\<forall>s m. msg_xid D (apply_setter D s m) = (case s of set_xid x \<Rightarrow> x | _ \<Rightarrow> msg_xid D m) \<and>
            msg_yiaddr D (apply_setter D s m) = (case s of set_yiaddr a \<Rightarrow> a | _ \<Rightarrow> msg_yiaddr D m) \<and>
            msg_chaddr D (apply_setter D s m) = (case s of set_chaddr c \<Rightarrow> c | _ \<Rightarrow> msg_chaddr D m) \<and>
            opts_msg_type D (apply_setter D s m) =
              (case s of opts_insert (OptMessageType t) \<Rightarrow> Some t | _ \<Rightarrow> opts_msg_type D m))"

lemma build_message_fields:
  assumes "message_laws D"
  shows "msg_xid D (DhcpServer_build_message D s msg ip ty) = msg_xid D msg"
    "msg_yiaddr D (DhcpServer_build_message D s msg ip ty) = ip4 ip"
    "msg_chaddr D (DhcpServer_build_message D s msg ip ty) = msg_chaddr D msg"
    "opts_msg_type D (DhcpServer_build_message D s msg ip ty) = Some ty"
  using assms by (simp_all add: DhcpServer_build_message_def message_laws_def Ipv4Network_ip_def)

lemma sample_laws: "message_laws sample_dhcproto"
  unfolding message_laws_def
proof (intro allI)
  fix s :: "unit setter" and m :: sample_message
  show "msg_xid sample_dhcproto (apply_setter sample_dhcproto s m) = (case s of set_xid x \<Rightarrow> x | _ \<Rightarrow> msg_xid sample_dhcproto m) \<and>
    msg_yiaddr sample_dhcproto (apply_setter sample_dhcproto s m) = (case s of set_yiaddr a \<Rightarrow> a | _ \<Rightarrow> msg_yiaddr sample_dhcproto m) \<and>
    msg_chaddr sample_dhcproto (apply_setter sample_dhcproto s m) = (case s of set_chaddr c \<Rightarrow> c | _ \<Rightarrow> msg_chaddr sample_dhcproto m) \<and>
    opts_msg_type sample_dhcproto (apply_setter sample_dhcproto s m) =
      (case s of opts_insert (OptMessageType t) \<Rightarrow> Some t | _ \<Rightarrow> opts_msg_type sample_dhcproto m)"
    by (cases "(s, m)" rule: sample_setter.cases) (simp_all add: sample_dhcproto_def)
qed

text \<open>
  C13: the four-message exchange completes. When \<open>handle_discover\<close> answers with an offer and the
  client then requests the offered address, \<open>handle_request\<close> answers, from any later state that
  still has the lease, with an acknowledgement of that same address, addressed to the client.
\<close>

theorem DhcpServer_offer_then_ack:
  assumes "message_laws D" and "DhcpServer_handle_discover D s m1 = (Ok offer, s1)" and "leased s1 \<subseteq>\<^sub>m leased s2"
    and "msg_chaddr D m2 = msg_chaddr D m1" and "opt_requested_ip D m2 = Some (msg_yiaddr D offer)"
  shows "\<exists>ack s3. DhcpServer_handle_request D s2 m2 = (Ok ack, s3) \<and> msg_yiaddr D ack = msg_yiaddr D offer \<and>
           opts_msg_type D ack = Some Ack \<and> msg_xid D ack = msg_xid D m2 \<and> msg_chaddr D ack = msg_chaddr D m1"
proof -
  obtain mac ip where mac: "MacAddress_parse (msg_chaddr D m1) = Ok mac"
    and offer: "offer = DhcpServer_build_message D s1 m1 (Ipv4Network_new ip (Ipv4Network_subnet_mask_bits (dhcp_network s))) Offer"
    and lease: "leased s1 ip = Some mac"
    using assms(2)
    by (auto simp: DhcpServer_handle_discover_def DhcpServer_lease_ip_def split: res.splits prod.splits option.splits)
  have "leased s2 ip = Some mac" using lease assms(3) by (auto simp: map_le_def dom_def)
  then show ?thesis
    using assms(4,5) mac build_message_fields [OF assms(1)]
    by (simp add: offer DhcpServer_handle_request_def DhcpServer_lease_ip_def DhcpServer_get_requested_ip_def
        DhcpServer_choose_def)
qed

theorem DhcpServer_offer_then_ack_witness:
  "\<exists>offer s1 ack s3. DhcpServer_handle_discover sample_dhcproto sample_server (sample_msg Discover 7 None) = (Ok offer, s1) \<and>
     DhcpServer_handle_request sample_dhcproto s1 (sample_msg Request 7 (Some (msg_yiaddr sample_dhcproto offer))) = (Ok ack, s3) \<and>
     msg_yiaddr sample_dhcproto ack = msg_yiaddr sample_dhcproto offer \<and> opts_msg_type sample_dhcproto ack = Some Ack"
proof -
  have mac: "MacAddress_parse [2, 0, 0, 0, 0, 7] = Ok (MacAddress 2 0 0 0 0 7)"
    by (simp add: MacAddress_parse_def get_slice_def)
  obtain offer s1 where o: "DhcpServer_handle_discover sample_dhcproto sample_server (sample_msg Discover 7 None) = (Ok offer, s1)"
    by (simp add: DhcpServer_handle_discover_def DhcpServer_lease_ip_def sample_dhcproto_def sample_msg_def mac
        DhcpServer_get_requested_ip_def DhcpServer_choose_def sample_server_def)
  have "msg_chaddr sample_dhcproto (sample_msg Request 7 r) = msg_chaddr sample_dhcproto (sample_msg Discover 7 None)"
    "opt_requested_ip sample_dhcproto (sample_msg Request 7 r) = r" for r
    by (simp_all add: sample_dhcproto_def sample_msg_def)
  with DhcpServer_offer_then_ack [OF sample_laws o, of s1 "sample_msg Request 7 (Some (msg_yiaddr sample_dhcproto offer))"] o
  show ?thesis by auto
qed

text \<open>
  The server hands out whatever unleased address a client asks for, in its pool and in its
  network or not; the pool is only consulted when the client asks for nothing or for an address
  leased to somebody else.
\<close>

lemma DhcpServer_grants_requested_address:
  assumes "6 \<le> length (msg_chaddr D msg)" and "opt_requested_ip D msg = Some ip" and "leased s ip = None"
  shows "\<exists>s'. DhcpServer_lease_ip D s msg =
           ((Ok (Some (Ipv4Network_new ip (Ipv4Network_subnet_mask_bits (dhcp_network s)))) :: (Ipv4Network option, 'e) res), s') \<and>
         ip \<in> dom (leased s')"
  using assms MacAddress_parse_Ok [of "msg_chaddr D msg"]
  by (auto simp: DhcpServer_lease_ip_def DhcpServer_get_requested_ip_def DhcpServer_choose_def)

end
