(* ===== verification/Arp.thy ===== *)
theory Arp
  imports Wire_Format
begin

text \<open>
  ARP packets, \<^verbatim>\<open>oathgate-net/src/protocols/arp.rs\<close>. The IPv4 form interprets the wire format;
  the outcome of the parser is characterised on every input, the panics on a large protocol
  address length included.
\<close>

definition ARP4_PKT_SIZE :: nat where "ARP4_PKT_SIZE = 28"
definition ARP6_PKT_SIZE :: nat where "ARP6_PKT_SIZE = 52"

record ArpPacket =
  hardware_type :: u16
  protocol_type :: EtherType
  hardware_len :: u8
  protocol_len :: u8
  operation :: u16
  sha :: MacAddress
  spa :: IpAddr
  tha :: MacAddress
  tpa :: IpAddr

text \<open>The messages of the errors of \<open>parse\<close>, then its two address fields.\<close>

definition ArpPacket_bad_protocol :: "EtherType \<Rightarrow> u8 \<Rightarrow> string" where
  "ArpPacket_bad_protocol ptype plen =
     (case ptype of
        IPv4 \<Rightarrow> ''protocol type (ipv4) does not have expected length (4), has length '' @ show_dec (unat plen)
      | IPv6 \<Rightarrow> ''protocol type (ipv6) does not have expected length (16), has length '' @ show_dec (unat plen)
      | ARP \<Rightarrow> ''invalid ethertype for ARP packet: '' @ EtherType_debug ptype)"

definition ArpPacket_bad_hardware :: "u16 \<Rightarrow> u8 \<Rightarrow> string" where
  "ArpPacket_bad_hardware htype hlen =
     (if htype = 1 then
        ''hardware type (ethernet) does have expected length (6), has length '' @ show_dec (unat hlen)
      else ''unknown hardware type: 0x'' @ show_hex_pad 4 (unat htype))"

definition ArpPacket_addresses ::
  "bytes \<Rightarrow> EtherType \<Rightarrow> u8 \<Rightarrow> nat \<Rightarrow> nat \<Rightarrow> nat \<Rightarrow> nat \<Rightarrow> (IpAddr \<times> IpAddr, ProtocolError) res" where
  "ArpPacket_addresses b ptype plen spa_start spa_end tpa_start tpa_end =
     (if ptype = IPv4 \<and> plen = 4 then
        and_then (get_slice b spa_start spa_end) (\<lambda>s. and_then (cast_be 4 s) (\<lambda>spa.
        and_then (get_slice b tpa_start tpa_end) (\<lambda>s. and_then (cast_be 4 s) (\<lambda>tpa.
        Ok (V4 spa, V4 tpa)))))
      else if ptype = IPv6 \<and> plen = 16 then
        and_then (get_slice b spa_start spa_end) (\<lambda>s. and_then (cast_be 16 s) (\<lambda>spa.
        and_then (get_slice b tpa_start tpa_end) (\<lambda>s. and_then (cast_be 16 s) (\<lambda>tpa.
        Ok (V6 spa, V6 tpa)))))
      else Err (MalformedPacket (ArpPacket_bad_protocol ptype plen)))"

definition ArpPacket_parse :: "bytes \<Rightarrow> (ArpPacket, ProtocolError) res" where
  "ArpPacket_parse b =
     (if length b < 28 then Err (NotEnoughData (length b) 28)
      else
        and_then (get_slice b 0 2) (\<lambda>s. and_then (cast_be 2 s) (\<lambda>htype.
        and_then (get_slice b 2 4) (\<lambda>s. and_then (EtherType_try_from s) (\<lambda>ptype.
        and_then (get_at b 4) (\<lambda>hlen.
        and_then (get_at b 5) (\<lambda>plen.
        and_then (get_slice b 6 8) (\<lambda>s. and_then (cast_be 2 s) (\<lambda>oper.
        if htype = 1 \<and> hlen = 6 then
          let hlu = unat hlen; plu = unat plen;
              sha_start = 8; sha_end = sha_start + hlu;
              spa_start = sha_end; spa_end = spa_start + plu;
              tha_start = spa_end; tha_end = tha_start + hlu;
              tpa_start = tha_end; tpa_end = tpa_start + plu
          in and_then (get_slice b sha_start sha_end) (\<lambda>s. and_then (MacAddress_parse s) (\<lambda>sha.
             and_then (get_slice b tha_start tha_end) (\<lambda>s. and_then (MacAddress_parse s) (\<lambda>tha.
             and_then (ArpPacket_addresses b ptype plen spa_start spa_end tpa_start tpa_end) (\<lambda>(spa, tpa).
             Ok \<lparr>hardware_type = htype, protocol_type = ptype, hardware_len = hlen, protocol_len = plen,
                 operation = oper, sha = sha, spa = spa, tha = tha, tpa = tpa\<rparr>)))))
        else Err (MalformedPacket (ArpPacket_bad_hardware htype hlen)))))))))))"

definition ArpPacket_to_reply :: "ArpPacket \<Rightarrow> MacAddress \<Rightarrow> ArpPacket" where
  "ArpPacket_to_reply self mac =
     self\<lparr>tpa := spa self, tha := sha self, spa := tpa self, sha := mac, operation := 2\<rparr>"

definition ArpPacket_size :: "ArpPacket \<Rightarrow> nat" where
  "ArpPacket_size self =
     (case (spa self, tpa self) of
        (V4 _, V4 _) \<Rightarrow> ARP4_PKT_SIZE
      | (V6 _, V6 _) \<Rightarrow> ARP6_PKT_SIZE
      | _ \<Rightarrow> 0)"

definition ArpPacket_as_bytes :: "ArpPacket \<Rightarrow> bytes \<Rightarrow> (bytes, 'e) res" where
  "ArpPacket_as_bytes self pkt =
     and_then (put_slice pkt 0 2 (to_be_bytes 2 (hardware_type self))) (\<lambda>pkt.
     and_then (put_slice pkt 2 4 (to_be_bytes 2 (EtherType_as_u16 (protocol_type self)))) (\<lambda>pkt.
     and_then (put_at pkt 4 (hardware_len self)) (\<lambda>pkt.
     and_then (put_at pkt 5 (protocol_len self)) (\<lambda>pkt.
     and_then (put_slice pkt 6 8 (to_be_bytes 2 (operation self))) (\<lambda>pkt.
     and_then (put_slice pkt 8 14 (MacAddress_as_bytes (sha self))) (\<lambda>pkt.
     case (spa self, tpa self) of
       (V4 s, V4 t) \<Rightarrow>
         and_then (put_slice pkt 14 18 (octets4 s)) (\<lambda>pkt.
         and_then (put_slice pkt 18 24 (MacAddress_as_bytes (tha self))) (\<lambda>pkt.
         put_slice pkt 24 28 (octets4 t)))
     | (V6 s, V6 t) \<Rightarrow>
         and_then (put_slice pkt 14 30 (octets6 s)) (\<lambda>pkt.
         and_then (put_slice pkt 30 36 (MacAddress_as_bytes (tha self))) (\<lambda>pkt.
         put_slice pkt 36 52 (octets6 t)))
     | _ \<Rightarrow> Ok pkt))))))"

section \<open>The packet as bytes\<close>

fun IpAddr_octets :: "IpAddr \<Rightarrow> bytes" where
  "IpAddr_octets (V4 a) = octets4 a"
| "IpAddr_octets (V6 a) = octets6 a"

definition arp_bytes :: "ArpPacket \<Rightarrow> bytes" where
  "arp_bytes a =
     to_be_bytes 2 (hardware_type a) @ to_be_bytes 2 (EtherType_as_u16 (protocol_type a))
     @ [hardware_len a, protocol_len a] @ to_be_bytes 2 (operation a)
     @ MacAddress_as_bytes (sha a) @ IpAddr_octets (spa a) @ MacAddress_as_bytes (tha a) @ IpAddr_octets (tpa a)"

text \<open>The packets the parser can return: Ethernet with IPv4, and Ethernet with IPv6.\<close>

definition arp4_wf :: "ArpPacket \<Rightarrow> bool" where
  "arp4_wf a \<longleftrightarrow> hardware_type a = 1 \<and> hardware_len a = 6 \<and> protocol_type a = IPv4 \<and> protocol_len a = 4 \<and>
     (\<exists>s t. spa a = V4 s \<and> tpa a = V4 t)"

definition arp6_wf :: "ArpPacket \<Rightarrow> bool" where
  "arp6_wf a \<longleftrightarrow> hardware_type a = 1 \<and> hardware_len a = 6 \<and> protocol_type a = IPv6 \<and> protocol_len a = 16 \<and>
     (\<exists>s t. spa a = V6 s \<and> tpa a = V6 t)"

lemma length_arp_bytes: "arp4_wf a \<Longrightarrow> length (arp_bytes a) = 28" "arp6_wf a \<Longrightarrow> length (arp_bytes a) = 52"
  by (auto simp: arp_bytes_def arp4_wf_def arp6_wf_def)

lemma ArpPacket_size_wf: "arp4_wf a \<Longrightarrow> ArpPacket_size a = 28" "arp6_wf a \<Longrightarrow> ArpPacket_size a = 52"
  by (auto simp: ArpPacket_size_def arp4_wf_def arp6_wf_def ARP4_PKT_SIZE_def ARP6_PKT_SIZE_def)

lemma ArpPacket_as_bytes_eq:
  assumes "arp4_wf a \<or> arp6_wf a" and "ArpPacket_size a \<le> length pkt"
  shows "ArpPacket_as_bytes a pkt = Ok (arp_bytes a @ drop (ArpPacket_size a) pkt)"
  using assms
  by (auto simp: ArpPacket_as_bytes_def arp_bytes_def arp4_wf_def arp6_wf_def ArpPacket_size_def ARP4_PKT_SIZE_def
      ARP6_PKT_SIZE_def buf_simps)

lemma octets_back [simp]: "from_be_bytes (octets4 a) = a" "from_be_bytes (octets6 b) = b"
  by (simp_all add: octets4_def octets6_def)

text \<open>The part of \<open>parse\<close> behind its checks, with the offsets for six-byte hardware addresses.\<close>

definition arp_body :: "bytes \<Rightarrow> EtherType \<Rightarrow> (ArpPacket, ProtocolError) res" where
  "arp_body b ptype =
     (let plu = unat (b ! 5) in
      if length b < 20 + plu then Panic
      else and_then (MacAddress_parse (take 6 (drop 8 b))) (\<lambda>sha.
           and_then (MacAddress_parse (take 6 (drop (14 + plu) b))) (\<lambda>tha.
           and_then (ArpPacket_addresses b ptype (b ! 5) 14 (14 + plu) (20 + plu) (20 + plu + plu)) (\<lambda>(spa, tpa).
           Ok \<lparr>hardware_type = 1, protocol_type = ptype, hardware_len = 6, protocol_len = b ! 5,
               operation = from_be_bytes (take 2 (drop 6 b)), sha = sha, spa = spa, tha = tha, tpa = tpa\<rparr>))))"

lemma ArpPacket_parse_eq:
  assumes "28 \<le> length b"
  shows "ArpPacket_parse b =
     and_then (EtherType_try_from_u16 (from_be_bytes (take 2 (drop 2 b)))) (\<lambda>ptype.
       if from_be_bytes (take 2 b) = (1 :: u16) \<and> b ! 4 = 6 then arp_body b ptype
       else Err (MalformedPacket (ArpPacket_bad_hardware (from_be_bytes (take 2 b)) (b ! 4))))"
proof -
  have sha: "get_slice b 8 14 = (Ok (take 6 (drop 8 b)) :: (bytes, ProtocolError) res)"
    using assms by (simp add: buf_simps)
  have tha: "get_slice b (14 + n) (20 + n) =
      (if length b < 20 + n then Panic else Ok (take 6 (drop (14 + n) b)) :: (bytes, ProtocolError) res)" for n
    by (simp add: get_slice_def)
  obtain m where m: "MacAddress_parse (take 6 (drop 8 b)) = Ok m"
    using MacAddress_parse_Ok [of "take 6 (drop 8 b)"] assms by auto
  have "arp_body b ptype = and_then (get_slice b 8 14) (\<lambda>s. and_then (MacAddress_parse s) (\<lambda>sha.
      and_then (get_slice b (14 + unat (b ! 5)) (20 + unat (b ! 5))) (\<lambda>s. and_then (MacAddress_parse s) (\<lambda>tha.
      and_then (ArpPacket_addresses b ptype (b ! 5) 14 (14 + unat (b ! 5)) (20 + unat (b ! 5))
        (20 + unat (b ! 5) + unat (b ! 5))) (\<lambda>(spa, tpa).
      Ok \<lparr>hardware_type = 1, protocol_type = ptype, hardware_len = 6, protocol_len = b ! 5,
          operation = from_be_bytes (take 2 (drop 6 b)), sha = sha, spa = spa, tha = tha, tpa = tpa\<rparr>)))))" for ptype
    by (simp add: arp_body_def sha tha m Let_def)
  moreover have "14 + n + 6 = 20 + n" for n :: nat by simp
  ultimately show ?thesis
    using assms by (simp add: ArpPacket_parse_def buf_simps Let_def cong: if_cong)
qed

lemma ArpPacket_parse_arp_bytes:
  assumes "arp4_wf a \<or> arp6_wf a"
  shows "ArpPacket_parse (arp_bytes a @ rest) = Ok a"
proof -
  let ?b = "arp_bytes a @ rest" and ?n = "unat (protocol_len a)"
  have ip: "length (IpAddr_octets (spa a)) = ?n" "length (IpAddr_octets (tpa a)) = ?n"
    using assms by (auto simp: arp4_wf_def arp6_wf_def)
  have parts: "take 2 ?b = to_be_bytes 2 (hardware_type a)" "?b ! 4 = hardware_len a" "?b ! 5 = protocol_len a"
    "take 2 (drop 2 ?b) = to_be_bytes 2 (EtherType_as_u16 (protocol_type a))"
    "take 2 (drop 6 ?b) = to_be_bytes 2 (operation a)" "take 6 (drop 8 ?b) = MacAddress_as_bytes (sha a)"
    by (simp_all add: arp_bytes_def to_be_bytes_2)
  have addr: "take 6 (drop (14 + ?n) ?b) = MacAddress_as_bytes (tha a)" "take ?n (drop 14 ?b) = IpAddr_octets (spa a)"
    "take ?n (drop (20 + ?n) ?b) = IpAddr_octets (tpa a)" "length ?b = 20 + ?n + ?n + length rest"
  proof -
    define front where "front = take 14 ?b"
    have "?b = front @ IpAddr_octets (spa a) @ MacAddress_as_bytes (tha a) @ IpAddr_octets (tpa a) @ rest"
      "length front = 14"
      by (simp_all add: front_def arp_bytes_def)
    with ip show "take 6 (drop (14 + ?n) ?b) = MacAddress_as_bytes (tha a)"
      "take ?n (drop 14 ?b) = IpAddr_octets (spa a)" "take ?n (drop (20 + ?n) ?b) = IpAddr_octets (tpa a)"
      "length ?b = 20 + ?n + ?n + length rest"
      by simp_all
  qed
  have "28 \<le> length ?b" using addr(4) assms by (auto simp: arp4_wf_def arp6_wf_def)
  then have "ArpPacket_parse ?b = arp_body ?b (protocol_type a)"
    unfolding ArpPacket_parse_eq [OF \<open>28 \<le> length ?b\<close>] parts using assms by (auto simp: arp4_wf_def arp6_wf_def)
  moreover have "ArpPacket_addresses ?b (protocol_type a) (protocol_len a) 14 (14 + ?n) (20 + ?n) (20 + ?n + ?n)
      = Ok (spa a, tpa a)"
    using assms addr(2-4)
    by (auto simp: ArpPacket_addresses_def get_slice_in cast_be_in arp4_wf_def arp6_wf_def)
  then have "arp_body ?b (protocol_type a) = Ok a"
    using assms addr(4) unfolding arp_body_def parts addr(1) Let_def
    by (cases a) (auto simp: arp4_wf_def arp6_wf_def)
  ultimately show ?thesis by simp
qed

lemma ArpPacket_parse_short: "length b < 28 \<Longrightarrow> ArpPacket_parse b = Err (NotEnoughData (length b) 28)"
  by (simp add: ArpPacket_parse_def)

interpretation arp4: wire_format arp_bytes ArpPacket_parse arp4_wf 28 "\<lambda>n. NotEnoughData n 28"
  by unfold_locales (simp_all add: length_arp_bytes ArpPacket_parse_arp_bytes ArpPacket_parse_short)

text \<open>
  C29: an ARP packet for Ethernet with IPv4 or with IPv6 that \<open>as_bytes\<close> writes at the front of
  a buffer is read back by \<open>parse\<close>, and what followed it in the buffer is kept.
\<close>

theorem ArpPacket_roundtrip:
  assumes "arp4_wf a \<or> arp6_wf a" and "ArpPacket_size a \<le> length pkt"
  shows "\<exists>out. ArpPacket_as_bytes a pkt = (Ok out :: (bytes, ProtocolError) res) \<and> ArpPacket_parse out = Ok a \<and>
           drop (ArpPacket_size a) out = drop (ArpPacket_size a) pkt"
proof -
  have "length (arp_bytes a) = ArpPacket_size a"
    using assms(1) by (auto simp: length_arp_bytes ArpPacket_size_wf)
  then show ?thesis using assms by (simp add: ArpPacket_as_bytes_eq ArpPacket_parse_arp_bytes)
qed

theorem ArpPacket_roundtrip_witness:
  "\<exists>a out. arp4_wf a \<and> ArpPacket_as_bytes a (replicate 28 0) = (Ok out :: (bytes, ProtocolError) res) \<and>
     ArpPacket_parse out = Ok a"
proof -
  let ?a = "\<lparr>hardware_type = 1, protocol_type = IPv4, hardware_len = 6, protocol_len = 4, operation = 1,
    sha = MacAddress_broadcast, spa = V4 1, tha = MacAddress_broadcast, tpa = V4 2\<rparr>"
  have "arp4_wf ?a" by (simp add: arp4_wf_def)
  then show ?thesis using ArpPacket_roundtrip [of ?a "replicate 28 0"] by (auto simp: ArpPacket_size_wf)
qed

text \<open>
  C30: exactly when the ARP parser panics: on a packet of at least 28 bytes whose header is
  accepted (known ethertype, Ethernet with six-byte addresses) and whose protocol address
  length makes the target address end behind the packet. Such a packet on the wire ends the
  thread that parses it.
\<close>

theorem ArpPacket_parse_panics_iff:
  "ArpPacket_parse b = Panic \<longleftrightarrow>
     28 \<le> length b \<and> from_be_bytes (take 2 b) = (1 :: u16) \<and> b ! 4 = 6 \<and>
     (\<exists>t. EtherType_try_from_u16 (from_be_bytes (take 2 (drop 2 b))) = Ok t \<and>
        (length b < 20 + unat (b ! 5) \<or> t = IPv6 \<and> b ! 5 = 16 \<and> length b < 52))"
proof (cases "28 \<le> length b")
  case True
  have body: "arp_body b t = Panic \<longleftrightarrow> length b < 20 + unat (b ! 5) \<or> t = IPv6 \<and> b ! 5 = 16 \<and> length b < 52" for t
  proof (cases "length b < 20 + unat (b ! 5)")
    case fits: False
    obtain m n where "MacAddress_parse (take 6 (drop 8 b)) = Ok m"
      "MacAddress_parse (take 6 (drop (14 + unat (b ! 5)) b)) = Ok n"
      using True fits MacAddress_parse_Ok [of "take 6 (drop 8 b)"]
        MacAddress_parse_Ok [of "take 6 (drop (14 + unat (b ! 5)) b)"] by auto
    with fits True show ?thesis
      by (auto simp: arp_body_def Let_def ArpPacket_addresses_def get_slice_def cast_be_in and_then_eq_Panic)
  qed (simp add: arp_body_def)
  show ?thesis using True by (auto simp: ArpPacket_parse_eq and_then_eq_Panic body split: if_splits)
qed (simp add: ArpPacket_parse_short)

end
