(* ===== verification/Frame.thy ===== *)
theory Frame
  imports Wire_Format
begin

text \<open>
  Ethernet frames, \<^verbatim>\<open>oathgate-net/src/frame.rs\<close>: the 14 byte header, its parser that drains it
  from the packet, and its encoder. The header interprets the canonical wire format.
\<close>

definition ETHERNET_FRAME_SIZE :: nat where
  "ETHERNET_FRAME_SIZE = 14"

record EthernetFrame =
  frame_dst :: MacAddress
  frame_src :: MacAddress
  ethertype :: EtherType

record EthernetPacket =
  pkt_frame :: EthernetFrame
  pkt_payload :: bytes

definition EthernetFrame_new :: "MacAddress \<Rightarrow> MacAddress \<Rightarrow> EtherType \<Rightarrow> EthernetFrame" where
  "EthernetFrame_new src dst ty = \<lparr>frame_dst = dst, frame_src = src, ethertype = ty\<rparr>"

text \<open>
  \<open>extract\<close>: the outcome and the packet afterwards. The header is drained before it is parsed,
  so an error of the parser leaves the packet without its first 14 bytes.
\<close>

definition EthernetFrame_extract :: "bytes \<Rightarrow> (EthernetFrame, ProtocolError) res \<times> bytes" where
  "EthernetFrame_extract pkt =
     (if length pkt < 14 then (Err (NotEnoughData (length pkt) 14), pkt)
      else let hdr = take 14 pkt
           in (and_then (get_slice hdr 0 6) (\<lambda>s. and_then (MacAddress_parse s) (\<lambda>dst.
               and_then (get_slice hdr 6 12) (\<lambda>s. and_then (MacAddress_parse s) (\<lambda>src.
               and_then (get_slice hdr 12 14) (\<lambda>s. and_then (EtherType_try_from s) (\<lambda>ty.
               Ok \<lparr>frame_dst = dst, frame_src = src, ethertype = ty\<rparr>)))))), drop 14 pkt))"

definition EthernetFrame_size :: nat where
  "EthernetFrame_size = ETHERNET_FRAME_SIZE"

definition EthernetFrame_gen_reply :: "EthernetFrame \<Rightarrow> EthernetFrame" where
  "EthernetFrame_gen_reply self =
     \<lparr>frame_dst = frame_src self, frame_src = frame_dst self, ethertype = ethertype self\<rparr>"

definition EthernetFrame_as_bytes :: "EthernetFrame \<Rightarrow> bytes \<Rightarrow> (bytes, 'e) res" where
  "EthernetFrame_as_bytes self pkt =
     and_then (put_slice pkt 0 6 (MacAddress_as_bytes (frame_dst self))) (\<lambda>pkt.
     and_then (put_slice pkt 6 12 (MacAddress_as_bytes (frame_src self))) (\<lambda>pkt.
     put_slice pkt 12 14 (to_be_bytes 2 (EtherType_as_u16 (ethertype self)))))"

definition EthernetFrame_to_bytes :: "EthernetFrame \<Rightarrow> (bytes, 'e) res" where
  "EthernetFrame_to_bytes self = EthernetFrame_as_bytes self (replicate ETHERNET_FRAME_SIZE 0)"

definition EthernetPacket_new :: "EthernetFrame \<Rightarrow> bytes \<Rightarrow> EthernetPacket" where
  "EthernetPacket_new frame payload = \<lparr>pkt_frame = frame, pkt_payload = payload\<rparr>"

section \<open>The header as bytes\<close>

definition frame_bytes :: "EthernetFrame \<Rightarrow> bytes" where
  "frame_bytes f = MacAddress_as_bytes (frame_dst f) @ MacAddress_as_bytes (frame_src f)
                   @ to_be_bytes 2 (EtherType_as_u16 (ethertype f))"

lemma length_frame_bytes [simp]: "length (frame_bytes f) = 14"
  by (simp add: frame_bytes_def)

lemma EthernetFrame_as_bytes_eq:
  "14 \<le> length pkt \<Longrightarrow> EthernetFrame_as_bytes f pkt = Ok (frame_bytes f @ drop 14 pkt)"
  by (simp add: EthernetFrame_as_bytes_def frame_bytes_def buf_simps)

lemma EthernetFrame_to_bytes_eq [simp]: "EthernetFrame_to_bytes f = Ok (frame_bytes f)"
  by (simp add: EthernetFrame_to_bytes_def ETHERNET_FRAME_SIZE_def EthernetFrame_as_bytes_eq)

lemma EthernetFrame_extract_frame_bytes [simp]:
  "EthernetFrame_extract (frame_bytes f @ rest) = (Ok f, rest)"
  by (simp add: EthernetFrame_extract_def frame_bytes_def buf_simps)

lemma EthernetFrame_extract_short:
  "length pkt < 14 \<Longrightarrow> EthernetFrame_extract pkt = (Err (NotEnoughData (length pkt) 14), pkt)"
  by (simp add: EthernetFrame_extract_def)

lemma EthernetFrame_extract_Ok:
  assumes "EthernetFrame_extract pkt = (Ok f, rest)"
  shows "pkt = frame_bytes f @ rest"
proof -
  have len: "14 \<le> length pkt" and rest: "rest = drop 14 pkt"
    using assms by (auto simp: EthernetFrame_extract_def Let_def split: if_splits)
  have d: "MacAddress_as_bytes m = take 6 b" if "MacAddress_parse b = Ok m" "6 \<le> length b" for m b
    using MacAddress_parse_Ok [OF that(2)] that(1) by auto
  from assms len have "MacAddress_parse (take 6 pkt) = Ok (frame_dst f)"
    "MacAddress_parse (take 6 (drop 6 pkt)) = Ok (frame_src f)"
    "EtherType_try_from_u16 (from_be_bytes (take 2 (drop 12 pkt))) = Ok (ethertype f)"
    by (auto simp: EthernetFrame_extract_def Let_def buf_simps and_then_eq_Ok drop_take split: if_splits)
  then have "frame_bytes f = take 6 pkt @ take 6 (drop 6 pkt) @ take 2 (drop 12 pkt)"
    using len by (auto simp: frame_bytes_def d to_be_from_be_bytes dest!: d EtherType_try_from_Ok)
  also have "\<dots> = take 14 pkt"
    using take_add [of 6 6 pkt] take_add [of 12 2 pkt] by simp
  finally show ?thesis by (simp add: rest)
qed

interpretation ethernet: canonical_format frame_bytes "\<lambda>b. fst (EthernetFrame_extract b)" "\<lambda>_. True" 14
  "\<lambda>n. NotEnoughData n 14"
proof unfold_locales
  fix b f assume "fst (EthernetFrame_extract b) = Ok f"
  then have "EthernetFrame_extract b = (Ok f, snd (EthernetFrame_extract b))" by (metis prod.collapse)
  from EthernetFrame_extract_Ok [OF this] show "True \<and> frame_bytes f = take 14 b"
    by (metis append_eq_conv_conj length_frame_bytes)
qed (simp_all add: EthernetFrame_extract_short)

lemma EthernetFrame_extract_no_panic: "fst (EthernetFrame_extract pkt) \<noteq> Panic"
proof (cases "length pkt < 14")
  case False
  then show ?thesis
    by (auto simp: EthernetFrame_extract_def Let_def buf_simps and_then_eq_Panic drop_take)
qed (simp add: EthernetFrame_extract_def)

text \<open>
  C28: parsing an Ethernet packet succeeds exactly on the bytes an encoded header starts with;
  it then returns that header and leaves the payload, it rejects shorter packets with the
  length it got, and it never panics.
\<close>

theorem EthernetFrame_wire_format:
  "(EthernetFrame_extract pkt = (Ok f, rest) \<longleftrightarrow> pkt = frame_bytes f @ rest) \<and>
   EthernetFrame_to_bytes f = Ok (frame_bytes f) \<and>
   (length pkt < 14 \<longrightarrow> EthernetFrame_extract pkt = (Err (NotEnoughData (length pkt) 14), pkt)) \<and>
   fst (EthernetFrame_extract pkt) \<noteq> Panic"
  using EthernetFrame_extract_Ok [of pkt f rest] EthernetFrame_extract_no_panic [of pkt]
  by (auto simp: EthernetFrame_extract_short)

theorem EthernetFrame_wire_format_witness:
  "EthernetFrame_extract [1, 2, 3] = (Err (NotEnoughData 3 14), [1, 2, 3])"
  using EthernetFrame_wire_format [of "[1, 2, 3]"] by simp

end
