(* ===== verification/Switch.thy ===== *)
theory Switch
  imports Frame
begin

text \<open>
  The learning switch, \<^verbatim>\<open>oathgate-bridge/src/net/switch.rs\<close>, and the interface of a device on
  one of its ports (the trait \<open>SwitchPort\<close> of \<^verbatim>\<open>oathgate-net/src/lib.rs\<close>). \<open>switch_port\<close>
  is that interface: a device records the frames that are enqueued for it, in order. The
  router and the virtio device interpret it. The pcap channel is the list of the packets sent
  to the logger thread; each method is one atomic step, under the locks the source takes.
\<close>

section \<open>The interface of a port\<close>

locale switch_port =
  fixes enq :: "'d \<Rightarrow> EthernetFrame \<Rightarrow> bytes \<Rightarrow> 'd"
    and received :: "'d \<Rightarrow> (EthernetFrame \<times> bytes) list"
  assumes received_enq: "received (enq d f p) = received d @ [(f, p)]"

section \<open>The switch\<close>

datatype NetworkError =
    Generic string
  | Errno string
  | Io string
  | Protocol ProtocolError
  | Pcap string
  | DecodeSlice string
  | ChannelClosed

record PcapLogger =
  pcap_tx :: "bytes list option"

text \<open>
  \<open>spawn\<close> opens the file and starts the writer thread, which may fail; its outcome is an
  argument.
\<close>

definition PcapLogger_new :: "(string \<Rightarrow> (unit, NetworkError) res) \<Rightarrow> string option \<Rightarrow> (PcapLogger, NetworkError) res" where
  "PcapLogger_new spawn path =
     (case path of
        Some path \<Rightarrow> and_then (spawn path) (\<lambda>_. Ok \<lparr>pcap_tx = Some []\<rparr>)
      | None \<Rightarrow> Ok \<lparr>pcap_tx = None\<rparr>)"

definition PcapLogger_log_packet :: "PcapLogger \<Rightarrow> bytes \<Rightarrow> PcapLogger" where
  "PcapLogger_log_packet self pkt = self\<lparr>pcap_tx := map_option (\<lambda>q. q @ [pkt]) (pcap_tx self)\<rparr>"

record 'd VirtioSwitch =
  ports :: "'d list"
  cache :: "MacAddress \<rightharpoonup> nat"
  logger :: PcapLogger

definition VirtioSwitch_new ::
  "(string \<Rightarrow> (unit, NetworkError) res) \<Rightarrow> string option \<Rightarrow> ('d VirtioSwitch, NetworkError) res" where
  "VirtioSwitch_new spawn pcap =
     and_then (PcapLogger_new spawn pcap) (\<lambda>logger.
     Ok \<lparr>ports = [], cache = Map.empty, logger = logger\<rparr>)"

definition VirtioSwitch_associate_port :: "'d VirtioSwitch \<Rightarrow> nat \<Rightarrow> MacAddress \<Rightarrow> 'd VirtioSwitch" where
  "VirtioSwitch_associate_port self port mac = self\<lparr>cache := (cache self)(mac \<mapsto> port)\<rparr>"

definition VirtioSwitch_get_port :: "'d VirtioSwitch \<Rightarrow> MacAddress \<Rightarrow> nat option" where
  "VirtioSwitch_get_port self mac = cache self mac"

definition VirtioSwitch_connect :: "'d VirtioSwitch \<Rightarrow> 'd \<Rightarrow> 'd VirtioSwitch \<times> nat" where
  "VirtioSwitch_connect self port = (self\<lparr>ports := ports self @ [port]\<rparr>, length (ports self))"

text \<open>
  \<open>process\<close> returns its result and the switch afterwards; \<open>enq\<close> is the \<open>enqueue\<close> of the
  devices.
\<close>

definition VirtioSwitch_forward ::
  "('d \<Rightarrow> EthernetFrame \<Rightarrow> bytes \<Rightarrow> 'd) \<Rightarrow> 'd VirtioSwitch \<Rightarrow> nat \<Rightarrow> EthernetFrame \<Rightarrow> bytes \<Rightarrow> 'd VirtioSwitch" where
  "VirtioSwitch_forward enq self port frame pkt =
     (if MacAddress_is_broadcast (frame_dst frame) then
        self\<lparr>ports := map (\<lambda>(idx, dev). if idx \<noteq> port then enq dev frame pkt else dev)
                         (List.enumerate 0 (ports self))\<rparr>
      else case VirtioSwitch_get_port self (frame_dst frame) of
        Some port \<Rightarrow>
          (if port < length (ports self)
           then self\<lparr>ports := (ports self)[port := enq (ports self ! port) frame pkt]\<rparr> else self)
      | None \<Rightarrow> self)"

definition VirtioSwitch_process ::
  "('d \<Rightarrow> EthernetFrame \<Rightarrow> bytes \<Rightarrow> 'd) \<Rightarrow> 'd VirtioSwitch \<Rightarrow> nat \<Rightarrow> bytes
     \<Rightarrow> (unit, ProtocolError) res \<times> 'd VirtioSwitch" where
  "VirtioSwitch_process enq self port pkt =
     (if length pkt < 14 then (Err (NotEnoughData (length pkt) 14), self)
      else
        let self = self\<lparr>logger := PcapLogger_log_packet (logger self) pkt\<rparr> in
        case EthernetFrame_extract pkt of
          (Ok frame, pkt) \<Rightarrow>
            let self = (case VirtioSwitch_get_port self (frame_src frame) of
                          Some p \<Rightarrow> if p = port then self else VirtioSwitch_associate_port self port (frame_src frame)
                        | None \<Rightarrow> VirtioSwitch_associate_port self port (frame_src frame))
            in (Ok (), VirtioSwitch_forward enq self port frame pkt)
        | (Err e, _) \<Rightarrow> (Err e, self)
        | (Panic, _) \<Rightarrow> (Panic, self))"

section \<open>One frame through the switch\<close>

lemma VirtioSwitch_process_frame:
  "VirtioSwitch_process enq sw port (frame_bytes f @ pl) =
     (Ok (), VirtioSwitch_forward enq
        (sw\<lparr>logger := PcapLogger_log_packet (logger sw) (frame_bytes f @ pl), cache := (cache sw)(frame_src f \<mapsto> port)\<rparr>)
        port f pl)"
proof -
  have upd: "sw\<lparr>cache := (cache sw)(frame_src f \<mapsto> p)\<rparr> = sw" if "cache sw (frame_src f) = Some p" for p
    using that by (simp add: map_upd_triv)
  show ?thesis
    by (cases "cache sw (frame_src f)")
      (auto simp: VirtioSwitch_process_def Let_def VirtioSwitch_get_port_def VirtioSwitch_associate_port_def map_upd_triv)
qed

lemma VirtioSwitch_forward_keeps [simp]:
  "cache (VirtioSwitch_forward enq sw port f pl) = cache sw"
  "logger (VirtioSwitch_forward enq sw port f pl) = logger sw"
  "length (ports (VirtioSwitch_forward enq sw port f pl)) = length (ports sw)"
  by (simp_all add: VirtioSwitch_forward_def split: option.splits)

text \<open>The ports a frame goes to, given what the switch has learned.\<close>

definition forwarded_to :: "'d VirtioSwitch \<Rightarrow> nat \<Rightarrow> EthernetFrame \<Rightarrow> nat \<Rightarrow> bool" where
  "forwarded_to sw port f j \<longleftrightarrow>
     (if MacAddress_is_broadcast (frame_dst f) then j \<noteq> port
      else if frame_dst f = frame_src f then j = port
      else cache sw (frame_dst f) = Some j)"

lemma ports_forward:
  assumes "j < length (ports sw)"
  shows "ports (VirtioSwitch_forward enq sw port f pl) ! j =
     (if (if MacAddress_is_broadcast (frame_dst f) then j \<noteq> port else cache sw (frame_dst f) = Some j)
      then enq (ports sw ! j) f pl else ports sw ! j)"
  using assms
  by (auto simp: VirtioSwitch_forward_def VirtioSwitch_get_port_def nth_enumerate_eq nth_list_update
      split: option.splits)

lemma VirtioSwitch_process_rejects:
  assumes "\<nexists>f pl. pkt = frame_bytes f @ pl"
  shows "\<exists>e l. VirtioSwitch_process enq sw port pkt = (Err e, sw\<lparr>logger := l\<rparr>)"
proof -
  have "sw = sw\<lparr>logger := logger sw\<rparr>" by simp
  moreover have "fst (EthernetFrame_extract pkt) \<noteq> Ok f" for f
    using assms EthernetFrame_extract_Ok by (metis prod.collapse)
  ultimately show ?thesis
    using EthernetFrame_extract_no_panic [of pkt]
    by (cases "EthernetFrame_extract pkt"; cases "fst (EthernetFrame_extract pkt)")
      (auto simp: VirtioSwitch_process_def Let_def intro: exI [of _ "logger sw"])
qed

text \<open>
  C6: what \<open>process\<close> does with a frame. It never fails on a well-formed frame; it learns that
  the source is behind the port the frame came from and keeps every other entry; a broadcast
  goes to every port but that one, any other frame goes to the port learned for its
  destination and nowhere else. When nothing is learned for it the frame is dropped, where the
  documentation of \<open>process\<close> says that it is flooded to all ports.
\<close>

theorem VirtioSwitch_process_forwards:
  "\<exists>sw'. VirtioSwitch_process enq sw port (frame_bytes f @ pl) = (Ok (), sw') \<and>
     cache sw' = (cache sw)(frame_src f \<mapsto> port) \<and> length (ports sw') = length (ports sw) \<and>
     (\<forall>j. j < length (ports sw) \<longrightarrow>
        ports sw' ! j = (if forwarded_to sw port f j then enq (ports sw ! j) f pl else ports sw ! j))"
  by (auto simp: VirtioSwitch_process_frame ports_forward forwarded_to_def)

theorem VirtioSwitch_process_forwards_witness:
  "\<exists>sw'. VirtioSwitch_process (\<lambda>d f p. d @ [p]) \<lparr>ports = [[], [], []], cache = Map.empty, logger = \<lparr>pcap_tx = None\<rparr>\<rparr> 1
       (frame_bytes \<lparr>frame_dst = MacAddress_broadcast, frame_src = MacAddress 2 0 0 0 0 1, ethertype = IPv4\<rparr> @ [7])
       = (Ok (), sw') \<and> ports sw' ! 0 = [[7]] \<and> ports sw' ! 1 = [] \<and> ports sw' ! 2 = [[7]]"
  using VirtioSwitch_process_forwards [of "\<lambda>d f p. d @ [p]"
      "\<lparr>ports = [[], [], []], cache = Map.empty, logger = \<lparr>pcap_tx = None\<rparr>\<rparr>" 1
      "\<lparr>frame_dst = MacAddress_broadcast, frame_src = MacAddress 2 0 0 0 0 1, ethertype = IPv4\<rparr>" "[7]"]
  by (auto simp: forwarded_to_def MacAddress_is_broadcast_def)

section \<open>Sequences of operations\<close>

datatype 'd switch_op = Connect 'd | Process nat bytes

fun switch_step :: "('d \<Rightarrow> EthernetFrame \<Rightarrow> bytes \<Rightarrow> 'd) \<Rightarrow> 'd VirtioSwitch \<Rightarrow> 'd switch_op \<Rightarrow> 'd VirtioSwitch" where
  "switch_step enq sw (Connect d) = fst (VirtioSwitch_connect sw d)"
| "switch_step enq sw (Process port pkt) = snd (VirtioSwitch_process enq sw port pkt)"

text \<open>The states a switch can be in: devices pass the port number \<open>connect\<close> gave them.\<close>

inductive switch_reachable :: "('d \<Rightarrow> EthernetFrame \<Rightarrow> bytes \<Rightarrow> 'd) \<Rightarrow> 'd VirtioSwitch \<Rightarrow> bool" for enq where
  new: "VirtioSwitch_new spawn pcap = Ok sw \<Longrightarrow> switch_reachable enq sw"
| connect: "switch_reachable enq sw \<Longrightarrow> switch_reachable enq (switch_step enq sw (Connect d))"
| process: "switch_reachable enq sw \<Longrightarrow> port < length (ports sw) \<Longrightarrow>
     switch_reachable enq (switch_step enq sw (Process port pkt))"

definition cache_valid :: "'d VirtioSwitch \<Rightarrow> bool" where
  "cache_valid sw \<longleftrightarrow> (\<forall>mac port. cache sw mac = Some port \<longrightarrow> port < length (ports sw))"

lemma process_cases:
  obtains (frame) f pl where "pkt = frame_bytes f @ pl"
  | (rejected) e l where "VirtioSwitch_process enq sw port pkt = (Err e, sw\<lparr>logger := l\<rparr>)"
  using VirtioSwitch_process_rejects [of pkt] by blast

lemma switch_step_ports: "length (ports sw) \<le> length (ports (switch_step enq sw op))"
proof (cases op)
  case (Process port pkt)
  then show ?thesis
    by (cases rule: process_cases [where pkt = pkt and enq = enq and sw = sw and port = port]) (auto simp: VirtioSwitch_process_frame)
qed (simp add: VirtioSwitch_connect_def)

lemma switch_step_cache:
  "cache (switch_step enq sw op) = cache sw \<or>
   (\<exists>port f pl. op = Process port (frame_bytes f @ pl) \<and>
      cache (switch_step enq sw op) = (cache sw)(frame_src f \<mapsto> port))"
proof (cases op)
  case (Process port pkt)
  then show ?thesis
    by (cases rule: process_cases [where pkt = pkt and enq = enq and sw = sw and port = port]) (auto simp: VirtioSwitch_process_frame)
qed (simp add: VirtioSwitch_connect_def)

lemma cache_valid_step:
  assumes "cache_valid sw" and "\<And>port pkt. op = Process port pkt \<Longrightarrow> port < length (ports sw)"
  shows "cache_valid (switch_step enq sw op)"
  unfolding cache_valid_def
proof (intro allI impI)
  fix mac port assume c: "cache (switch_step enq sw op) mac = Some port"
  have "port < length (ports sw)"
    using switch_step_cache [of enq sw op] c assms by (auto simp: cache_valid_def split: if_splits)
  then show "port < length (ports (switch_step enq sw op))" using switch_step_ports [of sw enq op] by linarith
qed

text \<open>
  In every reachable state each learned port is a connected one, so the branch of
  \<open>process\<close> for a port without a device is never taken.
\<close>

lemma switch_reachable_cache_valid: "switch_reachable enq sw \<Longrightarrow> cache_valid sw"
proof (induction rule: switch_reachable.induct)
  case (new spawn pcap sw)
  then show ?case
    by (cases "PcapLogger_new spawn pcap") (auto simp: VirtioSwitch_new_def cache_valid_def)
qed (rule cache_valid_step; simp)+

text \<open>Nobody but port \<open>a\<close> speaks for the address \<open>mac\<close>.\<close>

definition only_from :: "MacAddress \<Rightarrow> nat \<Rightarrow> 'd switch_op \<Rightarrow> bool" where
  "only_from mac a op \<longleftrightarrow> (\<forall>port f pl. op = Process port (frame_bytes f @ pl) \<longrightarrow> frame_src f = mac \<longrightarrow> port = a)"

lemma learned_kept:
  assumes "cache sw mac = Some a" and "\<forall>op \<in> set ops. only_from mac a op"
  shows "cache (foldl (switch_step enq) sw ops) mac = Some a"
  using assms
proof (induction ops arbitrary: sw)
  case (Cons op ops)
  have "cache (switch_step enq sw op) mac = Some a"
    using switch_step_cache [of enq sw op] Cons.prems by (auto simp: only_from_def)
  with Cons show ?case by simp
qed simp

text \<open>
  C4: a host is reachable at the port it was last heard from. After a frame from the host
  entered at port \<open>a\<close>, and whatever operations follow as long as no other port sends with its
  address, a frame for it from another host is enqueued at port \<open>a\<close> and at no other.
\<close>

theorem switch_delivers_to_learned_port:
  assumes "\<forall>op \<in> set ops. only_from (frame_src f) a op" and "frame_dst g = frame_src f"
    and "frame_src g \<noteq> frame_src f" and "\<not> MacAddress_is_broadcast (frame_src f)"
    and "sw' = foldl (switch_step enq) (switch_step enq sw (Process a (frame_bytes f @ pl))) ops"
  shows "\<forall>j < length (ports sw').
           ports (switch_step enq sw' (Process b (frame_bytes g @ pl'))) ! j =
             (if j = a then enq (ports sw' ! j) g pl' else ports sw' ! j)"
proof -
  have "cache (switch_step enq sw (Process a (frame_bytes f @ pl))) (frame_src f) = Some a"
    by (simp add: VirtioSwitch_process_frame)
  then have "cache sw' (frame_src f) = Some a" using assms(1,5) by (simp add: learned_kept)
  then show ?thesis using assms(2-4) by (simp add: VirtioSwitch_process_frame ports_forward)
qed

theorem switch_delivers_to_learned_port_witness:
  "let enq = (\<lambda>d f p. d @ [p]); mac = MacAddress 2 0 0 0 0;
       sw = \<lparr>ports = [[], []], cache = Map.empty, logger = \<lparr>pcap_tx = None\<rparr>\<rparr>;
       f = \<lparr>frame_dst = mac 9, frame_src = mac 1, ethertype = IPv4\<rparr>;
       g = \<lparr>frame_dst = mac 1, frame_src = mac 2, ethertype = IPv4\<rparr>;
       sw' = switch_step enq sw (Process 1 (frame_bytes f @ []))
   in \<forall>j < length (ports sw'). ports (switch_step enq sw' (Process 0 (frame_bytes g @ [7]))) ! j =
             (if j = 1 then enq (ports sw' ! j) g [7] else ports sw' ! j)"
  unfolding Let_def
  by (rule switch_delivers_to_learned_port [where ops = "[]" and pl = "[]" and
        f = "\<lparr>frame_dst = MacAddress 2 0 0 0 0 9, frame_src = MacAddress 2 0 0 0 0 1, ethertype = IPv4\<rparr>" and
        sw = "\<lparr>ports = [[], []], cache = Map.empty, logger = \<lparr>pcap_tx = None\<rparr>\<rparr>"])
    (simp_all add: MacAddress_is_broadcast_def MacAddress_broadcast_def)

end
