(* ===== verification/Router.thy ===== *)
theory Router
  imports Handlers Arp Switch Ip_Network
begin

text \<open>
  The layer 3 router, \<^verbatim>\<open>oathgate-bridge/src/net/router.rs\<close>. The router owns its ARP table and
  its protocol handlers (\<open>'p\<close>), writes frames to the switch it is connected to (\<open>'d\<close> is the
  state of a device on a port) and packets to the WAN (\<open>'w\<close>). The operations of the handlers, of
  the devices and of the WAN are arguments, collected in \<open>env\<close>; the random packet id of a
  reply header is part of it. Log statements are not modelled.
\<close>

section \<open>State\<close>

definition IPV4_HDR_SZ :: nat where "IPV4_HDR_SZ = 20"

datatype RouterMsg = FromLan EthernetPacket | FromWan4 Ipv4Packet

datatype RouterAction =
    ToLan EtherType IpAddr bytes
  | ToWan Ipv4Packet
  | Drop bytes

record RouterHandle =
  rh_tx :: "RouterMsg list"

record ('p, 'd, 'w) Router =
  rt_arp :: "IpAddr \<rightharpoonup> MacAddress"
  rt_switch :: "'d VirtioSwitch"
  rt_port :: nat
  rt_wan :: "'w option"
  rt_mac :: MacAddress
  rt_network :: Ipv4Network
  rt_handlers :: "u8 \<rightharpoonup> 'p"

record ('p, 'w) RouterBuilder =
  rb_handlers :: "u8 \<rightharpoonup> 'p"
  rb_wan :: "'w option"

record ('p, 'd, 'w) router_env =
  env_handle :: "'p protocol_op"
  env_enqueue :: "'d \<Rightarrow> EthernetFrame \<Rightarrow> bytes \<Rightarrow> 'd"
  env_wan_write :: "'w \<Rightarrow> Ipv4Packet \<Rightarrow> (unit, NetworkError) res \<times> 'w"
  env_rng :: u16

section \<open>The handle\<close>

definition RouterHandle_route_ipv4 :: "RouterHandle \<Rightarrow> Ipv4Packet \<Rightarrow> RouterHandle" where
  "RouterHandle_route_ipv4 self pkt = self\<lparr>rh_tx := rh_tx self @ [FromWan4 pkt]\<rparr>"

definition RouterHandle_route_ipv6 :: "RouterHandle \<Rightarrow> bytes \<Rightarrow> RouterHandle" where
  "RouterHandle_route_ipv6 self pkt = self"

definition RouterHandle_enqueue :: "RouterHandle \<Rightarrow> EthernetFrame \<Rightarrow> bytes \<Rightarrow> RouterHandle" where
  "RouterHandle_enqueue self frame pkt =
     (let pkt = EthernetPacket_new frame pkt in self\<lparr>rh_tx := rh_tx self @ [FromLan pkt]\<rparr>)"

fun lan_frame :: "RouterMsg \<Rightarrow> (EthernetFrame \<times> bytes) option" where
  "lan_frame (FromLan p) = Some (pkt_frame p, pkt_payload p)"
| "lan_frame (FromWan4 p) = None"

interpretation router_port: switch_port RouterHandle_enqueue "\<lambda>h. List.map_filter lan_frame (rh_tx h)"
  by unfold_locales (simp add: RouterHandle_enqueue_def EthernetPacket_new_def List.map_filter_def)

section \<open>Building a router\<close>

definition Router_builder :: "('p, 'w) RouterBuilder" where
  "Router_builder = \<lparr>rb_handlers = Map.empty, rb_wan = None\<rparr>"

definition RouterBuilder_wan :: "('p, 'w) RouterBuilder \<Rightarrow> 'w option \<Rightarrow> ('p, 'w) RouterBuilder" where
  "RouterBuilder_wan self wan = self\<lparr>rb_wan := wan\<rparr>"

definition RouterBuilder_register_proto_handler ::
  "('p \<Rightarrow> u8) \<Rightarrow> ('p, 'w) RouterBuilder \<Rightarrow> 'p \<Rightarrow> ('p, 'w) RouterBuilder" where
  "RouterBuilder_register_proto_handler protocol self handler =
     self\<lparr>rb_handlers := (rb_handlers self)(protocol handler \<mapsto> handler)\<rparr>"

text \<open>
  \<open>spawn\<close>: \<open>handle\<close> is the router's handle as a device of the switch, \<open>wan_spawn\<close> the outcome
  of starting the WAN thread, \<open>rng\<close> the random bytes of the router's MAC address.
\<close>

definition RouterBuilder_spawn ::
  "('wan \<Rightarrow> ('w, NetworkError) res) \<Rightarrow> u8 \<times> u8 \<times> u8 \<Rightarrow> 'd \<Rightarrow> ('p, 'wan) RouterBuilder \<Rightarrow> Ipv4Network
     \<Rightarrow> 'd VirtioSwitch \<Rightarrow> ('p, 'd, 'w) Router" where
  "RouterBuilder_spawn wan_spawn rng handle self network switch =
     (case VirtioSwitch_connect switch handle of
        (switch, port) \<Rightarrow>
          \<lparr>rt_arp = Map.empty, rt_switch = switch, rt_port = port,
           rt_wan = Option.bind (rb_wan self) (\<lambda>wan. case wan_spawn wan of Ok h \<Rightarrow> Some h | _ \<Rightarrow> None),
           rt_mac = MacAddress_generate rng, rt_network = network, rt_handlers = rb_handlers self\<rparr>)"

section \<open>Routing\<close>

fun Router_is_local :: "('p, 'd, 'w) Router \<Rightarrow> IpAddr \<Rightarrow> bool" where
  "Router_is_local self (V4 ip) = Ipv4Network_eq_addr (rt_network self) ip"
| "Router_is_local self (V6 ip) = False"

fun Router_is_global_broadcast :: "('p, 'd, 'w) Router \<Rightarrow> IpAddr \<Rightarrow> bool" where
  "Router_is_global_broadcast self (V4 ip) = is_broadcast4 ip"
| "Router_is_global_broadcast self (V6 ip) = False"

definition Router_write_to_switch ::
  "('p, 'd, 'w) router_env \<Rightarrow> ('p, 'd, 'w) Router \<Rightarrow> MacAddress \<Rightarrow> EtherType \<Rightarrow> bytes \<Rightarrow> ('p, 'd, 'w) Router" where
  "Router_write_to_switch E self dst ety pkt =
     (let data = MacAddress_as_bytes dst @ MacAddress_as_bytes (rt_mac self)
                 @ to_be_bytes 2 (EtherType_as_u16 ety) @ pkt
      in self\<lparr>rt_switch := snd (VirtioSwitch_process (env_enqueue E) (rt_switch self) (rt_port self) data)\<rparr>)"

definition Router_handle_arp :: "('p, 'd, 'w) Router \<Rightarrow> bytes \<Rightarrow> (RouterAction, ProtocolError) res \<times> ('p, 'd, 'w) Router" where
  "Router_handle_arp self pkt =
     (case ArpPacket_parse pkt of
        Err e \<Rightarrow> (Err e, self)
      | Panic \<Rightarrow> (Panic, self)
      | Ok arp \<Rightarrow>
          let self = self\<lparr>rt_arp := (rt_arp self)(spa arp \<mapsto> sha arp)\<rparr>
          in if Router_is_local self (tpa arp) \<or> Router_is_global_broadcast self (tpa arp) then
               let rpkt = replicate (ArpPacket_size arp) 0; arp = ArpPacket_to_reply arp (rt_mac self)
               in (and_then (ArpPacket_as_bytes arp rpkt) (\<lambda>rpkt. Ok (ToLan ARP (tpa arp) rpkt)), self)
             else (Ok (Drop pkt), self))"

definition Router_forward_packet ::
  "('p, 'd, 'w) router_env \<Rightarrow> ('p, 'd, 'w) Router \<Rightarrow> Ipv4Packet \<Rightarrow> (unit, NetworkError) res \<times> ('p, 'd, 'w) Router" where
  "Router_forward_packet E self pkt =
     (case rt_wan self of
        Some wan \<Rightarrow>
          (case env_wan_write E wan pkt of
             (Panic, wan) \<Rightarrow> (Panic, self\<lparr>rt_wan := Some wan\<rparr>)
           | (_, wan) \<Rightarrow> (Ok (), self\<lparr>rt_wan := Some wan\<rparr>))
      | None \<Rightarrow> (Ok (), self))"

definition Router_handle_local_ipv4 ::
  "('p, 'd, 'w) router_env \<Rightarrow> ('p, 'd, 'w) Router \<Rightarrow> Ipv4Packet \<Rightarrow> (RouterAction, ProtocolError) res \<times> ('p, 'd, 'w) Router" where
  "Router_handle_local_ipv4 E self pkt =
     (let rpkt = replicate 1560 0 in
      case rt_handlers self (Ipv4Packet_protocol pkt) of
        None \<Rightarrow> (Ok (Drop []), self)
      | Some handler \<Rightarrow>
          (case env_handle E handler pkt (drop IPV4_HDR_SZ rpkt) of
             (r, handler) \<Rightarrow>
               ((case r of
                   Panic \<Rightarrow> Panic
                 | Err e \<Rightarrow> Ok (Drop [])
                 | Ok (sz, buf) \<Rightarrow>
                     if sz = 0 then Ok (Drop [])
                     else
                       let rpkt = take (IPV4_HDR_SZ + sz) (take IPV4_HDR_SZ rpkt @ buf);
                           hdr = Ipv4Packet_reply (env_rng E) pkt (drop IPV4_HDR_SZ rpkt)
                       in and_then (Ipv4Header_as_bytes hdr (take IPV4_HDR_SZ rpkt)) (\<lambda>h.
                          Ok (ToLan IPv4 (V4 (ip_dst hdr)) (h @ drop IPV4_HDR_SZ rpkt)))),
                self\<lparr>rt_handlers := (rt_handlers self)(Ipv4Packet_protocol pkt \<mapsto> handler)\<rparr>)))"

definition Router_route_ip4 ::
  "('p, 'd, 'w) router_env \<Rightarrow> ('p, 'd, 'w) Router \<Rightarrow> Ipv4Packet \<Rightarrow> (RouterAction, ProtocolError) res \<times> ('p, 'd, 'w) Router" where
  "Router_route_ip4 E self pkt =
     (if Ipv4Network_contains (rt_network self) (Ipv4Packet_dest pkt) \<or> is_broadcast4 (Ipv4Packet_dest pkt) then
        if Router_is_local self (V4 (Ipv4Packet_dest pkt)) \<or> is_broadcast4 (Ipv4Packet_dest pkt)
        then Router_handle_local_ipv4 E self pkt
        else (Ok (ToLan IPv4 (V4 (Ipv4Packet_dest pkt)) (Ipv4Packet_into_bytes pkt)), self)
      else (Ok (ToWan pkt), self))"

definition Router_route_ip6 :: "('p, 'd, 'w) Router \<Rightarrow> bytes \<Rightarrow> (RouterAction, ProtocolError) res \<times> ('p, 'd, 'w) Router" where
  "Router_route_ip6 self pkt = (Ok (Drop pkt), self)"

definition Router_handle_action ::
  "('p, 'd, 'w) router_env \<Rightarrow> ('p, 'd, 'w) Router \<Rightarrow> RouterAction \<Rightarrow> MacAddress option
     \<Rightarrow> (unit, ProtocolError) res \<times> ('p, 'd, 'w) Router" where
  "Router_handle_action E self action dst =
     (case action of
        ToLan ety dst_ip pkt \<Rightarrow>
          (case (case dst of Some d \<Rightarrow> Some d | None \<Rightarrow> rt_arp self dst_ip) of
             Some dst \<Rightarrow> (Ok (), Router_write_to_switch E self dst ety pkt)
           | None \<Rightarrow> (Ok (), self))
      | ToWan pkt \<Rightarrow>
          (case Router_forward_packet E self pkt of
             (Panic, self) \<Rightarrow> (Panic, self)
           | (_, self) \<Rightarrow> (Ok (), self))
      | Drop _ \<Rightarrow> (Ok (), self))"

text \<open>An action that was computed, performed; \<open>?\<close> on an error skips it.\<close>

definition Router_perform ::
  "('p, 'd, 'w) router_env \<Rightarrow> MacAddress option \<Rightarrow> (RouterAction, ProtocolError) res \<times> ('p, 'd, 'w) Router
     \<Rightarrow> (unit, ProtocolError) res \<times> ('p, 'd, 'w) Router" where
  "Router_perform E dst ra =
     (case ra of
        (Ok action, self) \<Rightarrow> Router_handle_action E self action dst
      | (Err e, self) \<Rightarrow> (Err e, self)
      | (Panic, self) \<Rightarrow> (Panic, self))"

definition Router_route ::
  "('p, 'd, 'w) router_env \<Rightarrow> ('p, 'd, 'w) Router \<Rightarrow> EthernetPacket \<Rightarrow> (unit, ProtocolError) res \<times> ('p, 'd, 'w) Router" where
  "Router_route E self pkt =
     Router_perform E (Some (frame_src (pkt_frame pkt)))
       (case ethertype (pkt_frame pkt) of
          ARP \<Rightarrow> Router_handle_arp self (pkt_payload pkt)
        | IPv4 \<Rightarrow>
            (case Ipv4Packet_parse (pkt_payload pkt) of
               Ok p \<Rightarrow> Router_route_ip4 E self p
             | Err e \<Rightarrow> (Err e, self)
             | Panic \<Rightarrow> (Panic, self))
        | IPv6 \<Rightarrow> Router_route_ip6 self (pkt_payload pkt))"

text \<open>One turn of the loop of \<open>run\<close> (errors are logged), and the loop until the channel is closed or it panics.\<close>

fun Router_turn ::
  "('p, 'd, 'w) router_env \<Rightarrow> ('p, 'd, 'w) Router \<Rightarrow> RouterMsg \<Rightarrow> (unit, ProtocolError) res \<times> ('p, 'd, 'w) Router" where
  "Router_turn E self (FromLan pkt) = Router_route E self pkt"
| "Router_turn E self (FromWan4 pkt) = Router_perform E None (Router_route_ip4 E self pkt)"

fun Router_run ::
  "('p, 'd, 'w) router_env \<Rightarrow> ('p, 'd, 'w) Router \<Rightarrow> RouterMsg list \<Rightarrow> (unit, ProtocolError) res \<times> ('p, 'd, 'w) Router" where
  "Router_run E self [] = (Ok (), self)"
| "Router_run E self (m # ms) =
     (case Router_turn E self m of
        (Panic, self) \<Rightarrow> (Panic, self)
      | (_, self) \<Rightarrow> Router_run E self ms)"

section \<open>What the router puts on the switch\<close>

text \<open>The frame \<open>write_to_switch\<close> sends, through the switch.\<close>

definition to_lan ::
  "('p, 'd, 'w) router_env \<Rightarrow> ('p, 'd, 'w) Router \<Rightarrow> MacAddress \<Rightarrow> EtherType \<Rightarrow> bytes \<Rightarrow> ('p, 'd, 'w) Router" where
  "to_lan E r dst ety pl =
     r\<lparr>rt_switch := snd (VirtioSwitch_process (env_enqueue E) (rt_switch r) (rt_port r)
        (frame_bytes (EthernetFrame_new (rt_mac r) dst ety) @ pl))\<rparr>"

lemma Router_write_to_switch_eq: "Router_write_to_switch E r dst ety pl = to_lan E r dst ety pl"
  by (simp add: Router_write_to_switch_def to_lan_def frame_bytes_def EthernetFrame_new_def Let_def)

text \<open>
  The router answers ARP. An ARP packet for Ethernet and IPv4 is remembered (sender address
  to sender MAC), and when it asks for the router's own address (or the broadcast address) the
  router sends the sender, through the switch, a reply that claims the address for the
  router's MAC; otherwise nothing is sent.
\<close>

lemma Router_answers_arp:
  assumes "arp4_wf a" and "ethertype f = ARP"
  shows "Router_route E r (EthernetPacket_new f (arp_bytes a @ rest)) =
     (let r' = r\<lparr>rt_arp := (rt_arp r)(spa a \<mapsto> sha a)\<rparr>
      in (Ok (), if tpa a = V4 (ip4 (rt_network r)) \<or> tpa a = V4 0xFFFFFFFF
                 then to_lan E r' (frame_src f) ARP (arp_bytes (ArpPacket_to_reply a (rt_mac r)))
                 else r'))"
proof -
  have parse: "ArpPacket_parse (arp_bytes a @ rest) = Ok a" using assms(1) by (rule arp4.dec_enc)
  obtain t where t: "tpa a = V4 t" using assms(1) by (auto simp: arp4_wf_def)
  have wf: "arp4_wf (ArpPacket_to_reply a m)" for m
    using assms(1) by (auto simp: arp4_wf_def ArpPacket_to_reply_def)
  have reply: "ArpPacket_as_bytes (ArpPacket_to_reply a m) (replicate (ArpPacket_size a) 0)
      = (Ok (arp_bytes (ArpPacket_to_reply a m)) :: (bytes, ProtocolError) res)" for m
    using ArpPacket_as_bytes_eq [of "ArpPacket_to_reply a m" "replicate (ArpPacket_size a) 0"] wf [of m] assms(1)
    by (simp add: ArpPacket_size_wf)
  show ?thesis
    using assms(2) t
    by (auto simp: Router_route_def EthernetPacket_new_def Router_handle_arp_def parse reply Let_def Router_perform_def
        Router_handle_action_def Router_write_to_switch_eq Ipv4Network_eq_addr_def is_broadcast4_def)
qed

text \<open>A router and its environment to evaluate the properties at: devices and the WAN are lists of what they got.\<close>

definition sample_env :: "(unit, (EthernetFrame \<times> bytes) list, Ipv4Packet list) router_env" where
  "sample_env =
     \<lparr>env_handle = (\<lambda>h pkt buf. (Ok (2, [1, 2] @ drop 2 buf), h)), env_enqueue = (\<lambda>d f p. d @ [(f, p)]),
      env_wan_write = (\<lambda>w p. (Ok (), w @ [p])), env_rng = 7\<rparr>"

definition sample_router :: "(unit, (EthernetFrame \<times> bytes) list, Ipv4Packet list) Router" where
  "sample_router =
     \<lparr>rt_arp = [V4 0x0A000002 \<mapsto> MacAddress 2 0 0 0 0 2],
      rt_switch = \<lparr>ports = [[], []], cache = [MacAddress 2 0 0 0 0 1 \<mapsto> 1, MacAddress 2 0 0 0 0 2 \<mapsto> 1], logger = \<lparr>pcap_tx = None\<rparr>\<rparr>,
      rt_port = 0, rt_wan = Some [], rt_mac = MacAddress 82 84 0 1 2 3, rt_network = Ipv4Network_new 0x0A000001 24,
      rt_handlers = [17 \<mapsto> ()]\<rparr>"

text \<open>
  A packet for another host of the LAN that arrives from the WAN is sent to the MAC address
  the ARP table has for it, its bytes unchanged, or dropped when there is none.
\<close>

lemma Router_wan_to_lan:
  assumes "Ipv4Network_contains (rt_network r) (Ipv4Packet_dest p)" and "Ipv4Packet_dest p \<noteq> ip4 (rt_network r)"
    and "Ipv4Packet_dest p \<noteq> 0xFFFFFFFF"
  shows "Router_turn E r (FromWan4 p) =
     (Ok (), case rt_arp r (V4 (Ipv4Packet_dest p)) of
               None \<Rightarrow> r
             | Some mac \<Rightarrow> to_lan E r mac IPv4 (packet_data p))"
  using assms
  by (simp add: Router_route_ip4_def Router_perform_def Router_handle_action_def Router_write_to_switch_eq
      Ipv4Network_eq_addr_def is_broadcast4_def Ipv4Packet_into_bytes_def split: option.splits)

text \<open>
  A packet from the LAN for an address outside the network goes to the WAN, its header and
  bytes unchanged; without a WAN, or when the WAN refuses it, it is dropped, and the router goes on.
\<close>

lemma Router_lan_to_wan:
  assumes "ethertype f = IPv4" and "Ipv4Packet_parse payload = Ok p"
    and "\<not> Ipv4Network_contains (rt_network r) (Ipv4Packet_dest p)" and "Ipv4Packet_dest p \<noteq> 0xFFFFFFFF"
    and "\<And>w. rt_wan r = Some w \<Longrightarrow> fst (env_wan_write E w p) \<noteq> Panic"
  shows "Router_route E r (EthernetPacket_new f payload) =
     (Ok (), r\<lparr>rt_wan := map_option (\<lambda>w. snd (env_wan_write E w p)) (rt_wan r)\<rparr>)"
proof (cases "rt_wan r")
  case None
  then have "r\<lparr>rt_wan := None\<rparr> = r" by (cases r) simp
  with None assms show ?thesis
    by (simp add: Router_route_def EthernetPacket_new_def Router_route_ip4_def Router_perform_def Router_handle_action_def
        Router_forward_packet_def is_broadcast4_def)
next
  case (Some w)
  obtain x w' where w': "env_wan_write E w p = (x, w')" by fastforce
  with assms(5) [OF Some] have "x \<noteq> Panic" by simp
  with Some w' assms show ?thesis
    by (cases x) (simp_all add: Router_route_def EthernetPacket_new_def Router_route_ip4_def Router_perform_def
        Router_handle_action_def Router_forward_packet_def is_broadcast4_def)
qed

text \<open>
  A packet from one LAN host to another that reaches the router does not get there: the
  router sends it back to the MAC address it came from, whatever its ARP table says.
\<close>

lemma Router_lan_to_lan_bounces:
  assumes "ethertype f = IPv4" and "Ipv4Packet_parse payload = Ok p"
    and "Ipv4Network_contains (rt_network r) (Ipv4Packet_dest p)" and "Ipv4Packet_dest p \<noteq> ip4 (rt_network r)"
    and "Ipv4Packet_dest p \<noteq> 0xFFFFFFFF"
  shows "Router_route E r (EthernetPacket_new f payload) = (Ok (), to_lan E r (frame_src f) IPv4 payload)"
proof -
  have "packet_data p = payload" using assms(2) by (simp add: Ipv4Packet_parse_eq_Ok)
  with assms show ?thesis
    by (simp add: Router_route_def EthernetPacket_new_def Router_route_ip4_def Router_perform_def Router_handle_action_def
        Router_write_to_switch_eq Ipv4Network_eq_addr_def is_broadcast4_def Ipv4Packet_into_bytes_def)
qed

text \<open>
  A packet for the router itself (or a broadcast) goes to the handler of its protocol, and
  a non-empty answer goes back to the sender's MAC: an IPv4 header with the addresses of the
  packet swapped, its length and its checksum filled in, and behind it exactly the bytes the
  handler wrote. The handler's new state is kept.
\<close>

lemma Router_local_answer:
  assumes "ethertype f = IPv4" and "Ipv4Packet_parse payload = Ok p"
    and "Ipv4Packet_dest p = ip4 (rt_network r) \<or> Ipv4Packet_dest p = 0xFFFFFFFF"
    and "rt_handlers r (Ipv4Packet_protocol p) = Some h"
    and "env_handle E h p (replicate 1540 0) = (Ok (n, buf), h')" and "0 < n" and "n \<le> length buf"
  shows "Router_route E r (EthernetPacket_new f payload) =
     (let hdr = Ipv4Header_new (env_rng E) (Ipv4Packet_dest p) (Ipv4Packet_src p) (Ipv4Packet_protocol p) (word_of_nat n);
          r' = r\<lparr>rt_handlers := (rt_handlers r)(Ipv4Packet_protocol p \<mapsto> h')\<rparr>
      in (Ok (), to_lan E r' (frame_src f) IPv4 (header_bytes hdr 0 (header_checksum hdr 0) @ take n buf)))"
proof -
  let ?hdr = "Ipv4Header_new (env_rng E) (Ipv4Packet_dest p) (Ipv4Packet_src p) (Ipv4Packet_protocol p) (word_of_nat n)"
  have rpkt: "take (20 + n) (replicate 20 0 @ buf) = replicate 20 0 @ take n buf"
    by simp
  have hdr: "Ipv4Packet_reply (env_rng E) p (take n buf) = ?hdr"
    using assms(7) by (simp add: Ipv4Packet_reply_def Ipv4Header_gen_reply_def Ipv4Packet_dest_def Ipv4Packet_src_def
        Ipv4Packet_protocol_def)
  have w: "Ipv4Header_as_bytes ?hdr (replicate 20 0) =
      (Ok (header_bytes ?hdr 0 (header_checksum ?hdr 0)) :: (bytes, ProtocolError) res)"
    by (simp add: Ipv4Header_as_bytes_eq)
  have "Router_handle_local_ipv4 E r p =
      (Ok (ToLan IPv4 (V4 (Ipv4Packet_src p)) (header_bytes ?hdr 0 (header_checksum ?hdr 0) @ take n buf)),
       r\<lparr>rt_handlers := (rt_handlers r)(Ipv4Packet_protocol p \<mapsto> h')\<rparr>)"
    using assms(4-6) hdr w
    by (simp add: Router_handle_local_ipv4_def IPV4_HDR_SZ_def Let_def rpkt) (simp add: Ipv4Header_new_def)
  moreover have "Ipv4Network_contains (rt_network r) (Ipv4Packet_dest p) \<or> is_broadcast4 (Ipv4Packet_dest p)"
    using assms(3) by (auto simp: Ipv4Network_contains_def Ipv4Network_network_def is_broadcast4_def)
  ultimately show ?thesis
    using assms(1-3)
    by (auto simp: Router_route_def EthernetPacket_new_def Router_route_ip4_def Router_perform_def Router_handle_action_def
        Router_write_to_switch_eq Ipv4Network_eq_addr_def is_broadcast4_def Let_def)
qed

section \<open>The handlers of a running router\<close>

text \<open>
  What every message leaves alone, and the client side of the \<open>ProtocolHandler\<close> contract: a
  router whose handlers satisfy their invariant keeps it, whatever it is sent.
\<close>

lemma Router_perform_handlers [simp]: "rt_handlers (snd (Router_perform E dst ra)) = rt_handlers (snd ra)"
proof -
  have "rt_handlers (snd (Router_handle_action E r a d)) = rt_handlers r" for r a d
    by (auto simp: Router_handle_action_def Router_forward_packet_def Router_write_to_switch_def Let_def
        split: RouterAction.splits option.splits res.splits prod.splits)
  then show ?thesis by (auto simp: Router_perform_def split: prod.splits res.splits)
qed

context protocol_handler
begin

definition handlers_inv :: "('s, 'd, 'w) Router \<Rightarrow> bool" where
  "handlers_inv r \<longleftrightarrow> (\<forall>k h. rt_handlers r k = Some h \<longrightarrow> inv h)"

lemma handlers_inv_local:
  assumes "handlers_inv r" and "env_handle E = handle_protocol"
  shows "handlers_inv (snd (Router_handle_local_ipv4 E r p))"
proof (cases "rt_handlers r (Ipv4Packet_protocol p)")
  case (Some h)
  obtain x h' where h': "handle_protocol h p (drop IPV4_HDR_SZ (replicate 1560 0)) = (x, h')" by fastforce
  have "inv h'" using handle_protocol_inv [OF _ h'] Some assms(1) by (auto simp: handlers_inv_def)
  then show ?thesis
    using assms Some h' by (auto simp: Router_handle_local_ipv4_def Let_def handlers_inv_def)
qed (use assms in \<open>simp add: Router_handle_local_ipv4_def Let_def\<close>)

lemma handlers_inv_turn:
  assumes "handlers_inv r" and "env_handle E = handle_protocol"
  shows "handlers_inv (snd (Router_turn E r m))"
proof -
  have ip4: "handlers_inv (snd (Router_route_ip4 E r p))" for p
    using assms(1) handlers_inv_local [OF assms] by (simp add: Router_route_ip4_def)
  have arp: "handlers_inv (snd (Router_handle_arp r b))" for b
    using assms(1) by (auto simp: Router_handle_arp_def handlers_inv_def Let_def split: res.splits)
  have "rt_handlers r1 = rt_handlers r2 \<Longrightarrow> handlers_inv r1 = handlers_inv r2" for r1 r2 :: "('s, 'd, 'w) Router"
    by (simp add: handlers_inv_def)
  then have perform: "handlers_inv (snd (Router_perform E d ra)) = handlers_inv (snd ra)" for d ra
    by (meson Router_perform_handlers)
  show ?thesis
    using assms(1) ip4 arp
    by (cases m) (auto simp: Router_route_def perform Router_route_ip6_def split: EtherType.splits res.splits)
qed

lemma handlers_inv_run:
  assumes "handlers_inv r" and "env_handle E = handle_protocol"
  shows "handlers_inv (snd (Router_run E r ms))"
  using assms(1)
proof (induction ms arbitrary: r)
  case (Cons m ms)
  obtain x r' where r': "Router_turn E r m = (x, r')" by fastforce
  then have "handlers_inv r'" using handlers_inv_turn [OF Cons.prems assms(2), of m] by simp
  then show ?case using r' Cons.IH by (cases x) simp_all
qed simp

end

end
