(* ===== verification/Nat_Table.thy ===== *)
theory Nat_Table
  imports Ipv4 "HOL-Library.Product_Lexorder"
begin

text \<open>
  The network address translation table, \<^verbatim>\<open>oathgate-net/src/nat.rs\<close>: a hash map from
  \<open>NatEntry\<close> to the address of the host that sent the packet. \<open>translation_table\<close> is the
  contract its clients (the WAN sides) rely on: the answer to a lookup is the sender of the
  last recorded packet whose flow the looked-up packet answers.
\<close>

section \<open>The table\<close>

datatype NatEntry =
    Tcp ipv4addr u16
  | Udp ipv4addr u16
  | Icmp ipv4addr u16

record NatTable =
  nat_table :: "NatEntry \<rightharpoonup> ipv4addr"

definition NatTable_new :: NatTable where
  "NatTable_new = \<lparr>nat_table = Map.empty\<rparr>"

definition NatTable_put_tcp :: "NatTable \<Rightarrow> ipv4addr \<Rightarrow> u16 \<Rightarrow> ipv4addr \<Rightarrow> NatTable" where
  "NatTable_put_tcp self dst port src = self\<lparr>nat_table := (nat_table self)(Tcp dst port \<mapsto> src)\<rparr>"

definition NatTable_put_udp :: "NatTable \<Rightarrow> ipv4addr \<Rightarrow> u16 \<Rightarrow> ipv4addr \<Rightarrow> NatTable" where
  "NatTable_put_udp self dst port src = self\<lparr>nat_table := (nat_table self)(Udp dst port \<mapsto> src)\<rparr>"

definition NatTable_put_icmp :: "NatTable \<Rightarrow> ipv4addr \<Rightarrow> u16 \<Rightarrow> ipv4addr \<Rightarrow> NatTable" where
  "NatTable_put_icmp self dst ident src = self\<lparr>nat_table := (nat_table self)(Icmp dst ident \<mapsto> src)\<rparr>"

text \<open>\<open>cast!(be16, &pkt.payload()[i..i+2])\<close>\<close>

definition payload_be16 :: "Ipv4Packet \<Rightarrow> nat \<Rightarrow> (u16, 'e) res" where
  "payload_be16 pkt i = and_then (Ipv4Packet_payload pkt) (\<lambda>p. be16_at p i)"

definition NatTable_insert :: "NatTable \<Rightarrow> Ipv4Packet \<Rightarrow> (NatTable, 'e) res" where
  "NatTable_insert self pkt =
     (if Ipv4Packet_protocol pkt = NET_PROTOCOL_ICMP then
        and_then (payload_be16 pkt 4) (\<lambda>ident.
        Ok (NatTable_put_icmp self (Ipv4Packet_dest pkt) ident (Ipv4Packet_src pkt)))
      else if Ipv4Packet_protocol pkt = NET_PROTOCOL_TCP then
        and_then (payload_be16 pkt 0) (\<lambda>port.
        Ok (NatTable_put_tcp self (Ipv4Packet_dest pkt) port (Ipv4Packet_src pkt)))
      else if Ipv4Packet_protocol pkt = NET_PROTOCOL_UDP then
        and_then (payload_be16 pkt 0) (\<lambda>port.
        Ok (NatTable_put_udp self (Ipv4Packet_dest pkt) port (Ipv4Packet_src pkt)))
      else Ok self)"

definition NatTable_get :: "NatTable \<Rightarrow> Ipv4Packet \<Rightarrow> (ipv4addr option, 'e) res" where
  "NatTable_get self pkt =
     (let src = Ipv4Packet_src pkt in
      if Ipv4Packet_protocol pkt = NET_PROTOCOL_ICMP then
        and_then (payload_be16 pkt 4) (\<lambda>ident. Ok (nat_table self (Icmp src ident)))
      else if Ipv4Packet_protocol pkt = NET_PROTOCOL_TCP then
        and_then (payload_be16 pkt 2) (\<lambda>port. Ok (nat_table self (Tcp src port)))
      else if Ipv4Packet_protocol pkt = NET_PROTOCOL_UDP then
        and_then (payload_be16 pkt 2) (\<lambda>port. Ok (nat_table self (Udp src port)))
      else Ok None)"

section \<open>The derived order of \<open>NatEntry\<close>\<close>

fun NatEntry_key :: "NatEntry \<Rightarrow> nat \<times> ipv4addr \<times> u16" where
  "NatEntry_key (Tcp a p) = (0, a, p)"
| "NatEntry_key (Udp a p) = (1, a, p)"
| "NatEntry_key (Icmp a p) = (2, a, p)"

lemma NatEntry_key_inject: "NatEntry_key e = NatEntry_key f \<longleftrightarrow> e = f"
  by (cases e; cases f) auto

instantiation NatEntry :: linorder
begin

definition less_eq_NatEntry :: "NatEntry \<Rightarrow> NatEntry \<Rightarrow> bool" where
  "less_eq_NatEntry e f \<longleftrightarrow> NatEntry_key e \<le> NatEntry_key f"

definition less_NatEntry :: "NatEntry \<Rightarrow> NatEntry \<Rightarrow> bool" where
  "less_NatEntry e f \<longleftrightarrow> NatEntry_key e < NatEntry_key f"

instance
  by standard
    (auto simp: less_eq_NatEntry_def less_NatEntry_def less_le_not_le simp flip: NatEntry_key_inject)

end

section \<open>The contract of a translation table\<close>

locale translation_table =
  fixes ins :: "'t \<Rightarrow> 'p \<Rightarrow> ('t, 'e) res"
    and look :: "'t \<Rightarrow> 'p \<Rightarrow> ('a option, 'e) res"
    and wf :: "'p \<Rightarrow> bool"
    and flow :: "'p \<Rightarrow> 'k option"
    and answers :: "'p \<Rightarrow> 'k option"
    and sender :: "'p \<Rightarrow> 'a"
  assumes ins_total: "wf p \<Longrightarrow> \<exists>t'. ins t p = Ok t'"
    and look_total: "wf q \<Longrightarrow> \<exists>r. look t q = Ok r"
    and look_ins: "wf p \<Longrightarrow> wf q \<Longrightarrow> ins t p = Ok t' \<Longrightarrow>
      look t' q = (if flow p \<noteq> None \<and> flow p = answers q then Ok (Some (sender p)) else look t q)"
begin

lemma fold_ins_total: "\<forall>p \<in> set ps. wf p \<Longrightarrow> \<exists>t'. fold_res ins t ps = Ok t'"
proof (induction ps arbitrary: t)
  case (Cons p ps)
  then obtain t1 where "ins t p = Ok t1" using ins_total [of p t] by auto
  with Cons show ?case by simp
qed simp

lemma look_fold_other:
  assumes "\<forall>p \<in> set ps. wf p \<and> (flow p = None \<or> flow p \<noteq> answers q)" and "wf q" and "fold_res ins t ps = Ok t'"
  shows "look t' q = look t q"
  using assms
proof (induction ps arbitrary: t)
  case (Cons p ps)
  then obtain t1 where "ins t p = Ok t1" "fold_res ins t1 ps = Ok t'" by (auto simp: and_then_eq_Ok)
  with Cons show ?case using look_ins [of p q t t1] by auto
qed simp

lemma look_last:
  assumes "wf p" and "wf q" and "flow p = Some k" and "answers q = Some k"
    and "\<forall>p' \<in> set later. wf p' \<and> flow p' \<noteq> Some k" and "\<forall>p' \<in> set earlier. wf p'"
  shows "\<exists>t'. fold_res ins t (earlier @ p # later) = Ok t' \<and> look t' q = Ok (Some (sender p))"
  using assms(6)
proof (induction earlier arbitrary: t)
  case Nil
  obtain t1 where t1: "ins t p = Ok t1" using ins_total [OF assms(1)] by blast
  obtain t2 where t2: "fold_res ins t1 later = Ok t2" using fold_ins_total [of later t1] assms(5) by blast
  have "look t1 q = Ok (Some (sender p))" using look_ins [OF assms(1,2) t1] assms(3,4) by simp
  then have "look t2 q = Ok (Some (sender p))"
    using look_fold_other [of later q t1 t2] t2 assms(2,4,5) by auto
  with t1 t2 show ?case by simp
next
  case (Cons e es)
  then obtain t1 where "ins t e = Ok t1" using ins_total [of e t] by auto
  with Cons show ?case by simp
qed

end

section \<open>The table keeps the contract\<close>

text \<open>The flow an outgoing packet opens, the flow an incoming one answers, and the packets long enough to tell.\<close>

definition payload_of :: "Ipv4Packet \<Rightarrow> bytes" where
  "payload_of p = drop (Ipv4Header_header_length (packet_header p)) (packet_data p)"

definition port_at :: "Ipv4Packet \<Rightarrow> nat \<Rightarrow> u16" where
  "port_at p i = from_be_bytes (take 2 (drop i (payload_of p)))"

definition nat_entry :: "u8 \<Rightarrow> ipv4addr \<Rightarrow> u16 \<Rightarrow> u16 \<Rightarrow> NatEntry option" where
  "nat_entry proto a ident port =
     (if proto = NET_PROTOCOL_ICMP then Some (Icmp a ident)
      else if proto = NET_PROTOCOL_TCP then Some (Tcp a port)
      else if proto = NET_PROTOCOL_UDP then Some (Udp a port) else None)"

definition nat_flow :: "Ipv4Packet \<Rightarrow> NatEntry option" where
  "nat_flow p = nat_entry (Ipv4Packet_protocol p) (Ipv4Packet_dest p) (port_at p 4) (port_at p 0)"

definition nat_answers :: "Ipv4Packet \<Rightarrow> NatEntry option" where
  "nat_answers p = nat_entry (Ipv4Packet_protocol p) (Ipv4Packet_src p) (port_at p 4) (port_at p 2)"

definition nat_wf :: "Ipv4Packet \<Rightarrow> bool" where
  "nat_wf p \<longleftrightarrow> Ipv4Header_header_length (packet_header p) \<le> length (packet_data p) \<and>
     (Ipv4Packet_protocol p = NET_PROTOCOL_ICMP \<longrightarrow> 6 \<le> length (payload_of p)) \<and>
     (Ipv4Packet_protocol p \<in> {NET_PROTOCOL_TCP, NET_PROTOCOL_UDP} \<longrightarrow> 4 \<le> length (payload_of p))"

lemma payload_be16_eq:
  "Ipv4Header_header_length (packet_header p) \<le> length (packet_data p) \<Longrightarrow> i + 2 \<le> length (payload_of p) \<Longrightarrow>
   payload_be16 p i = Ok (port_at p i)"
  by (simp add: payload_be16_def Ipv4Packet_payload_def payload_of_def port_at_def buf_simps)

lemmas net_protocols = NET_PROTOCOL_ICMP_def NET_PROTOCOL_TCP_def NET_PROTOCOL_UDP_def

lemma NatTable_insert_eq:
  "nat_wf p \<Longrightarrow> NatTable_insert t p =
     Ok (case nat_flow p of None \<Rightarrow> t | Some k \<Rightarrow> t\<lparr>nat_table := (nat_table t)(k \<mapsto> Ipv4Packet_src p)\<rparr>)"
  by (auto simp: NatTable_insert_def nat_wf_def nat_flow_def nat_entry_def payload_be16_eq net_protocols
      NatTable_put_icmp_def NatTable_put_tcp_def NatTable_put_udp_def)

lemma NatTable_get_eq:
  "nat_wf p \<Longrightarrow> NatTable_get t p = Ok (case nat_answers p of None \<Rightarrow> None | Some k \<Rightarrow> nat_table t k)"
  by (auto simp: NatTable_get_def nat_wf_def nat_answers_def nat_entry_def payload_be16_eq net_protocols)

interpretation nat: translation_table NatTable_insert NatTable_get nat_wf nat_flow nat_answers Ipv4Packet_src
  by unfold_locales (auto simp: NatTable_insert_eq NatTable_get_eq split: option.splits)

lemma NatTable_look_last:
  assumes "nat_wf p" and "nat_wf q" and "nat_flow p = Some k" and "nat_answers q = Some k"
    and "\<forall>p' \<in> set later. nat_wf p' \<and> nat_flow p' \<noteq> Some k" and "\<forall>p' \<in> set earlier. nat_wf p'"
  shows "\<exists>t'. fold_res NatTable_insert t (earlier @ p # later) = (Ok t' :: (NatTable, 'e) res) \<and>
              NatTable_get t' q = (Ok (Some (Ipv4Packet_src p)) :: (ipv4addr option, 'e) res)"
  using nat.look_last [OF assms] .

text \<open>
  C22: network address translation finds its way back. Whatever packets were recorded before
  it and after it, as long as no later one opened the same flow, a reply (same protocol, sent
  by the destination, to the source port or with the ICMP identifier of the packet) is
  translated to the host that sent the packet.
\<close>

theorem NatTable_reply_reaches_sender:
  assumes "nat_wf p" and "nat_wf q" and "nat_flow p = Some k" and "nat_answers q = Some k"
    and "\<forall>p' \<in> set later. nat_wf p' \<and> nat_flow p' \<noteq> Some k" and "\<forall>p' \<in> set earlier. nat_wf p'"
  shows "\<exists>t'. fold_res NatTable_insert t (earlier @ p # later) = (Ok t' :: (NatTable, 'e) res) \<and>
              NatTable_get t' q = (Ok (Some (Ipv4Packet_src p)) :: (ipv4addr option, 'e) res)"
  using assms by (rule NatTable_look_last)

text \<open>A UDP packet as the parser returns it: addresses, ports, no payload.\<close>

definition udp_sample :: "ipv4addr \<Rightarrow> ipv4addr \<Rightarrow> u8 \<Rightarrow> u8 \<Rightarrow> Ipv4Packet" where
  "udp_sample s d sp dp =
     \<lparr>packet_header = (Ipv4Header_new 1 s d 17 8),
      packet_data = replicate 20 0 @ [0, sp, 0, dp, 0, 8, 0, 0]\<rparr>"

lemma udp_sample_nat:
  "nat_wf (udp_sample s d sp dp)" "Ipv4Packet_src (udp_sample s d sp dp) = s"
  "nat_flow (udp_sample s d sp dp) = Some (Udp d (from_be_bytes [0, sp]))"
  "nat_answers (udp_sample s d sp dp) = Some (Udp s (from_be_bytes [0, dp]))"
  by (simp_all add: udp_sample_def nat_wf_def nat_flow_def nat_answers_def nat_entry_def port_at_def payload_of_def
      Ipv4Header_header_length_def Ipv4Header_new_def Ipv4Packet_protocol_def Ipv4Packet_dest_def Ipv4Packet_src_def
      net_protocols)

theorem NatTable_reply_reaches_sender_witness:
  "\<exists>t'. fold_res NatTable_insert NatTable_new [udp_sample 1 9 7 80, udp_sample 2 9 8 80] = (Ok t' :: (NatTable, unit) res) \<and>
        NatTable_get t' (udp_sample 9 5 80 7) = (Ok (Some 1) :: (ipv4addr option, unit) res)"
proof -
  have ne: "(from_be_bytes [0, 8] :: u16) \<noteq> from_be_bytes [0, 7]" by (simp add: from_be_bytes_def)
  show ?thesis
    using NatTable_reply_reaches_sender [of "udp_sample 1 9 7 80" "udp_sample 9 5 80 7" "Udp 9 (from_be_bytes [0, 7])"
      "[udp_sample 2 9 8 80]" "[]" NatTable_new, where 'e = unit] ne
    by (simp add: udp_sample_nat)
qed

text \<open>
  The source port is not translated, so two hosts that talk to the same server from the
  same port share one entry: after both packets are recorded, the reply to the first is
  translated to the second host.
\<close>

lemma NatTable_shared_port_collision:
  "\<exists>t'. fold_res NatTable_insert NatTable_new [udp_sample host1 server port 80, udp_sample host2 server port 80]
          = (Ok t' :: (NatTable, unit) res) \<and>
        NatTable_get t' (udp_sample server wan 80 port) = (Ok (Some host2) :: (ipv4addr option, unit) res)"
  by (simp add: NatTable_insert_eq NatTable_get_eq udp_sample_nat)

end
