(* ===== verification/Wan.thy ===== *)
theory Wan
  imports Router Nat_Table
begin

text \<open>
  The WAN providers, \<^verbatim>\<open>oathgate-bridge/src/net/wan/wireguard.rs\<close>, \<^verbatim>\<open>udp.rs\<close> and
  \<^verbatim>\<open>tap.rs\<close>. The WireGuard tunnel is the crate \<open>boringtun\<close>: its state (\<open>'t\<close>) and its three
  operations are arguments (\<open>wg_env\<close>), as are the socket, the poller and the system calls. Each of
  the three is given the size of the buffer it may write to, and panics (\<open>None\<close>) when its output
  does not fit: \<open>encapsulate\<close> needs 32 bytes more than the packet has.
  Datagrams that were sent are recorded in the order of the calls. The poll loops are given the
  events they see.
\<close>

datatype SocketAddr = SockV4 ipv4addr u16 | SockV6 ipv6addr u16

section \<open>Handles\<close>

text \<open>
  A \<open>flume\<close> channel of packets: what was sent and not received yet, and whether the receiver
  still exists. A device and its handle share one.
\<close>

record pkt_channel =
  ch_queue :: "Ipv4Packet list"
  ch_open :: bool

definition channel_send :: "pkt_channel \<Rightarrow> Ipv4Packet \<Rightarrow> (unit, NetworkError) res \<times> pkt_channel" where
  "channel_send c pkt = (if ch_open c then (Ok (), c\<lparr>ch_queue := ch_queue c @ [pkt]\<rparr>) else (Err ChannelClosed, c))"

section \<open>WireGuard\<close>

datatype WireGuardError = ConnectionExpired | OtherWireGuardError string

datatype TunnResult =
    TunnDone
  | TunnErr WireGuardError
  | WriteToNetwork bytes
  | WriteToTunnelV4 bytes ipv4addr
  | WriteToTunnelV6 bytes ipv6addr

record 't WgDevice =
  wg_tun :: 't
  wg_endpoint :: SocketAddr
  wg_ipv4 :: ipv4addr
  wg_rx :: "Ipv4Packet list"
  wg_nat :: NatTable
  wg_cache :: "u16 \<rightharpoonup> Ipv4Packet"

text \<open>The sizes of the buffers a datagram is read to and the tunnel writes to.\<close>

definition WG_BUF_SZ :: nat where
  "WG_BUF_SZ = 1600"

text \<open>The device with the router's handle and the datagrams sent so far.\<close>

record 't wg_world =
  wg_dev :: "'t WgDevice"
  wg_router :: RouterHandle
  wg_sent :: "(SocketAddr \<times> bytes) list"

record 't wg_env =
  wg_encapsulate :: "'t \<Rightarrow> bytes \<Rightarrow> nat \<Rightarrow> TunnResult option \<times> 't"
  wg_decapsulate :: "'t \<Rightarrow> IpAddr \<Rightarrow> bytes \<Rightarrow> nat \<Rightarrow> TunnResult option \<times> 't"
  wg_update_timers :: "'t \<Rightarrow> nat \<Rightarrow> TunnResult option \<times> 't"
  wg_send_to :: "SocketAddr \<Rightarrow> bytes \<Rightarrow> (unit, string) res"
  wg_timer_wait :: "(unit, string) res"

text \<open>
  \<open>create\<close>: the base64 decoder, the tunnel and the poller (whose failures are texts) are
  arguments.
\<close>

record WgConfig =
  wgc_key :: string
  wgc_ipv4 :: ipv4addr
  wgc_peer :: string
  wgc_endpoint :: SocketAddr

definition WgDevice_create ::
  "(string \<Rightarrow> (bytes, string) res) \<Rightarrow> (bytes \<Rightarrow> bytes \<Rightarrow> ('t, string) res) \<Rightarrow> (unit, string) res \<Rightarrow> (unit, string) res
     \<Rightarrow> WgConfig \<Rightarrow> ('t WgDevice, NetworkError) res" where
  "WgDevice_create decode_slice tunn_new poll_new waker_new cfg =
     and_then (map_err DecodeSlice (decode_slice (wgc_key cfg))) (\<lambda>key.
     and_then (map_err DecodeSlice (decode_slice (wgc_peer cfg))) (\<lambda>peer.
     and_then (map_err Generic (tunn_new key peer)) (\<lambda>tun.
     and_then (map_err Io poll_new) (\<lambda>_.
     and_then (map_err Io waker_new) (\<lambda>_.
     Ok \<lparr>wg_tun = tun, wg_endpoint = wgc_endpoint cfg, wg_ipv4 = wgc_ipv4 cfg, wg_rx = [], wg_nat = NatTable_new, wg_cache = Map.empty\<rparr>)))))"

text \<open>\<open>WgHandle::write\<close>: the packet is queued before the waker may fail.\<close>

record WgHandle =
  wgh_tx :: pkt_channel

definition WgHandle_write :: "(unit, string) res \<Rightarrow> WgHandle \<Rightarrow> Ipv4Packet \<Rightarrow> (unit, NetworkError) res \<times> WgHandle" where
  "WgHandle_write wake self pkt =
     (case channel_send (wgh_tx self) pkt of (r, tx) \<Rightarrow> (and_then r (\<lambda>_. map_err Io wake), self\<lparr>wgh_tx := tx\<rparr>))"

text \<open>
  Reassembly: what is left of an incoming packet (\<open>None\<close> while its fragments are being
  collected) and the fragment cache.
\<close>

definition WgDevice_defragment ::
  "(u16 \<rightharpoonup> Ipv4Packet) \<Rightarrow> Ipv4Packet \<Rightarrow> (Ipv4Packet option, NetworkError) res \<times> (u16 \<rightharpoonup> Ipv4Packet)" where
  "WgDevice_defragment frags pkt =
     (let offset = Ipv4Packet_fragment_offset pkt in
      if \<not> Ipv4Packet_has_fragments pkt \<and> offset = 0 then (Ok (Some pkt), frags)
      else if Ipv4Packet_has_fragments pkt \<and> offset = 0 then (Ok None, frags(Ipv4Packet_id pkt \<mapsto> pkt))
      else if Ipv4Packet_has_fragments pkt then
        (case frags (Ipv4Packet_id pkt) of
           None \<Rightarrow> (Ok None, frags)
         | Some fpkt \<Rightarrow>
             (case and_then (Ipv4Packet_payload pkt) (Ipv4Packet_add_fragment_data fpkt offset) of
                Ok fpkt \<Rightarrow> (Ok None, frags(Ipv4Packet_id pkt \<mapsto> fpkt))
              | Err e \<Rightarrow> (Err e, frags)
              | Panic \<Rightarrow> (Panic, frags)))
      else
        (case frags (Ipv4Packet_id pkt) of
           None \<Rightarrow> (Err (Generic ''missing frag packet data''), frags)
         | Some fpkt \<Rightarrow>
             (and_then (and_then (Ipv4Packet_payload pkt) (Ipv4Packet_add_fragment_data fpkt offset)) (\<lambda>fpkt.
              and_then (Ipv4Packet_finalize fpkt) (\<lambda>fpkt. Ok (Some fpkt))), frags(Ipv4Packet_id pkt := None))))"

text \<open>A packet out of the tunnel: reassembled, translated back and handed to the router.\<close>

definition WgDevice_write_to_tunnel_v4 :: "'t wg_world \<Rightarrow> bytes \<Rightarrow> (unit, NetworkError) res \<times> 't wg_world" where
  "WgDevice_write_to_tunnel_v4 self pkt =
     (case map_err Protocol (and_then (Ipv4Header_extract_from_slice pkt) (\<lambda>_. Ipv4Packet_parse pkt)) of
        Err e \<Rightarrow> (Err e, self)
      | Panic \<Rightarrow> (Panic, self)
      | Ok pkt \<Rightarrow>
          (case WgDevice_defragment (wg_cache (wg_dev self)) pkt of
             (r, frags) \<Rightarrow>
               let self = self\<lparr>wg_dev := (wg_dev self)\<lparr>wg_cache := frags\<rparr>\<rparr> in
               case r of
                 Err e \<Rightarrow> (Err e, self)
               | Panic \<Rightarrow> (Panic, self)
               | Ok None \<Rightarrow> (Ok (), self)
               | Ok (Some pkt) \<Rightarrow>
                   (case NatTable_get (wg_nat (wg_dev self)) pkt of
                      Err e \<Rightarrow> (Err e, self)
                    | Panic \<Rightarrow> (Panic, self)
                    | Ok None \<Rightarrow> (Ok (), self)
                    | Ok (Some orig) \<Rightarrow>
                        (case Ipv4Packet_unmasquerade pkt orig of
                           Err e \<Rightarrow> (Err e, self)
                         | Panic \<Rightarrow> (Panic, self)
                         | Ok pkt \<Rightarrow> (Ok (), self\<lparr>wg_router := RouterHandle_route_ipv4 (wg_router self) pkt\<rparr>)))))"

definition WgDevice_handle_tun_result ::
  "'t wg_env \<Rightarrow> 't wg_world \<Rightarrow> TunnResult \<Rightarrow> (bool, NetworkError) res \<times> 't wg_world" where
  "WgDevice_handle_tun_result E self action =
     (case action of
        TunnErr _ \<Rightarrow> (Ok False, self)
      | TunnDone \<Rightarrow> (Ok False, self)
      | WriteToNetwork pkt \<Rightarrow>
          (case wg_send_to E (wg_endpoint (wg_dev self)) pkt of
             Err e \<Rightarrow> (Err (Io e), self)
           | Panic \<Rightarrow> (Panic, self)
           | Ok _ \<Rightarrow> (Ok True, self\<lparr>wg_sent := wg_sent self @ [(wg_endpoint (wg_dev self), pkt)]\<rparr>))
      | WriteToTunnelV4 pkt ip \<Rightarrow>
          (case WgDevice_write_to_tunnel_v4 self pkt of (r, self) \<Rightarrow> (and_then r (\<lambda>_. Ok False), self))
      | WriteToTunnelV6 pkt ip \<Rightarrow>
          (Ok False, self\<lparr>wg_router := RouterHandle_route_ipv6 (wg_router self) pkt\<rparr>))"

text \<open>The tunnel's state after one of its operations.\<close>

definition wg_set_tun :: "'t wg_world \<Rightarrow> 't \<Rightarrow> 't wg_world" where
  "wg_set_tun self t = self\<lparr>wg_dev := (wg_dev self)\<lparr>wg_tun := t\<rparr>\<rparr>"

text \<open>What \<open>run\<close> does with the outcome of an operation of the tunnel.\<close>

definition WgDevice_tun_outcome ::
  "'t wg_env \<Rightarrow> 't wg_world \<Rightarrow> TunnResult option \<times> 't \<Rightarrow> (bool, NetworkError) res \<times> 't wg_world" where
  "WgDevice_tun_outcome E self r =
     (case r of
        (None, t) \<Rightarrow> (Panic, wg_set_tun self t)
      | (Some action, t) \<Rightarrow> WgDevice_handle_tun_result E (wg_set_tun self t) action)"

text \<open>The loop \<open>'wg\<close>: decapsulate, then again with an empty datagram as long as the tunnel has packets for the network.\<close>

partial_function (option) WgDevice_drain ::
  "'t wg_env \<Rightarrow> IpAddr \<Rightarrow> 't wg_world \<Rightarrow> bytes \<Rightarrow> ((unit, NetworkError) res \<times> 't wg_world) option" where
  "WgDevice_drain E peer self buf =
     (case WgDevice_tun_outcome E self (wg_decapsulate E (wg_tun (wg_dev self)) peer buf WG_BUF_SZ) of
        (Err e, self) \<Rightarrow> Some (Err e, self)
      | (Panic, self) \<Rightarrow> Some (Panic, self)
      | (Ok again, self) \<Rightarrow> if \<not> again then Some (Ok (), self) else WgDevice_drain E peer self [])"

text \<open>One packet of the handle's queue: recorded, masqueraded and encapsulated.\<close>

definition WgDevice_outbound :: "'t wg_env \<Rightarrow> 't wg_world \<Rightarrow> Ipv4Packet \<Rightarrow> (unit, NetworkError) res \<times> 't wg_world" where
  "WgDevice_outbound E self pkt =
     (case and_then (NatTable_insert (wg_nat (wg_dev self)) pkt) (\<lambda>tbl.
           and_then (Ipv4Packet_masquerade pkt (wg_ipv4 (wg_dev self))) (\<lambda>pkt. Ok (tbl, pkt))) of
        Err e \<Rightarrow> (Err e, self)
      | Panic \<Rightarrow> (Panic, self)
      | Ok (tbl, pkt) \<Rightarrow>
          (case WgDevice_tun_outcome E (self\<lparr>wg_dev := (wg_dev self)\<lparr>wg_nat := tbl\<rparr>\<rparr>)
                  (wg_encapsulate E (wg_tun (wg_dev self)) (Ipv4Packet_as_bytes pkt) WG_BUF_SZ) of
             (r, self) \<Rightarrow> (and_then r (\<lambda>_. Ok ()), self)))"

fun WgDevice_outbound_all ::
  "'t wg_env \<Rightarrow> 't wg_world \<Rightarrow> Ipv4Packet list \<Rightarrow> (unit, NetworkError) res \<times> 't wg_world" where
  "WgDevice_outbound_all E self [] = (Ok (), self)"
| "WgDevice_outbound_all E self (p # ps) =
     (case WgDevice_outbound E self p of
        (Ok _, self) \<Rightarrow> WgDevice_outbound_all E self ps
      | (r, self) \<Rightarrow> (r, self))"

text \<open>
  The events of \<open>run\<close>: the datagrams the socket has until it would block, ending in an error or
  not; the waker; the timer. A datagram longer than the buffer is cut.
\<close>

datatype wg_event = UdpReadable "(IpAddr \<times> bytes) list" "string option" | Woken | TimerExpired | OtherToken

fun WgDevice_receive ::
  "'t wg_env \<Rightarrow> 't wg_world \<Rightarrow> (IpAddr \<times> bytes) list \<Rightarrow> string option \<Rightarrow> ((unit, NetworkError) res \<times> 't wg_world) option" where
  "WgDevice_receive E self [] err = Some (case err of None \<Rightarrow> Ok () | Some e \<Rightarrow> Err (Io e), self)"
| "WgDevice_receive E self ((peer, buf) # ds) err =
     (case WgDevice_drain E peer self (take WG_BUF_SZ buf) of
        Some (Ok _, self) \<Rightarrow> WgDevice_receive E self ds err
      | x \<Rightarrow> x)"

fun WgDevice_event ::
  "'t wg_env \<Rightarrow> 't wg_world \<Rightarrow> wg_event \<Rightarrow> ((unit, NetworkError) res \<times> 't wg_world) option" where
  "WgDevice_event E self (UdpReadable ds err) = WgDevice_receive E self ds err"
| "WgDevice_event E self Woken =
     Some (WgDevice_outbound_all E (self\<lparr>wg_dev := (wg_dev self)\<lparr>wg_rx := []\<rparr>\<rparr>) (wg_rx (wg_dev self)))"
| "WgDevice_event E self TimerExpired =
     Some (case wg_timer_wait E of
             Err e \<Rightarrow> (Err (Errno e), self)
           | Panic \<Rightarrow> (Panic, self)
           | Ok _ \<Rightarrow>
               (case WgDevice_tun_outcome E self (wg_update_timers E (wg_tun (wg_dev self)) WG_BUF_SZ) of
                  (r, self) \<Rightarrow> (and_then r (\<lambda>_. Ok ()), self)))"
| "WgDevice_event E self OtherToken = Some (Ok (), self)"

text \<open>The loop over the events; an error or a panic of one of them ends the thread.\<close>

fun WgDevice_run ::
  "'t wg_env \<Rightarrow> 't wg_world \<Rightarrow> wg_event list \<Rightarrow> ((unit, NetworkError) res \<times> 't wg_world) option" where
  "WgDevice_run E self [] = Some (Ok (), self)"
| "WgDevice_run E self (ev # evs) =
     (case WgDevice_event E self ev of
        Some (Ok _, self) \<Rightarrow> WgDevice_run E self evs
      | x \<Rightarrow> x)"

section \<open>UDP\<close>

record UdpDevice =
  udp_sock :: rawfd
  udp_dests :: "SocketAddr list"

definition UdpDevice_connect :: "(rawfd, string) res \<Rightarrow> (SocketAddr list, string) res \<Rightarrow> (UdpDevice, string) res" where
  "UdpDevice_connect bound addrs =
     and_then bound (\<lambda>sock. and_then addrs (\<lambda>dests. Ok \<lparr>udp_sock = sock, udp_dests = dests\<rparr>))"

text \<open>One turn of \<open>run\<close>: a datagram, handed to the router by its IP version.\<close>

definition UdpDevice_turn :: "RouterHandle \<Rightarrow> bytes \<Rightarrow> (unit, NetworkError) res \<times> RouterHandle" where
  "UdpDevice_turn router pkt =
     (case get_at pkt 0 of
        Err e \<Rightarrow> (Err e, router)
      | Panic \<Rightarrow> (Panic, router)
      | Ok b0 \<Rightarrow>
          let version = drop_bit 4 b0 in
          if version = 4 then
            (case map_err Protocol (Ipv4Packet_parse pkt) of
               Ok pkt \<Rightarrow> (Ok (), RouterHandle_route_ipv4 router pkt)
             | Err e \<Rightarrow> (Err e, router)
             | Panic \<Rightarrow> (Panic, router))
          else if version = 6 then (Ok (), RouterHandle_route_ipv6 router pkt)
          else (Ok (), router))"

text \<open>\<open>run\<close> on the outcomes of \<open>recv_from\<close>; an error ends it.\<close>

fun UdpDevice_run :: "RouterHandle \<Rightarrow> (bytes, string) res list \<Rightarrow> (unit, NetworkError) res \<times> RouterHandle" where
  "UdpDevice_run router [] = (Ok (), router)"
| "UdpDevice_run router (r # rs) =
     (case r of
        Ok pkt \<Rightarrow>
          (case UdpDevice_turn router pkt of
             (Ok _, router) \<Rightarrow> UdpDevice_run router rs
           | (x, router) \<Rightarrow> (x, router))
      | Err e \<Rightarrow> (Err (Io e), router)
      | Panic \<Rightarrow> (Panic, router))"

text \<open>
  The handle has the descriptor of the device's socket, not the socket. \<open>write\<close>: the packet to every
  destination, up to the first that fails; \<open>udh_sent\<close> records what was sent through which descriptor.
\<close>

record UdpDeviceHandle =
  udh_sock :: rawfd
  udh_dests :: "SocketAddr list"
  udh_sent :: "(rawfd \<times> SocketAddr \<times> bytes) list"

definition UdpDevice_as_wan_handle :: "UdpDevice \<Rightarrow> UdpDeviceHandle" where
  "UdpDevice_as_wan_handle self = \<lparr>udh_sock = udp_sock self, udh_dests = udp_dests self, udh_sent = []\<rparr>"

fun UdpDeviceHandle_send ::
  "(rawfd \<Rightarrow> SocketAddr \<Rightarrow> bytes \<Rightarrow> (unit, string) res) \<Rightarrow> SocketAddr list \<Rightarrow> UdpDeviceHandle \<Rightarrow> bytes
     \<Rightarrow> (unit, NetworkError) res \<times> UdpDeviceHandle" where
  "UdpDeviceHandle_send sendmsg [] self pkt = (Ok (), self)"
| "UdpDeviceHandle_send sendmsg (d # ds) self pkt =
     (case sendmsg (udh_sock self) d pkt of
        Ok _ \<Rightarrow> UdpDeviceHandle_send sendmsg ds (self\<lparr>udh_sent := udh_sent self @ [(udh_sock self, d, pkt)]\<rparr>) pkt
      | Err e \<Rightarrow> (Err (Errno e), self)
      | Panic \<Rightarrow> (Panic, self))"

definition UdpDeviceHandle_write ::
  "(rawfd \<Rightarrow> SocketAddr \<Rightarrow> bytes \<Rightarrow> (unit, string) res) \<Rightarrow> UdpDeviceHandle \<Rightarrow> Ipv4Packet
     \<Rightarrow> (unit, NetworkError) res \<times> UdpDeviceHandle" where
  "UdpDeviceHandle_write sendmsg self pkt = UdpDeviceHandle_send sendmsg (udh_dests self) self (Ipv4Packet_as_bytes pkt)"

section \<open>TAP\<close>

record TunTap =
  tap_name :: bytes
  tap_idx :: u32
  tap_rx :: "Ipv4Packet list"
  tap_mac :: MacAddress
  tap_written :: "bytes list"

datatype tap_flags = IFF_TAP | IFF_TUN

definition IFNAMSIZ :: nat where "IFNAMSIZ = 16"

text \<open>
  \<open>create\<close>: the outcomes of opening the device and of the system calls, the hardware address
  lookup and the random bytes are arguments. The interface name is copied into 16 bytes.
\<close>

record tap_os =
  os_open_tun :: "(unit, string) res"
  os_tunsetiff :: "bytes \<Rightarrow> tap_flags \<Rightarrow> (unit, string) res"
  os_if_nametoindex :: "bytes \<Rightarrow> (u32, string) res"
  os_poll_new :: "(unit, string) res"
  os_socket :: "(unit, string) res"
  os_siocgifhwaddr :: "bytes \<Rightarrow> (bytes, string) res"
  os_rng :: "u8 \<times> u8 \<times> u8"

definition TunTap_create :: "tap_os \<Rightarrow> bytes \<Rightarrow> tap_flags \<Rightarrow> (TunTap, NetworkError) res" where
  "TunTap_create os name flags =
     (let len = length name in
      if IFNAMSIZ < len then
        Err (Generic (''device name ('' @ map (\<lambda>b. char_of (unat b)) name @ '') is too long, max length is 16, provided length ''
             @ show_dec len))
      else
        let len = min IFNAMSIZ len in
        and_then (get_slice name 0 len) (\<lambda>n.
        and_then (put_slice (replicate IFNAMSIZ 0) 0 len n) (\<lambda>ifrn_name.
        and_then (map_err Io (os_open_tun os)) (\<lambda>_.
        and_then (map_err Errno (os_tunsetiff os ifrn_name flags)) (\<lambda>_.
        and_then (map_err Errno (os_if_nametoindex os n)) (\<lambda>idx.
        and_then (map_err Io (os_poll_new os)) (\<lambda>_.
        and_then (if flags = IFF_TAP
                  then map_err Protocol (MacAddress_from_interface (os_socket os) (os_siocgifhwaddr os) name)
                  else Ok (MacAddress_generate (os_rng os))) (\<lambda>mac.
        Ok \<lparr>tap_name = name, tap_idx = idx, tap_rx = [], tap_mac = mac, tap_written = []\<rparr>))))))))"

definition TunTap_create_tap :: "tap_os \<Rightarrow> bytes \<Rightarrow> (TunTap, NetworkError) res" where
  "TunTap_create_tap os name = TunTap_create os name IFF_TAP"

definition TunTap_create_tun :: "tap_os \<Rightarrow> bytes \<Rightarrow> (TunTap, NetworkError) res" where
  "TunTap_create_tun os name = TunTap_create os name IFF_TUN"

record TunTapHandle =
  tth_tx :: pkt_channel

definition TunTap_as_wan_handle ::
  "(unit, string) res \<Rightarrow> (unit, string) res \<Rightarrow> TunTap \<Rightarrow> (TunTapHandle, NetworkError) res" where
  "TunTap_as_wan_handle waker register self =
     and_then (map_err Io waker) (\<lambda>_.
     and_then (map_err Io register) (\<lambda>_.
     Ok \<lparr>tth_tx = \<lparr>ch_queue = tap_rx self, ch_open = True\<rparr>\<rparr>))"

definition TunTapHandle_write :: "TunTapHandle \<Rightarrow> Ipv4Packet \<Rightarrow> (unit, NetworkError) res \<times> TunTapHandle" where
  "TunTapHandle_write self pkt = (case channel_send (tth_tx self) pkt of (_, tx) \<Rightarrow> (Ok (), self\<lparr>tth_tx := tx\<rparr>))"

text \<open>\<open>read_from_device\<close> drops what it read; \<open>write_to_device\<close> writes the packet.\<close>

definition TunTap_read_from_device :: "(bytes, string) res \<Rightarrow> TunTap \<Rightarrow> (unit, string) res \<times> TunTap" where
  "TunTap_read_from_device rd self = (and_then rd (\<lambda>_. Ok ()), self)"

definition TunTap_write_to_device :: "(bytes \<Rightarrow> (nat, string) res) \<Rightarrow> TunTap \<Rightarrow> Ipv4Packet \<Rightarrow> (unit, string) res \<times> TunTap" where
  "TunTap_write_to_device wr self pkt =
     (case wr (Ipv4Packet_as_bytes pkt) of
        Ok _ \<Rightarrow> (Ok (), self\<lparr>tap_written := tap_written self @ [Ipv4Packet_as_bytes pkt]\<rparr>)
      | Err e \<Rightarrow> (Err e, self)
      | Panic \<Rightarrow> (Panic, self))"

datatype tap_event = TapReadable "(bytes, string) res" | TapWoken | TapOther

text \<open>One event of \<open>run\<close>; the router is not used.\<close>

fun TunTap_event :: "(bytes \<Rightarrow> (nat, string) res) \<Rightarrow> TunTap \<Rightarrow> tap_event \<Rightarrow> TunTap" where
  "TunTap_event wr self (TapReadable rd) = snd (TunTap_read_from_device rd self)"
| "TunTap_event wr self TapWoken =
     foldl (\<lambda>self pkt. snd (TunTap_write_to_device wr self pkt)) (self\<lparr>tap_rx := []\<rparr>) (tap_rx self)"
| "TunTap_event wr self TapOther = self"

text \<open>\<open>run\<close> on the outcomes of \<open>poll\<close>; only a failed poll ends it.\<close>

fun TunTap_run ::
  "(bytes \<Rightarrow> (nat, string) res) \<Rightarrow> TunTap \<Rightarrow> (tap_event list, string) res list \<Rightarrow> (unit, NetworkError) res \<times> TunTap" where
  "TunTap_run wr self [] = (Ok (), self)"
| "TunTap_run wr self (r # rs) =
     (case r of
        Ok evs \<Rightarrow> TunTap_run wr (foldl (TunTap_event wr) self evs) rs
      | Err e \<Rightarrow> (Err (Io e), self)
      | Panic \<Rightarrow> (Panic, self))"

text \<open>\<open>Debug\<close> of the device: the index with at least two digits, and the name.\<close>

definition TunTap_fmt :: "TunTap \<Rightarrow> string" where
  "TunTap_fmt self =
     (let idx = show_dec (unat (tap_idx self)) in
      ''Tun('' @ replicate (2 - length idx) (CHR ''0'') @ idx @ '':'' @ map (\<lambda>b. char_of (unat b)) (tap_name self) @ '')'')"

section \<open>Translation through the tunnel\<close>

text \<open>
  To evaluate the properties at: a tunnel that puts 32 bytes before a packet and takes them off
  again, and the reply to the sample packet.
\<close>

definition sample_wg_env :: "unit wg_env" where
  "sample_wg_env =
     \<lparr>wg_encapsulate = (\<lambda>t b n. (if n < length b + 32 then None else Some (WriteToNetwork (replicate 32 0 @ b)), t)),
      wg_decapsulate = (\<lambda>t peer b n. (if n < length b then None else Some (WriteToTunnelV4 (drop 32 b) 0), t)),
      wg_update_timers = (\<lambda>t n. (Some TunnDone, t)), wg_send_to = (\<lambda>a b. Ok ()), wg_timer_wait = Ok ()\<rparr>"

definition sample_wg :: "NatTable \<Rightarrow> unit wg_world" where
  "sample_wg tbl =
     \<lparr>wg_dev = \<lparr>wg_tun = (), wg_endpoint = SockV4 0x01020304 51820, wg_ipv4 = 0xC0A80001, wg_rx = [], wg_nat = tbl, wg_cache = Map.empty\<rparr>,
      wg_router = \<lparr>rh_tx = []\<rparr>, wg_sent = []\<rparr>"

definition sample_out :: Ipv4Packet where
  "sample_out = \<lparr>packet_header = header_of_bytes sample_udp, packet_data = sample_udp\<rparr>"

definition sample_reply :: bytes where
  "sample_reply = [0x45, 0, 0, 28, 0, 2, 0x40, 0, 64, 17, 0, 0, 10, 0, 0, 2, 192, 168, 0, 1, 0, 8, 0, 7, 0, 8, 0, 0]"

definition sample_in :: Ipv4Packet where
  "sample_in = \<lparr>packet_header = header_of_bytes sample_reply, packet_data = sample_reply\<rparr>"

lemma sample_out_header:
  "Ipv4Packet_parse sample_udp = Ok sample_out" "ip_ihl (packet_header sample_out) = 5"
  "ip_frag_offset (packet_header sample_out) = 0" "transport_fits (packet_header sample_out) (drop 20 sample_udp)"
  using sample_udp_header sample_udp_fits by (simp_all add: sample_out_def)

lemma sample_out_nat:
  "nat_wf sample_out" "nat_flow sample_out = Some (Udp 0x0A000002 7)" "Ipv4Packet_src sample_out = 0x0A000001"
  by (simp_all add: sample_out_def nat_wf_def nat_flow_def nat_entry_def payload_of_def port_at_def Ipv4Packet_protocol_def
      Ipv4Packet_dest_def Ipv4Packet_src_def Ipv4Header_header_length_def sample_udp_header net_protocols)
    (simp add: sample_udp_def from_be_bytes_def)

lemma sample_in_header:
  "Ipv4Packet_parse sample_reply = Ok sample_in" "ip_ihl (packet_header sample_in) = 5"
  "ip_frag_offset (packet_header sample_in) = 0" "\<not> Ipv4Packet_has_fragments sample_in"
  "transport_fits (packet_header sample_in) (drop 20 sample_reply)"
  by (simp_all add: Ipv4Packet_parse_eq_Ok sample_in_def sample_reply_def header_of_bytes_def from_be_bytes_def
      Ipv4Packet_has_fragments_def transport_fits_def csum_pos_def net_protocols)

lemma sample_in_nat: "nat_wf sample_in" "nat_answers sample_in = Some (Udp 0x0A000002 7)"
  by (simp_all add: sample_in_def sample_reply_def nat_wf_def nat_answers_def nat_entry_def payload_of_def port_at_def
      Ipv4Packet_protocol_def Ipv4Packet_src_def Ipv4Header_header_length_def header_of_bytes_def from_be_bytes_def net_protocols)

text \<open>
  An outgoing packet is recorded in the NAT table, given the device's address and handed to
  the tunnel: what is encapsulated is the packet with the source address replaced and its
  checksums recomputed, nothing else.
\<close>

lemma WgDevice_outbound_masquerades:
  assumes "Ipv4Packet_parse b = Ok p" and "ip_ihl (packet_header p) = 5" and "ip_frag_offset (packet_header p) = 0"
    and "transport_fits (packet_header p) (drop 20 b)" and "nat_wf p"
  shows "\<exists>q tbl. translated ((packet_header p)\<lparr>ip_src := wg_ipv4 (wg_dev w)\<rparr>) b q \<and>
     NatTable_insert (wg_nat (wg_dev w)) p = (Ok tbl :: (NatTable, NetworkError) res) \<and>
     WgDevice_outbound E w p =
       (case WgDevice_tun_outcome E (w\<lparr>wg_dev := (wg_dev w)\<lparr>wg_nat := tbl\<rparr>\<rparr>)
               (wg_encapsulate E (wg_tun (wg_dev w)) (packet_data q) WG_BUF_SZ) of
          (r, w') \<Rightarrow> (and_then r (\<lambda>_. Ok ()), w'))"
proof -
  obtain q where q: "Ipv4Packet_masquerade p (wg_ipv4 (wg_dev w)) = (Ok q :: (Ipv4Packet, NetworkError) res)"
    "translated ((packet_header p)\<lparr>ip_src := wg_ipv4 (wg_dev w)\<rparr>) b q"
    using Ipv4Packet_masquerade_translated [OF assms(1-4), where 'e = NetworkError] by blast
  obtain tbl where t: "NatTable_insert (wg_nat (wg_dev w)) p = (Ok tbl :: (NatTable, NetworkError) res)"
    using NatTable_insert_eq [OF assms(5)] by blast
  from q t show ?thesis
    by (intro exI [of _ q] exI [of _ tbl])
      (simp add: WgDevice_outbound_def Ipv4Packet_as_bytes_def split: prod.splits)
qed

text \<open>
  One long packet ends the WAN. When \<open>encapsulate\<close> panics on a masqueraded packet, which it does when the packet has more
  than 1568 bytes, the thread of the tunnel panics: the packets behind it and the events that follow are not handled any more.
\<close>

lemma WgDevice_long_packet_ends_run:
  assumes "NatTable_insert (wg_nat (wg_dev w)) p = (Ok tbl :: (NatTable, NetworkError) res)"
    and "Ipv4Packet_masquerade p (wg_ipv4 (wg_dev w)) = (Ok q :: (Ipv4Packet, NetworkError) res)"
    and "wg_encapsulate E (wg_tun (wg_dev w)) (packet_data q) WG_BUF_SZ = (None, t)" and "wg_rx (wg_dev w) = p # ps"
  shows "WgDevice_run E w (Woken # evs) = Some (Panic, w\<lparr>wg_dev := (wg_dev w)\<lparr>wg_rx := [], wg_nat := tbl, wg_tun := t\<rparr>\<rparr>)"
  using assms by (simp add: WgDevice_outbound_def WgDevice_tun_outcome_def Ipv4Packet_as_bytes_def wg_set_tun_def)

text \<open>A whole packet out of the tunnel whose flow is recorded: translated back and handed to the router.\<close>

lemma tunnel_v4_recorded:
  assumes "Ipv4Packet_parse b = Ok q" and "ip_ihl (packet_header q) = 5" and "ip_frag_offset (packet_header q) = 0"
    and "\<not> Ipv4Packet_has_fragments q" and "transport_fits (packet_header q) (drop 20 b)"
    and "NatTable_get (wg_nat (wg_dev w)) q = (Ok (Some orig) :: (ipv4addr option, NetworkError) res)"
  shows "\<exists>q'. translated ((packet_header q)\<lparr>ip_dst := orig\<rparr>) b q' \<and>
     WgDevice_handle_tun_result E w (WriteToTunnelV4 b peer) =
       (Ok False, w\<lparr>wg_router := RouterHandle_route_ipv4 (wg_router w) q'\<rparr>)"
proof -
  obtain q' where q': "Ipv4Packet_unmasquerade q orig = (Ok q' :: (Ipv4Packet, NetworkError) res)"
    "translated ((packet_header q)\<lparr>ip_dst := orig\<rparr>) b q'"
    using Ipv4Packet_unmasquerade_translated [OF assms(1-3,5), where 'e = NetworkError] by blast
  have "Ipv4Header_extract_from_slice b = Ok (packet_header q)"
    using assms(1) by (auto simp: Ipv4Packet_parse_def and_then_eq_Ok)
  moreover have "w\<lparr>wg_dev := (wg_dev w)\<lparr>wg_cache := wg_cache (wg_dev w)\<rparr>\<rparr> = w" by simp
  ultimately have "WgDevice_write_to_tunnel_v4 w b =
      (Ok (), w\<lparr>wg_router := RouterHandle_route_ipv4 (wg_router w) q'\<rparr>)"
    using assms(1,3,4,6) q'(1)
    by (simp add: WgDevice_write_to_tunnel_v4_def WgDevice_defragment_def Ipv4Packet_fragment_offset_def Let_def)
  then show ?thesis using q'(2) by (auto simp: WgDevice_handle_tun_result_def)
qed



text \<open>
  One stray fragment ends the WAN. When the tunnel delivers the last fragment of a packet
  whose first fragment was not seen, \<open>run\<close> returns an error: the events that follow are not
  handled any more.
\<close>

lemma WgDevice_stray_fragment_ends_run:
  assumes "wg_decapsulate E (wg_tun (wg_dev w)) peer (take WG_BUF_SZ buf) WG_BUF_SZ = (Some (WriteToTunnelV4 b ip), t)"
    and "Ipv4Packet_parse b = Ok q" and "\<not> Ipv4Packet_has_fragments q" and "Ipv4Packet_fragment_offset q \<noteq> 0"
    and "wg_cache (wg_dev w) (Ipv4Packet_id q) = None"
  shows "WgDevice_run E w (UdpReadable ((peer, buf) # ds) err # evs) =
     Some (Err (Generic ''missing frag packet data''), w\<lparr>wg_dev := (wg_dev w)\<lparr>wg_tun := t\<rparr>\<rparr>)"
proof -
  have "Ipv4Header_extract_from_slice b = Ok (packet_header q)"
    using assms(2) by (auto simp: Ipv4Packet_parse_def and_then_eq_Ok)
  then have "WgDevice_drain E peer w (take WG_BUF_SZ buf) =
      Some (Err (Generic ''missing frag packet data''), w\<lparr>wg_dev := (wg_dev w)\<lparr>wg_tun := t\<rparr>\<rparr>)"
    using assms
    by (simp add: WgDevice_drain.simps WgDevice_tun_outcome_def WgDevice_handle_tun_result_def WgDevice_write_to_tunnel_v4_def WgDevice_defragment_def
        wg_set_tun_def Let_def)
  then show ?thesis by simp
qed

end
