(* ===== verification/Wan_Thread.thy ===== *)
theory Wan_Thread
  imports Wan
begin

text \<open>
  The trait \<open>Wan\<close> of \<^verbatim>\<open>oathgate-bridge/src/net/wan.rs\<close>: \<open>WanDevice\<close> is a boxed \<open>dyn Wan\<close>, one of the three
  providers, and \<open>WanHandle\<close> a boxed \<open>dyn WanHandle\<close>, what the router has of it. \<open>spawn\<close> gives the handle and
  starts the thread of the provider; one event of that thread is \<open>Wan_event\<close>. The thread and the handle share a
  channel: its content is kept at the handle, and the device takes it from there.
\<close>

section \<open>Devices and handles\<close>

datatype 't WanDevice = WanTap TunTap | WanUdp UdpDevice | WanWg "'t WgDevice"

datatype WanHandle = HandleTap TunTapHandle | HandleUdp UdpDeviceHandle | HandleWg WgHandle

text \<open>What \<open>spawn\<close> asks of the system: a waker, the registration of a device, a thread.\<close>

record wan_spawn_os =
  ws_tap_waker :: "(unit, string) res"
  ws_tap_register :: "(unit, string) res"
  ws_thread :: "(unit, string) res"

definition WgDevice_as_wan_handle :: "'t WgDevice \<Rightarrow> WgHandle" where
  "WgDevice_as_wan_handle self = \<lparr>wgh_tx = \<lparr>ch_queue = wg_rx self, ch_open = True\<rparr>\<rparr>"

fun Wan_as_wan_handle :: "wan_spawn_os \<Rightarrow> 't WanDevice \<Rightarrow> (WanHandle, NetworkError) res" where
  "Wan_as_wan_handle os (WanTap dev) =
     and_then (TunTap_as_wan_handle (ws_tap_waker os) (ws_tap_register os) dev) (\<lambda>h. Ok (HandleTap h))"
| "Wan_as_wan_handle os (WanUdp dev) = Ok (HandleUdp (UdpDevice_as_wan_handle dev))"
| "Wan_as_wan_handle os (WanWg dev) = Ok (HandleWg (WgDevice_as_wan_handle dev))"

definition Wan_spawn :: "wan_spawn_os \<Rightarrow> 't WanDevice \<Rightarrow> (WanHandle, NetworkError) res" where
  "Wan_spawn os self =
     and_then (Wan_as_wan_handle os self) (\<lambda>h.
     and_then (map_err Io (ws_thread os)) (\<lambda>_. Ok h))"

text \<open>\<open>write\<close> of a boxed handle.\<close>

record wan_write_os =
  ww_sendmsg :: "rawfd \<Rightarrow> SocketAddr \<Rightarrow> bytes \<Rightarrow> (unit, string) res"
  ww_wake :: "(unit, string) res"

fun WanHandle_write :: "wan_write_os \<Rightarrow> WanHandle \<Rightarrow> Ipv4Packet \<Rightarrow> (unit, NetworkError) res \<times> WanHandle" where
  "WanHandle_write os (HandleTap h) pkt = (case TunTapHandle_write h pkt of (r, h) \<Rightarrow> (r, HandleTap h))"
| "WanHandle_write os (HandleUdp h) pkt = (case UdpDeviceHandle_write (ww_sendmsg os) h pkt of (r, h) \<Rightarrow> (r, HandleUdp h))"
| "WanHandle_write os (HandleWg h) pkt = (case WgHandle_write (ww_wake os) h pkt of (r, h) \<Rightarrow> (r, HandleWg h))"

section \<open>The thread of a provider\<close>

text \<open>
  What the WireGuard thread does before its loop: a socket that does not block, a timer of half a second and
  the registration of both with the poller.
\<close>

record wg_setup_os =
  wgo_bind :: "(unit, string) res"
  wgo_nonblocking :: "(unit, string) res"
  wgo_timer_new :: "(unit, string) res"
  wgo_timer_set :: "nat \<times> nat \<Rightarrow> (unit, string) res"
  wgo_register_udp :: "(unit, string) res"
  wgo_register_timer :: "(unit, string) res"

definition WgDevice_setup :: "wg_setup_os \<Rightarrow> (unit, NetworkError) res" where
  "WgDevice_setup os =
     and_then (map_err Io (wgo_bind os)) (\<lambda>_.
     and_then (map_err Io (wgo_nonblocking os)) (\<lambda>_.
     and_then (map_err Errno (wgo_timer_new os)) (\<lambda>_.
     and_then (map_err Errno (wgo_timer_set os (0, 500000000))) (\<lambda>_.
     and_then (map_err Io (wgo_register_udp os)) (\<lambda>_.
     map_err Io (wgo_register_timer os))))))"

text \<open>
  The world of the thread: its device, the channel of the handle, the handle of the router and the datagrams
  sent by the WireGuard device. What the system does is \<open>wan_env\<close>.
\<close>

record 't wan_world =
  wn_dev :: "'t WanDevice"
  wn_handle :: WanHandle
  wn_router :: RouterHandle
  wn_sent :: "(SocketAddr \<times> bytes) list"

record 't wan_env =
  we_wg :: "'t wg_env"
  we_wg_setup :: wg_setup_os
  we_tap_write :: "bytes \<Rightarrow> (nat, string) res"

text \<open>
  The start of the thread and one event of its loop, for each provider: the result and the world after it, and
  nothing when a WireGuard exchange does not end. An event of another provider does not happen.
\<close>

datatype wan_event = WanStart | TapEvent tap_event | TapPollFailed string | UdpReceived "(bytes, string) res" | WgEvent wg_event

definition channel_take :: "pkt_channel \<Rightarrow> Ipv4Packet list \<Rightarrow> pkt_channel" where
  "channel_take c left = c\<lparr>ch_queue := left\<rparr>"

fun Wan_event ::
  "'t wan_env \<Rightarrow> 't wan_world \<Rightarrow> wan_event \<Rightarrow> ((unit, NetworkError) res \<times> 't wan_world) option" where
  "Wan_event E w ev =
     (case (wn_dev w, wn_handle w, ev) of
        (WanTap dev, HandleTap h, TapEvent e) \<Rightarrow>
          let dev = TunTap_event (we_tap_write E) (dev\<lparr>tap_rx := ch_queue (tth_tx h)\<rparr>) e
          in Some (Ok (), w\<lparr>wn_dev := WanTap dev, wn_handle := HandleTap (h\<lparr>tth_tx := channel_take (tth_tx h) (tap_rx dev)\<rparr>)\<rparr>)
      | (WanTap dev, HandleTap h, TapPollFailed e) \<Rightarrow> Some (Err (Io e), w)
      | (WanUdp dev, HandleUdp h, UdpReceived r) \<Rightarrow>
          (case UdpDevice_run (wn_router w) [r] of (x, router) \<Rightarrow> Some (x, w\<lparr>wn_router := router\<rparr>))
      | (WanWg dev, HandleWg h, WanStart) \<Rightarrow> Some (WgDevice_setup (we_wg_setup E), w)
      | (WanWg dev, HandleWg h, WgEvent e) \<Rightarrow>
          map_option (\<lambda>(x, g). (x, w\<lparr>wn_dev := WanWg (wg_dev g),
              wn_handle := HandleWg (h\<lparr>wgh_tx := channel_take (wgh_tx h) (wg_rx (wg_dev g))\<rparr>),
              wn_router := wg_router g, wn_sent := wg_sent g\<rparr>))
            (WgDevice_event (we_wg E)
               \<lparr>wg_dev = dev\<lparr>wg_rx := ch_queue (wgh_tx h)\<rparr>, wg_router = wn_router w, wg_sent = wn_sent w\<rparr> e)
      | _ \<Rightarrow> Some (Ok (), w))"

declare Wan_event.simps [simp del]

text \<open>When the thread ends its device is dropped: the channel has no receiver any more.\<close>

fun WanHandle_hangup :: "WanHandle \<Rightarrow> WanHandle" where
  "WanHandle_hangup (HandleTap h) = HandleTap (h\<lparr>tth_tx := \<lparr>ch_queue = [], ch_open = False\<rparr>\<rparr>)"
| "WanHandle_hangup (HandleWg h) = HandleWg (h\<lparr>wgh_tx := \<lparr>ch_queue = [], ch_open = False\<rparr>\<rparr>)"
| "WanHandle_hangup (HandleUdp h) = HandleUdp h"

end
