(* ===== verification/Bridge.thy ===== *)
theory Bridge
  imports Dhcp Wan_Thread
begin

text \<open>
  The bridge, \<^verbatim>\<open>oathgate-bridge/src/lib.rs\<close>, with its configuration (\<^verbatim>\<open>config.rs\<close>) and its
  error type (\<^verbatim>\<open>error.rs\<close>): how the switch, the router, its handlers, the DHCP server and the
  WAN are put together. The protocol handlers a bridge registers are the
  \<open>IcmpHandler\<close> and a \<open>UdpHandler\<close> with the DHCP server; \<open>BridgeHandler\<close> is the boxed
  \<open>dyn ProtocolHandler\<close> of the two. What the operating system answers is an argument.
\<close>

section \<open>Configuration and errors\<close>

datatype BridgeError =
    BridgeVHost string
  | BridgeNetProtocol ProtocolError
  | BridgeIO string
  | BridgeNetwork NetworkError
  | BridgeSystem string
  | BridgeOther string

datatype WanConfig =
    CfgTap bytes
  | CfgUdp SocketAddr
  | CfgWireguard WgConfig

record RouterConfig =
  rc_ipv4 :: Ipv4Network
  rc_dhcp :: DhcpConfig
  rc_dns :: bool

record Config =
  bc_wan :: WanConfig
  bc_router :: RouterConfig
  bc_queues :: u8

section \<open>The handlers of a bridge\<close>

datatype BridgeHandler = HIcmp IcmpHandler | HUdp "DhcpServer UdpHandler"

fun BridgeHandler_protocol :: "BridgeHandler \<Rightarrow> u8" where
  "BridgeHandler_protocol (HIcmp h) = IcmpHandler_protocol h"
| "BridgeHandler_protocol (HUdp h) = UdpHandler_protocol h"

fun BridgeHandler_handle_protocol :: "('m, 'htype) dhcproto \<Rightarrow> BridgeHandler protocol_op" where
  "BridgeHandler_handle_protocol D (HIcmp h) pkt buf =
     (case IcmpHandler_handle_protocol h pkt buf of (r, h) \<Rightarrow> (r, HIcmp h))"
| "BridgeHandler_handle_protocol D (HUdp h) pkt buf =
     (case UdpHandler_handle_protocol (DhcpServer_handle_port D) h pkt buf of (r, h) \<Rightarrow> (r, HUdp h))"

section \<open>The WAN of a configuration\<close>

text \<open>What the three providers ask of the system and of the libraries; an address resolves to itself.\<close>

record 't wan_os =
  os_tap :: tap_os
  os_udp_bind :: "(rawfd, string) res"
  os_decode_slice :: "string \<Rightarrow> (bytes, string) res"
  os_tunn_new :: "bytes \<Rightarrow> bytes \<Rightarrow> ('t, string) res"
  os_wg_poll :: "(unit, string) res"
  os_wg_waker :: "(unit, string) res"

definition parse_wan :: "'t wan_os \<Rightarrow> WanConfig \<Rightarrow> ('t WanDevice option, BridgeError) res" where
  "parse_wan os cfg =
     (case cfg of
        CfgTap device \<Rightarrow>
          and_then (map_err BridgeNetwork (TunTap_create_tap (os_tap os) device)) (\<lambda>wan. Ok (Some (WanTap wan)))
      | CfgUdp endpoint \<Rightarrow>
          and_then (map_err BridgeIO (UdpDevice_connect (os_udp_bind os) (Ok [endpoint]))) (\<lambda>wan. Ok (Some (WanUdp wan)))
      | CfgWireguard opts \<Rightarrow>
          and_then (map_err BridgeNetwork
            (WgDevice_create (os_decode_slice os) (os_tunn_new os) (os_wg_poll os) (os_wg_waker os) opts))
            (\<lambda>wan. Ok (Some (WanWg wan))))"

section \<open>Starting a bridge\<close>

text \<open>The handlers and the router of \<open>Bridge::run\<close>; \<open>None\<close> when building the DHCP pool does not end.\<close>

definition Bridge_handlers :: "RouterConfig \<Rightarrow> DhcpServer UdpHandler option" where
  "Bridge_handlers cfg =
     map_option (UdpHandler_register_port_handler DhcpServer_port UdpHandler_default)
       (DhcpServer_new (rc_ipv4 cfg) (rc_dhcp cfg))"

text \<open>
  \<open>Bridge::run\<close> up to its poll loop: \<open>socket\<close> is the outcome of \<open>VHostSocket::new\<close>. The result is the router, with the
  shared switch, and the WAN whose thread runs (none when \<open>spawn\<close> failed, which the router only logs).
  \<open>bo_port\<close> boxes the router's handle as a port of the switch.
\<close>

record ('t, 'd) bridge_os =
  bo_pcap_spawn :: "string \<Rightarrow> (unit, NetworkError) res"
  bo_wan :: "'t wan_os"
  bo_wan_spawn :: wan_spawn_os
  bo_rng :: "u8 \<times> u8 \<times> u8"
  bo_port :: "RouterHandle \<Rightarrow> 'd"
  bo_spawn :: "(unit, string) res"
  bo_poll :: "(unit, string) res"

definition running_wan :: "wan_spawn_os \<Rightarrow> 't WanDevice option \<Rightarrow> 't WanDevice option" where
  "running_wan os wan = Option.bind wan (\<lambda>dev. case Wan_spawn os dev of Ok _ \<Rightarrow> Some dev | _ \<Rightarrow> None)"

definition Bridge_start ::
  "('t, 'd) bridge_os \<Rightarrow> Config \<Rightarrow> string option \<Rightarrow> (unit, string) res
     \<Rightarrow> ((BridgeHandler, 'd, WanHandle) Router \<times> 't WanDevice option, BridgeError) res option" where
  "Bridge_start os cfg pcap socket =
     (case (and_then (map_err BridgeIO socket) (\<lambda>_.
            and_then (map_err BridgeNetwork (VirtioSwitch_new (bo_pcap_spawn os) pcap)) (\<lambda>switch.
            and_then (parse_wan (bo_wan os) (bc_wan cfg)) (\<lambda>wan. Ok (switch, wan))))) of
        Err e \<Rightarrow> Some (Err e)
      | Panic \<Rightarrow> Some Panic
      | Ok (switch, wan) \<Rightarrow>
          (case Bridge_handlers (bc_router cfg) of
             None \<Rightarrow> None
           | Some udp_handler \<Rightarrow>
               let b = RouterBuilder_wan Router_builder wan;
                   b = RouterBuilder_register_proto_handler BridgeHandler_protocol b (HIcmp IcmpHandler);
                   b = RouterBuilder_register_proto_handler BridgeHandler_protocol b (HUdp udp_handler);
                   router = RouterBuilder_spawn (Wan_spawn (bo_wan_spawn os)) (bo_rng os) (bo_port os \<lparr>rh_tx = []\<rparr>) b
                              (rc_ipv4 (bc_router cfg)) switch
               in Some (and_then (map_err BridgeIO (bo_spawn os)) (\<lambda>_.
                        and_then (map_err BridgeIO (bo_poll os)) (\<lambda>_.
                        Ok (router, running_wan (bo_wan_spawn os) wan))))))"

section \<open>The handlers keep the leases\<close>

fun handler_inv :: "(ipv4addr \<rightharpoonup> MacAddress) \<Rightarrow> BridgeHandler \<Rightarrow> bool" where
  "handler_inv L (HIcmp h) = True"
| "handler_inv L (HUdp u) = (\<forall>p s. port_handlers u p = Some s \<longrightarrow> dhcp_inv s \<and> L \<subseteq>\<^sub>m leased s)"

interpretation bridge_handler: protocol_handler "BridgeHandler_handle_protocol D" "handler_inv L" for D L
proof unfold_locales
  fix s pkt buf r s'
  assume "handler_inv L s" "BridgeHandler_handle_protocol D s pkt buf = (r, s')"
  show "handler_inv L s'"
  proof (cases s)
    case (HUdp u)
    then obtain u' where u': "UdpHandler_handle_protocol (DhcpServer_handle_port D) u pkt buf = (r, u')" "s' = HUdp u'"
      using \<open>BridgeHandler_handle_protocol D s pkt buf = (r, s')\<close> by (auto split: prod.splits)
    have "dhcp.udp_inv L u" using HUdp \<open>handler_inv L s\<close> by (simp add: dhcp.udp_inv_def)
    from dhcp.udp_inv_handle [OF this u'(1)] show ?thesis using u'(2) by (simp add: dhcp.udp_inv_def)
  qed (use \<open>BridgeHandler_handle_protocol D s pkt buf = (r, s')\<close> in \<open>auto split: prod.splits\<close>)
next
  fix s pkt buf n buf' s'
  assume "BridgeHandler_handle_protocol D s pkt buf = (Ok (n, buf'), s')"
  then show "n \<le> length buf \<and> length buf' = length buf"
    by (cases s) (auto split: prod.splits dest!: icmp_handler.handle_protocol_fits dhcp.udp_fits)
qed

lemma start_handlers:
  assumes "Bridge_start os cfg pcap socket = Some (Ok (r, wan))" and "rt_handlers r k = Some h"
  shows "h = HIcmp IcmpHandler \<or>
     (\<exists>s. DhcpServer_new (rc_ipv4 (bc_router cfg)) (rc_dhcp (bc_router cfg)) = Some s \<and>
          h = HUdp \<lparr>port_handlers = [67 \<mapsto> s]\<rparr>)"
proof -
  have "\<exists>u. Bridge_handlers (bc_router cfg) = Some u \<and> (h = HIcmp IcmpHandler \<or> h = HUdp u)"
    using assms
    by (auto simp: Bridge_start_def Let_def and_then_eq_Ok RouterBuilder_spawn_def VirtioSwitch_connect_def Router_builder_def
        RouterBuilder_wan_def RouterBuilder_register_proto_handler_def split: res.splits option.splits prod.splits if_splits)
  then show ?thesis
    by (auto simp: Bridge_handlers_def UdpHandler_register_port_handler_def UdpHandler_default_def DhcpServer_port_def)
qed

lemma start_handler_inv:
  assumes "Bridge_start os cfg pcap socket = Some (Ok (r, wan))" and "rc_ipv4 (bc_router cfg) = Ipv4Network_new ip m" and "m \<le> 32"
    and "cfg_start (rc_dhcp (bc_router cfg)) < Ipv4Network_broadcast (Ipv4Network_new (cfg_start (rc_dhcp (bc_router cfg))) m)"
    and "rt_handlers r k = Some h"
  shows "handler_inv Map.empty h"
  using start_handlers [OF assms(1,5)]
proof
  assume "\<exists>s. DhcpServer_new (rc_ipv4 (bc_router cfg)) (rc_dhcp (bc_router cfg)) = Some s \<and> h = HUdp \<lparr>port_handlers = [67 \<mapsto> s]\<rparr>"
  then obtain s where s: "DhcpServer_new (Ipv4Network_new ip m) (rc_dhcp (bc_router cfg)) = Some s"
    "h = HUdp \<lparr>port_handlers = [67 \<mapsto> s]\<rparr>" using assms(2) by auto
  have "dhcp_inv s" using new_dhcp_inv [OF assms(3,4) s(1)] .
  then show ?thesis using s(2) by (simp split: if_splits)
qed simp

text \<open>
  The leases of a running bridge. However the bridge was started and whatever messages the
  router was sent, the DHCP pool and the leases stay disjoint; and the leases \<open>L\<close> that the
  servers have given at some point are still given, to the same clients, after any further
  messages.
\<close>

lemma Bridge_keeps_leases:
  assumes "Bridge_start os cfg pcap socket = Some (Ok (r0, wan))" and "rc_ipv4 (bc_router cfg) = Ipv4Network_new ip m" and "m \<le> 32"
    and "cfg_start (rc_dhcp (bc_router cfg)) < Ipv4Network_broadcast (Ipv4Network_new (cfg_start (rc_dhcp (bc_router cfg))) m)"
    and "env_handle E = BridgeHandler_handle_protocol D"
    and "r1 = snd (Router_run E r0 ms1)" and "r2 = snd (Router_run E r1 ms2)"
  shows "(\<forall>k h. rt_handlers r1 k = Some h \<longrightarrow> handler_inv Map.empty h) \<and>
         ((\<forall>k h. rt_handlers r1 k = Some h \<longrightarrow> handler_inv L h) \<longrightarrow>
          (\<forall>k h. rt_handlers r2 k = Some h \<longrightarrow> handler_inv L h))"
proof -
  have "bridge_handler.handlers_inv Map.empty r0"
    using start_handler_inv [OF assms(1-4)] by (simp add: bridge_handler.handlers_inv_def)
  from bridge_handler.handlers_inv_run [OF this assms(5), of ms1] show ?thesis
    using bridge_handler.handlers_inv_run [OF _ assms(5), of L r1 ms2] assms(6,7)
    by (simp add: bridge_handler.handlers_inv_def)
qed

text \<open>A bridge to evaluate the properties at: everything the operating system is asked for succeeds.\<close>

definition sample_bridge_env :: "(BridgeHandler, (EthernetFrame \<times> bytes) list, WanHandle) router_env" where
  "sample_bridge_env =
     \<lparr>env_handle = BridgeHandler_handle_protocol sample_dhcproto, env_enqueue = (\<lambda>d f p. d @ [(f, p)]),
      env_wan_write = WanHandle_write \<lparr>ww_sendmsg = (\<lambda>fd a b. Ok ()), ww_wake = Ok ()\<rparr>, env_rng = 7\<rparr>"

definition sample_tap_os :: tap_os where
  "sample_tap_os =
     \<lparr>os_open_tun = Ok (), os_tunsetiff = (\<lambda>n f. Ok ()), os_if_nametoindex = (\<lambda>n. Ok 3), os_poll_new = Ok (), os_socket = Ok (),
      os_siocgifhwaddr = (\<lambda>n. Ok []), os_rng = (1, 2, 3)\<rparr>"

definition sample_wan_os :: "unit wan_os" where
  "sample_wan_os =
     \<lparr>os_tap = sample_tap_os, os_udp_bind = Ok 5, os_decode_slice = (\<lambda>s. Ok (replicate 32 0)), os_tunn_new = (\<lambda>k p. Ok ()),
      os_wg_poll = Ok (), os_wg_waker = Ok ()\<rparr>"

definition sample_os :: "(RouterHandle \<Rightarrow> 'd) \<Rightarrow> (unit, 'd) bridge_os" where
  "sample_os port =
     \<lparr>bo_pcap_spawn = (\<lambda>_. Ok ()), bo_wan = sample_wan_os,
      bo_wan_spawn = \<lparr>ws_tap_waker = Ok (), ws_tap_register = Ok (), ws_thread = Ok ()\<rparr>, bo_rng = (1, 2, 3), bo_port = port,
      bo_spawn = Ok (), bo_poll = Ok ()\<rparr>"

definition sample_config :: Config where
  "sample_config =
     \<lparr>bc_wan = CfgUdp (SockV4 0x7F000001 9000),
      bc_router = \<lparr>rc_ipv4 = Ipv4Network_new 0x0A0A0A01 24,
        rc_dhcp = \<lparr>cfg_start = 0x0A0A0A64, cfg_end = 0x0A0A0A66\<rparr>, rc_dns = False\<rparr>, bc_queues = 2\<rparr>"

section \<open>A ping through the bridge\<close>

text \<open>
  C2: the router answers a ping. A host whose MAC the switch has learned at port \<open>j\<close> sends an ICMP
  echo request (of at most 1540 bytes) to the router's address. Routing the frame succeeds, and the
  device at port \<open>j\<close>, and no other, gets one frame, from the router to the host: an IPv4 packet from
  the router's address to the sender of the request whose payload is the echo reply with the same
  identifier, sequence number and data.
\<close>

theorem Bridge_answers_ping:
  assumes "cache (rt_switch r) host = Some j" and "j < length (ports (rt_switch r))" and "host \<noteq> rt_mac r"
    and "\<not> MacAddress_is_broadcast host"
    and "env_handle E = BridgeHandler_handle_protocol D" and "rt_handlers r NET_PROTOCOL_ICMP = Some (HIcmp IcmpHandler)"
    and "Ipv4Packet_parse b = Ok p" and "Ipv4Packet_dest p = ip4 (rt_network r)" and "Ipv4Packet_protocol p = NET_PROTOCOL_ICMP"
    and "Ipv4Packet_payload p = (Ok request :: (bytes, ProtocolError) res)"
    and "IcmpPacket_parse request = Ok \<lparr>icmp_ty = EchoRequest ident seq d\<rparr>" and "length request \<le> 1540"
  shows "\<exists>r' answer q reply.
     Router_route E r (EthernetPacket_new (EthernetFrame_new host (rt_mac r) IPv4) b) = (Ok (), r') \<and>
     (\<forall>i. i < length (ports (rt_switch r)) \<longrightarrow> ports (rt_switch r') ! i =
        (if i = j then env_enqueue E (ports (rt_switch r) ! i) (EthernetFrame_new (rt_mac r) host IPv4) answer
         else ports (rt_switch r) ! i)) \<and>
     Ipv4Packet_parse answer = Ok q \<and> Ipv4Packet_src q = ip4 (rt_network r) \<and> Ipv4Packet_dest q = Ipv4Packet_src p \<and>
     Ipv4Packet_payload q = (Ok reply :: (bytes, ProtocolError) res) \<and>
     IcmpPacket_parse reply = Ok \<lparr>icmp_ty = EchoReply ident seq d\<rparr>"
proof -
  let ?n = "length request"
  let ?f = "EthernetFrame_new host (rt_mac r) IPv4"
  let ?hdr = "Ipv4Header_new (env_rng E) (Ipv4Packet_dest p) (Ipv4Packet_src p) (Ipv4Packet_protocol p) (word_of_nat ?n)"
  let ?hb = "header_bytes ?hdr 0 (header_checksum ?hdr 0)"
  let ?r = "r\<lparr>rt_handlers := (rt_handlers r)(Ipv4Packet_protocol p \<mapsto> HIcmp IcmpHandler)\<rparr>"
  obtain out where out: "IcmpHandler_handle_protocol IcmpHandler p (replicate 1540 0) = (Ok (?n, out), IcmpHandler)"
    "IcmpPacket_parse (take ?n out) = Ok \<lparr>icmp_ty = EchoReply ident seq d\<rparr>"
    using IcmpHandler_echo_reply [OF assms(10,11), of 1540 IcmpHandler] assms(12) by auto
  have fits: "?n \<le> length out" using icmp_handler.handle_protocol_fits [OF out(1)] assms(12) by simp
  have "0 < ?n" using assms(11) by (auto simp: IcmpPacket_parse_eq split: if_splits)
  then have route: "Router_route E r (EthernetPacket_new ?f b) = (Ok (), to_lan E ?r host IPv4 (?hb @ take ?n out))"
    using Router_local_answer [of ?f b p r "HIcmp IcmpHandler" E ?n out "HIcmp IcmpHandler"] assms(5-9) fits out(1)
    by (simp add: EthernetFrame_new_def Let_def)
  have plain: "plain_header ?hdr" by (simp add: plain_header_def Ipv4Header_new_def)
  let ?q = "\<lparr>packet_header = ?hdr\<lparr>ip_checksum := header_checksum ?hdr 0\<rparr>, packet_data = ?hb @ take ?n out\<rparr>"
  have q: "Ipv4Packet_parse (?hb @ take ?n out) = Ok ?q" by (rule parse_written [OF plain])
  have fields: "Ipv4Packet_src ?q = ip4 (rt_network r)" "Ipv4Packet_dest ?q = Ipv4Packet_src p"
    "Ipv4Packet_payload ?q = (Ok (take ?n out) :: (bytes, ProtocolError) res)"
    using assms(8) by (simp_all add: Ipv4Packet_src_def Ipv4Packet_dest_def Ipv4Packet_payload_def Ipv4Header_new_def
        Ipv4Header_header_length_def get_from_in)
  have "ports (rt_switch (to_lan E ?r host IPv4 pl)) ! i =
      (if i = j then env_enqueue E (ports (rt_switch r) ! i) (EthernetFrame_new (rt_mac r) host IPv4) pl
       else ports (rt_switch r) ! i)" if "i < length (ports (rt_switch r))" for i pl
    using that assms(1,3,4)
    by (simp add: to_lan_def VirtioSwitch_process_frame ports_forward) (simp add: EthernetFrame_new_def)
  with route q fields out(2) show ?thesis by blast
qed

definition sample_bridge_router :: "(BridgeHandler, (EthernetFrame \<times> bytes) list, WanHandle) Router" where
  "sample_bridge_router =
     \<lparr>rt_arp = Map.empty,
      rt_switch = \<lparr>ports = [[], []], cache = [MacAddress 2 0 0 0 0 5 \<mapsto> 1], logger = \<lparr>pcap_tx = None\<rparr>\<rparr>,
      rt_port = 0, rt_wan = None, rt_mac = MacAddress 82 84 0 1 2 3, rt_network = Ipv4Network_new 0x0A000001 24,
      rt_handlers = [1 \<mapsto> HIcmp IcmpHandler]\<rparr>"

definition sample_ping :: bytes where
  "sample_ping = [0x45, 0, 0, 30, 0, 1, 0x40, 0, 64, 1, 0, 0, 10, 0, 0, 5, 10, 0, 0, 1, 8, 0, 0, 0, 0, 7, 0, 2, 5, 6]"

theorem Bridge_answers_ping_witness:
  "\<exists>r' answer q reply.
     Router_route sample_bridge_env sample_bridge_router
       (EthernetPacket_new (EthernetFrame_new (MacAddress 2 0 0 0 0 5) (MacAddress 82 84 0 1 2 3) IPv4) sample_ping) = (Ok (), r') \<and>
     ports (rt_switch r') ! 1 = [(EthernetFrame_new (MacAddress 82 84 0 1 2 3) (MacAddress 2 0 0 0 0 5) IPv4, answer)] \<and>
     Ipv4Packet_parse answer = Ok q \<and> Ipv4Packet_src q = 0x0A000001 \<and> Ipv4Packet_dest q = 0x0A000005 \<and>
     Ipv4Packet_payload q = (Ok reply :: (bytes, ProtocolError) res) \<and> IcmpPacket_parse reply = Ok \<lparr>icmp_ty = EchoReply 7 2 [5, 6]\<rparr>"
proof -
  let ?p = "\<lparr>packet_header = header_of_bytes sample_ping, packet_data = sample_ping\<rparr>"
  have p: "Ipv4Packet_parse sample_ping = Ok ?p" "Ipv4Packet_dest ?p = 0x0A000001" "Ipv4Packet_src ?p = 0x0A000005"
    "Ipv4Packet_protocol ?p = NET_PROTOCOL_ICMP"
    "Ipv4Packet_payload ?p = (Ok [8, 0, 0, 0, 0, 7, 0, 2, 5, 6] :: (bytes, ProtocolError) res)"
    by (simp_all add: Ipv4Packet_parse_eq_Ok sample_ping_def header_of_bytes_def from_be_bytes_def Ipv4Packet_dest_def
        Ipv4Packet_src_def Ipv4Packet_protocol_def NET_PROTOCOL_ICMP_def Ipv4Packet_payload_def Ipv4Header_header_length_def
        get_from_in)
  have r: "cache (rt_switch sample_bridge_router) (MacAddress 2 0 0 0 0 5) = Some 1" "length (ports (rt_switch sample_bridge_router)) = 2"
    "rt_mac sample_bridge_router = MacAddress 82 84 0 1 2 3" "ip4 (rt_network sample_bridge_router) = 0x0A000001"
    "rt_handlers sample_bridge_router NET_PROTOCOL_ICMP = Some (HIcmp IcmpHandler)" "ports (rt_switch sample_bridge_router) = [[], []]"
    by (simp_all add: sample_bridge_router_def NET_PROTOCOL_ICMP_def)
  have e: "env_handle sample_bridge_env = BridgeHandler_handle_protocol sample_dhcproto"
    "env_enqueue sample_bridge_env d f pl = d @ [(f, pl)]" for d f pl
    by (simp_all add: sample_bridge_env_def)
  have "IcmpPacket_parse [8, 0, 0, 0, 0, 7, 0, 2, 5, 6] = Ok \<lparr>icmp_ty = EchoRequest 7 2 [5, 6]\<rparr>"
    by (simp add: IcmpPacket_parse_eq from_be_bytes_def)
  from Bridge_answers_ping [OF r(1) _ _ _ e(1) r(5) p(1) _ p(4,5) this] p(2,3) r
  show ?thesis
    by (fastforce simp: e(2) MacAddress_is_broadcast_def MacAddress_broadcast_def)
qed

end
