(* ===== verification/Bridge_Builder.thy ===== *)
theory Bridge_Builder
  imports Text_Format
begin

text \<open>
  Building a bridge from its configuration, the first part of \<^verbatim>\<open>oathgate-bridge/src/lib.rs\<close>: where its socket
  is and where it logs packets. The type of the configuration is a parameter here; it is \<open>Config\<close> of
  theory \<open>Bridge\<close> for the bridge that runs.
\<close>

definition DEFAULT_BASE_PATH :: string where "DEFAULT_BASE_PATH = ''/tmp/oathgate/network''"

record BridgeBuilder =
  bb_pcap :: "string option"
  bb_base :: "string option"

record 'c Bridge =
  br_socket_path :: string
  br_pcap :: "string option"
  br_cfg :: 'c

definition BridgeBuilder_default :: BridgeBuilder where
  "BridgeBuilder_default = \<lparr>bb_pcap = None, bb_base = None\<rparr>"

definition BridgeBuilder_pcap :: "BridgeBuilder \<Rightarrow> string option \<Rightarrow> BridgeBuilder" where
  "BridgeBuilder_pcap self pcap = self\<lparr>bb_pcap := pcap\<rparr>"

definition BridgeBuilder_base :: "BridgeBuilder \<Rightarrow> string \<Rightarrow> BridgeBuilder" where
  "BridgeBuilder_base self base = self\<lparr>bb_base := Some base\<rparr>"

definition BridgeBuilder_build :: "BridgeBuilder \<Rightarrow> 'c \<Rightarrow> string \<Rightarrow> ('c Bridge, 'e) res" where
  "BridgeBuilder_build self cfg name =
     (let socket_path = with_extension (path_join (case bb_base self of Some base \<Rightarrow> base | None \<Rightarrow> DEFAULT_BASE_PATH) name) ''sock'' in
      Ok \<lparr>br_socket_path = socket_path, br_pcap = bb_pcap self, br_cfg = cfg\<rparr>)"

end
