(* ===== verification/Capture.thy ===== *)
theory Capture
  imports Switch
begin

text \<open>
  The packet capture of a switch, \<open>PcapLogger::spawn\<close> of \<^verbatim>\<open>oathgate-bridge/src/net/switch.rs\<close>: the file, its writer and
  the thread that writes what the switch sends to it. What the writer of the crate \<^verbatim>\<open>pcap_file\<close> writes is an argument, and
  so are the answers of the system. The switch and the thread run in any order; the file has every packet that reached the
  switch, in the order in which the switch took them, written over what the file had before.
\<close>

section \<open>Files\<close>

text \<open>
  The files of the bridge's process by their paths; a listening socket is a file of the process that bound it. A path that
  ends in a symbolic link stands for the file the link leads to, if there is one.
\<close>

datatype fs_node = RegularFile bytes | Directory | DanglingLink | SocketFile nat

type_synonym socket_fs = "string \<rightharpoonup> fs_node"

text \<open>Writing at an offset keeps what lies before and behind.\<close>

definition write_at :: "nat \<Rightarrow> bytes \<Rightarrow> bytes \<Rightarrow> bytes" where
  "write_at n b c = take n c @ replicate (n - length c) 0 @ b @ drop (n + length b) c"

definition file_write :: "string \<Rightarrow> nat \<Rightarrow> bytes \<Rightarrow> socket_fs \<Rightarrow> socket_fs" where
  "file_write path n b fs = (case fs path of Some (RegularFile c) \<Rightarrow> fs(path \<mapsto> RegularFile (write_at n b c)) | _ \<Rightarrow> fs)"

definition file_content :: "fs_node option \<Rightarrow> bytes" where
  "file_content f = (case f of Some (RegularFile c) \<Rightarrow> c | _ \<Rightarrow> [])"

lemma write_at_append: "write_at (length b) d (write_at 0 b c) = write_at 0 (b @ d) c"
  by (simp add: write_at_def add.commute)

lemma write_at_first: "write_at 0 b [] = b"
  by (simp add: write_at_def)

section \<open>The writer and its thread\<close>

text \<open>
  The crate's \<open>PcapWriter::new\<close> writes a header to the file, and \<open>write_packet\<close> a record made of the time, the length and
  the packet.
\<close>

record pcap_lib =
  pl_open :: "string \<Rightarrow> (unit, string) res"
  pl_header :: "(unit, string) res \<times> bytes"
  pl_record :: "nat \<Rightarrow> u32 \<Rightarrow> bytes \<Rightarrow> bytes"
  pl_thread :: "(unit, string) res"

record pcap_writer =
  pw_path :: string
  pw_offset :: nat

text \<open>\<open>open\<close> with \<open>create\<close> and \<open>write\<close> makes a file that is not there, and truncates none.\<close>

definition File_open :: "pcap_lib \<Rightarrow> string \<Rightarrow> (unit, string, socket_fs) act" where
  "File_open L path fs =
     (case pl_open L path of
        Ok _ \<Rightarrow>
          (case fs path of
             Some Directory \<Rightarrow> (Err ''Is a directory'', fs)
           | Some (SocketFile pid) \<Rightarrow> (Err ''No such device or address'', fs)
           | Some (RegularFile c) \<Rightarrow> (Ok (), fs)
           | _ \<Rightarrow> (Ok (), fs(path \<mapsto> RegularFile [])))
      | r \<Rightarrow> (r, fs))"

definition PcapWriter_new :: "pcap_lib \<Rightarrow> string \<Rightarrow> (pcap_writer, string, socket_fs) act" where
  "PcapWriter_new L path fs =
     (case pl_header L of
        (r, b) \<Rightarrow> (and_then r (\<lambda>_. Ok \<lparr>pw_path = path, pw_offset = length b\<rparr>), file_write path 0 b fs))"

definition PcapLogger_spawn :: "pcap_lib \<Rightarrow> string \<Rightarrow> (pcap_writer, NetworkError, socket_fs) act" where
  "PcapLogger_spawn L path =
     bind (on_err Io (File_open L path)) (\<lambda>_.
     bind (on_err Pcap (PcapWriter_new L path)) (\<lambda>writer.
     bind (give (map_err Io (pl_thread L))) (\<lambda>_. give (Ok writer))))"

text \<open>
  The thread and the switch. A turn of the thread takes the next packet from the channel and writes its record with the
  time; of the record the first \<open>n\<close> bytes reach the file, and an error is ignored. It waits when there is no packet. A clock
  before the epoch (\<open>None\<close>) ends the thread, and what is sent afterwards is dropped with the channel.
\<close>

record 'd capture =
  cp_switch :: "'d VirtioSwitch"
  cp_writer :: "pcap_writer option"
  cp_fs :: socket_fs

definition pcap_turn :: "pcap_lib \<Rightarrow> nat option \<Rightarrow> nat \<Rightarrow> 'd capture \<Rightarrow> 'd capture" where
  "pcap_turn L now n s =
     (case (cp_writer s, pcap_tx (logger (cp_switch s))) of
        (Some w, Some (pkt # rest)) \<Rightarrow>
          (let s = s\<lparr>cp_switch := (cp_switch s)\<lparr>logger := \<lparr>pcap_tx = Some rest\<rparr>\<rparr>\<rparr> in
           case now of
             Some t \<Rightarrow>
               (let b = take n (pl_record L t (of_nat (length pkt)) pkt) in
                s\<lparr>cp_writer := Some (w\<lparr>pw_offset := pw_offset w + length b\<rparr>),
                  cp_fs := file_write (pw_path w) (pw_offset w) b (cp_fs s)\<rparr>)
           | None \<Rightarrow> s\<lparr>cp_writer := None\<rparr>)
      | _ \<Rightarrow> s)"

datatype 'd capture_act = SwitchAct "'d switch_op" | WriterAct "nat option" nat

fun capture_step :: "pcap_lib \<Rightarrow> ('d \<Rightarrow> EthernetFrame \<Rightarrow> bytes \<Rightarrow> 'd) \<Rightarrow> 'd capture_act \<Rightarrow> 'd capture \<Rightarrow> 'd capture" where
  "capture_step L enq (SwitchAct op) s = s\<lparr>cp_switch := switch_step enq (cp_switch s) op\<rparr>"
| "capture_step L enq (WriterAct now n) s = pcap_turn L now n s"

text \<open>A new switch with a capture, and the thread with the writer that \<open>spawn\<close> made.\<close>

definition capture_start :: "pcap_lib \<Rightarrow> string \<Rightarrow> socket_fs \<Rightarrow> ('d capture, NetworkError) res" where
  "capture_start L path fs =
     (case PcapLogger_spawn L path fs of
        (writer, fs) \<Rightarrow>
          and_then (VirtioSwitch_new (\<lambda>_. and_then writer (\<lambda>_. Ok ())) (Some path)) (\<lambda>sw.
          and_then writer (\<lambda>writer. Ok \<lparr>cp_switch = sw, cp_writer = Some writer, cp_fs = fs\<rparr>)))"

section \<open>The file of a capture\<close>

text \<open>The capture has written \<open>b\<close> over the file that was there, and the thread goes on behind it.\<close>

definition captured :: "socket_fs \<Rightarrow> string \<Rightarrow> bytes \<Rightarrow> pcap_writer option \<Rightarrow> socket_fs \<Rightarrow> bool" where
  "captured fs path b w fs' \<longleftrightarrow> fs' path = Some (RegularFile (write_at 0 b (file_content (fs path)))) \<and>
     (\<forall>w'. w = Some w' \<longrightarrow> pw_path w' = path \<and> pw_offset w' = length b)"

lemma PcapLogger_spawn_Ok:
  assumes "PcapLogger_spawn L path fs = (Ok w, fs')"
  shows "captured fs path (snd (pl_header L)) (Some w) fs'"
    "\<And>pid. fs path \<noteq> Some (SocketFile pid)" "\<And>p. p \<noteq> path \<Longrightarrow> fs' p = fs p"
proof -
  obtain fs1 where o: "File_open L path fs = (Ok (), fs1)" "PcapWriter_new L path fs1 = (Ok w, fs')"
    using assms by (auto simp: PcapLogger_spawn_def bind_eq_Ok on_err_def give_def and_then_eq_Ok split: prod.splits)
  then have f: "fs1 path = Some (RegularFile (file_content (fs path)))" "\<forall>p. p \<noteq> path \<longrightarrow> fs1 p = fs p"
    "\<forall>pid. fs path \<noteq> Some (SocketFile pid)"
    by (auto simp: File_open_def file_content_def split: res.splits option.splits fs_node.splits)
  then show "captured fs path (snd (pl_header L)) (Some w) fs'" "\<And>pid. fs path \<noteq> Some (SocketFile pid)" "\<And>p. p \<noteq> path \<Longrightarrow> fs' p = fs p"
    using o(2) by (auto simp: captured_def PcapWriter_new_def file_write_def and_then_eq_Ok split: prod.splits)
qed

lemma captured_write:
  assumes "captured fs path b (Some w) fs'"
  shows "captured fs path (b @ d) (Some (w\<lparr>pw_offset := pw_offset w + length d\<rparr>)) (file_write (pw_path w) (pw_offset w) d fs')"
  using assms by (auto simp: captured_def file_write_def write_at_append)

lemma captured_ended: "captured fs path b w fs' \<Longrightarrow> captured fs path b None fs'"
  by (simp add: captured_def)

lemma captured_turn:
  assumes "captured fs path b (cp_writer s) (cp_fs s)"
  shows "\<exists>d. captured fs path (b @ d) (cp_writer (pcap_turn L now n s)) (cp_fs (pcap_turn L now n s))"
proof -
  let ?s = "pcap_turn L now n s"
  have "(\<exists>w pkt rest t. cp_writer s = Some w \<and> pcap_tx (logger (cp_switch s)) = Some (pkt # rest) \<and> now = Some t) \<or>
      (cp_writer ?s = cp_writer s \<or> cp_writer ?s = None) \<and> cp_fs ?s = cp_fs s"
    by (auto simp: pcap_turn_def Let_def split: option.splits list.splits)
  then show ?thesis
  proof (elim disjE exE conjE)
    fix w pkt rest t
    assume "cp_writer s = Some w" "pcap_tx (logger (cp_switch s)) = Some (pkt # rest)" "now = Some t"
    with captured_write [of fs path b w "cp_fs s" "take n (pl_record L t (of_nat (length pkt)) pkt)"] assms show ?thesis
      by (intro exI [of _ "take n (pl_record L t (of_nat (length pkt)) pkt)"]) (simp add: pcap_turn_def Let_def)
  qed (use assms captured_ended [OF assms] in \<open>metis append_Nil2\<close>)+
qed

lemma pcap_turn_other:
  assumes "\<And>w. cp_writer s = Some w \<Longrightarrow> p \<noteq> pw_path w"
  shows "cp_fs (pcap_turn L now n s) p = cp_fs s p"
  using assms by (auto simp: pcap_turn_def file_write_def Let_def split: option.splits list.splits fs_node.splits)

text \<open>The switch loses only the packet that is written.\<close>

lemma pcap_turn_switch:
  "\<exists>l. cp_switch (pcap_turn L now n s) = (cp_switch s)\<lparr>logger := l\<rparr>"
proof -
  have "\<exists>l. cp_switch s = (cp_switch s)\<lparr>logger := l\<rparr>" by (rule exI [of _ "logger (cp_switch s)"]) simp
  then show ?thesis by (auto simp: pcap_turn_def Let_def split: option.splits list.splits)
qed

section \<open>What is captured\<close>

text \<open>The packets of a run that the switch logs: those with a complete Ethernet header, also when they are dropped afterwards.\<close>

fun logged :: "'d capture_act list \<Rightarrow> bytes list" where
  "logged [] = []"
| "logged (SwitchAct (Process port pkt) # as) = (if length pkt < 14 then logged as else pkt # logged as)"
| "logged (_ # as) = logged as"

text \<open>The records of packets, each with its time and as many bytes of it as were written.\<close>

definition records :: "pcap_lib \<Rightarrow> (nat \<times> nat \<times> bytes) list \<Rightarrow> bytes" where
  "records L ps = concat (map (\<lambda>(t, n, pkt). take n (pl_record L t (of_nat (length pkt)) pkt)) ps)"

lemma process_logs:
  "logger (snd (VirtioSwitch_process enq sw port pkt)) =
     (if length pkt < 14 then logger sw else PcapLogger_log_packet (logger sw) pkt)"
  by (auto simp: VirtioSwitch_process_def VirtioSwitch_associate_port_def Let_def split: res.splits prod.splits option.splits)

lemma capture_sent:
  assumes "pcap_tx (logger (cp_switch s)) = Some q"
  shows "pcap_tx (logger (cp_switch (capture_step L enq (SwitchAct op) s))) = Some (q @ logged [SwitchAct op])"
  using assms by (cases op) (auto simp: VirtioSwitch_connect_def process_logs PcapLogger_log_packet_def)

lemma logged_Cons: "logged (a # as) = logged [a] @ logged as"
proof (cases a)
  case (SwitchAct op)
  then show ?thesis by (cases op) auto
qed simp

text \<open>
  However the switch and the thread take turns, the records of the packets that the switch logged are in the file, in order,
  up to those that are still in the channel.
\<close>

lemma capture_in_order:
  assumes "captured fs path b (Some w) (cp_fs s)" and "cp_writer s = Some w" and "pcap_tx (logger (cp_switch s)) = Some q"
    and "\<forall>n. WriterAct None n \<notin> set as"
  shows "\<exists>ps rest w'. let s' = fold (capture_step L enq) as s in
     cp_writer s' = Some w' \<and> captured fs path (b @ records L ps) (Some w') (cp_fs s') \<and>
     pcap_tx (logger (cp_switch s')) = Some rest \<and> map (snd \<circ> snd) ps @ rest = q @ logged as"
  using assms
proof (induction as arbitrary: s q b w)
  case Nil
  then show ?case by (auto simp: records_def intro: exI [of _ "[]"])
next
  case (Cons a as)
  have as: "\<forall>n. WriterAct None n \<notin> set as" using Cons.prems(4) by auto
  show ?case
  proof (cases a)
    case (SwitchAct op)
    have sent: "pcap_tx (logger (cp_switch (capture_step L enq a s))) = Some (q @ logged [a])"
      using capture_sent [OF Cons.prems(3)] SwitchAct by blast
    have "cp_writer (capture_step L enq a s) = Some w" "cp_fs (capture_step L enq a s) = cp_fs s" using Cons.prems SwitchAct by simp_all
    then show ?thesis
      using Cons.IH [OF _ _ sent as] Cons.prems(1) by (simp add: Let_def logged_Cons [of a as])
  next
    case (WriterAct now n)
    then obtain t where t: "now = Some t" using Cons.prems(4) by (cases now) auto
    show ?thesis
    proof (cases q)
      case Nil
      then have "capture_step L enq a s = s" using WriterAct Cons.prems by (simp add: pcap_turn_def)
      then show ?thesis using Cons.IH [OF Cons.prems(1-3) as] WriterAct by simp
    next
      case (Cons pkt rest)
      let ?s = "capture_step L enq a s" and ?d = "records L [(t, n, pkt)]"
      let ?w = "w\<lparr>pw_offset := pw_offset w + length ?d\<rparr>"
      have s: "cp_writer ?s = Some ?w" "pcap_tx (logger (cp_switch ?s)) = Some rest"
        "cp_fs ?s = file_write (pw_path w) (pw_offset w) ?d (cp_fs s)"
        using WriterAct t Cons Cons.prems by (simp_all add: pcap_turn_def records_def Let_def)
      from Cons.IH [OF captured_write [OF Cons.prems(1), of ?d, folded s(3)] s(1,2) as] obtain ps r w' where
        "cp_writer (fold (capture_step L enq) as ?s) = Some w'"
        "captured fs path ((b @ ?d) @ records L ps) (Some w') (cp_fs (fold (capture_step L enq) as ?s))"
        "pcap_tx (logger (cp_switch (fold (capture_step L enq) as ?s))) = Some r" "map (snd \<circ> snd) ps @ r = rest @ logged as"
        unfolding Let_def by blast
      then show ?thesis
        using Cons WriterAct
        by (intro exI [of _ "(t, n, pkt) # ps"] exI [of _ r] exI [of _ w']) (simp add: records_def comp_def)
    qed
  qed
qed

lemma capture_complete:
  assumes "capture_start L path fs = Ok s" and "\<forall>n. WriterAct None n \<notin> set as"
    and "pcap_tx (logger (cp_switch (fold (capture_step L enq) as s))) = Some []"
  shows "\<exists>ps w. captured fs path (snd (pl_header L) @ records L ps) (Some w) (cp_fs (fold (capture_step L enq) as s)) \<and>
     map (snd \<circ> snd) ps = logged as"
proof -
  obtain w where "PcapLogger_spawn L path fs = (Ok w, cp_fs s)" "cp_writer s = Some w" "pcap_tx (logger (cp_switch s)) = Some []"
    using assms(1) by (auto simp: capture_start_def VirtioSwitch_new_def PcapLogger_new_def and_then_eq_Ok split: prod.splits)
  with capture_in_order [OF PcapLogger_spawn_Ok(1) _ _ assms(2), of L path fs w s "[]" L enq] assms(3) show ?thesis
    by (auto simp: Let_def)
qed

text \<open>A packet that the switch cannot parse is captured too.\<close>

lemma capture_has_rejected:
  assumes "14 \<le> length pkt" and "pcap_tx (logger sw) = Some q"
  shows "pcap_tx (logger (snd (VirtioSwitch_process enq sw port pkt))) = Some (q @ [pkt])"
  using assms by (simp add: process_logs PcapLogger_log_packet_def)

text \<open>What a longer file had behind the end of the capture is still there.\<close>

lemma capture_keeps_old_tail:
  assumes "captured fs path b w fs'" and "fs path = Some (RegularFile c)"
  shows "fs' path = Some (RegularFile (b @ drop (length b) c))"
  using assms by (simp add: captured_def file_content_def write_at_def)

end
