(* ===== verification/Vhost_Types.thy ===== *)
theory Vhost_Types
  imports Wire_Format
begin

text \<open>
  The types of the vhost-user backend, \<^verbatim>\<open>oathgate-vhost/src/types.rs\<close> and \<^verbatim>\<open>error.rs\<close>: the
  message header with its file descriptors, the payloads and their parsers, the virtio-net
  header, and the mapping between addresses of the hypervisor and of the guest. Errors of other
  crates and of the operating system are texts. A bit set of the \<open>bitflags\<close> crate is its word.
\<close>

section \<open>Errors\<close>

datatype PayloadError =
    PayloadMissing
  | PayloadNotEnoughData nat nat
  | MissingControlData
  | NoFileDescriptorsFound
  | ControlDataMismatch

datatype MemoryError =
    NoMappedMemory
  | NoHostToGuestMappingFound u64

datatype QueueError =
    QueueMemory MemoryError
  | QueueVirtio string
  | QueueIO string

datatype VhostError =
    VhostErrno errno
  | VhostPayload PayloadError
  | VhostIO string
  | VhostTryFromInt
  | HeaderMissing
  | VhostMmap string
  | VhostMmapRegion string
  | VhostMemory MemoryError
  | InvalidMessage string
  | QueueNotFound nat
  | QueueDisabled
  | VhostVirtio string

section \<open>Bit sets\<close>

datatype VirtioFeatures =
    NOTIFY_ON_EMPTY | ANY_LAYOUT | RING_INDIRECT_DESC | RING_EVENT_IDX | PROTOCOL_FEATURES | RING_VERSION_1
  | ACCESS_PLATFORM | RING_PACKED | IN_ORDER | ORDER_PLATFORM | SR_IOV | NOTIFICATION_DATA

fun VirtioFeatures_bits :: "VirtioFeatures \<Rightarrow> u64" where
  "VirtioFeatures_bits NOTIFY_ON_EMPTY = push_bit 24 1"
| "VirtioFeatures_bits ANY_LAYOUT = push_bit 27 1"
| "VirtioFeatures_bits RING_INDIRECT_DESC = push_bit 28 1"
| "VirtioFeatures_bits RING_EVENT_IDX = push_bit 29 1"
| "VirtioFeatures_bits PROTOCOL_FEATURES = push_bit 30 1"
| "VirtioFeatures_bits RING_VERSION_1 = push_bit 32 1"
| "VirtioFeatures_bits ACCESS_PLATFORM = push_bit 33 1"
| "VirtioFeatures_bits RING_PACKED = push_bit 34 1"
| "VirtioFeatures_bits IN_ORDER = push_bit 35 1"
| "VirtioFeatures_bits ORDER_PLATFORM = push_bit 36 1"
| "VirtioFeatures_bits SR_IOV = push_bit 37 1"
| "VirtioFeatures_bits NOTIFICATION_DATA = push_bit 38 1"

datatype VHostUserProtocolFeature =
    MQ | LOG_SHMFD | RARP | REPLY_ACK | MTU | BACKEND_REQ | CROSS_ENDIAN | CRYPTO_SESSION | PAGEFAULT | CONFIG
  | BACKEND_SEND_FD | HOST_NOTIFIER | INFLIGHT_SHMFD | RESET_DEVICE | INBAND_NOTIFICATIONS | CONFIGURE_MEM_SLOTS
  | STATUS | XEN_MMAP | SHARED_OBJECT | DEVICE_STATE

fun VHostUserProtocolFeature_bits :: "VHostUserProtocolFeature \<Rightarrow> u64" where
  "VHostUserProtocolFeature_bits MQ = 0x1"
| "VHostUserProtocolFeature_bits LOG_SHMFD = 0x2"
| "VHostUserProtocolFeature_bits RARP = 0x4"
| "VHostUserProtocolFeature_bits REPLY_ACK = 0x8"
| "VHostUserProtocolFeature_bits MTU = 0x010"
| "VHostUserProtocolFeature_bits BACKEND_REQ = 0x20"
| "VHostUserProtocolFeature_bits CROSS_ENDIAN = 0x40"
| "VHostUserProtocolFeature_bits CRYPTO_SESSION = 0x80"
| "VHostUserProtocolFeature_bits PAGEFAULT = 0x100"
| "VHostUserProtocolFeature_bits CONFIG = 0x200"
| "VHostUserProtocolFeature_bits BACKEND_SEND_FD = 0x400"
| "VHostUserProtocolFeature_bits HOST_NOTIFIER = 0x800"
| "VHostUserProtocolFeature_bits INFLIGHT_SHMFD = 0x1000"
| "VHostUserProtocolFeature_bits RESET_DEVICE = 0x2000"
| "VHostUserProtocolFeature_bits INBAND_NOTIFICATIONS = 0x4000"
| "VHostUserProtocolFeature_bits CONFIGURE_MEM_SLOTS = 0x8000"
| "VHostUserProtocolFeature_bits STATUS = 0x10000"
| "VHostUserProtocolFeature_bits XEN_MMAP = 0x20000"
| "VHostUserProtocolFeature_bits SHARED_OBJECT = 0x40000"
| "VHostUserProtocolFeature_bits DEVICE_STATE = 0x80000"

datatype VqDescriptorEntryFlags = NEXT | WRITE | INDIRECT

fun VqDescriptorEntryFlags_bits :: "VqDescriptorEntryFlags \<Rightarrow> u16" where
  "VqDescriptorEntryFlags_bits NEXT = 0x01"
| "VqDescriptorEntryFlags_bits WRITE = 0x02"
| "VqDescriptorEntryFlags_bits INDIRECT = 0x04"

datatype VirtioNetHeaderFlags = NEEDS_CSUM | DATA_VALID | RSC_INFO

fun VirtioNetHeaderFlags_bits :: "VirtioNetHeaderFlags \<Rightarrow> u8" where
  "VirtioNetHeaderFlags_bits NEEDS_CSUM = 0x01"
| "VirtioNetHeaderFlags_bits DATA_VALID = 0x02"
| "VirtioNetHeaderFlags_bits RSC_INFO = 0x04"

datatype VirtioNetGso = GSO_NONE | TCPV4 | GSO_UDP | TCPV6 | ECN

fun VirtioNetGso_bits :: "VirtioNetGso \<Rightarrow> u8" where
  "VirtioNetGso_bits GSO_NONE = 0x00"
| "VirtioNetGso_bits TCPV4 = 0x01"
| "VirtioNetGso_bits GSO_UDP = 0x03"
| "VirtioNetGso_bits TCPV6 = 0x04"
| "VirtioNetGso_bits ECN = 0x80"

text \<open>
  The two \<open>from_bits\<close> functions that the \<open>bitflags\<close> crate generates are parameters, in this record:
  each returns the set with these bits, or nothing.
\<close>

record net_bits =
  flags_from_bits :: "u8 \<Rightarrow> u8 option"
  gso_from_bits :: "u8 \<Rightarrow> u8 option"

section \<open>The virtio-net header\<close>

definition VIRTIO_NET_HDR_SZ :: nat where "VIRTIO_NET_HDR_SZ = 12"

record VirtioNetHeader =
  vn_flags :: u8
  vn_gso_type :: u8
  vn_hdr_len :: u16
  vn_gso_size :: u16
  vn_csum_start :: u16
  vn_csum_offset :: u16
  vn_num_buffers :: u16

definition VirtioNetHeader_new :: VirtioNetHeader where
  "VirtioNetHeader_new =
     \<lparr>vn_flags = 0, vn_gso_type = VirtioNetGso_bits GSO_NONE, vn_hdr_len = 0, vn_gso_size = 0, vn_csum_start = 0, vn_csum_offset = 0,
      vn_num_buffers = 1\<rparr>"

definition le16_at :: "bytes \<Rightarrow> nat \<Rightarrow> (u16, 'e) res" where
  "le16_at b i = and_then (get_slice b i (i + 2)) (cast_le 2)"

definition le32_at :: "bytes \<Rightarrow> nat \<Rightarrow> (u32, 'e) res" where
  "le32_at b i = and_then (get_slice b i (i + 4)) (cast_le 4)"

definition le64_at :: "bytes \<Rightarrow> nat \<Rightarrow> (u64, 'e) res" where
  "le64_at b i = and_then (get_slice b i (i + 8)) (cast_le 8)"

definition VirtioNetHeader_extract :: "net_bits \<Rightarrow> bytes \<Rightarrow> (VirtioNetHeader \<times> bytes, PayloadError) res" where
  "VirtioNetHeader_extract F pkt =
     (if length pkt < VIRTIO_NET_HDR_SZ then Err (PayloadNotEnoughData (length pkt) VIRTIO_NET_HDR_SZ)
      else
        let hdr = take VIRTIO_NET_HDR_SZ pkt; pkt = drop VIRTIO_NET_HDR_SZ pkt in
        and_then (get_at hdr 0) (\<lambda>flags.
        and_then (get_at hdr 1) (\<lambda>gso_type.
        and_then (le16_at hdr 2) (\<lambda>hdr_len.
        and_then (le16_at hdr 4) (\<lambda>gso_size.
        and_then (le16_at hdr 6) (\<lambda>csum_start.
        and_then (le16_at hdr 8) (\<lambda>csum_offset.
        and_then (le16_at hdr 10) (\<lambda>num_buffers.
        Ok (\<lparr>vn_flags = (case flags_from_bits F flags of Some f \<Rightarrow> f | None \<Rightarrow> 0),
             vn_gso_type = (case gso_from_bits F gso_type of Some g \<Rightarrow> g | None \<Rightarrow> 0),
             vn_hdr_len = hdr_len, vn_gso_size = gso_size, vn_csum_start = csum_start,
             vn_csum_offset = csum_offset, vn_num_buffers = num_buffers\<rparr>, pkt)))))))))"

definition VirtioNetHeader_as_bytes :: "VirtioNetHeader \<Rightarrow> (bytes, 'e) res" where
  "VirtioNetHeader_as_bytes self =
     (let b = replicate VIRTIO_NET_HDR_SZ 0 in
      and_then (put_at b 0 (vn_flags self)) (\<lambda>b.
      and_then (put_at b 1 (vn_gso_type self)) (\<lambda>b.
      and_then (put_slice b 2 4 (to_le_bytes 2 (vn_hdr_len self))) (\<lambda>b.
      and_then (put_slice b 4 6 (to_le_bytes 2 (vn_gso_size self))) (\<lambda>b.
      and_then (put_slice b 6 8 (to_le_bytes 2 (vn_csum_start self))) (\<lambda>b.
      and_then (put_slice b 8 10 (to_le_bytes 2 (vn_csum_offset self))) (\<lambda>b.
      put_slice b 10 12 (to_le_bytes 2 (vn_num_buffers self)))))))))"

section \<open>The message header\<close>

datatype ControlMessageOwned = ScmRights "rawfd list" | OtherCmsg

record VHostHeader =
  vh_ty :: u32
  vh_flags :: u32
  vh_sz :: u32
  vh_ancillary :: "ControlMessageOwned list"
  vh_payload :: "bytes option"

definition VHostHeader_parse :: "bytes \<Rightarrow> ControlMessageOwned list \<Rightarrow> (VHostHeader, 'e) res" where
  "VHostHeader_parse pkt ancillary =
     and_then (le32_at pkt 0) (\<lambda>ty.
     and_then (le32_at pkt 4) (\<lambda>flags.
     and_then (le32_at pkt 8) (\<lambda>sz.
     Ok \<lparr>vh_ty = ty, vh_flags = flags, vh_sz = sz, vh_ancillary = ancillary, vh_payload = None\<rparr>)))"

definition VHostHeader_ack_required :: "VHostHeader \<Rightarrow> bool" where
  "VHostHeader_ack_required self \<longleftrightarrow> vh_flags self AND 0x08 = 0x08"

definition VHostHeader_extract_fd :: "VHostHeader \<Rightarrow> (rawfd, PayloadError) res \<times> VHostHeader" where
  "VHostHeader_extract_fd self =
     (case vh_ancillary self of
        [] \<Rightarrow> (Err MissingControlData, self)
      | m # ms \<Rightarrow>
          ((case m of
              ScmRights fds \<Rightarrow> (case fds of [] \<Rightarrow> Err NoFileDescriptorsFound | fd # _ \<Rightarrow> Ok fd)
            | OtherCmsg \<Rightarrow> Err ControlDataMismatch), self\<lparr>vh_ancillary := ms\<rparr>))"

definition VHostHeader_extract_fds :: "VHostHeader \<Rightarrow> (rawfd list, PayloadError) res \<times> VHostHeader" where
  "VHostHeader_extract_fds self =
     (case vh_ancillary self of
        [] \<Rightarrow> (Err MissingControlData, self)
      | m # ms \<Rightarrow>
          ((case m of ScmRights fds \<Rightarrow> Ok fds | OtherCmsg \<Rightarrow> Err ControlDataMismatch), self\<lparr>vh_ancillary := ms\<rparr>))"

definition VHostHeader_set_payload :: "VHostHeader \<Rightarrow> bytes \<Rightarrow> VHostHeader" where
  "VHostHeader_set_payload self payload = self\<lparr>vh_payload := Some payload\<rparr>"

definition VHostHeader_payload :: "(bytes \<Rightarrow> ('a, PayloadError) res) \<Rightarrow> VHostHeader \<Rightarrow> ('a, PayloadError) res" where
  "VHostHeader_payload try_from_payload self = and_then (ok_or (vh_payload self) PayloadMissing) try_from_payload"

section \<open>Payloads\<close>

record VRingState =
  vs_index :: u32
  vs_num :: u32

record VRingDescriptor =
  vd_index :: u32
  vd_avail :: u32

record VRingAddr =
  va_index :: u32
  va_flags :: u32
  va_desc :: u64
  va_used :: u64
  va_avail :: u64
  va_log :: u64

record MemoryRegionDescription =
  mr_guest_address :: u64
  mr_size :: u64
  mr_user_address :: u64
  mr_mmap_offset :: u64

definition u64_try_from_payload :: "bytes \<Rightarrow> (u64, PayloadError) res" where
  "u64_try_from_payload pkt =
     (if length pkt < 8 then Err (PayloadNotEnoughData (length pkt) 8) else le64_at pkt 0)"

definition VRingState_try_from_payload :: "bytes \<Rightarrow> (VRingState, PayloadError) res" where
  "VRingState_try_from_payload pkt =
     (if length pkt < 8 then Err (PayloadNotEnoughData (length pkt) 8)
      else and_then (le32_at pkt 0) (\<lambda>index. and_then (le32_at pkt 4) (\<lambda>num.
           Ok \<lparr>vs_index = index, vs_num = num\<rparr>)))"

definition VRingDescriptor_try_from_payload :: "bytes \<Rightarrow> (VRingDescriptor, PayloadError) res" where
  "VRingDescriptor_try_from_payload pkt =
     (if length pkt < 8 then Err (PayloadNotEnoughData (length pkt) 8)
      else and_then (le32_at pkt 0) (\<lambda>index. and_then (le32_at pkt 4) (\<lambda>avail.
           Ok \<lparr>vd_index = index, vd_avail = avail\<rparr>)))"

definition VRingAddr_try_from_payload :: "bytes \<Rightarrow> (VRingAddr, PayloadError) res" where
  "VRingAddr_try_from_payload pkt =
     (if length pkt < 40 then Err (PayloadNotEnoughData (length pkt) 40)
      else
        and_then (le32_at pkt 0) (\<lambda>index.
        and_then (le32_at pkt 4) (\<lambda>flags.
        and_then (le64_at pkt 8) (\<lambda>desc.
        and_then (le64_at pkt 16) (\<lambda>used.
        and_then (le64_at pkt 24) (\<lambda>avail.
        and_then (le64_at pkt 32) (\<lambda>lg.
        Ok \<lparr>va_index = index, va_flags = flags, va_desc = desc, va_used = used, va_avail = avail, va_log = lg\<rparr>)))))))"

definition MemoryRegionDescription_try_from_payload :: "bytes \<Rightarrow> (MemoryRegionDescription, PayloadError) res" where
  "MemoryRegionDescription_try_from_payload pkt =
     (if length pkt < 32 then Err (PayloadNotEnoughData (length pkt) 32)
      else
        and_then (le64_at pkt 0) (\<lambda>guest.
        and_then (le64_at pkt 8) (\<lambda>sz.
        and_then (le64_at pkt 16) (\<lambda>user.
        and_then (le64_at pkt 24) (\<lambda>off.
        Ok \<lparr>mr_guest_address = guest, mr_size = sz, mr_user_address = user, mr_mmap_offset = off\<rparr>)))))"

text \<open>The loop over the regions of a memory table, from region \<open>i\<close> on.\<close>

fun memory_regions :: "bytes \<Rightarrow> nat \<Rightarrow> nat \<Rightarrow> (MemoryRegionDescription list, PayloadError) res" where
  "memory_regions pkt i 0 = Ok []"
| "memory_regions pkt i (Suc n) =
     (let start = i * 32 + 8 in
      and_then (get_slice pkt start (start + 32)) (\<lambda>s.
      and_then (MemoryRegionDescription_try_from_payload s) (\<lambda>r.
      and_then (memory_regions pkt (Suc i) n) (\<lambda>rs. Ok (r # rs)))))"

definition MemoryTable_try_from_payload :: "bytes \<Rightarrow> (MemoryRegionDescription list, PayloadError) res" where
  "MemoryTable_try_from_payload pkt =
     (if length pkt < 40 then Err (PayloadNotEnoughData (length pkt) 40)
      else and_then (le32_at pkt 0) (\<lambda>num.
        let num_regions = unat num in
        if length pkt < num_regions * 32 + 8 then Err (PayloadNotEnoughData (length pkt) 40)
        else memory_regions pkt 0 num_regions))"

definition VRingDescriptor_as_vec :: "VRingDescriptor \<Rightarrow> bytes" where
  "VRingDescriptor_as_vec self = to_le_bytes 4 (vd_index self) @ [0x00, 0x00, 0x00, 0x00]"

section \<open>Addresses of the hypervisor and of the guest\<close>

record GuestMapping =
  gm_host_start :: u64
  gm_host_end :: u64
  gm_guest :: u64
  gm_size :: u64

definition GuestMapping_new :: "u64 \<Rightarrow> u64 \<Rightarrow> u64 \<Rightarrow> GuestMapping" where
  "GuestMapping_new host guest sz =
     \<lparr>gm_host_start = host, gm_host_end = host + sz, gm_guest = guest, gm_size = sz\<rparr>"

definition GuestMapping_guest_addr :: "GuestMapping \<Rightarrow> u64 \<Rightarrow> u64 option" where
  "GuestMapping_guest_addr self vmm =
     (if gm_host_start self \<le> vmm \<and> vmm \<le> gm_host_end self
      then Some ((vmm - gm_host_start self) + gm_guest self) else None)"

section \<open>Reading what was written\<close>

lemma le_at_in [buf_simps]:
  "i + 2 \<le> length b \<Longrightarrow> le16_at b i = Ok (from_le_bytes (take 2 (drop i b)))"
  "i + 4 \<le> length b \<Longrightarrow> le32_at b i = Ok (from_le_bytes (take 4 (drop i b)))"
  "i + 8 \<le> length b \<Longrightarrow> le64_at b i = Ok (from_le_bytes (take 8 (drop i b)))"
  by (simp_all add: le16_at_def le32_at_def le64_at_def buf_simps)

lemma le_roundtrip [simp]:
  "from_le_bytes (to_le_bytes 2 (x :: u16)) = x" "from_le_bytes (to_le_bytes 4 (y :: u32)) = y"
  "from_le_bytes (to_le_bytes 8 (z :: u64)) = z"
  by (simp_all add: from_le_to_le_bytes)

lemma le_roundtrip_back:
  "length b = 2 \<Longrightarrow> to_le_bytes 2 (from_le_bytes b :: u16) = b"
  "length b = 4 \<Longrightarrow> to_le_bytes 4 (from_le_bytes b :: u32) = b"
  "length b = 8 \<Longrightarrow> to_le_bytes 8 (from_le_bytes b :: u64) = b"
  using to_le_from_le_bytes [of b, where 'a = 16] to_le_from_le_bytes [of b, where 'a = 32]
    to_le_from_le_bytes [of b, where 'a = 64] by simp_all

text \<open>The layout of the payloads, as the front-end writes them.\<close>

definition vring_state_bytes :: "VRingState \<Rightarrow> bytes" where
  "vring_state_bytes x = to_le_bytes 4 (vs_index x) @ to_le_bytes 4 (vs_num x)"

definition vring_addr_bytes :: "VRingAddr \<Rightarrow> bytes" where
  "vring_addr_bytes x = to_le_bytes 4 (va_index x) @ to_le_bytes 4 (va_flags x) @ to_le_bytes 8 (va_desc x)
     @ to_le_bytes 8 (va_used x) @ to_le_bytes 8 (va_avail x) @ to_le_bytes 8 (va_log x)"

definition region_bytes :: "MemoryRegionDescription \<Rightarrow> bytes" where
  "region_bytes x = to_le_bytes 8 (mr_guest_address x) @ to_le_bytes 8 (mr_size x)
     @ to_le_bytes 8 (mr_user_address x) @ to_le_bytes 8 (mr_mmap_offset x)"

definition memory_table_bytes :: "MemoryRegionDescription list \<Rightarrow> bytes" where
  "memory_table_bytes rs = to_le_bytes 4 (word_of_nat (length rs) :: u32) @ [0, 0, 0, 0] @ concat (map region_bytes rs)"

lemma take_split: "m \<le> n \<Longrightarrow> take n xs = take m xs @ take (n - m) (drop m xs)"
  by (metis le_add_diff_inverse take_add)

interpretation u64_payload: canonical_format "to_le_bytes 8" u64_try_from_payload "\<lambda>_. True" 8
  "\<lambda>n. PayloadNotEnoughData n 8"
  by unfold_locales (auto simp: u64_try_from_payload_def buf_simps le_roundtrip_back split: if_splits)

interpretation vring_state: canonical_format vring_state_bytes VRingState_try_from_payload "\<lambda>_. True" 8
  "\<lambda>n. PayloadNotEnoughData n 8"
proof unfold_locales
  fix b x assume "VRingState_try_from_payload b = Ok x"
  then show "True \<and> vring_state_bytes x = take 8 b"
    by (auto simp: VRingState_try_from_payload_def buf_simps vring_state_bytes_def le_roundtrip_back take_split [of 4 8]
        split: if_splits)
qed (simp_all add: VRingState_try_from_payload_def vring_state_bytes_def buf_simps)

interpretation vring_addr: canonical_format vring_addr_bytes VRingAddr_try_from_payload "\<lambda>_. True" 40
  "\<lambda>n. PayloadNotEnoughData n 40"
proof unfold_locales
  fix b x assume "VRingAddr_try_from_payload b = Ok x"
  then show "True \<and> vring_addr_bytes x = take 40 b"
    by (auto simp: VRingAddr_try_from_payload_def buf_simps vring_addr_bytes_def le_roundtrip_back take_split [of 4 40]
        take_split [of 4 36] take_split [of 8 32] take_split [of 8 24] take_split [of 8 16] split: if_splits)
qed (simp_all add: VRingAddr_try_from_payload_def vring_addr_bytes_def buf_simps)

interpretation region: canonical_format region_bytes MemoryRegionDescription_try_from_payload "\<lambda>_. True" 32
  "\<lambda>n. PayloadNotEnoughData n 32"
proof unfold_locales
  fix b x assume "MemoryRegionDescription_try_from_payload b = Ok x"
  then show "True \<and> region_bytes x = take 32 b"
    by (auto simp: MemoryRegionDescription_try_from_payload_def buf_simps region_bytes_def le_roundtrip_back
        take_split [of 8 32] take_split [of 8 24] take_split [of 8 16] split: if_splits)
qed (simp_all add: MemoryRegionDescription_try_from_payload_def region_bytes_def buf_simps)

lemma memory_regions_written:
  "length pre = i * 32 + 8 \<Longrightarrow>
   memory_regions (pre @ concat (map region_bytes rs) @ rest) i (length rs) = Ok rs"
proof (induction rs arbitrary: pre i)
  case (Cons r rs)
  have "length (pre @ region_bytes r) = Suc i * 32 + 8" using Cons.prems region.enc_length by simp
  from Cons.IH [OF this] show ?case
    using Cons.prems region.enc_length [of r] region.dec_exact [of r] by (simp add: buf_simps)
qed simp

lemma memory_regions_read:
  assumes "(i + n) * 32 + 8 \<le> length pkt"
  shows "\<exists>rs. memory_regions pkt i n = Ok rs \<and> length rs = n \<and>
           concat (map region_bytes rs) = take (32 * n) (drop (i * 32 + 8) pkt)"
  using assms
proof (induction n arbitrary: i)
  case (Suc n)
  then obtain rs where rs: "memory_regions pkt (Suc i) n = Ok rs" "length rs = n"
    "concat (map region_bytes rs) = take (32 * n) (drop (Suc i * 32 + 8) pkt)"
    using Suc.IH [of "Suc i"] by auto
  let ?s = "take 32 (drop (i * 32 + 8) pkt)"
  have len: "length ?s = 32" using Suc.prems by simp
  then obtain r where r: "MemoryRegionDescription_try_from_payload ?s = Ok r"
    by (simp add: MemoryRegionDescription_try_from_payload_def buf_simps)
  have "region_bytes r = ?s" using region.dec_canonical [OF r] by simp
  with rs r show ?case
    using Suc.prems take_add [of 32 "32 * n" "drop (i * 32 + 8) pkt"] by (simp add: buf_simps add.commute)
qed simp

text \<open>
  C35: the memory table of the front-end. The regions written in the layout of the protocol are read
  back whatever follows them; every payload the parser accepts holds, after its 8 bytes of header,
  the regions it returns; and no payload, however short or with whatever count in its header, makes
  it read out of range.
\<close>

theorem MemoryTable_wire_format:
  "(0 < length rs \<and> length rs < 2 ^ 32 \<longrightarrow> MemoryTable_try_from_payload (memory_table_bytes rs @ rest) = Ok rs) \<and>
   (MemoryTable_try_from_payload pkt = Ok rs' \<longrightarrow>
      concat (map region_bytes rs') = take (32 * length rs') (drop 8 pkt) \<and> 8 + 32 * length rs' \<le> length pkt) \<and>
   MemoryTable_try_from_payload pkt \<noteq> Panic"
proof (intro conjI impI)
  assume rs: "0 < length rs \<and> length rs < 2 ^ 32"
  have len: "length (concat (map region_bytes rs)) = 32 * length rs"
    by (induction rs) (simp_all add: region.enc_length)
  have one: "\<not> 32 * length rs + length rest < 32" using rs by (cases rs) simp_all
  let ?pre = "to_le_bytes 4 (word_of_nat (length rs) :: u32) @ [0, 0, 0, 0]"
  have "memory_regions (?pre @ concat (map region_bytes rs) @ rest) 0 (length rs) = Ok rs"
    by (rule memory_regions_written) simp
  then show "MemoryTable_try_from_payload (memory_table_bytes rs @ rest) = Ok rs"
    using rs len one by (simp add: MemoryTable_try_from_payload_def memory_table_bytes_def buf_simps unsigned_of_nat take_bit_nat_eq_self)
next
  let ?n = "unat (from_le_bytes (take 4 pkt) :: u32)"
  have read: "MemoryTable_try_from_payload pkt = Ok rs' \<Longrightarrow> memory_regions pkt 0 ?n = Ok rs' \<and> ?n * 32 + 8 \<le> length pkt"
    by (auto simp: MemoryTable_try_from_payload_def Let_def buf_simps split: if_splits)
  show "concat (map region_bytes rs') = take (32 * length rs') (drop 8 pkt)" "8 + 32 * length rs' \<le> length pkt"
    if "MemoryTable_try_from_payload pkt = Ok rs'"
    using read [OF that] memory_regions_read [of 0 ?n pkt] by auto
  show "MemoryTable_try_from_payload pkt \<noteq> Panic"
    using memory_regions_read [of 0 ?n pkt] by (auto simp: MemoryTable_try_from_payload_def Let_def buf_simps)
qed

theorem MemoryTable_wire_format_witness:
  "MemoryTable_try_from_payload (memory_table_bytes
     [\<lparr>mr_guest_address = 0, mr_size = 0x1000, mr_user_address = 0x7F0000000000, mr_mmap_offset = 0\<rparr>,
      \<lparr>mr_guest_address = 0x1000, mr_size = 0x1000, mr_user_address = 0x7F0000100000, mr_mmap_offset = 0x1000\<rparr>] @ [9]) =
   Ok [\<lparr>mr_guest_address = 0, mr_size = 0x1000, mr_user_address = 0x7F0000000000, mr_mmap_offset = 0\<rparr>,
      \<lparr>mr_guest_address = 0x1000, mr_size = 0x1000, mr_user_address = 0x7F0000100000, mr_mmap_offset = 0x1000\<rparr>]"
  using MemoryTable_wire_format [of
     "[\<lparr>mr_guest_address = 0, mr_size = 0x1000, mr_user_address = 0x7F0000000000, mr_mmap_offset = 0\<rparr>,
      \<lparr>mr_guest_address = 0x1000, mr_size = 0x1000, mr_user_address = 0x7F0000100000, mr_mmap_offset = 0x1000\<rparr>]" "[9]"]
  by simp

section \<open>The virtio-net header of a frame\<close>

definition virtio_net_bytes :: "VirtioNetHeader \<Rightarrow> bytes" where
  "virtio_net_bytes h = [vn_flags h, vn_gso_type h] @ to_le_bytes 2 (vn_hdr_len h) @ to_le_bytes 2 (vn_gso_size h)
     @ to_le_bytes 2 (vn_csum_start h) @ to_le_bytes 2 (vn_csum_offset h) @ to_le_bytes 2 (vn_num_buffers h)"

text \<open>The header has known bits only.\<close>

definition virtio_net_wf :: "net_bits \<Rightarrow> VirtioNetHeader \<Rightarrow> bool" where
  "virtio_net_wf F h \<longleftrightarrow> flags_from_bits F (vn_flags h) = Some (vn_flags h) \<and> gso_from_bits F (vn_gso_type h) = Some (vn_gso_type h)"

lemma length_virtio_net_bytes [simp]: "length (virtio_net_bytes h) = 12"
  by (simp add: virtio_net_bytes_def)

lemma VirtioNetHeader_as_bytes_eq [simp]: "VirtioNetHeader_as_bytes h = Ok (virtio_net_bytes h)"
proof -
  have "replicate 12 (0 :: u8) = [0,0,0,0,0,0,0,0,0,0,0,0]" by code_simp
  then show ?thesis
    by (simp add: VirtioNetHeader_as_bytes_def VIRTIO_NET_HDR_SZ_def virtio_net_bytes_def buf_simps Let_def)
qed

lemma VirtioNetHeader_extract_written:
  "virtio_net_wf F h \<Longrightarrow> VirtioNetHeader_extract F (virtio_net_bytes h @ pkt) = Ok (h, pkt)"
  by (simp add: VirtioNetHeader_extract_def VIRTIO_NET_HDR_SZ_def virtio_net_bytes_def virtio_net_wf_def buf_simps Let_def)

lemma VirtioNetHeader_extract_total:
  "12 \<le> length pkt \<Longrightarrow> \<exists>h. VirtioNetHeader_extract F pkt = Ok (h, drop 12 pkt)"
  by (auto simp: VirtioNetHeader_extract_def VIRTIO_NET_HDR_SZ_def buf_simps Let_def)

lemma VirtioNetHeader_extract_short:
  "length pkt < 12 \<Longrightarrow> VirtioNetHeader_extract F pkt = Err (PayloadNotEnoughData (length pkt) 12)"
  by (simp add: VirtioNetHeader_extract_def VIRTIO_NET_HDR_SZ_def)

interpretation virtio_net: wire_format virtio_net_bytes
  "\<lambda>b. and_then (VirtioNetHeader_extract F b) (\<lambda>r. Ok (fst r))" "virtio_net_wf F" 12 "\<lambda>n. PayloadNotEnoughData n 12" for F
  by unfold_locales (simp_all add: VirtioNetHeader_extract_written VirtioNetHeader_extract_short)

text \<open>
  The virtio-net header before a frame of the guest. A header with known bits that the device
  writes is read back; any 12 bytes are accepted as a header, whatever their bits, and what follows
  them, the frame, is returned as it is; fewer bytes are an error that states their number.
\<close>

lemma VirtioNetHeader_wire_format:
  "(virtio_net_wf F h \<longrightarrow> VirtioNetHeader_as_bytes h = Ok (virtio_net_bytes h) \<and>
      VirtioNetHeader_extract F (virtio_net_bytes h @ pkt) = Ok (h, pkt)) \<and>
   (12 \<le> length pkt \<longrightarrow> (\<exists>h. VirtioNetHeader_extract F pkt = Ok (h, drop 12 pkt))) \<and>
   (length pkt < 12 \<longrightarrow> VirtioNetHeader_extract F pkt = Err (PayloadNotEnoughData (length pkt) 12))"
  by (simp add: VirtioNetHeader_extract_written VirtioNetHeader_extract_total VirtioNetHeader_extract_short)

text \<open>An instance: the sets that hold only bits of the declared constants.\<close>

definition sample_bits :: net_bits where
  "sample_bits = \<lparr>flags_from_bits = (\<lambda>b. if b AND NOT 0x07 = 0 then Some b else None),
                  gso_from_bits = (\<lambda>b. if b AND NOT 0x87 = 0 then Some b else None)\<rparr>"

end
