(* ===== verification/Virt_Queue.thy ===== *)
theory Virt_Queue
  imports Vhost_Types Switch
begin

text \<open>
  A virtqueue of the device, \<^verbatim>\<open>oathgate-vhost/src/queue.rs\<close>. The crates \<open>virtio_queue\<close> and
  \<open>vm_memory\<close> and the system call \<open>write\<close> are parameters, collected in the record \<open>virtio_lib\<close>:
  \<open>'q\<close> is their queue, \<open>'h\<close> a handle of the mapped guest memory, \<open>'c\<close> a descriptor chain, \<open>'r\<close> and
  \<open>'x\<close> the reader and the writer of a chain, and \<open>'w\<close> the world outside the process (the memory of
  the guest, the open files), which each call may read and change. What the properties need of the
  crates is stated by \<open>tx_ready\<close> and \<open>rx_ring\<close>.

  The switch and the queue of frames for the device are shared (\<open>Arc\<close>); a method that uses one takes
  it and returns it. Reading a chain is a loop with no bound of its own: \<open>None\<close> stands for not
  returning, and \<open>read_chain_returns\<close> shows that it returns on every finite chain.
\<close>

record ('q, 'h, 'c, 'r, 'x, 'w) virtio_lib =
  lib_new :: "u16 \<Rightarrow> ('q, string) res"
  lib_set_size :: "'q \<Rightarrow> u16 \<Rightarrow> 'q"
  lib_set_ready :: "'q \<Rightarrow> bool \<Rightarrow> 'q"
  lib_set_desc_table :: "'q \<Rightarrow> u32 option \<Rightarrow> u32 option \<Rightarrow> 'q"
  lib_set_avail_ring :: "'q \<Rightarrow> u32 option \<Rightarrow> u32 option \<Rightarrow> 'q"
  lib_set_used_ring :: "'q \<Rightarrow> u32 option \<Rightarrow> u32 option \<Rightarrow> 'q"
  lib_set_next_avail :: "'q \<Rightarrow> u16 \<Rightarrow> 'q"
  lib_next_avail :: "'q \<Rightarrow> u16"
  lib_iter :: "'q \<Rightarrow> 'h \<Rightarrow> 'w \<Rightarrow> ('c list, string) res \<times> 'q"
  lib_pop :: "'q \<Rightarrow> 'h \<Rightarrow> 'w \<Rightarrow> 'c option \<times> 'q"
  lib_add_used :: "'q \<Rightarrow> 'h \<Rightarrow> 'w \<Rightarrow> u16 \<Rightarrow> u32 \<Rightarrow> (unit, string) res \<times> 'q \<times> 'w"
  lib_head_index :: "'c \<Rightarrow> u16"
  lib_reader :: "'c \<Rightarrow> 'h \<Rightarrow> 'w \<Rightarrow> ('r, string) res"
  lib_read :: "'w \<Rightarrow> 'r \<Rightarrow> nat \<Rightarrow> (bytes \<times> 'r, string) res"
  lib_writer :: "'c \<Rightarrow> 'h \<Rightarrow> 'w \<Rightarrow> ('x, string) res"
  lib_write_all :: "'w \<Rightarrow> 'x \<Rightarrow> bytes \<Rightarrow> (unit, string) res \<times> 'x \<times> 'w"
  lib_bits :: net_bits
  sys_write :: "'w \<Rightarrow> rawfd \<Rightarrow> bytes \<Rightarrow> (nat, errno) res \<times> 'w"

section \<open>The queue and its setters\<close>

record ('q, 'h) VirtQueue =
  enabled :: bool
  queue :: 'q
  mem :: "'h option"
  desc_table :: u64
  avail_ring :: u64
  used_ring :: u64
  err_fd :: "rawfd option"
  call_fd :: "rawfd option"
  kick_fd :: "rawfd option"

definition VirtQueue_new :: "('q, 'h, 'c, 'r, 'x, 'w) virtio_lib \<Rightarrow> u16 \<Rightarrow> (('q, 'h) VirtQueue, string) res" where
  "VirtQueue_new L max_size =
     and_then (lib_new L max_size) (\<lambda>q.
     Ok \<lparr>enabled = False, queue = q, mem = None, desc_table = 0, avail_ring = 0, used_ring = 0,
         err_fd = None, call_fd = None, kick_fd = None\<rparr>)"

definition VirtQueue_set_enabled :: "('q, 'h) VirtQueue \<Rightarrow> ('q, 'h) VirtQueue" where
  "VirtQueue_set_enabled self = self\<lparr>enabled := True\<rparr>"

definition VirtQueue_set_disabled :: "('q, 'h) VirtQueue \<Rightarrow> ('q, 'h) VirtQueue" where
  "VirtQueue_set_disabled self = self\<lparr>enabled := False\<rparr>"

definition VirtQueue_set_queue_size ::
  "('q, 'h, 'c, 'r, 'x, 'w) virtio_lib \<Rightarrow> ('q, 'h) VirtQueue \<Rightarrow> u16 \<Rightarrow> ('q, 'h) VirtQueue" where
  "VirtQueue_set_queue_size L self sz = self\<lparr>queue := lib_set_size L (queue self) sz\<rparr>"

definition VirtQueue_set_not_ready ::
  "('q, 'h, 'c, 'r, 'x, 'w) virtio_lib \<Rightarrow> ('q, 'h) VirtQueue \<Rightarrow> ('q, 'h) VirtQueue" where
  "VirtQueue_set_not_ready L self = self\<lparr>queue := lib_set_ready L (queue self) False\<rparr>"

definition high_word :: "u64 \<Rightarrow> u32" where
  "high_word x = ucast (drop_bit 32 x AND 0xFFFFFFFF)"

definition low_word :: "u64 \<Rightarrow> u32" where
  "low_word x = ucast (x AND 0xFFFFFFFF)"

definition VirtQueue_set_queue_addresses ::
  "('q, 'h, 'c, 'r, 'x, 'w) virtio_lib \<Rightarrow> ('q, 'h) VirtQueue \<Rightarrow> u64 \<Rightarrow> u64 \<Rightarrow> u64 \<Rightarrow> ('q, 'h) VirtQueue" where
  "VirtQueue_set_queue_addresses L self desc avail used =
     (let self = self\<lparr>desc_table := desc,
                      queue := lib_set_desc_table L (queue self) (Some (low_word desc)) (Some (high_word desc))\<rparr>;
          self = self\<lparr>avail_ring := avail,
                      queue := lib_set_avail_ring L (queue self) (Some (low_word avail)) (Some (high_word avail))\<rparr>
      in self\<lparr>used_ring := used,
              queue := lib_set_used_ring L (queue self) (Some (low_word used)) (Some (high_word used))\<rparr>)"

definition VirtQueue_set_error_fd :: "('q, 'h) VirtQueue \<Rightarrow> rawfd \<Rightarrow> ('q, 'h) VirtQueue" where
  "VirtQueue_set_error_fd self fd = self\<lparr>err_fd := Some fd\<rparr>"

definition VirtQueue_set_call_fd :: "('q, 'h) VirtQueue \<Rightarrow> rawfd \<Rightarrow> ('q, 'h) VirtQueue" where
  "VirtQueue_set_call_fd self fd = self\<lparr>call_fd := Some fd\<rparr>"

definition VirtQueue_set_kick_fd ::
  "('q, 'h, 'c, 'r, 'x, 'w) virtio_lib \<Rightarrow> ('q, 'h) VirtQueue \<Rightarrow> rawfd \<Rightarrow> ('q, 'h) VirtQueue" where
  "VirtQueue_set_kick_fd L self fd = self\<lparr>kick_fd := Some fd, queue := lib_set_ready L (queue self) True\<rparr>"

definition VirtQueue_set_memory :: "('q, 'h) VirtQueue \<Rightarrow> 'h \<Rightarrow> ('q, 'h) VirtQueue" where
  "VirtQueue_set_memory self m = self\<lparr>mem := Some m\<rparr>"

definition VirtQueue_set_next_avail ::
  "('q, 'h, 'c, 'r, 'x, 'w) virtio_lib \<Rightarrow> ('q, 'h) VirtQueue \<Rightarrow> u16 \<Rightarrow> ('q, 'h) VirtQueue" where
  "VirtQueue_set_next_avail L self idx = self\<lparr>queue := lib_set_next_avail L (queue self) idx\<rparr>"

definition VirtQueue_get_next_avail :: "('q, 'h, 'c, 'r, 'x, 'w) virtio_lib \<Rightarrow> ('q, 'h) VirtQueue \<Rightarrow> u16" where
  "VirtQueue_get_next_avail L self = lib_next_avail L (queue self)"

definition VirtQueue_clear_fds ::
  "('q, 'h) VirtQueue \<Rightarrow> (rawfd option \<times> rawfd option \<times> rawfd option) \<times> ('q, 'h) VirtQueue" where
  "VirtQueue_clear_fds self =
     ((kick_fd self, call_fd self, err_fd self), self\<lparr>kick_fd := None, call_fd := None, err_fd := None\<rparr>)"

section \<open>Frames from and to the guest\<close>

text \<open>The event counter that is read from a kick descriptor: its first 8 bytes.\<close>

definition kick_count :: "bytes \<Rightarrow> (u64, VhostError) res" where
  "kick_count pkt = and_then (get_slice pkt 0 8) (cast_le 8)"

definition VirtQueue_call ::
  "('q, 'h, 'c, 'r, 'x, 'w) virtio_lib \<Rightarrow> ('q, 'h) VirtQueue \<Rightarrow> 'w \<Rightarrow> bytes \<Rightarrow> (unit, VhostError) res \<times> 'w" where
  "VirtQueue_call L self w pkt =
     (if \<not> enabled self then (Err QueueDisabled, w)
      else case call_fd self of
        Some fd \<Rightarrow> (case sys_write L w fd pkt of (r, w) \<Rightarrow> (map_err VhostErrno (and_then r (\<lambda>_. Ok ())), w))
      | None \<Rightarrow> (Ok (), w))"

definition VirtQueue_err :: "('q, 'h) VirtQueue \<Rightarrow> bytes \<Rightarrow> (unit, VhostError) res" where
  "VirtQueue_err self pkt = and_then (kick_count pkt) (\<lambda>_. Ok ())"

definition notify_bytes :: bytes where
  "notify_bytes = [0x01, 0x00, 0x00, 0x00, 0x00, 0x00, 0x00, 0x00]"

text \<open>The loop that copies a chain, 4096 bytes at a time.\<close>

partial_function (option) read_chain ::
  "('q, 'h, 'c, 'r, 'x, 'w) virtio_lib \<Rightarrow> 'w \<Rightarrow> 'r \<Rightarrow> bytes \<Rightarrow> (bytes, VhostError) res option" where
  "read_chain L w r pkt =
     (case lib_read L w r 4096 of
        Ok (b, r) \<Rightarrow>
          (if 4096 < length b then Some Panic
           else if length b < 4096 then Some (Ok (pkt @ b))
           else read_chain L w r (pkt @ b))
      | Err e \<Rightarrow> Some (Err (VhostIO e))
      | Panic \<Rightarrow> Some Panic)"

text \<open>
  The body of the loop of \<open>kick_tx\<close> over the chains, and the loop. \<open>process\<close> is the method of the
  switch; its error is unwrapped.
\<close>

definition tx_chain ::
  "('q, 'h, 'c, 'r, 'x, 'w) virtio_lib \<Rightarrow> ('s \<Rightarrow> nat \<Rightarrow> bytes \<Rightarrow> (unit, ProtocolError) res \<times> 's) \<Rightarrow> nat \<Rightarrow> 'h
     \<Rightarrow> 'c \<Rightarrow> ('q, 'h) VirtQueue \<times> 's \<times> 'w \<Rightarrow> ((unit, VhostError) res \<times> ('q, 'h) VirtQueue \<times> 's \<times> 'w) option" where
  "tx_chain L process port h chain = (\<lambda>(self, sw, w).
     case lib_reader L chain h w of
       Ok r \<Rightarrow>
         (case read_chain L w r [] of
            None \<Rightarrow> None
          | Some rd \<Rightarrow>
              (case and_then rd (\<lambda>pkt. map_err VhostPayload (VirtioNetHeader_extract (lib_bits L) pkt)) of
                 Ok (hdr, pkt) \<Rightarrow>
                   (case process sw port pkt of (res, sw) \<Rightarrow>
                    case res of
                      Ok _ \<Rightarrow>
                        (case lib_add_used L (queue self) h w (lib_head_index L chain) (word_of_nat (length pkt)) of
                           (u, q, w) \<Rightarrow> Some (map_err VhostVirtio u, self\<lparr>queue := q\<rparr>, sw, w))
                    | _ \<Rightarrow> Some (Panic, self, sw, w))
               | Err e \<Rightarrow> Some (Err e, self, sw, w)
               | Panic \<Rightarrow> Some (Panic, self, sw, w)))
     | Err e \<Rightarrow> Some (Err (VhostVirtio e), self, sw, w)
     | Panic \<Rightarrow> Some (Panic, self, sw, w))"

fun tx_chains ::
  "('q, 'h, 'c, 'r, 'x, 'w) virtio_lib \<Rightarrow> ('s \<Rightarrow> nat \<Rightarrow> bytes \<Rightarrow> (unit, ProtocolError) res \<times> 's) \<Rightarrow> nat \<Rightarrow> 'h
     \<Rightarrow> 'c list \<Rightarrow> ('q, 'h) VirtQueue \<times> 's \<times> 'w \<Rightarrow> ((unit, VhostError) res \<times> ('q, 'h) VirtQueue \<times> 's \<times> 'w) option" where
  "tx_chains L process port h [] s = Some (Ok (), s)"
| "tx_chains L process port h (c # cs) s =
     (case tx_chain L process port h c s of
        Some (Ok _, s) \<Rightarrow> tx_chains L process port h cs s
      | other \<Rightarrow> other)"

definition VirtQueue_kick_tx ::
  "('q, 'h, 'c, 'r, 'x, 'w) virtio_lib \<Rightarrow> ('s \<Rightarrow> nat \<Rightarrow> bytes \<Rightarrow> (unit, ProtocolError) res \<times> 's)
     \<Rightarrow> ('q, 'h) VirtQueue \<times> 's \<times> 'w \<Rightarrow> bytes \<Rightarrow> nat \<Rightarrow> ((unit, VhostError) res \<times> ('q, 'h) VirtQueue \<times> 's \<times> 'w) option" where
  "VirtQueue_kick_tx L process st pkt port =
     (let (self, sw, w) = st in
      case kick_count pkt of
        Ok n \<Rightarrow>
          (if n = 0 then Some (Err QueueDisabled, st)
           else case mem self of
             None \<Rightarrow> Some (Err (VhostMemory NoMappedMemory), st)
           | Some h \<Rightarrow>
               (case lib_iter L (queue self) h w of (cs, q) \<Rightarrow>
                let self = self\<lparr>queue := q\<rparr> in
                case cs of
                  Ok cs \<Rightarrow>
                    (case tx_chains L process port h cs (self, sw, w) of
                       Some (Ok _, self, sw, w) \<Rightarrow>
                         (case VirtQueue_call L self w notify_bytes of (r, w) \<Rightarrow> Some (r, self, sw, w))
                     | other \<Rightarrow> other)
                | Err e \<Rightarrow> Some (Err (VhostVirtio e), self, sw, w)
                | Panic \<Rightarrow> Some (Panic, self, sw, w)))
      | Err e \<Rightarrow> Some (Err e, st)
      | Panic \<Rightarrow> Some (Panic, st))"

text \<open>
  One frame for the guest into one chain (the three \<open>write_all\<close> and \<open>add_used\<close>), and the loop of
  \<open>handle_rx_queued\<close> over the pending frames. The frame is taken from the queue before it is
  written, so the queue that is left when writing fails does not hold it.
\<close>

fun write_all :: "('q, 'h, 'c, 'r, 'x, 'w) virtio_lib \<Rightarrow> bytes list \<Rightarrow> 'x \<Rightarrow> 'w \<Rightarrow> (unit, VhostError) res \<times> 'w" where
  "write_all L [] x w = (Ok (), w)"
| "write_all L (b # bs) x w =
     (case lib_write_all L w x b of
        (Ok _, x, w) \<Rightarrow> write_all L bs x w
      | (Err e, x, w) \<Rightarrow> (Err (VhostIO e), w)
      | (Panic, x, w) \<Rightarrow> (Panic, w))"

definition rx_packet ::
  "('q, 'h, 'c, 'r, 'x, 'w) virtio_lib \<Rightarrow> 'h \<Rightarrow> 'c \<Rightarrow> EthernetPacket \<Rightarrow> ('q, 'h) VirtQueue \<Rightarrow> 'w
     \<Rightarrow> (unit, VhostError) res \<times> ('q, 'h) VirtQueue \<times> 'w" where
  "rx_packet L h chain pkt self w =
     (case lib_writer L chain h w of
        Ok x \<Rightarrow>
          (case and_then (VirtioNetHeader_as_bytes VirtioNetHeader_new) (\<lambda>vhdr.
                and_then (EthernetFrame_to_bytes (pkt_frame pkt)) (\<lambda>frame. Ok (vhdr, frame))) of
             Ok (vhdr, frame) \<Rightarrow>
               (let sz = length vhdr + length frame + length (pkt_payload pkt) in
                case write_all L [vhdr, frame, pkt_payload pkt] x w of
                  (Ok _, w) \<Rightarrow>
                    (case lib_add_used L (queue self) h w (lib_head_index L chain) (word_of_nat sz) of
                       (u, q, w) \<Rightarrow> (map_err VhostVirtio u, self\<lparr>queue := q\<rparr>, w))
                | (r, w) \<Rightarrow> (r, self, w))
           | Err e \<Rightarrow> (Err e, self, w)
           | Panic \<Rightarrow> (Panic, self, w))
      | Err e \<Rightarrow> (Err (VhostVirtio e), self, w)
      | Panic \<Rightarrow> (Panic, self, w))"

fun rx_loop ::
  "('q, 'h, 'c, 'r, 'x, 'w) virtio_lib \<Rightarrow> 'h \<Rightarrow> EthernetPacket list \<Rightarrow> ('q, 'h) VirtQueue \<Rightarrow> 'w
     \<Rightarrow> (unit, VhostError) res \<times> EthernetPacket list \<times> ('q, 'h) VirtQueue \<times> 'w" where
  "rx_loop L h [] self w = (Ok (), [], self, w)"
| "rx_loop L h (pkt # pending) self w =
     (case lib_pop L (queue self) h w of
        (None, q) \<Rightarrow> (Ok (), pkt # pending, self\<lparr>queue := q\<rparr>, w)
      | (Some chain, q) \<Rightarrow>
          (case rx_packet L h chain pkt (self\<lparr>queue := q\<rparr>) w of
             (Ok _, self, w) \<Rightarrow> rx_loop L h pending self w
           | (r, self, w) \<Rightarrow> (r, pending, self, w)))"

definition VirtQueue_handle_rx_queued ::
  "('q, 'h, 'c, 'r, 'x, 'w) virtio_lib \<Rightarrow> ('q, 'h) VirtQueue \<Rightarrow> EthernetPacket list \<Rightarrow> 'w
     \<Rightarrow> (unit, VhostError) res \<times> EthernetPacket list \<times> ('q, 'h) VirtQueue \<times> 'w" where
  "VirtQueue_handle_rx_queued L self pending w =
     (if pending = [] then (Ok (), pending, self, w)
      else case mem self of
        None \<Rightarrow> (Err (VhostMemory NoMappedMemory), pending, self, w)
      | Some h \<Rightarrow>
          (case rx_loop L h pending self w of
             (Ok _, pending, self, w) \<Rightarrow>
               (case VirtQueue_call L self w notify_bytes of (r, w) \<Rightarrow> (r, pending, self, w))
           | other \<Rightarrow> other))"

definition VirtQueue_kick_rx ::
  "('q, 'h, 'c, 'r, 'x, 'w) virtio_lib \<Rightarrow> ('q, 'h) VirtQueue \<Rightarrow> EthernetPacket list \<Rightarrow> 'w \<Rightarrow> bytes
     \<Rightarrow> (unit, VhostError) res \<times> EthernetPacket list \<times> ('q, 'h) VirtQueue \<times> 'w" where
  "VirtQueue_kick_rx L self pending w pkt =
     (case kick_count pkt of
        Ok n \<Rightarrow> if n = 0 then (Err QueueDisabled, pending, self, w) else VirtQueue_handle_rx_queued L self pending w
      | Err e \<Rightarrow> (Err e, pending, self, w)
      | Panic \<Rightarrow> (Panic, pending, self, w))"

section \<open>What the properties need of the crates\<close>

text \<open>
  The laws hold in the worlds \<open>ok\<close> in which the guest has laid out its memory without overlaps, which the calls
  below keep. The documented behaviour of a \<open>Reader\<close>: \<open>rest\<close> is what is left to read, and a read returns
  as much of it as fits into the buffer.
\<close>

definition readable :: "('q, 'h, 'c, 'r, 'x, 'w) virtio_lib \<Rightarrow> ('w \<Rightarrow> bool) \<Rightarrow> ('w \<Rightarrow> 'r \<Rightarrow> bytes) \<Rightarrow> bool" where
  "readable L ok rest \<longleftrightarrow>
     (\<forall>w r n. ok w \<longrightarrow> (\<exists>r'. lib_read L w r n = Ok (take n (rest w r), r') \<and> rest w r' = drop n (rest w r)))"

text \<open>
  The chains \<open>C\<close> can be read, each has the bytes \<open>content\<close>, and returning one of them to the driver
  succeeds and does not touch the bytes of the others.
\<close>

definition tx_ready ::
  "('q, 'h, 'c, 'r, 'x, 'w) virtio_lib \<Rightarrow> ('w \<Rightarrow> bool) \<Rightarrow> ('w \<Rightarrow> 'r \<Rightarrow> bytes) \<Rightarrow> ('c \<Rightarrow> 'w \<Rightarrow> bytes) \<Rightarrow> 'h \<Rightarrow> 'c set \<Rightarrow> bool" where
  "tx_ready L ok rest content h C \<longleftrightarrow> readable L ok rest \<and>
     (\<forall>c \<in> C. \<forall>w. ok w \<longrightarrow> (\<exists>r. lib_reader L c h w = Ok r \<and> rest w r = content c w)) \<and>
     (\<forall>c \<in> C. \<forall>q w n. ok w \<longrightarrow>
        (\<exists>q' w'. lib_add_used L q h w (lib_head_index L c) n = (Ok (), q', w') \<and> ok w' \<and> (\<forall>c \<in> C. content c w' = content c w)))"

text \<open>Writing to the call descriptor of a queue succeeds.\<close>

definition notifies :: "('q, 'h, 'c, 'r, 'x, 'w) virtio_lib \<Rightarrow> ('w \<Rightarrow> bool) \<Rightarrow> ('q, 'h) VirtQueue \<Rightarrow> bool" where
  "notifies L ok self \<longleftrightarrow>
     (\<forall>fd w. call_fd self = Some fd \<and> ok w \<longrightarrow> (\<exists>n w'. sys_write L w fd notify_bytes = (Ok n, w')))"

text \<open>
  A receive ring as the device sees it: the chains that the driver has made available and the device not yet taken,
  with the number of bytes that fit into each (\<open>None\<close> for a chain whose descriptors are invalid); the bytes written to
  a chain so far; and the chains returned to the driver, with their bytes. A writer has a chain, a position and
  the space that is left.
\<close>

record ('q, 'c, 'x, 'w) rx_view =
  rv_ok :: "'w \<Rightarrow> bool"
  rv_chains :: "'q \<Rightarrow> 'w \<Rightarrow> 'c list"
  rv_room :: "'w \<Rightarrow> 'c \<Rightarrow> nat option"
  rv_buf :: "'w \<Rightarrow> u16 \<Rightarrow> bytes"
  rv_used :: "'w \<Rightarrow> (u16 \<times> bytes) list"
  rv_target :: "'x \<Rightarrow> u16"
  rv_pos :: "'x \<Rightarrow> nat"
  rv_space :: "'x \<Rightarrow> nat"

text \<open>A step to the world \<open>w'\<close> leaves the available chains and the returned ones alone.\<close>

definition rx_frame :: "('q, 'c, 'x, 'w) rx_view \<Rightarrow> 'w \<Rightarrow> 'w \<Rightarrow> bool" where
  "rx_frame V w w' \<longleftrightarrow> rv_ok V w' \<and> rv_room V w' = rv_room V w \<and> rv_used V w' = rv_used V w \<and>
     (\<forall>q. rv_chains V q w' = rv_chains V q w)"

text \<open>
  The documented behaviour of the crates on it. Taking a chain takes the next one that is available, if any. A
  writer on a valid chain starts at its beginning, and each write continues where the last one ended; \<open>write_all\<close> succeeds
  when the bytes fit into what is left of the chain, and is an error otherwise. \<open>add_used\<close> on a valid chain gives its first bytes
  back to the driver, which sees it as the next used chain. The event descriptor has no part in the ring.
\<close>

definition rx_ring :: "('q, 'h, 'c, 'r, 'x, 'w) virtio_lib \<Rightarrow> 'h \<Rightarrow> ('q, 'c, 'x, 'w) rx_view \<Rightarrow> bool" where
  "rx_ring L h V \<longleftrightarrow>
     (\<forall>q w. rv_ok V w \<longrightarrow>
        (\<exists>q'. lib_pop L q h w = (if rv_chains V q w = [] then None else Some (hd (rv_chains V q w)), q') \<and> rv_chains V q' w = tl (rv_chains V q w))) \<and>
     (\<forall>c w n. rv_ok V w \<longrightarrow> rv_room V w c = Some n \<longrightarrow>
        (\<exists>x. lib_writer L c h w = Ok x \<and> rv_target V x = lib_head_index L c \<and> rv_pos V x = 0 \<and> rv_space V x = n)) \<and>
     (\<forall>w x b. rv_ok V w \<longrightarrow> length b \<le> rv_space V x \<longrightarrow>
        (\<exists>x' w'. lib_write_all L w x b = (Ok (), x', w') \<and> rx_frame V w w' \<and> rv_target V x' = rv_target V x \<and>
           rv_pos V x' = rv_pos V x + length b \<and> rv_space V x' = rv_space V x - length b \<and>
           take (rv_pos V x') (rv_buf V w' (rv_target V x)) = take (rv_pos V x) (rv_buf V w (rv_target V x)) @ b)) \<and>
     (\<forall>w x b. rv_ok V w \<longrightarrow> rv_space V x < length b \<longrightarrow>
        (\<exists>e x' w'. lib_write_all L w x b = (Err e, x', w') \<and> rx_frame V w w')) \<and>
     (\<forall>q w c m n. rv_ok V w \<longrightarrow> rv_room V w c = Some m \<longrightarrow>
        (\<exists>q' w'. lib_add_used L q h w (lib_head_index L c) n = (Ok (), q', w') \<and> rv_ok V w' \<and> rv_room V w' = rv_room V w \<and>
           rv_chains V q' w' = rv_chains V q w \<and>
           rv_used V w' = rv_used V w @ [(lib_head_index L c, take (unat n) (rv_buf V w (lib_head_index L c)))])) \<and>
     (\<forall>w fd b r w'. rv_ok V w \<longrightarrow> sys_write L w fd b = (r, w') \<longrightarrow> rx_frame V w w')"

section \<open>Transmission\<close>

lemma read_chain_returns:
  assumes "readable L ok rest" and "ok w"
  shows "read_chain L w r pkt = Some (Ok (pkt @ rest w r))"
proof (induction "length (rest w r)" arbitrary: r pkt rule: less_induct)
  case less
  from assms obtain r' where r': "lib_read L w r 4096 = Ok (take 4096 (rest w r), r')" "rest w r' = drop 4096 (rest w r)"
    unfolding readable_def by blast
  show ?case
  proof (cases "length (rest w r) < 4096")
    case True
    then show ?thesis by (subst read_chain.simps) (simp add: r'(1))
  next
    case False
    then have "length (rest w r') < length (rest w r)" using r'(2) by simp
    from less [OF this] False show ?thesis
      by (subst read_chain.simps) (simp add: r')
  qed
qed

lemma tx_chain_forwards:
  assumes "tx_ready L ok rest content h C" and "ok w" and "c \<in> C" and "12 \<le> length (content c w)"
    and "process sw port (drop 12 (content c w)) = (Ok (), sw')"
  shows "\<exists>self' w'. tx_chain L process port h c (self, sw, w) = Some (Ok (), self', sw', w') \<and>
     enabled self' = enabled self \<and> call_fd self' = call_fd self \<and> ok w' \<and> (\<forall>c \<in> C. content c w' = content c w)"
proof -
  from assms(1-3) obtain r where r: "lib_reader L c h w = Ok r" "rest w r = content c w"
    unfolding tx_ready_def by blast
  have rd: "read_chain L w r [] = Some (Ok (content c w))"
    using assms(1,2) read_chain_returns [of L ok rest w r "[]"] r(2) unfolding tx_ready_def by simp
  from VirtioNetHeader_extract_total [OF assms(4), of "lib_bits L"] obtain hd where
    hd: "VirtioNetHeader_extract (lib_bits L) (content c w) = Ok (hd, drop 12 (content c w))" by blast
  let ?n = "word_of_nat (length (drop 12 (content c w))) :: u32"
  from assms(1-3) obtain q' w' where
    u: "lib_add_used L (queue self) h w (lib_head_index L c) ?n = (Ok (), q', w')" "ok w'" "\<forall>c \<in> C. content c w' = content c w"
    unfolding tx_ready_def by meson
  from u r rd hd assms(5) show ?thesis by (simp add: tx_chain_def)
qed

lemma tx_chains_forward:
  assumes "tx_ready L ok rest content h C" and "ok w" and "set cs \<subseteq> C" and "\<forall>c \<in> C. content c w = content c w0"
    and "\<forall>c \<in> set cs. 12 \<le> length (content c w0) \<and> (\<forall>sw. fst (process sw port (drop 12 (content c w0))) = Ok ())"
  shows "\<exists>self' w'. tx_chains L process port h cs (self, sw, w) =
       Some (Ok (), self', foldl (\<lambda>sw c. snd (process sw port (drop 12 (content c w0)))) sw cs, w') \<and>
     enabled self' = enabled self \<and> call_fd self' = call_fd self \<and> ok w'"
  using assms
proof (induction cs arbitrary: self sw w)
  case (Cons c cs)
  let ?sw = "snd (process sw port (drop 12 (content c w0)))"
  have c: "c \<in> C" "content c w = content c w0" using Cons.prems by auto
  have "process sw port (drop 12 (content c w)) = (Ok (), ?sw)" using Cons.prems(5) c(2) by (simp add: prod_eq_iff)
  from tx_chain_forwards [where process = process and self = self, OF Cons.prems(1,2) c(1) _ this] Cons.prems(5) c(2)
  obtain self1 w1 where st: "tx_chain L process port h c (self, sw, w) = Some (Ok (), self1, ?sw, w1)"
    "enabled self1 = enabled self" "call_fd self1 = call_fd self" "ok w1" "\<forall>c \<in> C. content c w1 = content c w" by auto
  from Cons.IH [of w1 self1 ?sw] Cons.prems st(4,5) obtain self2 w2 where
    "tx_chains L process port h cs (self1, ?sw, w1) =
       Some (Ok (), self2, foldl (\<lambda>sw c. snd (process sw port (drop 12 (content c w0)))) ?sw cs, w2)"
    "enabled self2 = enabled self1" "call_fd self2 = call_fd self1" "ok w2" by auto
  with st show ?case by simp
qed simp

lemma VirtQueue_call_ok:
  assumes "enabled self" and "notifies L ok self" and "ok w"
  shows "\<exists>w'. VirtQueue_call L self w notify_bytes = (Ok (), w')"
proof (cases "call_fd self")
  case (Some fd)
  with assms(2,3) obtain n w' where "sys_write L w fd notify_bytes = (Ok n, w')" unfolding notifies_def by blast
  then show ?thesis using assms(1) Some by (simp add: VirtQueue_call_def)
qed (simp add: VirtQueue_call_def assms(1))

text \<open>A kick of an enabled queue hands the frames of its chains to the switch, in order.\<close>

lemma VirtQueue_kick_tx_forwards:
  assumes "kick_count pkt = Ok n" and "n \<noteq> 0" and "mem self = Some h" and "enabled self"
    and "lib_iter L (queue self) h w = (Ok cs, q')" and "tx_ready L ok rest content h (set cs)"
    and "\<forall>c \<in> set cs. 12 \<le> length (content c w) \<and> (\<forall>sw. fst (process sw port (drop 12 (content c w))) = Ok ())"
    and "notifies L ok self" and "ok w"
  shows "\<exists>self' w'. VirtQueue_kick_tx L process (self, sw, w) pkt port =
     Some (Ok (), self', foldl (\<lambda>sw c. snd (process sw port (drop 12 (content c w)))) sw cs, w')"
proof -
  from tx_chains_forward [where process = process and self = "self\<lparr>queue := q'\<rparr>" and w = w and w0 = w and sw = sw,
      OF assms(6,9) subset_refl _ assms(7)]
  obtain self1 w1 where st: "tx_chains L process port h cs (self\<lparr>queue := q'\<rparr>, sw, w) =
       Some (Ok (), self1, foldl (\<lambda>sw c. snd (process sw port (drop 12 (content c w)))) sw cs, w1)"
    "enabled self1" "call_fd self1 = call_fd self" "ok w1" using assms(4) by auto
  have "notifies L ok self1" using assms(8) st(3) by (simp add: notifies_def)
  from VirtQueue_call_ok [OF st(2) this st(4)] obtain w2 where "VirtQueue_call L self1 w1 notify_bytes = (Ok (), w2)" by blast
  with st(1) assms show ?thesis by (simp add: VirtQueue_kick_tx_def)
qed

text \<open>
  A frame that the switch rejects (shorter than an Ethernet header, or with an EtherType other
  than ARP, IPv4 and IPv6) ends the thread of the device: the result of \<open>process\<close> is unwrapped.
\<close>

lemma VirtQueue_kick_tx_panics:
  assumes "kick_count pkt = Ok n" and "n \<noteq> 0" and "mem self = Some h"
    and "lib_iter L (queue self) h w = (Ok (c # cs), q')" and "tx_ready L ok rest content h {c}" and "ok w"
    and "12 \<le> length (content c w)" and "process sw port (drop 12 (content c w)) = (Err e, sw')"
  shows "\<exists>self' sw' w'. VirtQueue_kick_tx L process (self, sw, w) pkt port = Some (Panic, self', sw', w')"
proof -
  from assms(5,6) obtain r where r: "lib_reader L c h w = Ok r" "rest w r = content c w"
    unfolding tx_ready_def by blast
  have "read_chain L w r [] = Some (Ok (content c w))"
    using assms(5,6) read_chain_returns [of L ok rest w r "[]"] r(2) unfolding tx_ready_def by simp
  with VirtioNetHeader_extract_total [OF assms(7), of "lib_bits L"] r(1) assms show ?thesis
    by (auto simp: VirtQueue_kick_tx_def tx_chain_def)
qed

section \<open>Reception\<close>

definition guest_bytes :: "EthernetPacket \<Rightarrow> bytes" where
  "guest_bytes p = virtio_net_bytes VirtioNetHeader_new @ frame_bytes (pkt_frame p) @ pkt_payload p"

text \<open>A frame fits into a chain of the ring, with the two headers before its payload.\<close>

definition rx_fits :: "('q, 'c, 'x, 'w) rx_view \<Rightarrow> 'w \<Rightarrow> 'c \<Rightarrow> EthernetPacket \<Rightarrow> bool" where
  "rx_fits V w c p \<longleftrightarrow> (\<exists>m. rv_room V w c = Some m \<and> length (guest_bytes p) \<le> m)"

lemma rx_frame_trans: "rx_frame V w w1 \<Longrightarrow> rx_frame V w1 w2 \<Longrightarrow> rx_frame V w w2"
  by (simp add: rx_frame_def)

lemmas rx_ring_pop = rx_ring_def [THEN iffD1, THEN conjunct1, rule_format]
lemmas rx_ring_writer = rx_ring_def [THEN iffD1, THEN conjunct2, THEN conjunct1, rule_format]
lemmas rx_ring_write = rx_ring_def [THEN iffD1, THEN conjunct2, THEN conjunct2, THEN conjunct1, rule_format]
lemmas rx_ring_full = rx_ring_def [THEN iffD1, THEN conjunct2, THEN conjunct2, THEN conjunct2, THEN conjunct1, rule_format]
lemmas rx_ring_return = rx_ring_def [THEN iffD1, THEN conjunct2, THEN conjunct2, THEN conjunct2, THEN conjunct2, THEN conjunct1, rule_format]
lemmas rx_ring_notify = rx_ring_def [THEN iffD1, THEN conjunct2, THEN conjunct2, THEN conjunct2, THEN conjunct2, THEN conjunct2, rule_format]

lemma write_all_fits:
  assumes "rx_ring L h V"
  shows "rv_ok V w \<Longrightarrow> length (concat bs) \<le> rv_space V x \<Longrightarrow>
     \<exists>w'. write_all L bs x w = (Ok (), w') \<and> rx_frame V w w' \<and>
       take (rv_pos V x + length (concat bs)) (rv_buf V w' (rv_target V x)) = take (rv_pos V x) (rv_buf V w (rv_target V x)) @ concat bs"
proof (induction bs arbitrary: x w)
  case (Cons b bs)
  from rx_ring_write [OF assms Cons.prems(1), of b x] Cons.prems(2) obtain x1 w1 where
    1: "lib_write_all L w x b = (Ok (), x1, w1)" "rx_frame V w w1" "rv_target V x1 = rv_target V x"
      "rv_pos V x1 = rv_pos V x + length b" "rv_space V x1 = rv_space V x - length b"
      "take (rv_pos V x1) (rv_buf V w1 (rv_target V x)) = take (rv_pos V x) (rv_buf V w (rv_target V x)) @ b" by auto
  have "rv_ok V w1" "length (concat bs) \<le> rv_space V x1" using 1(2,5) Cons.prems(2) by (auto simp: rx_frame_def)
  from Cons.IH [OF this] 1 show ?case by (auto simp: add.assoc intro: rx_frame_trans)
qed (simp add: rx_frame_def)

lemma write_all_short:
  assumes "rx_ring L h V"
  shows "rv_ok V w \<Longrightarrow> rv_space V x < length (concat bs) \<Longrightarrow>
     \<exists>e w'. write_all L bs x w = (Err (VhostIO e), w') \<and> rx_frame V w w'"
proof (induction bs arbitrary: x w)
  case (Cons b bs)
  show ?case
  proof (cases "length b \<le> rv_space V x")
    case True
    from rx_ring_write [OF assms Cons.prems(1) True] obtain x1 w1 where
      1: "lib_write_all L w x b = (Ok (), x1, w1)" "rx_frame V w w1" "rv_space V x1 = rv_space V x - length b" by blast
    have "rv_ok V w1" "rv_space V x1 < length (concat bs)" using 1(2,3) Cons.prems(2) True by (auto simp: rx_frame_def)
    from Cons.IH [OF this] 1(1,2) show ?thesis by (auto intro: rx_frame_trans)
  next
    case False
    with rx_ring_full [OF assms Cons.prems(1)] show ?thesis by (force simp: not_le)
  qed
qed simp

lemma rx_packet_delivers:
  assumes "rx_ring L h V" and "rv_ok V w" and "rx_fits V w c p" and "length (guest_bytes p) < 2 ^ 32"
  shows "\<exists>self' w'. rx_packet L h c p self w = (Ok (), self', w') \<and> rv_ok V w' \<and> rv_room V w' = rv_room V w \<and>
     rv_chains V (queue self') w' = rv_chains V (queue self) w \<and> rv_used V w' = rv_used V w @ [(lib_head_index L c, guest_bytes p)] \<and>
     enabled self' = enabled self \<and> call_fd self' = call_fd self"
proof -
  obtain m where m: "rv_room V w c = Some m" "length (guest_bytes p) \<le> m" using assms(3) by (auto simp: rx_fits_def)
  from rx_ring_writer [OF assms(1,2) m(1)] obtain x where
    x: "lib_writer L c h w = Ok x" "rv_target V x = lib_head_index L c" "rv_pos V x = 0" "rv_space V x = m" by blast
  let ?bs = "[virtio_net_bytes VirtioNetHeader_new, frame_bytes (pkt_frame p), pkt_payload p]"
  have gb: "concat ?bs = guest_bytes p" by (simp add: guest_bytes_def)
  from write_all_fits [OF assms(1,2), of ?bs x] obtain w1 where
    w1: "write_all L ?bs x w = (Ok (), w1)" "rx_frame V w w1" "take (length (guest_bytes p)) (rv_buf V w1 (lib_head_index L c)) = guest_bytes p"
    unfolding gb using x m by auto
  have n: "unat (word_of_nat (length (guest_bytes p)) :: u32) = length (guest_bytes p)"
    using assms(4) by (simp add: unsigned_of_nat take_bit_nat_eq_self)
  have len: "12 + 14 + length (pkt_payload p) = length (guest_bytes p)" by (simp add: guest_bytes_def)
  have ok: "rv_ok V w1" "rv_room V w1 c = Some m" using w1(2) m(1) by (simp_all add: rx_frame_def)
  from rx_ring_return [OF assms(1) ok, of "queue self" "word_of_nat (length (guest_bytes p))"] obtain q w2 where
    "lib_add_used L (queue self) h w1 (lib_head_index L c) (word_of_nat (length (guest_bytes p))) = (Ok (), q, w2)"
    "rv_ok V w2" "rv_room V w2 = rv_room V w1" "rv_chains V q w2 = rv_chains V (queue self) w1"
    "rv_used V w2 = rv_used V w1 @ [(lib_head_index L c, guest_bytes p)]" unfolding n w1(3) by blast
  then show ?thesis
    using x(1) w1(1,2) unfolding len [symmetric]
    by (simp add: rx_packet_def Let_def rx_frame_def del: write_all.simps)
qed

lemma rx_loop_suffix:
  assumes "rx_loop L h pending self w = (r, left, self', w')"
  shows "\<exists>sent. pending = sent @ left"
  using assms
proof (induction pending arbitrary: self w)
  case (Cons p ps)
  obtain o1 q where pop: "lib_pop L (queue self) h w = (o1, q)" by (metis prod.exhaust)
  show ?case
  proof (cases o1)
    case (Some c)
    obtain r1 self1 w1 where rp: "rx_packet L h c p (self\<lparr>queue := q\<rparr>) w = (r1, self1, w1)" by (metis prod_cases3)
    show ?thesis
    proof (cases r1)
      case (Ok u)
      then have "rx_loop L h ps self1 w1 = (r, left, self', w')" using Cons.prems pop Some rp by simp
      from Cons.IH [OF this] show ?thesis by auto
    qed (use Cons.prems pop Some rp in \<open>auto intro: exI [of _ "[p]"]\<close>)
  qed (use Cons.prems pop in simp)
qed simp

text \<open>The loop stops when no frame or no chain is left.\<close>

lemma rx_loop_delivers:
  assumes "rx_ring L h V"
  shows "rv_ok V w \<Longrightarrow> \<forall>(c, p) \<in> set (zip (rv_chains V (queue self) w) pending). rx_fits V w c p \<Longrightarrow>
     \<forall>p \<in> set pending. length (guest_bytes p) < 2 ^ 32 \<Longrightarrow>
     \<exists>self' w'. rx_loop L h pending self w = (Ok (), drop (length (rv_chains V (queue self) w)) pending, self', w') \<and>
       rv_used V w' = rv_used V w @ map (\<lambda>(c, p). (lib_head_index L c, guest_bytes p)) (zip (rv_chains V (queue self) w) pending) \<and>
       rv_chains V (queue self') w' = drop (length pending) (rv_chains V (queue self) w) \<and>
       rv_ok V w' \<and> enabled self' = enabled self \<and> call_fd self' = call_fd self"
proof (induction pending arbitrary: self w)
  case (Cons p ps)
  show ?case
  proof (cases "rv_chains V (queue self) w")
    case Nil
    with rx_ring_pop [OF assms Cons.prems(1), of "queue self"] obtain q where
      "lib_pop L (queue self) h w = (None, q)" "rv_chains V q w = []" by auto
    with Nil Cons.prems(1) show ?thesis by simp
  next
    case (Cons c cs)
    with rx_ring_pop [OF assms Cons.prems(1), of "queue self"] obtain q where
      q: "lib_pop L (queue self) h w = (Some c, q)" "rv_chains V q w = cs" by auto
    have "rx_fits V w c p" "length (guest_bytes p) < 2 ^ 32" using Cons.prems(2,3) Cons by auto
    from rx_packet_delivers [OF assms Cons.prems(1) this, of "self\<lparr>queue := q\<rparr>"] obtain self1 w1 where
      1: "rx_packet L h c p (self\<lparr>queue := q\<rparr>) w = (Ok (), self1, w1)" "rv_ok V w1" "rv_room V w1 = rv_room V w"
        "rv_chains V (queue self1) w1 = cs" "rv_used V w1 = rv_used V w @ [(lib_head_index L c, guest_bytes p)]"
        "enabled self1 = enabled self" "call_fd self1 = call_fd self" using q(2) by auto
    have "\<forall>(c, p) \<in> set (zip (rv_chains V (queue self1) w1) ps). rx_fits V w1 c p" "\<forall>p \<in> set ps. length (guest_bytes p) < 2 ^ 32"
      using Cons.prems(2,3) Cons 1(3,4) by (auto simp: rx_fits_def)
    from Cons.IH [OF 1(2) this] 1 q(1) Cons show ?thesis by auto
  qed
qed simp

lemma VirtQueue_call_frame:
  assumes "rx_ring L h V" and "rv_ok V w" and "VirtQueue_call L self w b = (r, w')"
  shows "rx_frame V w w'"
proof (cases "enabled self \<and> call_fd self \<noteq> None")
  case True
  then obtain fd where fd: "enabled self" "call_fd self = Some fd" by auto
  obtain r1 w1 where w1: "sys_write L w fd b = (r1, w1)" by fastforce
  from rx_ring_notify [OF assms(1,2) this] have "rx_frame V w w1" .
  with fd w1 assms(3) show ?thesis by (simp add: VirtQueue_call_def)
qed (use assms(2,3) in \<open>auto simp: VirtQueue_call_def rx_frame_def split: if_splits\<close>)

lemma handle_rx_delivers:
  assumes "rx_ring L h V" and "rv_ok V w" and "notifies L (rv_ok V) self" and "enabled self" and "mem self = Some h"
    and "\<forall>(c, p) \<in> set (zip (rv_chains V (queue self) w) pending). rx_fits V w c p"
    and "\<forall>p \<in> set pending. length (guest_bytes p) < 2 ^ 32"
  shows "\<exists>self' w'. VirtQueue_handle_rx_queued L self pending w =
       (Ok (), drop (length (rv_chains V (queue self) w)) pending, self', w') \<and>
     rv_used V w' = rv_used V w @ map (\<lambda>(c, p). (lib_head_index L c, guest_bytes p)) (zip (rv_chains V (queue self) w) pending) \<and>
     rv_chains V (queue self') w' = drop (length pending) (rv_chains V (queue self) w)"
proof (cases "pending = []")
  case False
  from rx_loop_delivers [OF assms(1,2,6,7)] obtain self1 w1 where
    1: "rx_loop L h pending self w = (Ok (), drop (length (rv_chains V (queue self) w)) pending, self1, w1)"
      "rv_used V w1 = rv_used V w @ map (\<lambda>(c, p). (lib_head_index L c, guest_bytes p)) (zip (rv_chains V (queue self) w) pending)"
      "rv_chains V (queue self1) w1 = drop (length pending) (rv_chains V (queue self) w)" "rv_ok V w1"
      "enabled self1 = enabled self" "call_fd self1 = call_fd self" by blast
  have "enabled self1" "notifies L (rv_ok V) self1" using 1(5,6) assms(3,4) by (simp_all add: notifies_def)
  from VirtQueue_call_ok [OF this 1(4)] obtain w2 where call: "VirtQueue_call L self1 w1 notify_bytes = (Ok (), w2)" by blast
  from VirtQueue_call_frame [OF assms(1) 1(4) call] 1(2,3)
  have "rv_used V w2 = rv_used V w @ map (\<lambda>(c, p). (lib_head_index L c, guest_bytes p)) (zip (rv_chains V (queue self) w) pending)"
    "rv_chains V (queue self1) w2 = drop (length pending) (rv_chains V (queue self) w)" by (simp_all add: rx_frame_def)
  with False assms(5) 1(1) call show ?thesis by (simp add: VirtQueue_handle_rx_queued_def)
qed (simp add: VirtQueue_handle_rx_queued_def)

text \<open>
  C9: frames reach the guest complete and in order. The driver has made the chains \<open>cs\<close> available, which are valid, and
  each is large enough for the frame that meets it. Serving an enabled receive queue succeeds: the driver sees, behind the
  chains it had before, one used chain for each of the first frames, in the order of both: the virtio-net header, the Ethernet header
  and the payload. Frames are left, in their order, exactly when there are more of them than chains, and chains when there are more
  of those.
\<close>

theorem VirtQueue_delivers_in_order:
  assumes "rx_ring L h V" and "rv_ok V w" and "notifies L (rv_ok V) self" and "enabled self" and "mem self = Some h"
    and "rv_chains V (queue self) w = cs" and "\<forall>(c, p) \<in> set (zip cs pending). rx_fits V w c p"
    and "\<forall>p \<in> set pending. length (guest_bytes p) < 2 ^ 32"
  shows "\<exists>self' w'. VirtQueue_handle_rx_queued L self pending w = (Ok (), drop (length cs) pending, self', w') \<and>
     rv_used V w' = rv_used V w @ map (\<lambda>(c, p). (lib_head_index L c, guest_bytes p)) (zip cs pending) \<and>
     rv_chains V (queue self') w' = drop (length pending) cs"
  using handle_rx_delivers [OF assms(1-5), of pending] assms(6-8) by simp

text \<open>
  A frame that is too long for the chain it meets is lost, and so is the chain: the frame was taken from the pending ones
  and the chain from the ring before writing fails, and the chain is not returned to the driver. The frames behind it stay pending.
\<close>

lemma VirtQueue_loses_long_frame:
  assumes "rx_ring L h V" and "rv_ok V w" and "mem self = Some h" and "rv_chains V (queue self) w = c # cs"
    and "rv_room V w c = Some m" and "m < length (guest_bytes p)"
  shows "\<exists>e self' w'. VirtQueue_handle_rx_queued L self (p # ps) w = (Err (VhostIO e), ps, self', w') \<and>
     rv_used V w' = rv_used V w \<and> rv_chains V (queue self') w' = cs"
proof -
  from rx_ring_pop [OF assms(1,2), of "queue self"] assms(4) obtain q where
    q: "lib_pop L (queue self) h w = (Some c, q)" "rv_chains V q w = cs" by auto
  from rx_ring_writer [OF assms(1,2,5)] obtain x where x: "lib_writer L c h w = Ok x" "rv_space V x = m" by blast
  let ?bs = "[virtio_net_bytes VirtioNetHeader_new, frame_bytes (pkt_frame p), pkt_payload p]"
  have "rv_space V x < length (concat ?bs)" using assms(6) x(2) by (simp add: guest_bytes_def)
  from write_all_short [OF assms(1,2) this] obtain e w1 where "write_all L ?bs x w = (Err (VhostIO e), w1)" "rx_frame V w w1" by blast
  with q x(1) assms(3) show ?thesis
    by (simp add: VirtQueue_handle_rx_queued_def rx_packet_def Let_def rx_frame_def del: write_all.simps)
qed

text \<open>
  No frame is duplicated or reordered by a failure. Whatever the crates' calls return, what is
  left of the pending frames after a receive kick is a tail of them; nothing is taken when the kick
  counter is zero or no memory is mapped.
\<close>

lemma VirtQueue_kick_rx_keeps_order:
  assumes "VirtQueue_kick_rx L self pending w pkt = (r, left, self', w')"
  shows "(\<exists>sent. pending = sent @ left) \<and>
     (kick_count pkt = Ok 0 \<longrightarrow> r = Err QueueDisabled \<and> left = pending) \<and>
     (kick_count pkt = Ok n \<and> n \<noteq> 0 \<and> mem self = None \<and> pending \<noteq> [] \<longrightarrow>
        r = Err (VhostMemory NoMappedMemory) \<and> left = pending)"
proof -
  have "\<exists>sent. pending = sent @ left" if "VirtQueue_handle_rx_queued L self pending w = (r, left, self', w')"
  proof (cases "mem self")
    case (Some h)
    obtain r1 left1 self1 w1 where loop: "rx_loop L h pending self w = (r1, left1, self1, w1)" by (metis prod_cases4)
    have "left = left1 \<or> left = pending"
      using that Some loop
      by (cases r1) (auto simp: VirtQueue_handle_rx_queued_def split: if_splits prod.splits)
    with rx_loop_suffix [OF loop] show ?thesis by auto
  qed (use that in \<open>auto simp: VirtQueue_handle_rx_queued_def split: if_splits\<close>)
  with assms show ?thesis
    by (auto simp: VirtQueue_kick_rx_def VirtQueue_handle_rx_queued_def split: res.splits if_splits)
qed

section \<open>A guest to evaluate the properties at\<close>

record sample_guest =
  tx_chains_of :: "(u16 \<times> bytes) list"
  rx_chains_of :: "u16 list"
  buffers_of :: "u16 \<Rightarrow> bytes"
  used_of :: "(u16 \<times> bytes) list"
  sent_of :: "bytes list"

text \<open>The chains of the sample hold 2048 bytes each, and the ring has 256 descriptors.\<close>

definition sample_lib :: "(nat, unit, u16, bytes, u16 \<times> nat, sample_guest) virtio_lib" where
  "sample_lib =
     \<lparr>lib_new = (\<lambda>_. Ok 0), lib_set_size = (\<lambda>q _. q), lib_set_ready = (\<lambda>q _. q), lib_set_desc_table = (\<lambda>q _ _. q),
      lib_set_avail_ring = (\<lambda>q _ _. q), lib_set_used_ring = (\<lambda>q _ _. q), lib_set_next_avail = (\<lambda>q n. unat n),
      lib_next_avail = (\<lambda>q. word_of_nat q),
      lib_iter = (\<lambda>q h w. (Ok (map fst (drop q (tx_chains_of w))), length (tx_chains_of w))),
      lib_pop = (\<lambda>q h w. if q < length (rx_chains_of w) then (Some (rx_chains_of w ! q), q + 1) else (None, q)),
      lib_add_used = (\<lambda>q h w i n.
        if i < 256 then (Ok (), q, w\<lparr>used_of := used_of w @ [(i, take (unat n) (buffers_of w i))]\<rparr>)
        else (Err ''InvalidDescriptorIndex'', q, w)),
      lib_head_index = (\<lambda>c. c),
      lib_reader = (\<lambda>c h w. Ok (case map_of (tx_chains_of w) c of Some b \<Rightarrow> b | None \<Rightarrow> [])),
      lib_read = (\<lambda>w r n. Ok (take n r, drop n r)),
      lib_writer = (\<lambda>c h w. if c < 256 then Ok (c, 0) else Err ''InvalidChain''),
      lib_write_all = (\<lambda>w x b. case x of (c, p) \<Rightarrow>
         if length b \<le> 2048 - p then (Ok (), (c, p + length b), w\<lparr>buffers_of := (buffers_of w)(c := take p (buffers_of w c) @ b)\<rparr>)
         else (Err ''failed to write whole buffer'', (c, p), w)),
      lib_bits = sample_bits, sys_write = (\<lambda>w fd b. (Ok (length b), w))\<rparr>"

definition sample_view :: "(nat, u16, u16 \<times> nat, sample_guest) rx_view" where
  "sample_view =
     \<lparr>rv_ok = (\<lambda>w. True), rv_chains = (\<lambda>q w. drop q (rx_chains_of w)), rv_room = (\<lambda>w c. if c < 256 then Some 2048 else None),
      rv_buf = buffers_of, rv_used = used_of, rv_target = fst, rv_pos = snd, rv_space = (\<lambda>x. 2048 - snd x)\<rparr>"

definition sample_queue :: "(nat, unit) VirtQueue" where
  "sample_queue = \<lparr>enabled = True, queue = 0, mem = Some (), desc_table = 0, avail_ring = 0, used_ring = 0,
     err_fd = None, call_fd = Some 9, kick_fd = Some 8\<rparr>"

lemma sample_rx_ring: "rx_ring sample_lib () sample_view"
  unfolding rx_ring_def rx_frame_def sample_view_def sample_lib_def
  by (auto simp: Cons_nth_drop_Suc [symmetric] tl_drop drop_Suc)

lemma sample_notifies: "notifies sample_lib ok q"
  by (simp add: notifies_def sample_lib_def)

lemma sample_tx_ready:
  "\<forall>c \<in> C. c < 256 \<Longrightarrow>
   tx_ready sample_lib (\<lambda>w. True) (\<lambda>w r. r) (\<lambda>c w. case map_of (tx_chains_of w) c of Some b \<Rightarrow> b | None \<Rightarrow> []) () C"
  by (auto simp: tx_ready_def readable_def sample_lib_def)

definition sample_packet :: EthernetPacket where
  "sample_packet = EthernetPacket_new (EthernetFrame_new (MacAddress 2 0 0 0 0 1) (MacAddress 2 0 0 0 0 2) IPv4) [1, 2, 3]"

definition sample_guest0 :: sample_guest where
  "sample_guest0 = \<lparr>tx_chains_of = [(5, replicate 12 0 @ [2, 0, 0, 0, 0, 1, 2, 0, 0, 0, 0, 2, 0x12, 0x34, 1])], rx_chains_of = [3],
     buffers_of = (\<lambda>_. []), used_of = [], sent_of = []\<rparr>"

theorem VirtQueue_delivers_in_order_witness:
  "\<exists>self' w'. VirtQueue_handle_rx_queued sample_lib sample_queue [sample_packet, sample_packet] sample_guest0 =
       (Ok (), [sample_packet], self', w') \<and> used_of w' = [(3, guest_bytes sample_packet)]"
  using VirtQueue_delivers_in_order [OF sample_rx_ring _ sample_notifies, of sample_guest0 sample_queue "[3]" "[sample_packet, sample_packet]"]
  by (auto simp: sample_view_def sample_queue_def sample_guest0_def rx_fits_def guest_bytes_def sample_packet_def EthernetPacket_new_def
      sample_lib_def)

definition sample_switch :: "(EthernetFrame \<times> bytes) list VirtioSwitch" where
  "sample_switch = \<lparr>ports = [[], []], cache = Map.empty, logger = \<lparr>pcap_tx = None\<rparr>\<rparr>"

end
