(* ===== verification/Vhost_Device.thy ===== *)
theory Vhost_Device
  imports Virt_Queue
begin

text \<open>
  The vhost-user network device, \<^verbatim>\<open>oathgate-vhost/src/device.rs\<close>: its construction and the messages
  of the control socket. A handler is a function on the state, the device and the world outside the
  process, that may return early with an error or panic. The operating system and the mapping of
  guest memory are parameters, in the record \<open>vhost_os\<close>; the switch is a parameter too, so that the
  frames waiting for the device are the ones in its port (\<open>switch_ops\<close>). The handle of the poller has
  no state of its own here: registering a descriptor is a call to the world.
\<close>

section \<open>Constants\<close>

definition QUEUE_MAX_SIZE :: u16 where "QUEUE_MAX_SIZE = 1024"
definition VHOST_USER_HEADER_SZ :: nat where "VHOST_USER_HEADER_SZ = 12"
definition VHOST_USER_GET_FEATURES :: u32 where "VHOST_USER_GET_FEATURES = 1"
definition VHOST_USER_SET_FEATURES :: u32 where "VHOST_USER_SET_FEATURES = 2"
definition VHOST_USER_SET_OWNER :: u32 where "VHOST_USER_SET_OWNER = 3"
definition VHOST_USER_SET_MEM_TABLE :: u32 where "VHOST_USER_SET_MEM_TABLE = 5"
definition VHOST_USER_SET_VRING_NUM :: u32 where "VHOST_USER_SET_VRING_NUM = 8"
definition VHOST_USER_SET_VRING_ADDR :: u32 where "VHOST_USER_SET_VRING_ADDR = 9"
definition VHOST_USER_SET_VRING_BASE :: u32 where "VHOST_USER_SET_VRING_BASE = 10"
definition VHOST_USER_GET_VRING_BASE :: u32 where "VHOST_USER_GET_VRING_BASE = 11"
definition VHOST_USER_SET_VRING_KICK :: u32 where "VHOST_USER_SET_VRING_KICK = 12"
definition VHOST_USER_SET_VRING_CALL :: u32 where "VHOST_USER_SET_VRING_CALL = 13"
definition VHOST_USER_SET_VRING_ERR :: u32 where "VHOST_USER_SET_VRING_ERR = 14"
definition VHOST_USER_GET_PROTOCOL_FEATURES :: u32 where "VHOST_USER_GET_PROTOCOL_FEATURES = 15"
definition VHOST_USER_SET_PROTOCOL_FEATURES :: u32 where "VHOST_USER_SET_PROTOCOL_FEATURES = 16"
definition VHOST_USER_GET_QUEUE_NUM :: u32 where "VHOST_USER_GET_QUEUE_NUM = 17"
definition VHOST_USER_SET_VRING_ENABLE :: u32 where "VHOST_USER_SET_VRING_ENABLE = 18"
definition VHOST_USER_SET_BACKEND_REQ_FD :: u32 where "VHOST_USER_SET_BACKEND_REQ_FD = 21"
definition VHOST_USER_GET_CONFIG :: u32 where "VHOST_USER_GET_CONFIG = 24"
definition VHOST_USER_SET_CONFIG :: u32 where "VHOST_USER_SET_CONFIG = 25"
definition VHOST_USER_GET_MAX_MEM_SLOTS :: u32 where "VHOST_USER_GET_MAX_MEM_SLOTS = 36"
definition VHOST_USER_ADD_MEM_REG :: u32 where "VHOST_USER_ADD_MEM_REG = 37"
definition VHOST_USER_SET_STATUS :: u32 where "VHOST_USER_SET_STATUS = 39"
definition VHOST_USER_GET_STATUS :: u32 where "VHOST_USER_GET_STATUS = 40"

definition VIRTIO_NET_F_MAC :: u64 where "VIRTIO_NET_F_MAC = 0x0020"
definition VIRTIO_NET_F_STATUS :: u64 where "VIRTIO_NET_F_STATUS = 0x10000"
definition VHOST_USER_BACKEND_CONFIG_CHANGE_MSG :: u32 where "VHOST_USER_BACKEND_CONFIG_CHANGE_MSG = 2"
definition VHOST_USER_FLAG_VERSION_1 :: u32 where "VHOST_USER_FLAG_VERSION_1 = 0x01"
definition VHOST_USER_FLAG_REPLY :: u32 where "VHOST_USER_FLAG_REPLY = 0x04"
definition TOKEN_STRM :: nat where "TOKEN_STRM = 0"
definition TOKEN_WAKE :: nat where "TOKEN_WAKE = 1"

lemmas message_ids =
  VHOST_USER_GET_FEATURES_def VHOST_USER_SET_FEATURES_def VHOST_USER_SET_OWNER_def VHOST_USER_SET_MEM_TABLE_def
  VHOST_USER_SET_VRING_NUM_def VHOST_USER_SET_VRING_ADDR_def VHOST_USER_SET_VRING_BASE_def
  VHOST_USER_GET_VRING_BASE_def VHOST_USER_SET_VRING_KICK_def VHOST_USER_SET_VRING_CALL_def
  VHOST_USER_SET_VRING_ERR_def VHOST_USER_GET_PROTOCOL_FEATURES_def VHOST_USER_SET_PROTOCOL_FEATURES_def
  VHOST_USER_GET_QUEUE_NUM_def VHOST_USER_SET_VRING_ENABLE_def VHOST_USER_SET_BACKEND_REQ_FD_def
  VHOST_USER_GET_CONFIG_def VHOST_USER_SET_CONFIG_def VHOST_USER_GET_MAX_MEM_SLOTS_def VHOST_USER_ADD_MEM_REG_def
  VHOST_USER_SET_STATUS_def VHOST_USER_GET_STATUS_def

section \<open>The device\<close>

datatype KickFd = KickRx rawfd nat | KickTx rawfd nat

record VirtioDeviceRxQueue =
  rxq_queue :: "EthernetPacket list"
  rxq_wakes :: nat

record ('q, 'h) VirtioDevice =
  channel :: "rawfd option"
  queues :: "('q, 'h) VirtQueue list"
  mappings :: "GuestMapping list"
  dev_status :: u64
  num_queues :: u64
  kick_fds :: "nat \<rightharpoonup> KickFd"
  router_port :: nat

record DeviceOpts =
  device_queues :: u8

definition DeviceOpts_default :: DeviceOpts where
  "DeviceOpts_default = \<lparr>device_queues = 1\<rparr>"

definition VirtioDeviceRxQueue_enqueue :: "VirtioDeviceRxQueue \<Rightarrow> EthernetFrame \<Rightarrow> bytes \<Rightarrow> VirtioDeviceRxQueue" where
  "VirtioDeviceRxQueue_enqueue self frame pkt =
     self\<lparr>rxq_queue := rxq_queue self @ [EthernetPacket_new frame pkt], rxq_wakes := rxq_wakes self + 1\<rparr>"

interpretation virtio_port: switch_port VirtioDeviceRxQueue_enqueue "\<lambda>d. map (\<lambda>p. (pkt_frame p, pkt_payload p)) (rxq_queue d)"
  by unfold_locales (simp add: VirtioDeviceRxQueue_enqueue_def EthernetPacket_new_def)

record ('p, 'g, 'e, 'h, 'w) vhost_os =
  os_poll_new :: "(unit, string) res"
  os_waker_new :: "(unit, string) res"
  os_recv_header :: "'w \<Rightarrow> rawfd \<Rightarrow> (nat \<times> bytes \<times> (ControlMessageOwned list, errno) res, errno) res \<times> 'w"
  os_recv_payload :: "'w \<Rightarrow> rawfd \<Rightarrow> nat \<Rightarrow> (bytes, errno) res \<times> 'w"
  os_sendmsg :: "'w \<Rightarrow> rawfd \<Rightarrow> bytes \<Rightarrow> (nat, errno) res \<times> 'w"
  os_read :: "'w \<Rightarrow> rawfd \<Rightarrow> (bytes, errno) res \<times> 'w"
  os_register :: "'w \<Rightarrow> rawfd \<Rightarrow> nat \<Rightarrow> (unit, string) res \<times> 'w"
  os_deregister :: "'w \<Rightarrow> rawfd \<Rightarrow> (unit, string) res \<times> 'w"
  os_mmap :: "'w \<Rightarrow> u64 \<Rightarrow> u64 \<Rightarrow> rawfd \<Rightarrow> u64 \<Rightarrow> ('p, errno) res \<times> 'w"
  os_build_raw :: "'p \<Rightarrow> u64 \<Rightarrow> ('g, string) res"
  os_guest_region :: "'g \<Rightarrow> u64 \<Rightarrow> ('e, string) res"
  os_from_regions :: "'e list \<Rightarrow> ('h, string) res"

record 's switch_ops =
  sw_process :: "'s \<Rightarrow> nat \<Rightarrow> bytes \<Rightarrow> (unit, ProtocolError) res \<times> 's"
  sw_connect :: "'s \<Rightarrow> VirtioDeviceRxQueue \<Rightarrow> 's \<times> nat"
  sw_rx :: "'s \<Rightarrow> nat \<Rightarrow> EthernetPacket list"
  sw_set_rx :: "'s \<Rightarrow> nat \<Rightarrow> EthernetPacket list \<Rightarrow> 's"

text \<open>
  The ports of the switch of the bridge are boxed; here a port is a virtio device or another one.
  This is the \<open>switch_ops\<close> of that switch: the pending frames of a device are the ones in its port.
\<close>

datatype 'd bridge_port = VirtioPort VirtioDeviceRxQueue | OtherPort 'd

fun bridge_port_enqueue :: "('d \<Rightarrow> EthernetFrame \<Rightarrow> bytes \<Rightarrow> 'd) \<Rightarrow> 'd bridge_port \<Rightarrow> EthernetFrame \<Rightarrow> bytes \<Rightarrow> 'd bridge_port" where
  "bridge_port_enqueue enq (VirtioPort q) f p = VirtioPort (VirtioDeviceRxQueue_enqueue q f p)"
| "bridge_port_enqueue enq (OtherPort d) f p = OtherPort (enq d f p)"

fun bridge_port_rx :: "'d bridge_port \<Rightarrow> EthernetPacket list" where
  "bridge_port_rx (VirtioPort q) = rxq_queue q"
| "bridge_port_rx (OtherPort d) = []"

fun bridge_port_set_rx :: "EthernetPacket list \<Rightarrow> 'd bridge_port \<Rightarrow> 'd bridge_port" where
  "bridge_port_set_rx ps (VirtioPort q) = VirtioPort (q\<lparr>rxq_queue := ps\<rparr>)"
| "bridge_port_set_rx ps (OtherPort d) = OtherPort d"

definition bridge_switch_ops :: "('d \<Rightarrow> EthernetFrame \<Rightarrow> bytes \<Rightarrow> 'd) \<Rightarrow> 'd bridge_port VirtioSwitch switch_ops" where
  "bridge_switch_ops enq =
     \<lparr>sw_process = VirtioSwitch_process (bridge_port_enqueue enq),
      sw_connect = (\<lambda>sw d. VirtioSwitch_connect sw (VirtioPort d)),
      sw_rx = (\<lambda>sw p. if p < length (ports sw) then bridge_port_rx (ports sw ! p) else []),
      sw_set_rx = (\<lambda>sw p ps. if p < length (ports sw) then sw\<lparr>ports := (ports sw)[p := bridge_port_set_rx ps (ports sw ! p)]\<rparr> else sw)\<rparr>"

text \<open>The loop that makes the queues of a new device.\<close>

fun new_queues :: "('q, 'h, 'c, 'r, 'x, 'w) virtio_lib \<Rightarrow> nat \<Rightarrow> (('q, 'h) VirtQueue list, VhostError) res" where
  "new_queues L 0 = Ok []"
| "new_queues L (Suc n) =
     and_then (map_err VhostVirtio (VirtQueue_new L QUEUE_MAX_SIZE)) (\<lambda>q.
     and_then (new_queues L n) (\<lambda>qs. Ok (q # qs)))"

definition VirtioDevice_new ::
  "('p, 'g, 'e, 'h, 'w) vhost_os \<Rightarrow> ('q, 'h, 'c, 'r, 'x, 'w) virtio_lib \<Rightarrow> 's switch_ops \<Rightarrow> 's \<Rightarrow> DeviceOpts
     \<Rightarrow> (('q, 'h) VirtioDevice, VhostError) res \<times> 's" where
  "VirtioDevice_new OS L S switch opts =
     (let txrx_queues = unat (device_queues opts * 2) in
      case and_then (map_err VhostIO (os_poll_new OS)) (\<lambda>_.
           and_then (map_err VhostIO (os_waker_new OS)) (\<lambda>_. new_queues L txrx_queues)) of
        Ok qs \<Rightarrow>
          (case sw_connect S switch \<lparr>rxq_queue = [], rxq_wakes = 0\<rparr> of (switch, port) \<Rightarrow>
             (Ok \<lparr>channel = None, queues = qs, mappings = [], dev_status = 0,
                  num_queues = ucast (device_queues opts), kick_fds = Map.empty, router_port = port\<rparr>, switch))
      | Err e \<Rightarrow> (Err e, switch)
      | Panic \<Rightarrow> (Panic, switch))"

section \<open>Actions on the device\<close>

type_synonym ('a, 'q, 'h, 'w) action = "('a, VhostError, ('q, 'h) VirtioDevice \<times> 'w) act"

text \<open>The device, an update of the device and a call to the world, as actions.\<close>

definition device :: "(('q, 'h) VirtioDevice, 'q, 'h, 'w) action" where
  "device s = (Ok (fst s), s)"

definition update :: "(('q, 'h) VirtioDevice \<Rightarrow> ('q, 'h) VirtioDevice) \<Rightarrow> (unit, 'q, 'h, 'w) action" where
  "update f s = (Ok (), f (fst s), snd s)"

definition world :: "('e \<Rightarrow> VhostError) \<Rightarrow> ('w \<Rightarrow> ('a, 'e) res \<times> 'w) \<Rightarrow> ('a, 'q, 'h, 'w) action" where
  "world err call s = (case call (snd s) of (r, w) \<Rightarrow> (map_err err r, fst s, w))"

lemmas action_defs = bind_def give_def device_def update_def world_def

definition VirtioDevice_compute_guest_address :: "('q, 'h) VirtioDevice \<Rightarrow> u64 \<Rightarrow> (u64, MemoryError) res" where
  "VirtioDevice_compute_guest_address self vmm =
     ok_or (case List.map_filter (\<lambda>m. GuestMapping_guest_addr m vmm) (mappings self) of [] \<Rightarrow> None | a # _ \<Rightarrow> Some a)
       (NoHostToGuestMappingFound vmm)"

definition VirtioDevice_get_virtqueue_mut :: "('q, 'h) VirtioDevice \<Rightarrow> nat \<Rightarrow> (('q, 'h) VirtQueue, VhostError) res" where
  "VirtioDevice_get_virtqueue_mut self idx =
     ok_or (if idx < length (queues self) then Some (queues self ! idx) else None) (QueueNotFound idx)"

text \<open>What a handler does with the reference it got from \<open>get_virtqueue_mut\<close>.\<close>

definition on_queue :: "nat \<Rightarrow> (('q, 'h) VirtQueue \<Rightarrow> 'a \<times> ('q, 'h) VirtQueue) \<Rightarrow> ('a, 'q, 'h, 'w) action" where
  "on_queue idx f =
     bind device (\<lambda>self.
     bind (give (VirtioDevice_get_virtqueue_mut self idx)) (\<lambda>q.
     bind (update (\<lambda>self. self\<lparr>queues := (queues self)[idx := snd (f q)]\<rparr>)) (\<lambda>_. give (Ok (fst (f q))))))"

definition message_frame :: "u32 \<Rightarrow> u32 \<Rightarrow> bytes \<Rightarrow> (bytes, 'e) res" where
  "message_frame ident flags payload =
     (let payload_sz = word_of_nat (length payload) :: u32;
          resp = replicate (VHOST_USER_HEADER_SZ + length payload) 0 in
      and_then (put_slice resp 0 4 (to_le_bytes 4 ident)) (\<lambda>resp.
      and_then (put_slice resp 4 8 (to_le_bytes 4 flags)) (\<lambda>resp.
      and_then (put_slice resp 8 12 (to_le_bytes 4 payload_sz)) (\<lambda>resp.
      put_slice resp 12 (length resp) payload))))"

definition VirtioDevice_send_msg ::
  "('q, 'h, 'c, 'r, 'x, 'w) virtio_lib \<Rightarrow> u32 \<Rightarrow> bytes \<Rightarrow> (unit, 'q, 'h, 'w) action" where
  "VirtioDevice_send_msg L ident payload =
     bind device (\<lambda>self.
     case channel self of
       Some f \<Rightarrow>
         bind (give (message_frame ident VHOST_USER_FLAG_VERSION_1 payload)) (\<lambda>resp.
         bind (world VhostErrno (\<lambda>w. sys_write L w f resp)) (\<lambda>_. give (Ok ())))
     | None \<Rightarrow> give (Ok ()))"

definition VirtioDevice_send_response ::
  "('p, 'g, 'e, 'h, 'w) vhost_os \<Rightarrow> rawfd \<Rightarrow> u32 \<Rightarrow> bytes \<Rightarrow> (unit, 'q, 'h, 'w) action" where
  "VirtioDevice_send_response OS strm ident payload =
     bind (give (message_frame ident (VHOST_USER_FLAG_VERSION_1 OR VHOST_USER_FLAG_REPLY) payload)) (\<lambda>resp.
     bind (world VhostErrno (\<lambda>w. os_sendmsg OS w strm resp)) (\<lambda>_. give (Ok ())))"

definition hdr_payload :: "(bytes \<Rightarrow> ('a, PayloadError) res) \<Rightarrow> VHostHeader \<Rightarrow> ('a, 'q, 'h, 'w) action" where
  "hdr_payload parse hdr = give (map_err VhostPayload (VHostHeader_payload parse hdr))"

section \<open>The messages of the control socket\<close>

definition get_features :: "('p, 'g, 'e, 'h, 'w) vhost_os \<Rightarrow> rawfd \<Rightarrow> VHostHeader \<Rightarrow> (unit, 'q, 'h, 'w) action" where
  "get_features OS strm hdr =
     (let payload = VirtioFeatures_bits RING_VERSION_1 OR VirtioFeatures_bits PROTOCOL_FEATURES;
          payload = payload OR VIRTIO_NET_F_MAC OR VIRTIO_NET_F_STATUS
      in VirtioDevice_send_response OS strm (vh_ty hdr) (to_le_bytes 8 payload))"

definition set_features :: "VHostHeader \<Rightarrow> (unit, 'q, 'h, 'w) action" where
  "set_features hdr = bind (hdr_payload u64_try_from_payload hdr) (\<lambda>features. give (Ok ()))"

definition get_protocol_features :: "('p, 'g, 'e, 'h, 'w) vhost_os \<Rightarrow> rawfd \<Rightarrow> VHostHeader \<Rightarrow> (unit, 'q, 'h, 'w) action" where
  "get_protocol_features OS strm hdr =
     (let payload = VHostUserProtocolFeature_bits BACKEND_REQ OR VHostUserProtocolFeature_bits CONFIG
                    OR VHostUserProtocolFeature_bits RESET_DEVICE OR VHostUserProtocolFeature_bits DEVICE_STATE
                    OR VHostUserProtocolFeature_bits STATUS
      in VirtioDevice_send_response OS strm (vh_ty hdr) (to_le_bytes 8 payload))"

definition set_protocol_features :: "VHostHeader \<Rightarrow> (unit, 'q, 'h, 'w) action" where
  "set_protocol_features hdr = bind (hdr_payload u64_try_from_payload hdr) (\<lambda>features. give (Ok ()))"

definition get_queue_num :: "('p, 'g, 'e, 'h, 'w) vhost_os \<Rightarrow> rawfd \<Rightarrow> VHostHeader \<Rightarrow> (unit, 'q, 'h, 'w) action" where
  "get_queue_num OS strm hdr =
     bind device (\<lambda>self. VirtioDevice_send_response OS strm (vh_ty hdr) (to_le_bytes 8 (num_queues self)))"

definition set_backend_req_fd :: "('p, 'g, 'e, 'h, 'w) vhost_os \<Rightarrow> rawfd \<Rightarrow> VHostHeader \<Rightarrow> (unit, 'q, 'h, 'w) action" where
  "set_backend_req_fd OS strm hdr =
     bind (give (map_err VhostPayload (fst (VHostHeader_extract_fd hdr)))) (\<lambda>fd.
     bind (update (\<lambda>self. self\<lparr>channel := Some fd\<rparr>)) (\<lambda>_.
     if VHostHeader_ack_required hdr
     then VirtioDevice_send_response OS strm (vh_ty hdr) (to_le_bytes 8 (0 :: u64)) else give (Ok ())))"

definition get_max_mem_slots :: "('p, 'g, 'e, 'h, 'w) vhost_os \<Rightarrow> rawfd \<Rightarrow> VHostHeader \<Rightarrow> (unit, 'q, 'h, 'w) action" where
  "get_max_mem_slots OS strm hdr = VirtioDevice_send_response OS strm (vh_ty hdr) (to_le_bytes 8 (0x02 :: u64))"

definition set_vring_enable :: "VHostHeader \<Rightarrow> (unit, 'q, 'h, 'w) action" where
  "set_vring_enable hdr =
     bind (hdr_payload VRingState_try_from_payload hdr) (\<lambda>state.
     on_queue (unat (vs_index state)) (\<lambda>vring. ((), VirtQueue_set_enabled vring)))"

definition set_owner :: "('q, 'h, 'c, 'r, 'x, 'w) virtio_lib \<Rightarrow> (unit, 'q, 'h, 'w) action" where
  "set_owner L = VirtioDevice_send_msg L VHOST_USER_BACKEND_CONFIG_CHANGE_MSG []"

definition set_vring_call :: "VHostHeader \<Rightarrow> (unit, 'q, 'h, 'w) action" where
  "set_vring_call hdr =
     bind (hdr_payload u64_try_from_payload hdr) (\<lambda>vring_idx.
     bind (give (map_err VhostPayload (fst (VHostHeader_extract_fd hdr)))) (\<lambda>fd.
     on_queue (unat vring_idx) (\<lambda>vring. ((), VirtQueue_set_call_fd vring fd))))"

definition set_vring_err :: "VHostHeader \<Rightarrow> (unit, 'q, 'h, 'w) action" where
  "set_vring_err hdr =
     bind (hdr_payload u64_try_from_payload hdr) (\<lambda>vring_idx.
     bind (give (map_err VhostPayload (fst (VHostHeader_extract_fd hdr)))) (\<lambda>fd.
     on_queue (unat vring_idx) (\<lambda>vring. ((), VirtQueue_set_error_fd vring fd))))"

definition set_status :: "VHostHeader \<Rightarrow> (unit, 'q, 'h, 'w) action" where
  "set_status hdr =
     bind (hdr_payload u64_try_from_payload hdr) (\<lambda>v. update (\<lambda>self. self\<lparr>dev_status := v\<rparr>))"

definition get_status :: "('p, 'g, 'e, 'h, 'w) vhost_os \<Rightarrow> rawfd \<Rightarrow> VHostHeader \<Rightarrow> (unit, 'q, 'h, 'w) action" where
  "get_status OS strm hdr =
     bind device (\<lambda>self. VirtioDevice_send_response OS strm (vh_ty hdr) (to_le_bytes 8 (dev_status self)))"

definition set_vring_num ::
  "('q, 'h, 'c, 'r, 'x, 'w) virtio_lib \<Rightarrow> VHostHeader \<Rightarrow> (unit, 'q, 'h, 'w) action" where
  "set_vring_num L hdr =
     bind (hdr_payload VRingState_try_from_payload hdr) (\<lambda>state.
     on_queue (unat (vs_index state)) (\<lambda>vring. ((), VirtQueue_set_queue_size L vring (ucast (vs_num state)))))"

definition set_vring_addr ::
  "('q, 'h, 'c, 'r, 'x, 'w) virtio_lib \<Rightarrow> VHostHeader \<Rightarrow> (unit, 'q, 'h, 'w) action" where
  "set_vring_addr L hdr =
     bind device (\<lambda>self.
     if mappings self = [] then give (Err (VhostMemory NoMappedMemory))
     else
       bind (hdr_payload VRingAddr_try_from_payload hdr) (\<lambda>addr.
       bind (give (map_err VhostMemory (VirtioDevice_compute_guest_address self (va_desc addr)))) (\<lambda>desc.
       bind (give (map_err VhostMemory (VirtioDevice_compute_guest_address self (va_avail addr)))) (\<lambda>avail.
       bind (give (map_err VhostMemory (VirtioDevice_compute_guest_address self (va_used addr)))) (\<lambda>used.
       on_queue (unat (va_index addr)) (\<lambda>vring. ((), VirtQueue_set_queue_addresses L vring desc avail used)))))))"

definition set_vring_base ::
  "('q, 'h, 'c, 'r, 'x, 'w) virtio_lib \<Rightarrow> VHostHeader \<Rightarrow> (unit, 'q, 'h, 'w) action" where
  "set_vring_base L hdr =
     bind (hdr_payload VRingDescriptor_try_from_payload hdr) (\<lambda>base.
     on_queue (unat (vd_index base)) (\<lambda>vring. ((), VirtQueue_set_next_avail L vring (ucast (vd_avail base)))))"

definition get_vring_base ::
  "('p, 'g, 'e, 'h, 'w) vhost_os \<Rightarrow> ('q, 'h, 'c, 'r, 'x, 'w) virtio_lib \<Rightarrow> rawfd \<Rightarrow> VHostHeader \<Rightarrow> (unit, 'q, 'h, 'w) action" where
  "get_vring_base OS L strm hdr =
     bind (hdr_payload VRingState_try_from_payload hdr) (\<lambda>state.
     bind (on_queue (unat (vs_index state)) (\<lambda>vq.
             let vq = VirtQueue_set_not_ready L vq;
                 (fds, vq) = VirtQueue_clear_fds vq
             in ((fds, VirtQueue_get_next_avail L vq), vq))) (\<lambda>((kick, _, _), next).
     bind (case kick of
             Some fd \<Rightarrow> world VhostIO (\<lambda>w. os_deregister OS w fd)
           | None \<Rightarrow> give (Ok ())) (\<lambda>_.
     let resp = \<lparr>vd_index = vs_index state, vd_avail = ucast next\<rparr>
     in VirtioDevice_send_response OS strm (vh_ty hdr) (VRingDescriptor_as_vec resp))))"

definition set_vring_kick ::
  "('p, 'g, 'e, 'h, 'w) vhost_os \<Rightarrow> ('q, 'h, 'c, 'r, 'x, 'w) virtio_lib \<Rightarrow> VHostHeader \<Rightarrow> (unit, 'q, 'h, 'w) action" where
  "set_vring_kick OS L hdr =
     bind (hdr_payload u64_try_from_payload hdr) (\<lambda>vring_idx.
     bind (give (map_err VhostPayload (fst (VHostHeader_extract_fd hdr)))) (\<lambda>fd.
     bind (on_queue (unat vring_idx) (\<lambda>vring. ((), VirtQueue_set_kick_fd L vring fd))) (\<lambda>_.
     bind (world VhostIO (\<lambda>w. os_register OS w fd fd)) (\<lambda>_.
     let kick = (if vring_idx AND 1 = 0 then KickRx fd (unat vring_idx) else KickTx fd (unat vring_idx))
     in update (\<lambda>self. self\<lparr>kick_fds := (kick_fds self)(fd \<mapsto> kick)\<rparr>)))))"

text \<open>
  One region of a memory table (the body of the loop) and the loop; both conversions to
  \<open>NonZeroUsize\<close> are unwrapped.
\<close>

definition map_region ::
  "('p, 'g, 'e, 'h, 'w) vhost_os \<Rightarrow> MemoryRegionDescription \<Rightarrow> rawfd \<Rightarrow> ('e, 'q, 'h, 'w) action" where
  "map_region OS region fd =
     (if mr_user_address region = 0 \<or> mr_size region = 0 then give Panic
      else
        bind (world VhostErrno (\<lambda>w. os_mmap OS w (mr_user_address region) (mr_size region) fd (mr_mmap_offset region))) (\<lambda>ptr.
        bind (give (map_err VhostMmapRegion (os_build_raw OS ptr (mr_size region)))) (\<lambda>mmr.
        bind (give (map_err VhostMmap (os_guest_region OS mmr (mr_guest_address region)))) (\<lambda>gm.
        bind (update (\<lambda>self. self\<lparr>mappings := mappings self @
                [GuestMapping_new (mr_user_address region) (mr_guest_address region) (mr_size region)]\<rparr>)) (\<lambda>_.
        give (Ok gm))))))"

fun map_regions ::
  "('p, 'g, 'e, 'h, 'w) vhost_os \<Rightarrow> (MemoryRegionDescription \<times> rawfd) list \<Rightarrow> ('e list, 'q, 'h, 'w) action" where
  "map_regions OS [] = give (Ok [])"
| "map_regions OS ((region, fd) # rest) =
     bind (map_region OS region fd) (\<lambda>gm. bind (map_regions OS rest) (\<lambda>gms. give (Ok (gm # gms))))"

definition set_mem_table ::
  "('p, 'g, 'e, 'h, 'w) vhost_os \<Rightarrow> rawfd \<Rightarrow> VHostHeader \<Rightarrow> (unit, 'q, 'h, 'w) action" where
  "set_mem_table OS strm hdr =
     bind (hdr_payload MemoryTable_try_from_payload hdr) (\<lambda>region_descs.
     bind (give (map_err VhostPayload (fst (VHostHeader_extract_fds hdr)))) (\<lambda>files.
     if length region_descs \<noteq> length files then give (Err (InvalidMessage ''set_mem_table: region / fd mismatch''))
     else
       bind (map_regions OS (zip region_descs files)) (\<lambda>regions.
       bind (give (map_err VhostMmap (os_from_regions OS regions))) (\<lambda>gmm.
       bind (update (\<lambda>self. self\<lparr>queues := map (\<lambda>q. VirtQueue_set_memory q gmm) (queues self)\<rparr>)) (\<lambda>_.
       if VHostHeader_ack_required hdr then VirtioDevice_send_response OS strm (vh_ty hdr) [] else give (Ok ()))))))"

definition add_mem_reg :: "VHostHeader \<Rightarrow> (unit, 'q, 'h, 'w) action" where
  "add_mem_reg hdr = bind (hdr_payload VRingAddr_try_from_payload hdr) (\<lambda>mem. give (Ok ()))"

definition get_config :: "VHostHeader \<Rightarrow> (unit, 'q, 'h, 'w) action" where
  "get_config hdr = give (Ok ())"

definition set_config :: "VHostHeader \<Rightarrow> (unit, 'q, 'h, 'w) action" where
  "set_config hdr = give (Ok ())"

definition VirtioDevice_parse_msg ::
  "('p, 'g, 'e, 'h, 'w) vhost_os \<Rightarrow> ('q, 'h, 'c, 'r, 'x, 'w) virtio_lib \<Rightarrow> rawfd \<Rightarrow> VHostHeader \<Rightarrow> (unit, 'q, 'h, 'w) action" where
  "VirtioDevice_parse_msg OS L strm hdr =
     (let ty = vh_ty hdr in
      if ty = VHOST_USER_GET_FEATURES then get_features OS strm hdr
      else if ty = VHOST_USER_SET_FEATURES then set_features hdr
      else if ty = VHOST_USER_GET_PROTOCOL_FEATURES then get_protocol_features OS strm hdr
      else if ty = VHOST_USER_SET_PROTOCOL_FEATURES then set_protocol_features hdr
      else if ty = VHOST_USER_GET_QUEUE_NUM then get_queue_num OS strm hdr
      else if ty = VHOST_USER_SET_BACKEND_REQ_FD then set_backend_req_fd OS strm hdr
      else if ty = VHOST_USER_GET_MAX_MEM_SLOTS then get_max_mem_slots OS strm hdr
      else if ty = VHOST_USER_SET_VRING_ENABLE then set_vring_enable hdr
      else if ty = VHOST_USER_SET_OWNER then set_owner L
      else if ty = VHOST_USER_SET_VRING_CALL then set_vring_call hdr
      else if ty = VHOST_USER_SET_VRING_ERR then set_vring_err hdr
      else if ty = VHOST_USER_SET_STATUS then set_status hdr
      else if ty = VHOST_USER_GET_STATUS then get_status OS strm hdr
      else if ty = VHOST_USER_SET_VRING_NUM then set_vring_num L hdr
      else if ty = VHOST_USER_SET_VRING_ADDR then set_vring_addr L hdr
      else if ty = VHOST_USER_SET_VRING_BASE then set_vring_base L hdr
      else if ty = VHOST_USER_GET_VRING_BASE then get_vring_base OS L strm hdr
      else if ty = VHOST_USER_SET_VRING_KICK then set_vring_kick OS L hdr
      else if ty = VHOST_USER_SET_MEM_TABLE then set_mem_table OS strm hdr
      else if ty = VHOST_USER_ADD_MEM_REG then add_mem_reg hdr
      else if ty = VHOST_USER_GET_CONFIG then get_config hdr
      else if ty = VHOST_USER_SET_CONFIG then set_config hdr
      else give (Ok ()))"

section \<open>Properties that the messages keep\<close>

text \<open>
  The contract between the state of the device and the handlers: \<open>kept\<close> is a property of the device
  that every update of a handler keeps, but perhaps the one of \<open>SET_STATUS\<close>. Inside the locale, a
  handler keeps it whatever the outcome of the calls it makes.
\<close>

locale device_property =
  fixes kept :: "('q, 'h) VirtioDevice \<Rightarrow> bool"
  assumes kept_channel: "kept d \<Longrightarrow> kept (d\<lparr>channel := Some fd\<rparr>)"
    and kept_queue: "kept d \<Longrightarrow> i < length (queues d) \<Longrightarrow> mem q = mem (queues d ! i) \<Longrightarrow>
           kept (d\<lparr>queues := (queues d)[i := q]\<rparr>)"
    and kept_memory: "kept d \<Longrightarrow> kept (d\<lparr>queues := map (\<lambda>q. VirtQueue_set_memory q h) (queues d)\<rparr>)"
    and kept_mapping: "kept d \<Longrightarrow> kept (d\<lparr>mappings := mappings d @ [m]\<rparr>)"
    and kept_kick: "kept d \<Longrightarrow> i < length (queues d) \<Longrightarrow>
           kept (d\<lparr>kick_fds := (kick_fds d)(fd \<mapsto> (if even i then KickRx fd i else KickTx fd i))\<rparr>)"
begin

definition keeps :: "('a, 'q, 'h, 'w) action \<Rightarrow> bool" where
  "keeps m \<longleftrightarrow> (\<forall>s. kept (fst s) \<longrightarrow> kept (fst (snd (m s))))"

lemma keeps_give: "keeps (give r)"
  by (simp add: keeps_def give_def)

lemma keeps_device: "keeps device"
  by (simp add: keeps_def device_def)

lemma keeps_world: "keeps (world e f)"
  by (simp add: keeps_def world_def split: prod.splits)

lemma keeps_bind:
  assumes "keeps m" and "\<And>x. keeps (f x)"
  shows "keeps (bind m f)"
  using assms unfolding keeps_def bind_def by (auto split: prod.splits res.splits) (metis fst_conv snd_conv)+

lemma keeps_update: "(\<And>d. kept d \<Longrightarrow> kept (f d)) \<Longrightarrow> keeps (update f)"
  by (simp add: keeps_def update_def)

lemma keeps_on_queue: "(\<And>q. mem (snd (f q)) = mem q) \<Longrightarrow> keeps (on_queue i f)"
  by (auto simp: keeps_def on_queue_def action_defs VirtioDevice_get_virtqueue_mut_def intro: kept_queue)

lemma keeps_if: "(c \<Longrightarrow> keeps a) \<Longrightarrow> (\<not> c \<Longrightarrow> keeps b) \<Longrightarrow> keeps (if c then a else b)"
  by simp

lemma keeps_payload: "keeps (hdr_payload f hdr)"
  unfolding hdr_payload_def by (rule keeps_give)

lemma keeps_case_option: "keeps a \<Longrightarrow> (\<And>x. keeps (b x)) \<Longrightarrow> keeps (case v of None \<Rightarrow> a | Some x \<Rightarrow> b x)"
  by (simp split: option.splits)

lemmas keeps_basic = keeps_bind keeps_give keeps_device keeps_world keeps_if keeps_payload keeps_case_option

lemma keeps_send: "keeps (VirtioDevice_send_response OS strm k p)" "keeps (VirtioDevice_send_msg L k p)"
  unfolding VirtioDevice_send_response_def VirtioDevice_send_msg_def by (intro keeps_basic)+

lemma keeps_map_regions: "keeps (map_regions OS rs)"
proof (induction OS rs rule: map_regions.induct)
  case (2 OS region fd rs)
  have "keeps (map_region OS region fd)"
    unfolding map_region_def by (intro keeps_basic keeps_update kept_mapping)
  with 2 show ?case by (simp add: keeps_basic)
qed (simp add: keeps_give)

lemmas keeps_rules = keeps_basic keeps_send keeps_map_regions keeps_update keeps_on_queue

lemma keeps_set_vring_kick: "keeps (set_vring_kick OS L hdr)"
proof -
  have odd_iff: "v AND 1 = 0 \<longleftrightarrow> even (unat v)" for v :: u64
    by (simp add: word_unat_eq_iff and_one_eq even_iff_mod_2_eq_zero unat_mod_distrib)
  have k: "kept (fst (snd (bind (on_queue (unat v) (\<lambda>vring. ((), VirtQueue_set_kick_fd L vring fd))) (\<lambda>_.
     bind (world VhostIO (\<lambda>w. os_register OS w fd fd)) (\<lambda>_.
     let kick = (if v AND 1 = 0 then KickRx fd (unat v) else KickTx fd (unat v))
     in update (\<lambda>self. self\<lparr>kick_fds := (kick_fds self)(fd \<mapsto> kick)\<rparr>))) s)))" if "kept (fst s)" for s fd and v :: u64
  proof (cases "unat v < length (queues (fst s))")
    case True
    let ?d = "(fst s)\<lparr>queues := (queues (fst s))[unat v := VirtQueue_set_kick_fd L (queues (fst s) ! unat v) fd]\<rparr>"
    have "kept ?d" using that True by (intro kept_queue) (simp_all add: VirtQueue_set_kick_fd_def)
    with kept_kick [of ?d "unat v" fd] True odd_iff [of v] show ?thesis
      by (cases "v AND 1 = 0")
        (simp_all add: on_queue_def action_defs VirtioDevice_get_virtqueue_mut_def split: prod.splits res.splits)
  qed (use that in \<open>simp add: on_queue_def action_defs VirtioDevice_get_virtqueue_mut_def\<close>)
  have "keeps (bind (on_queue (unat v) (\<lambda>vring. ((), VirtQueue_set_kick_fd L vring fd))) (\<lambda>_.
     bind (world VhostIO (\<lambda>w. os_register OS w fd fd)) (\<lambda>_.
     let kick = (if v AND 1 = 0 then KickRx fd (unat v) else KickTx fd (unat v))
     in update (\<lambda>self. self\<lparr>kick_fds := (kick_fds self)(fd \<mapsto> kick)\<rparr>))))" for fd and v :: u64
    unfolding keeps_def by (intro allI impI k)
  then show ?thesis unfolding set_vring_kick_def by (rule keeps_bind [OF keeps_payload keeps_bind [OF keeps_give]])
qed

lemma keeps_parse_msg:
  assumes "vh_ty hdr \<noteq> VHOST_USER_SET_STATUS"
  shows "keeps (VirtioDevice_parse_msg OS L strm hdr)"
proof -
  have h1: "keeps (set_vring_addr L hdr)"
    unfolding set_vring_addr_def
    by (intro keeps_rules) (simp add: VirtQueue_set_queue_addresses_def Let_def)
  have h2: "keeps (get_vring_base OS L strm hdr)"
    unfolding get_vring_base_def Let_def case_prod_beta
    by (intro keeps_rules) (simp add: VirtQueue_set_not_ready_def VirtQueue_clear_fds_def)
  have h3: "keeps (set_mem_table OS strm hdr)"
    unfolding set_mem_table_def by (intro keeps_rules kept_memory)
  have h4: "keeps (set_backend_req_fd OS strm hdr)"
    unfolding set_backend_req_fd_def by (intro keeps_rules kept_channel)
  have h5: "keeps (set_vring_enable hdr)" "keeps (set_vring_call hdr)" "keeps (set_vring_err hdr)"
    "keeps (set_vring_num L hdr)" "keeps (set_vring_base L hdr)"
    unfolding set_vring_enable_def set_vring_call_def set_vring_err_def set_vring_num_def set_vring_base_def
    by (intro keeps_rules, simp add: VirtQueue_set_enabled_def VirtQueue_set_call_fd_def VirtQueue_set_error_fd_def
        VirtQueue_set_queue_size_def VirtQueue_set_next_avail_def)+
  have h6: "keeps (set_features hdr)" "keeps (set_protocol_features hdr)" "keeps (get_queue_num OS strm hdr)"
    "keeps (get_status OS strm hdr)" "keeps (add_mem_reg hdr)"
    unfolding set_features_def set_protocol_features_def get_queue_num_def get_status_def add_mem_reg_def
    by (intro keeps_rules)+
  have h7: "keeps (get_features OS strm hdr)" "keeps (get_protocol_features OS strm hdr)"
    "keeps (get_max_mem_slots OS strm hdr)" "keeps (set_owner L)" "keeps (get_config hdr)" "keeps (set_config hdr)"
    unfolding get_features_def get_protocol_features_def get_max_mem_slots_def set_owner_def get_config_def
      set_config_def Let_def
    by (intro keeps_rules)+
  show ?thesis
    unfolding VirtioDevice_parse_msg_def Let_def
    by (intro keeps_if h1 h2 h3 h4 h5 h6 h7 keeps_set_vring_kick keeps_give) (use assms in simp)
qed

end

locale device_invariant = device_property +
  assumes kept_status: "kept d \<Longrightarrow> kept (d\<lparr>dev_status := v\<rparr>)"
begin

lemma keeps_every_msg: "keeps (VirtioDevice_parse_msg OS L strm hdr)"
proof (cases "vh_ty hdr = VHOST_USER_SET_STATUS")
  case True
  have "keeps (set_status hdr)" unfolding set_status_def by (intro keeps_rules kept_status)
  then show ?thesis using True by (simp add: VirtioDevice_parse_msg_def message_ids)
qed (rule keeps_parse_msg)

end

text \<open>
  The invariant of a device with \<open>n\<close> queues at the port \<open>p\<close> of the switch: the token of a kick
  descriptor stands for a queue that exists, an even one for reception and an odd one for
  transmission, and all queues have the same memory.
\<close>

definition kick_ok :: "nat \<Rightarrow> nat \<Rightarrow> KickFd \<Rightarrow> bool" where
  "kick_ok n token k = (case k of KickRx fd i \<Rightarrow> token = fd \<and> i < n \<and> even i | KickTx fd i \<Rightarrow> token = fd \<and> i < n \<and> odd i)"

definition device_inv :: "nat \<Rightarrow> nat \<Rightarrow> u64 \<Rightarrow> ('q, 'h) VirtioDevice \<Rightarrow> bool" where
  "device_inv n p k d \<longleftrightarrow> length (queues d) = n \<and> router_port d = p \<and> num_queues d = k \<and>
     (\<forall>t x. kick_fds d t = Some x \<longrightarrow> kick_ok n t x) \<and> (\<exists>m. \<forall>q \<in> set (queues d). mem q = m)"

interpretation device: device_invariant "device_inv n p k :: ('q, 'h) VirtioDevice \<Rightarrow> bool" for n p k
proof unfold_locales
  fix d :: "('q, 'h) VirtioDevice" and i and q :: "('q, 'h) VirtQueue"
  assume d: "device_inv n p k d" "i < length (queues d)" "mem q = mem (queues d ! i)"
  then obtain m where m: "\<forall>q \<in> set (queues d). mem q = m" unfolding device_inv_def by blast
  have "\<forall>x \<in> set ((queues d)[i := q]). mem x = m"
    using m d(2,3) set_update_subset_insert [of "queues d" i q] by auto
  with d show "device_inv n p k (d\<lparr>queues := (queues d)[i := q]\<rparr>)" unfolding device_inv_def by auto
next
  fix d :: "('q, 'h) VirtioDevice" and i fd
  assume "device_inv n p k d" "i < length (queues d)"
  then show "device_inv n p k (d\<lparr>kick_fds := (kick_fds d)(fd \<mapsto> (if even i then KickRx fd i else KickTx fd i))\<rparr>)"
    by (auto simp: device_inv_def kick_ok_def)
qed (auto simp: device_inv_def VirtQueue_set_memory_def)

interpretation status: device_property "\<lambda>d. dev_status d = v" for v
  by unfold_locales simp_all

section \<open>The life of a device\<close>

text \<open>The messages of the control socket, one after the other, whatever they return.\<close>

definition handle_msgs ::
  "('p, 'g, 'e, 'h, 'w) vhost_os \<Rightarrow> ('q, 'h, 'c, 'r, 'x, 'w) virtio_lib \<Rightarrow> rawfd \<Rightarrow> VHostHeader list
     \<Rightarrow> ('q, 'h) VirtioDevice \<times> 'w \<Rightarrow> ('q, 'h) VirtioDevice \<times> 'w" where
  "handle_msgs OS L strm hdrs s = foldl (\<lambda>s hdr. snd (VirtioDevice_parse_msg OS L strm hdr s)) s hdrs"

lemma new_queues_Ok:
  assumes "new_queues L n = Ok qs"
  shows "length qs = n \<and> (\<forall>q \<in> set qs. mem q = None \<and> \<not> enabled q)"
  using assms
  by (induction n arbitrary: qs) (auto simp: and_then_eq_Ok VirtQueue_new_def)

lemma VirtioDevice_new_inv:
  assumes "VirtioDevice_new OS L S sw opts = (Ok d, sw')"
  shows "device_inv (unat (device_queues opts * 2)) (snd (sw_connect S sw \<lparr>rxq_queue = [], rxq_wakes = 0\<rparr>))
           (ucast (device_queues opts)) d"
proof -
  from assms obtain qs where "new_queues L (unat (device_queues opts * 2)) = Ok qs" "queues d = qs"
    "router_port d = snd (sw_connect S sw \<lparr>rxq_queue = [], rxq_wakes = 0\<rparr>)" "num_queues d = ucast (device_queues opts)"
    "kick_fds d = Map.empty"
    by (auto simp: VirtioDevice_new_def Let_def and_then_eq_Ok split: res.splits prod.splits)
  then show ?thesis using new_queues_Ok by (auto simp: device_inv_def)
qed

lemma handle_msgs_inv: "device_inv n p k (fst s) \<Longrightarrow> device_inv n p k (fst (handle_msgs OS L strm hdrs s))"
proof (induction hdrs arbitrary: s)
  case (Cons hdr hdrs)
  have "device_inv n p k (fst (snd (VirtioDevice_parse_msg OS L strm hdr s)))"
    using device.keeps_every_msg Cons.prems unfolding device.keeps_def by blast
  from Cons.IH [OF this] show ?case by (simp add: handle_msgs_def)
qed (simp add: handle_msgs_def)

text \<open>The number of queues is computed in 8 bits: with 128 pairs or more it wraps around.\<close>

lemma VirtioDevice_new_wraps:
  assumes "VirtioDevice_new OS L S sw \<lparr>device_queues = 128\<rparr> = (Ok d, sw')"
  shows "queues d = [] \<and> num_queues d = 128"
  using VirtioDevice_new_inv [OF assms] by (simp add: device_inv_def)

section \<open>Replies\<close>

definition message_bytes :: "u32 \<Rightarrow> u32 \<Rightarrow> bytes \<Rightarrow> bytes" where
  "message_bytes ident flags pl = to_le_bytes 4 ident @ to_le_bytes 4 flags @ to_le_bytes 4 (word_of_nat (length pl) :: u32) @ pl"

lemma message_frame_eq [simp]: "message_frame ident flags pl = Ok (message_bytes ident flags pl)"
  by (simp add: message_frame_def message_bytes_def VHOST_USER_HEADER_SZ_def buf_simps)

lemma VHostHeader_parse_message [simp]:
  "VHostHeader_parse (message_bytes ident flags pl) anc =
     Ok \<lparr>vh_ty = ident, vh_flags = flags, vh_sz = word_of_nat (length pl), vh_ancillary = anc, vh_payload = None\<rparr>"
  by (simp add: VHostHeader_parse_def message_bytes_def buf_simps)

lemma send_response_eq:
  "VirtioDevice_send_response OS strm ident pl (d, w) =
     (case os_sendmsg OS w strm (message_bytes ident 5 pl) of (r, w) \<Rightarrow> (map_err VhostErrno (and_then r (\<lambda>_. Ok ())), d, w))"
  by (cases "os_sendmsg OS w strm (message_bytes ident 5 pl)"; cases "fst (os_sendmsg OS w strm (message_bytes ident 5 pl))")
    (auto simp: VirtioDevice_send_response_def action_defs VHOST_USER_FLAG_VERSION_1_def VHOST_USER_FLAG_REPLY_def)

lemma handle_msgs_status:
  assumes "\<forall>hdr \<in> set hdrs. vh_ty hdr \<noteq> VHOST_USER_SET_STATUS" and "dev_status (fst s) = v"
  shows "dev_status (fst (handle_msgs OS L strm hdrs s)) = v"
  using assms
proof (induction hdrs arbitrary: s)
  case (Cons hdr hdrs)
  have "dev_status (fst (snd (VirtioDevice_parse_msg OS L strm hdr s))) = v"
    using status.keeps_parse_msg [of hdr v OS L strm] Cons.prems unfolding status.keeps_def by (cases s) simp
  with Cons show ?case by (simp add: handle_msgs_def)
qed (simp add: handle_msgs_def)

text \<open>
  C31: the status of the device. The value of a \<open>SET_STATUS\<close> message is what a later \<open>GET_STATUS\<close> is
  answered with, whatever other messages come between: the reply that is sent has the type of the
  request, the version and reply flags and the length of its payload in its header, and its payload
  is the status, so the parser of the protocol reads all of them back.
\<close>

theorem VirtioDevice_status_roundtrip:
  assumes "vh_ty h1 = VHOST_USER_SET_STATUS" and "vh_payload h1 = Some (to_le_bytes 8 v)"
    and "\<forall>hdr \<in> set hdrs. vh_ty hdr \<noteq> VHOST_USER_SET_STATUS" and "vh_ty h2 = VHOST_USER_GET_STATUS"
    and "handle_msgs OS L strm (h1 # hdrs) s = (d, w)"
  shows "\<exists>reply. VirtioDevice_parse_msg OS L strm h2 (d, w) =
       (case os_sendmsg OS w strm reply of (r, w) \<Rightarrow> (map_err VhostErrno (and_then r (\<lambda>_. Ok ())), d, w)) \<and>
     VHostHeader_parse reply [] =
       (Ok \<lparr>vh_ty = VHOST_USER_GET_STATUS, vh_flags = 5, vh_sz = 8, vh_ancillary = [], vh_payload = None\<rparr>
         :: (VHostHeader, VhostError) res) \<and>
     u64_try_from_payload (drop 12 reply) = Ok v"
proof -
  have "dev_status (fst (snd (VirtioDevice_parse_msg OS L strm h1 s))) = v"
    using assms(1,2) u64_payload.dec_exact [of v]
    by (simp add: VirtioDevice_parse_msg_def message_ids set_status_def hdr_payload_def VHostHeader_payload_def action_defs)
  then have "dev_status d = v"
    using handle_msgs_status [OF assms(3), of "snd (VirtioDevice_parse_msg OS L strm h1 s)" v OS L strm] assms(5)
    by (simp add: handle_msgs_def)
  then have "VirtioDevice_parse_msg OS L strm h2 (d, w) =
      VirtioDevice_send_response OS strm VHOST_USER_GET_STATUS (to_le_bytes 8 v) (d, w)"
    using assms(4) by (simp add: VirtioDevice_parse_msg_def message_ids get_status_def bind_def device_def)
  moreover have "drop 12 (message_bytes k 5 (to_le_bytes 8 v)) = to_le_bytes 8 v" for k by (simp add: message_bytes_def)
  ultimately show ?thesis using u64_payload.dec_exact [of v] by (auto simp: send_response_eq)
qed

section \<open>Guest addresses\<close>

lemma guest_addr_new:
  assumes "unat host + unat sz < 2 ^ 64"
  shows "GuestMapping_guest_addr (GuestMapping_new host guest sz) vmm =
     (if unat host \<le> unat vmm \<and> unat vmm \<le> unat host + unat sz then Some (guest + (vmm - host)) else None)"
proof -
  have "unat (host + sz) = unat host + unat sz"
    using assms by (simp add: unat_word_ariths)
  then show ?thesis
    by (simp add: GuestMapping_guest_addr_def GuestMapping_new_def word_le_nat_alt add.commute)
qed

definition region_mapping :: "MemoryRegionDescription \<Rightarrow> GuestMapping" where
  "region_mapping r = GuestMapping_new (mr_user_address r) (mr_guest_address r) (mr_size r)"

text \<open>The addresses of the hypervisor that a region takes, with the first one after it.\<close>

definition user_range :: "MemoryRegionDescription \<Rightarrow> nat set" where
  "user_range r = {unat (mr_user_address r) .. unat (mr_user_address r) + unat (mr_size r)}"

lemma region_mapping_guest_addr:
  assumes "unat (mr_user_address r) + unat (mr_size r) < 2 ^ 64"
  shows "GuestMapping_guest_addr (region_mapping r) vmm =
     (if unat vmm \<in> user_range r then Some (mr_guest_address r + (vmm - mr_user_address r)) else None)"
  using guest_addr_new [OF assms] by (simp add: region_mapping_def user_range_def)

lemma find_guest_address:
  assumes "\<forall>r \<in> set rs. unat (mr_user_address r) + unat (mr_size r) < 2 ^ 64" and "r \<in> set rs" and "unat vmm \<in> user_range r"
    and "\<forall>r' \<in> set rs. unat vmm \<in> user_range r' \<longrightarrow> r' = r"
  shows "\<exists>as. List.map_filter (\<lambda>m. GuestMapping_guest_addr m vmm) (map region_mapping rs) =
           (mr_guest_address r + (vmm - mr_user_address r)) # as"
  using assms
proof (induction rs)
  case (Cons r' rs)
  have g: "GuestMapping_guest_addr (region_mapping r') vmm =
     (if unat vmm \<in> user_range r' then Some (mr_guest_address r' + (vmm - mr_user_address r')) else None)"
    using Cons.prems(1) by (simp add: region_mapping_guest_addr)
  show ?case
  proof (cases "unat vmm \<in> user_range r'")
    case True
    with Cons.prems(4) g show ?thesis by simp
  next
    case False
    then have r: "r \<in> set rs" using Cons.prems(2,3) by auto
    have "\<forall>r \<in> set rs. unat (mr_user_address r) + unat (mr_size r) < 2 ^ 64"
      "\<forall>r' \<in> set rs. unat vmm \<in> user_range r' \<longrightarrow> r' = r" using Cons.prems(1,4) by simp_all
    from Cons.IH [OF this(1) r Cons.prems(3) this(2)] show ?thesis using g False by (simp only: list.map map_filter_simps if_False option.case)
  qed
qed simp

text \<open>
  C32: after a memory table was accepted, an address of the hypervisor is translated to the guest
  address at the same offset of its region, provided no earlier table and no other region reaches to
  it, and an address that no region reaches to is an error. A region reaches one address too far
  here, so regions must not adjoin: see the next property.
\<close>

theorem VirtioDevice_translates_addresses:
  assumes "mappings d = map region_mapping rs" and "\<forall>r \<in> set rs. unat (mr_user_address r) + unat (mr_size r) < 2 ^ 64"
  shows "(r \<in> set rs \<and> unat vmm \<in> user_range r \<and> (\<forall>r' \<in> set rs. unat vmm \<in> user_range r' \<longrightarrow> r' = r) \<longrightarrow>
       VirtioDevice_compute_guest_address d vmm = Ok (mr_guest_address r + (vmm - mr_user_address r))) \<and>
     ((\<forall>r \<in> set rs. unat vmm \<notin> user_range r) \<longrightarrow>
       VirtioDevice_compute_guest_address d vmm = Err (NoHostToGuestMappingFound vmm))"
proof (intro conjI impI)
  assume "r \<in> set rs \<and> unat vmm \<in> user_range r \<and> (\<forall>r' \<in> set rs. unat vmm \<in> user_range r' \<longrightarrow> r' = r)"
  with find_guest_address [OF assms(2), of r vmm] assms(1)
  show "VirtioDevice_compute_guest_address d vmm = Ok (mr_guest_address r + (vmm - mr_user_address r))"
    by (auto simp: VirtioDevice_compute_guest_address_def)
next
  assume "\<forall>r \<in> set rs. unat vmm \<notin> user_range r"
  then have "List.map_filter (\<lambda>m. GuestMapping_guest_addr m vmm) (map region_mapping rs) = []"
    using assms(2) by (induction rs) (simp_all add: region_mapping_guest_addr)
  then show "VirtioDevice_compute_guest_address d vmm = Err (NoHostToGuestMappingFound vmm)"
    using assms(1) by (simp add: VirtioDevice_compute_guest_address_def)
qed

text \<open>
  Adjoining regions are translated wrongly. The first address of a region that begins where the
  region before it ends is taken to the end of the guest's region before, not to the begin of its
  own: \<open>guest_addr\<close> compares with \<open><=\<close> and the first match wins.
\<close>

lemma VirtioDevice_adjoining_region_mistranslated:
  assumes "mappings d = map region_mapping (r1 # r2 # rs)"
    and "unat (mr_user_address r1) + unat (mr_size r1) < 2 ^ 64"
    and "mr_user_address r2 = mr_user_address r1 + mr_size r1"
  shows "VirtioDevice_compute_guest_address d (mr_user_address r2) = Ok (mr_guest_address r1 + mr_size r1)"
proof -
  have "unat (mr_user_address r2) = unat (mr_user_address r1) + unat (mr_size r1)"
    using assms(2,3) by (simp add: unat_word_ariths)
  then have "unat (mr_user_address r2) \<in> user_range r1" by (simp add: user_range_def)
  with assms show ?thesis
    by (simp add: VirtioDevice_compute_guest_address_def region_mapping_guest_addr)
qed

section \<open>Memory tables and ring addresses\<close>

lemma action_eq_Ok:
  "give r s = (Ok x, s') \<longleftrightarrow> r = Ok x \<and> s' = s"
  "update f s = (Ok u, s') \<longleftrightarrow> s' = (f (fst s), snd s)"
  "device s = (Ok d, s') \<longleftrightarrow> d = fst s \<and> s' = s"
  "world e g s = (Ok x, s') \<longleftrightarrow> (\<exists>w. g (snd s) = (Ok x, w) \<and> s' = (fst s, w))"
  by (auto simp: action_defs split: prod.splits)

text \<open>A region that was mapped: from its address, size, descriptor and offset, and placed at its guest address.\<close>

definition mapped_region :: "('p, 'g, 'e, 'h, 'w) vhost_os \<Rightarrow> MemoryRegionDescription \<times> rawfd \<Rightarrow> 'e \<Rightarrow> bool" where
  "mapped_region OS rf gm \<longleftrightarrow>
     (\<exists>w ptr w' mmr. os_mmap OS w (mr_user_address (fst rf)) (mr_size (fst rf)) (snd rf) (mr_mmap_offset (fst rf)) = (Ok ptr, w') \<and>
        os_build_raw OS ptr (mr_size (fst rf)) = Ok mmr \<and> os_guest_region OS mmr (mr_guest_address (fst rf)) = Ok gm)"

lemma map_region_Ok:
  "map_region OS r fd s = (Ok gm, s') \<Longrightarrow>
     fst s' = (fst s)\<lparr>mappings := mappings (fst s) @ [region_mapping r]\<rparr> \<and> mapped_region OS (r, fd) gm"
  by (auto simp: map_region_def bind_eq_Ok action_eq_Ok region_mapping_def mapped_region_def split: if_splits)

lemma map_regions_Ok:
  "map_regions OS xs s = (Ok gms, s') \<Longrightarrow>
     fst s' = (fst s)\<lparr>mappings := mappings (fst s) @ map (\<lambda>x. region_mapping (fst x)) xs\<rparr> \<and> list_all2 (mapped_region OS) xs gms"
proof (induction OS xs arbitrary: s gms rule: map_regions.induct)
  case (2 OS r fd xs)
  then obtain gm gms' s1 where "map_region OS r fd s = (Ok gm, s1)" "map_regions OS xs s1 = (Ok gms', s')" "gms = gm # gms'"
    by (auto simp: bind_eq_Ok action_eq_Ok)
  with 2(1) [of s1] map_region_Ok show ?case by fastforce
qed (simp add: action_eq_Ok)

lemma send_response_device: "VirtioDevice_send_response OS strm ident pl s = (r, s') \<Longrightarrow> fst s' = fst s"
  by (cases s) (auto simp: send_response_eq split: prod.splits)

lemma map_fst_zip_region: "length rs = length fds \<Longrightarrow> map (\<lambda>x. f (fst x)) (zip rs fds) = map f rs"
  by (induction rs fds rule: list_induct2) simp_all

text \<open>
  C33: a memory table that is accepted has one descriptor for each of its regions; afterwards the
  device has one mapping more for each region, after the ones it had (they are never removed), every
  queue has the guest memory made of exactly these regions, each mapped from its descriptor with its address, size
  and offset and placed at its guest address, and nothing else of the device has changed.
\<close>

theorem VirtioDevice_set_mem_table:
  assumes "vh_ty hdr = VHOST_USER_SET_MEM_TABLE" and "VirtioDevice_parse_msg OS L strm hdr (d, w) = (Ok (), d', w')"
  shows "\<exists>rs fds gms gmm. VHostHeader_payload MemoryTable_try_from_payload hdr = Ok rs \<and>
     fst (VHostHeader_extract_fds hdr) = Ok fds \<and> length rs = length fds \<and>
     list_all2 (mapped_region OS) (zip rs fds) gms \<and> os_from_regions OS gms = Ok gmm \<and>
     d' = d\<lparr>mappings := mappings d @ map region_mapping rs, queues := map (\<lambda>q. VirtQueue_set_memory q gmm) (queues d)\<rparr>"
proof -
  have "set_mem_table OS strm hdr (d, w) = (Ok (), d', w')"
    using assms by (simp add: VirtioDevice_parse_msg_def message_ids)
  then obtain rs fds gms gmm s1 where *: "VHostHeader_payload MemoryTable_try_from_payload hdr = Ok rs"
    "fst (VHostHeader_extract_fds hdr) = Ok fds" "length rs = length fds"
    "map_regions OS (zip rs fds) (d, w) = (Ok gms, s1)" "os_from_regions OS gms = Ok gmm"
    "(if VHostHeader_ack_required hdr then VirtioDevice_send_response OS strm (vh_ty hdr) [] else give (Ok ()))
       ((fst s1)\<lparr>queues := map (\<lambda>q. VirtQueue_set_memory q gmm) (queues (fst s1))\<rparr>, snd s1) = (Ok (), d', w')"
    by (auto simp: set_mem_table_def hdr_payload_def bind_eq_Ok action_eq_Ok split: if_splits)
  from *(6) have "d' = (fst s1)\<lparr>queues := map (\<lambda>q. VirtQueue_set_memory q gmm) (queues (fst s1))\<rparr>"
    by (auto simp: give_def dest!: send_response_device split: if_splits)
  moreover have "fst s1 = d\<lparr>mappings := mappings d @ map region_mapping rs\<rparr>" "list_all2 (mapped_region OS) (zip rs fds) gms"
    using map_regions_Ok [OF *(4)] map_fst_zip_region [OF *(3), of region_mapping] by simp_all
  ultimately show ?thesis using * by auto
qed

lemma words_recombine [simp]: "push_bit 32 (ucast (high_word x)) OR ucast (low_word x) = x"
proof (rule bit_word_eqI)
  fix i assume "i < LENGTH(64)"
  moreover have m: "(0xFFFFFFFF :: u64) = mask 32" by (simp add: mask_eq_exp_minus_1)
  ultimately show "bit (push_bit 32 (ucast (high_word x)) OR ucast (low_word x) :: u64) i = bit x i"
    unfolding high_word_def low_word_def m by (cases "i < 32") (auto simp: bit_simps)
qed

text \<open>
  C34: the addresses of a ring. When all three are translated, exactly the named queue is given the
  guest addresses of its descriptor table and rings, and the crate is told each of them in two halves
  that make up the whole address; without a memory table, with an address outside it or for a queue
  the device does not have, the message is an error and the device is unchanged.
\<close>

theorem VirtioDevice_set_vring_addr:
  assumes "vh_ty hdr = VHOST_USER_SET_VRING_ADDR" and "vh_payload hdr = Some (vring_addr_bytes a)"
  shows "VirtioDevice_parse_msg OS L strm hdr (d, w) =
     (if mappings d = [] then (Err (VhostMemory NoMappedMemory), d, w)
      else case (VirtioDevice_compute_guest_address d (va_desc a), VirtioDevice_compute_guest_address d (va_avail a),
                 VirtioDevice_compute_guest_address d (va_used a)) of
        (Ok desc, Ok avail, Ok used) \<Rightarrow>
          if unat (va_index a) < length (queues d)
          then let q = queues d ! unat (va_index a);
                   set = (\<lambda>f q x. f L q (Some (low_word x)) (Some (high_word x)))
               in (Ok (), d\<lparr>queues := (queues d)[unat (va_index a) :=
                      q\<lparr>desc_table := desc, avail_ring := avail, used_ring := used,
                        queue := set lib_set_used_ring (set lib_set_avail_ring (set lib_set_desc_table (queue q) desc) avail) used\<rparr>]\<rparr>, w)
          else (Err (QueueNotFound (unat (va_index a))), d, w)
      | (Ok _, Ok _, _) \<Rightarrow> (Err (VhostMemory (NoHostToGuestMappingFound (va_used a))), d, w)
      | (Ok _, _, _) \<Rightarrow> (Err (VhostMemory (NoHostToGuestMappingFound (va_avail a))), d, w)
      | _ \<Rightarrow> (Err (VhostMemory (NoHostToGuestMappingFound (va_desc a))), d, w)) \<and>
     (\<forall>x. push_bit 32 (ucast (high_word x)) OR ucast (low_word x) = x)"
proof -
  have "VirtioDevice_compute_guest_address d x = Err (NoHostToGuestMappingFound x) \<or>
      (\<exists>y. VirtioDevice_compute_guest_address d x = Ok y)" for x
    by (auto simp: VirtioDevice_compute_guest_address_def split: list.splits)
  from this [of "va_desc a"] this [of "va_avail a"] this [of "va_used a"] show ?thesis
    using assms vring_addr.dec_exact [of a]
    by (auto simp: VirtioDevice_parse_msg_def message_ids set_vring_addr_def hdr_payload_def VHostHeader_payload_def
        action_defs on_queue_def VirtioDevice_get_virtqueue_mut_def VirtQueue_set_queue_addresses_def Let_def)
qed

section \<open>A device to evaluate the properties at\<close>

definition sample_vhost_os :: "(unit, unit, unit, unit, sample_guest) vhost_os" where
  "sample_vhost_os =
     \<lparr>os_poll_new = Ok (), os_waker_new = Ok (), os_recv_header = (\<lambda>w fd. (Err EWOULDBLOCK, w)),
      os_recv_payload = (\<lambda>w fd n. (Err EWOULDBLOCK, w)),
      os_sendmsg = (\<lambda>w fd b. (Ok (length b), w\<lparr>sent_of := sent_of w @ [b]\<rparr>)), os_read = (\<lambda>w fd. (Ok notify_bytes, w)),
      os_register = (\<lambda>w fd t. (Ok (), w)), os_deregister = (\<lambda>w fd. (Ok (), w)), os_mmap = (\<lambda>w a n fd x. (Ok (), w)),
      os_build_raw = (\<lambda>_ _. Ok ()), os_guest_region = (\<lambda>_ _. Ok ()), os_from_regions = (\<lambda>_. Ok ())\<rparr>"

definition sample_region :: MemoryRegionDescription where
  "sample_region = \<lparr>mr_guest_address = 0, mr_size = 0x1000, mr_user_address = 0x7F0000000000, mr_mmap_offset = 0\<rparr>"

definition sample_region2 :: MemoryRegionDescription where
  "sample_region2 = \<lparr>mr_guest_address = 0x100000, mr_size = 0x1000, mr_user_address = 0x7F0000001000, mr_mmap_offset = 0\<rparr>"

definition sample_device :: "(nat, unit) VirtioDevice" where
  "sample_device = \<lparr>channel = None, queues = [sample_queue, sample_queue], mappings = [region_mapping sample_region],
     dev_status = 0, num_queues = 1, kick_fds = [8 \<mapsto> KickTx 8 1], router_port = 0\<rparr>"

definition vhost_message :: "u32 \<Rightarrow> bytes \<Rightarrow> ControlMessageOwned list \<Rightarrow> VHostHeader" where
  "vhost_message ty pl anc = \<lparr>vh_ty = ty, vh_flags = 1, vh_sz = word_of_nat (length pl), vh_ancillary = anc, vh_payload = Some pl\<rparr>"

theorem VirtioDevice_status_roundtrip_witness:
  "\<exists>d w reply. handle_msgs sample_vhost_os sample_lib 4 [vhost_message 39 (to_le_bytes 8 (7 :: u64)) [], vhost_message 17 [] []]
       (sample_device, sample_guest0) = (d, w) \<and>
     VirtioDevice_parse_msg sample_vhost_os sample_lib 4 (vhost_message 40 [] []) (d, w) = (Ok (), d, w\<lparr>sent_of := sent_of w @ [reply]\<rparr>) \<and>
     u64_try_from_payload (drop 12 reply) = Ok 7"
proof -
  obtain d w where dw: "handle_msgs sample_vhost_os sample_lib 4 [vhost_message 39 (to_le_bytes 8 (7 :: u64)) [], vhost_message 17 [] []]
       (sample_device, sample_guest0) = (d, w)" by (metis prod.exhaust)
  have h1: "vh_ty (vhost_message 39 (to_le_bytes 8 (7 :: u64)) []) = VHOST_USER_SET_STATUS"
    and h2: "vh_payload (vhost_message 39 (to_le_bytes 8 (7 :: u64)) []) = Some (to_le_bytes 8 (7 :: u64))"
    and h3: "\<forall>hdr \<in> set [vhost_message 17 [] []]. vh_ty hdr \<noteq> VHOST_USER_SET_STATUS"
    and h4: "vh_ty (vhost_message 40 [] []) = VHOST_USER_GET_STATUS"
    by (simp_all add: vhost_message_def message_ids)
  have "\<exists>reply. VirtioDevice_parse_msg sample_vhost_os sample_lib 4 (vhost_message 40 [] []) (d, w) =
       (case os_sendmsg sample_vhost_os w 4 reply of (r, w) \<Rightarrow> (map_err VhostErrno (and_then r (\<lambda>_. Ok ())), d, w)) \<and>
     u64_try_from_payload (drop 12 reply) = Ok 7"
    using VirtioDevice_status_roundtrip [OF h1 h2 h3 h4 dw] by metis
  moreover have "os_sendmsg sample_vhost_os w 4 b = (Ok (length b), w\<lparr>sent_of := sent_of w @ [b]\<rparr>)" for b
    by (simp add: sample_vhost_os_def)
  ultimately show ?thesis using dw by auto
qed

lemma sample_region_range:
  "user_range sample_region = {0x7F0000000000 .. 0x7F0000001000}" "unat (mr_user_address sample_region) + unat (mr_size sample_region) < 2 ^ 64"
  by (simp_all add: user_range_def sample_region_def)

theorem VirtioDevice_translates_addresses_witness:
  "VirtioDevice_compute_guest_address sample_device 0x7F0000000010 = Ok 0x10 \<and>
   VirtioDevice_compute_guest_address sample_device 0x10 = Err (NoHostToGuestMappingFound 0x10)"
  using VirtioDevice_translates_addresses [of sample_device "[sample_region]" sample_region "0x7F0000000010"]
    VirtioDevice_translates_addresses [of sample_device "[sample_region]" sample_region "0x10"] sample_region_range
  by (simp add: sample_device_def) (simp add: sample_region_def)

theorem VirtioDevice_set_mem_table_witness:
  "\<exists>d' w'. VirtioDevice_parse_msg sample_vhost_os sample_lib 4
       (vhost_message 5 (memory_table_bytes [sample_region2]) [ScmRights [6]]) (sample_device, sample_guest0) = (Ok (), d', w') \<and>
     mappings d' = map region_mapping [sample_region, sample_region2]"
proof -
  let ?h = "vhost_message 5 (memory_table_bytes [sample_region2]) [ScmRights [6]]"
  have pl: "VHostHeader_payload MemoryTable_try_from_payload ?h = Ok [sample_region2]"
    using memory_regions_written [of "to_le_bytes 4 (1 :: u32) @ [0, 0, 0, 0]" 0 "[sample_region2]" "[]"]
    by (simp add: VHostHeader_payload_def vhost_message_def MemoryTable_try_from_payload_def memory_table_bytes_def buf_simps
        region.enc_length)
  have fd: "fst (VHostHeader_extract_fds ?h) = Ok [6]" by (simp add: VHostHeader_extract_fds_def vhost_message_def)
  have region: "mr_user_address sample_region2 \<noteq> 0" "mr_size sample_region2 \<noteq> 0" by (simp_all add: sample_region2_def)
  have "\<exists>d' w'. set_mem_table sample_vhost_os 4 h (sample_device, sample_guest0) = (Ok (), d', w')"
    if "VHostHeader_payload MemoryTable_try_from_payload h = Ok [sample_region2]" "fst (VHostHeader_extract_fds h) = Ok [6]"
      "\<not> VHostHeader_ack_required h" for h
    using that region by (simp add: set_mem_table_def hdr_payload_def action_defs map_region_def sample_vhost_os_def)
  from this [OF pl fd] obtain d' w' where "set_mem_table sample_vhost_os 4 ?h (sample_device, sample_guest0) = (Ok (), d', w')"
    by (auto simp: VHostHeader_ack_required_def vhost_message_def)
  moreover have ty: "vh_ty ?h = VHOST_USER_SET_MEM_TABLE" by (simp add: vhost_message_def message_ids)
  ultimately have d': "VirtioDevice_parse_msg sample_vhost_os sample_lib 4 ?h (sample_device, sample_guest0) = (Ok (), d', w')"
    by (simp add: VirtioDevice_parse_msg_def message_ids)
  from VirtioDevice_set_mem_table [OF ty d'] pl d' show ?thesis by (auto simp: sample_device_def)
qed

theorem VirtioDevice_set_vring_addr_witness:
  "VirtioDevice_parse_msg sample_vhost_os sample_lib 4 (vhost_message 9 (vring_addr_bytes
     \<lparr>va_index = 7, va_flags = 0, va_desc = 0x7F0000000000, va_used = 0x7F0000000200, va_avail = 0x7F0000000100, va_log = 0\<rparr>) [])
     (sample_device, sample_guest0) = (Err (QueueNotFound 7), sample_device, sample_guest0)"
proof -
  have "VirtioDevice_compute_guest_address sample_device x = Ok (x - 0x7F0000000000)" if "unat x \<in> user_range sample_region" for x
    using find_guest_address [of "[sample_region]" sample_region x] that sample_region_range
    by (auto simp: VirtioDevice_compute_guest_address_def sample_device_def) (simp add: sample_region_def)
  then show ?thesis
    using VirtioDevice_set_vring_addr [of "vhost_message 9 (vring_addr_bytes
     \<lparr>va_index = 7, va_flags = 0, va_desc = 0x7F0000000000, va_used = 0x7F0000000200, va_avail = 0x7F0000000100, va_log = 0\<rparr>) []"
     "\<lparr>va_index = 7, va_flags = 0, va_desc = 0x7F0000000000, va_used = 0x7F0000000200, va_avail = 0x7F0000000100, va_log = 0\<rparr>"
     sample_vhost_os sample_lib 4 sample_device sample_guest0] sample_region_range(1)
    by (simp add: vhost_message_def message_ids) (simp add: sample_device_def)
qed

end
