(* ===== verification/Vhost_Run.thy ===== *)
theory Vhost_Run
  imports Vhost_Device
begin

text \<open>
  The thread of a vhost-user device, \<^verbatim>\<open>VirtioDevice::read_stream\<close> and \<^verbatim>\<open>run\<close> of
  \<^verbatim>\<open>oathgate-vhost/src/device.rs\<close>, and the socket that accepts front-ends,
  \<^verbatim>\<open>oathgate-vhost/src/vhost.rs\<close>. The poller is the sequence of the events it returns. Draining the
  control socket has no bound of its own: \<open>None\<close> stands for not returning. The properties are about
  whole runs of a device, and about two guests on one switch.
\<close>

section \<open>Reading the control socket\<close>

definition read_header :: "('p, 'g, 'e, 'h, 'w) vhost_os \<Rightarrow> rawfd \<Rightarrow> (VHostHeader, 'q, 'h, 'w) action" where
  "read_header OS strm =
     bind (world VhostErrno (\<lambda>w. os_recv_header OS w strm)) (\<lambda>(iovs, b, cmsgs).
     if iovs = 1 then
       bind (give (map_err VhostErrno cmsgs)) (\<lambda>ancillary. give (VHostHeader_parse (filled 12 b) ancillary))
     else give (Err HeaderMissing))"

definition read_payload :: "('p, 'g, 'e, 'h, 'w) vhost_os \<Rightarrow> rawfd \<Rightarrow> VHostHeader \<Rightarrow> (VHostHeader, 'q, 'h, 'w) action" where
  "read_payload OS strm hdr =
     (if 0 < vh_sz hdr then
        bind (world VhostErrno (\<lambda>w. os_recv_payload OS w strm (unat (vh_sz hdr)))) (\<lambda>b.
        give (Ok (VHostHeader_set_payload hdr (filled (unat (vh_sz hdr)) b))))
      else give (Ok hdr))"

definition VirtioDevice_read_stream ::
  "('p, 'g, 'e, 'h, 'w) vhost_os \<Rightarrow> ('q, 'h, 'c, 'r, 'x, 'w) virtio_lib \<Rightarrow> rawfd \<Rightarrow> (unit, 'q, 'h, 'w) action" where
  "VirtioDevice_read_stream OS L strm =
     bind (read_header OS strm) (\<lambda>hdr.
     bind (read_payload OS strm hdr) (\<lambda>hdr.
     VirtioDevice_parse_msg OS L strm hdr))"

text \<open>The loop on a readable control socket: it ends when there is nothing more to read.\<close>

partial_function (option) drain_stream ::
  "('p, 'g, 'e, 'h, 'w) vhost_os \<Rightarrow> ('q, 'h, 'c, 'r, 'x, 'w) virtio_lib \<Rightarrow> rawfd \<Rightarrow> ('q, 'h) VirtioDevice \<times> 'w
     \<Rightarrow> ((unit, VhostError) res \<times> ('q, 'h) VirtioDevice \<times> 'w) option" where
  "drain_stream OS L strm s =
     (case VirtioDevice_read_stream OS L strm s of
        (Ok _, s) \<Rightarrow> drain_stream OS L strm s
      | (Err e, s) \<Rightarrow> Some (if e = VhostErrno EWOULDBLOCK then Ok () else Err e, s)
      | (Panic, s) \<Rightarrow> Some (Panic, s))"

section \<open>Events\<close>

type_synonym ('q, 'h, 's, 'w) run_state = "('q, 'h) VirtioDevice \<times> 's \<times> 'w"

definition stream_event ::
  "('p, 'g, 'e, 'h, 'w) vhost_os \<Rightarrow> ('q, 'h, 'c, 'r, 'x, 'w) virtio_lib \<Rightarrow> rawfd \<Rightarrow> ('q, 'h, 's, 'w) run_state
     \<Rightarrow> ((unit, VhostError) res \<times> ('q, 'h, 's, 'w) run_state) option" where
  "stream_event OS L strm s =
     (case s of (self, sw, w) \<Rightarrow> map_option (\<lambda>(r, self, w). (r, self, sw, w)) (drain_stream OS L strm (self, w)))"

definition wake_event ::
  "('q, 'h, 'c, 'r, 'x, 'w) virtio_lib \<Rightarrow> 's switch_ops \<Rightarrow> ('q, 'h, 's, 'w) run_state
     \<Rightarrow> (unit, VhostError) res \<times> ('q, 'h, 's, 'w) run_state" where
  "wake_event L S s =
     (case s of (self, sw, w) \<Rightarrow>
      case VirtioDevice_get_virtqueue_mut self 0 of
        Ok vq \<Rightarrow>
          (case VirtQueue_handle_rx_queued L vq (sw_rx S sw (router_port self)) w of (r, left, vq, w) \<Rightarrow>
             (r, self\<lparr>queues := (queues self)[0 := vq]\<rparr>, sw_set_rx S sw (router_port self) left, w))
      | Err e \<Rightarrow> (Err e, s)
      | Panic \<Rightarrow> (Panic, s))"

definition kick_rx_event ::
  "('p, 'g, 'e, 'h, 'w) vhost_os \<Rightarrow> ('q, 'h, 'c, 'r, 'x, 'w) virtio_lib \<Rightarrow> 's switch_ops \<Rightarrow> rawfd \<Rightarrow> nat
     \<Rightarrow> ('q, 'h, 's, 'w) run_state \<Rightarrow> (unit, VhostError) res \<times> ('q, 'h, 's, 'w) run_state" where
  "kick_rx_event OS L S fd idx s =
     (case s of (self, sw, w) \<Rightarrow>
      case os_read OS w fd of (r, w) \<Rightarrow>
      case map_err VhostErrno r of
        Ok pkt \<Rightarrow>
          (case VirtioDevice_get_virtqueue_mut self idx of
             Ok vq \<Rightarrow>
               (case VirtQueue_kick_rx L vq (sw_rx S sw (router_port self)) w pkt of (r, left, vq, w) \<Rightarrow>
                  (r, self\<lparr>queues := (queues self)[idx := vq]\<rparr>, sw_set_rx S sw (router_port self) left, w))
           | Err e \<Rightarrow> (Err e, self, sw, w)
           | Panic \<Rightarrow> (Panic, self, sw, w))
      | Err e \<Rightarrow> (Err e, self, sw, w)
      | Panic \<Rightarrow> (Panic, self, sw, w))"

definition kick_tx_event ::
  "('p, 'g, 'e, 'h, 'w) vhost_os \<Rightarrow> ('q, 'h, 'c, 'r, 'x, 'w) virtio_lib \<Rightarrow> 's switch_ops \<Rightarrow> rawfd \<Rightarrow> nat
     \<Rightarrow> ('q, 'h, 's, 'w) run_state \<Rightarrow> ((unit, VhostError) res \<times> ('q, 'h, 's, 'w) run_state) option" where
  "kick_tx_event OS L S fd idx s =
     (case s of (self, sw, w) \<Rightarrow>
      case os_read OS w fd of (r, w) \<Rightarrow>
      case map_err VhostErrno r of
        Ok pkt \<Rightarrow>
          (case VirtioDevice_get_virtqueue_mut self idx of
             Ok vq \<Rightarrow>
               map_option (\<lambda>(r, vq, sw, w). (r, self\<lparr>queues := (queues self)[idx := vq]\<rparr>, sw, w))
                 (VirtQueue_kick_tx L (sw_process S) (vq, sw, w) pkt (router_port self))
           | Err e \<Rightarrow> Some (Err e, self, sw, w)
           | Panic \<Rightarrow> Some (Panic, self, sw, w))
      | Err e \<Rightarrow> Some (Err e, self, sw, w)
      | Panic \<Rightarrow> Some (Panic, self, sw, w))"

definition device_event ::
  "('p, 'g, 'e, 'h, 'w) vhost_os \<Rightarrow> ('q, 'h, 'c, 'r, 'x, 'w) virtio_lib \<Rightarrow> 's switch_ops \<Rightarrow> rawfd \<Rightarrow> nat
     \<Rightarrow> ('q, 'h, 's, 'w) run_state \<Rightarrow> ((unit, VhostError) res \<times> ('q, 'h, 's, 'w) run_state) option" where
  "device_event OS L S strm token s =
     (if token = TOKEN_STRM then stream_event OS L strm s
      else if token = TOKEN_WAKE then Some (wake_event L S s)
      else case kick_fds (fst s) token of
        Some (KickRx fd vq) \<Rightarrow> Some (kick_rx_event OS L S fd vq s)
      | Some (KickTx fd vq) \<Rightarrow> kick_tx_event OS L S fd vq s
      | None \<Rightarrow> Some (Ok (), s))"

text \<open>The events of one return of the poller, and the loop over its returns.\<close>

fun device_events ::
  "('p, 'g, 'e, 'h, 'w) vhost_os \<Rightarrow> ('q, 'h, 'c, 'r, 'x, 'w) virtio_lib \<Rightarrow> 's switch_ops \<Rightarrow> rawfd \<Rightarrow> nat list
     \<Rightarrow> ('q, 'h, 's, 'w) run_state \<Rightarrow> ((unit, VhostError) res \<times> ('q, 'h, 's, 'w) run_state) option" where
  "device_events OS L S strm [] s = Some (Ok (), s)"
| "device_events OS L S strm (t # ts) s =
     (case device_event OS L S strm t s of
        Some (Ok _, s) \<Rightarrow> device_events OS L S strm ts s
      | other \<Rightarrow> other)"

fun device_polls ::
  "('p, 'g, 'e, 'h, 'w) vhost_os \<Rightarrow> ('q, 'h, 'c, 'r, 'x, 'w) virtio_lib \<Rightarrow> 's switch_ops \<Rightarrow> rawfd \<Rightarrow> (nat list, string) res list
     \<Rightarrow> ('q, 'h, 's, 'w) run_state \<Rightarrow> ((unit, VhostError) res \<times> ('q, 'h, 's, 'w) run_state) option" where
  "device_polls OS L S strm [] s = Some (Ok (), s)"
| "device_polls OS L S strm (p # ps) s =
     (case p of
        Ok ts \<Rightarrow>
          (case device_events OS L S strm ts s of
             Some (Ok _, s) \<Rightarrow> device_polls OS L S strm ps s
           | other \<Rightarrow> other)
      | Err e \<Rightarrow> Some (Err (VhostIO e), s)
      | Panic \<Rightarrow> Some (Panic, s))"

definition VirtioDevice_run ::
  "('p, 'g, 'e, 'h, 'w) vhost_os \<Rightarrow> ('q, 'h, 'c, 'r, 'x, 'w) virtio_lib \<Rightarrow> 's switch_ops \<Rightarrow> rawfd \<Rightarrow> (nat list, string) res list
     \<Rightarrow> ('q, 'h, 's, 'w) run_state \<Rightarrow> ((unit, VhostError) res \<times> ('q, 'h, 's, 'w) run_state) option" where
  "VirtioDevice_run OS L S strm polls s =
     (case s of (self, sw, w) \<Rightarrow>
      case os_register OS w strm TOKEN_STRM of
        (Ok _, w) \<Rightarrow> device_polls OS L S strm polls (self, sw, w)
      | (Err e, w) \<Rightarrow> Some (Err (VhostIO e), self, sw, w)
      | (Panic, w) \<Rightarrow> Some (Panic, self, sw, w))"

section \<open>The listening socket\<close>

text \<open>
  \<open>accept\<close> is the outcome of accepting a connection and \<open>spawn\<close> the one of starting the thread of the
  device; the result is the new device, whose thread runs \<open>VirtioDevice_run\<close> on the connection.
\<close>

definition VHostSocket_accept_and_spawn ::
  "('p, 'g, 'e, 'h, 'w) vhost_os \<Rightarrow> ('q, 'h, 'c, 'r, 'x, 'w) virtio_lib \<Rightarrow> 's switch_ops \<Rightarrow> (rawfd, string) res \<Rightarrow> (unit, string) res
     \<Rightarrow> DeviceOpts \<Rightarrow> 's \<Rightarrow> (rawfd \<times> ('q, 'h) VirtioDevice, VhostError) res \<times> 's" where
  "VHostSocket_accept_and_spawn OS L S accept spawn device_opts switch =
     (case map_err VhostIO accept of
        Ok strm \<Rightarrow>
          (case VirtioDevice_new OS L S switch device_opts of (dev, switch) \<Rightarrow>
             (and_then dev (\<lambda>dev. and_then (map_err VhostIO spawn) (\<lambda>_. Ok (strm, dev))), switch))
      | Err e \<Rightarrow> (Err e, switch)
      | Panic \<Rightarrow> (Panic, switch))"

text \<open>
  The poll loop of the listener on the events it sees, up to a failed poll: an event of the listening
  socket accepts a front-end, and a failure to do so is only logged. The result is the devices that
  were started, or nothing when a thread panicked.
\<close>

datatype socket_event = PollFailed | Listener "(rawfd, string) res" "(unit, string) res" | UnknownSocket nat

fun VHostSocket_run ::
  "('p, 'g, 'e, 'h, 'w) vhost_os \<Rightarrow> ('q, 'h, 'c, 'r, 'x, 'w) virtio_lib \<Rightarrow> 's switch_ops \<Rightarrow> DeviceOpts \<Rightarrow> socket_event list
     \<Rightarrow> (rawfd \<times> ('q, 'h) VirtioDevice) list \<Rightarrow> 's \<Rightarrow> ((rawfd \<times> ('q, 'h) VirtioDevice) list \<times> 's) option" where
  "VHostSocket_run OS L S opts [] devs sw = Some (devs, sw)"
| "VHostSocket_run OS L S opts (PollFailed # es) devs sw = Some (devs, sw)"
| "VHostSocket_run OS L S opts (UnknownSocket t # es) devs sw = VHostSocket_run OS L S opts es devs sw"
| "VHostSocket_run OS L S opts (Listener accept spawn # es) devs sw =
     (case VHostSocket_accept_and_spawn OS L S accept spawn opts sw of
        (Ok dev, sw) \<Rightarrow> VHostSocket_run OS L S opts es (devs @ [dev]) sw
      | (Err e, sw) \<Rightarrow> VHostSocket_run OS L S opts es devs sw
      | (Panic, sw) \<Rightarrow> None)"

section \<open>The invariant of a running device\<close>

lemma rx_packet_mem: "rx_packet L h c p self w = (r, self', w') \<Longrightarrow> mem self' = mem self"
  by (auto simp: rx_packet_def Let_def simp del: write_all.simps split: res.splits prod.splits)

lemma rx_loop_mem: "rx_loop L h pending self w = (r, left, self', w') \<Longrightarrow> mem self' = mem self"
proof (induction pending arbitrary: self w)
  case (Cons p ps)
  obtain o1 q where pop: "lib_pop L (queue self) h w = (o1, q)" by (metis prod.exhaust)
  show ?case
  proof (cases o1)
    case (Some c)
    obtain r1 self1 w1 where rp: "rx_packet L h c p (self\<lparr>queue := q\<rparr>) w = (r1, self1, w1)" by (metis prod_cases3)
    from rx_packet_mem [OF this] Cons pop Some rp show ?thesis by (cases r1) auto
  qed (use Cons.prems pop in auto)
qed simp

lemma handle_rx_mem:
  assumes "VirtQueue_handle_rx_queued L self pending w = (r, left, self', w')"
  shows "mem self' = mem self"
proof (cases "mem self")
  case (Some h)
  obtain r1 left1 self1 w1 where loop: "rx_loop L h pending self w = (r1, left1, self1, w1)" by (metis prod_cases4)
  with assms Some have "self' = self1 \<or> self' = self"
    by (cases r1) (auto simp: VirtQueue_handle_rx_queued_def split: if_splits prod.splits)
  with rx_loop_mem [OF loop] show ?thesis by auto
qed (use assms in \<open>auto simp: VirtQueue_handle_rx_queued_def split: if_splits\<close>)

lemma kick_rx_mem: "VirtQueue_kick_rx L self pending w pkt = (r, left, self', w') \<Longrightarrow> mem self' = mem self"
  by (auto simp: VirtQueue_kick_rx_def split: res.splits if_splits dest: handle_rx_mem)

lemma tx_chain_mem: "tx_chain L process port h c (self, sw, w) = Some (r, self', sw', w') \<Longrightarrow> mem self' = mem self"
  by (auto simp: tx_chain_def split: res.splits prod.splits option.splits)

lemma tx_chains_mem: "tx_chains L process port h cs (self, sw, w) = Some (r, self', sw', w') \<Longrightarrow> mem self' = mem self"
proof (induction cs arbitrary: self sw w)
  case (Cons c cs)
  obtain r1 self1 sw1 w1 where c: "tx_chain L process port h c (self, sw, w) = Some (r1, self1, sw1, w1)"
    using Cons.prems by (auto split: option.splits)
  from tx_chain_mem [OF this] Cons c show ?case by (cases r1) auto
qed simp

lemma kick_tx_mem:
  assumes "VirtQueue_kick_tx L process (self, sw, w) pkt port = Some (r, self', sw', w')"
  shows "mem self' = mem self"
  using assms
  by (auto simp: VirtQueue_kick_tx_def Let_def split: res.splits prod.splits option.splits if_splits dest!: tx_chains_mem)

lemma keeps_read_stream: "device.keeps n p k (VirtioDevice_read_stream OS L strm)"
  unfolding VirtioDevice_read_stream_def read_header_def read_payload_def case_prod_beta
  by (intro device.keeps_rules device.keeps_every_msg)

lemma drain_stream_inv:
  assumes "drain_stream OS L strm s = Some (r, s')" and "device_inv n p k (fst s)"
  shows "device_inv n p k (fst s')"
proof -
  have "device_inv n p k (fst s) \<longrightarrow> device_inv n p k (fst (snd y))" if "drain_stream OS L strm s = Some y" for y
  proof (rule drain_stream.raw_induct [OF _ that], goal_cases)
    case (1 drain OS L strm s y)
    obtain r1 s1 where s1: "VirtioDevice_read_stream OS L strm s = (r1, s1)" by (metis prod.exhaust)
    have "device_inv n p k (fst s) \<Longrightarrow> device_inv n p k (fst s1)"
      using keeps_read_stream [of n p k OS L strm] s1 unfolding device.keeps_def by (metis snd_conv)
    with 1 s1 show ?case by (cases r1) auto
  qed
  with assms show ?thesis by fastforce
qed

lemma queue_inv:
  assumes "device_inv n p k d" and "VirtioDevice_get_virtqueue_mut d i = Ok q" and "mem q' = mem q"
  shows "device_inv n p k (d\<lparr>queues := (queues d)[i := q']\<rparr>)"
proof -
  have "i < length (queues d)" "q = queues d ! i"
    using assms(2) by (auto simp: VirtioDevice_get_virtqueue_mut_def split: if_splits)
  with device.kept_queue [OF assms(1)] assms(3) show ?thesis by simp
qed

lemma device_event_inv:
  assumes "device_event OS L S strm t s = Some (r, s')" and "device_inv n p k (fst s)"
  shows "device_inv n p k (fst s')"
proof -
  obtain d sw w where s: "s = (d, sw, w)" by (metis prod_cases3)
  have wake: "device_inv n p k (fst (snd (wake_event L S s)))"
    using assms(2) unfolding s wake_event_def
    by (auto split: res.splits prod.splits dest!: handle_rx_mem intro!: queue_inv)
  have rx: "device_inv n p k (fst (snd (kick_rx_event OS L S fd i s)))" for fd i
    using assms(2) unfolding s kick_rx_event_def
    by (auto split: res.splits prod.splits dest!: kick_rx_mem intro!: queue_inv)
  have tx: "device_inv n p k (fst s')" if "kick_tx_event OS L S fd i s = Some (r, s')" for fd i
    using assms(2) that unfolding s kick_tx_event_def
    by (auto split: res.splits prod.splits dest!: kick_tx_mem intro!: queue_inv)
  have st: "device_inv n p k (fst s')" if "stream_event OS L strm s = Some (r, s')"
    using assms(2) that drain_stream_inv [of OS L strm "(d, w)"] unfolding s stream_event_def by (auto split: prod.splits)
  from assms(1) wake rx tx st assms(2) show ?thesis
    by (auto simp: device_event_def split: if_splits option.splits KickFd.splits) (metis fst_conv snd_conv)+
qed

lemma device_events_inv:
  "device_events OS L S strm ts s = Some (r, s') \<Longrightarrow> device_inv n p k (fst s) \<Longrightarrow> device_inv n p k (fst s')"
proof (induction ts arbitrary: s)
  case (Cons t ts)
  then obtain r1 s1 where e: "device_event OS L S strm t s = Some (r1, s1)" by (auto split: option.splits)
  have "device_inv n p k (fst s1)" using device_event_inv [OF e Cons.prems(2)] .
  with Cons e show ?case by (cases r1) auto
qed simp

lemma device_polls_inv:
  "device_polls OS L S strm ps s = Some (r, s') \<Longrightarrow> device_inv n p k (fst s) \<Longrightarrow> device_inv n p k (fst s')"
proof (induction ps arbitrary: s)
  case (Cons poll ps)
  show ?case
  proof (cases poll)
    case (Ok ts)
    with Cons.prems obtain r1 s1 where e: "device_events OS L S strm ts s = Some (r1, s1)" by (auto split: option.splits)
    have "device_inv n p k (fst s1)" using device_events_inv [OF e Cons.prems(2)] .
    with Cons Ok e show ?thesis by (cases r1) auto
  qed (use Cons.prems in auto)
qed simp

text \<open>
  C8: from its construction on, whatever the front-end sends and whatever events the poller returns,
  a device keeps its queues, twice the configured number (of less than 128 pairs), its port and the
  number of pairs it reports; a kick descriptor always stands for an existing queue, an even one for
  reception or an odd one for transmission; and the queues always share one guest memory.
\<close>

theorem VirtioDevice_run_invariant:
  assumes "VirtioDevice_new OS L S sw opts = (Ok d, sw')" and "unat (device_queues opts) < 128"
    and "VirtioDevice_run OS L S strm polls (d, sw', w) = Some (r, d', s')"
  shows "device_inv (2 * unat (device_queues opts)) (snd (sw_connect S sw \<lparr>rxq_queue = [], rxq_wakes = 0\<rparr>))
           (ucast (device_queues opts)) d'"
proof -
  let ?inv = "device_inv (2 * unat (device_queues opts)) (snd (sw_connect S sw \<lparr>rxq_queue = [], rxq_wakes = 0\<rparr>))
           (ucast (device_queues opts))"
  have "unat (device_queues opts * 2) = 2 * unat (device_queues opts)"
    using assms(2) by (simp add: unat_word_ariths mult.commute)
  then have "?inv d" using VirtioDevice_new_inv [OF assms(1)] by simp
  then show ?thesis
    using assms(3) device_polls_inv [of OS L S strm polls "(d, sw', _)" r "(d', s')"]
    by (auto simp: VirtioDevice_run_def split: prod.splits res.splits)
qed

section \<open>From guest to guest\<close>

lemma kick_tx_event_ok:
  assumes "os_read OS w fd = (Ok pkt, w1)" and "VirtioDevice_get_virtqueue_mut d i = Ok q"
    and "kick_count pkt = Ok n" and "n \<noteq> 0" and "mem q = Some h" and "enabled q"
    and "lib_iter L (queue q) h w1 = (Ok cs, q')" and "tx_ready L ok rest content h (set cs)"
    and "\<forall>c \<in> set cs. \<exists>f pl. 12 \<le> length (content c w1) \<and> drop 12 (content c w1) = frame_bytes f @ pl"
    and "notifies L ok q" and "ok w1"
  shows "\<exists>d' w'. kick_tx_event OS L (bridge_switch_ops enq) fd i (d, sw, w) =
     Some (Ok (), d', foldl (\<lambda>sw c. snd (VirtioSwitch_process (bridge_port_enqueue enq) sw (router_port d) (drop 12 (content c w1)))) sw cs, w')"
proof -
  let ?process = "VirtioSwitch_process (bridge_port_enqueue enq)"
  have ok: "\<forall>c \<in> set cs. 12 \<le> length (content c w1) \<and> (\<forall>sw. fst (?process sw (router_port d) (drop 12 (content c w1))) = Ok ())"
    using assms(9) by (force simp: VirtioSwitch_process_frame)
  from VirtQueue_kick_tx_forwards [where process = ?process, OF assms(3-8) ok assms(10,11), of sw] obtain q1 w2 where
    "VirtQueue_kick_tx L ?process (q, sw, w1) pkt (router_port d) =
      Some (Ok (), q1, foldl (\<lambda>sw c. snd (?process sw (router_port d) (drop 12 (content c w1)))) sw cs, w2)" by blast
  then show ?thesis using assms(1,2) by (simp add: kick_tx_event_def bridge_switch_ops_def)
qed

lemma wake_event_delivers:
  assumes "VirtioDevice_get_virtqueue_mut d 0 = Ok q" and "rx_ring L h V" and "rv_ok V w" and "notifies L (rv_ok V) q"
    and "enabled q" and "mem q = Some h" and "sw_rx S sw (router_port d) = pending" and "rv_chains V (queue q) w = cs"
    and "\<forall>(c, p) \<in> set (zip cs pending). rx_fits V w c p" and "\<forall>p \<in> set pending. length (guest_bytes p) < 2 ^ 32"
  shows "\<exists>q' w'. wake_event L S (d, sw, w) =
       (Ok (), d\<lparr>queues := (queues d)[0 := q']\<rparr>, sw_set_rx S sw (router_port d) (drop (length cs) pending), w') \<and>
     rv_used V w' = rv_used V w @ map (\<lambda>(c, p). (lib_head_index L c, guest_bytes p)) (zip cs pending)"
  using handle_rx_delivers [OF assms(2-6), of pending] assms(1,7-10) by (auto simp: wake_event_def)

text \<open>
  C7: a frame from one guest reaches the other. The guest of device A kicks its transmit queue with
  one chain that holds a frame to an address the switch has learned at the port of device B. The
  event succeeds, and afterwards the frame is the last one pending for B. When B is woken later, in a world \<open>w3\<close> in which
  its guest has made the chains \<open>cs\<close> available, and these are large enough for the frames they meet, its guest gets, in order, as
  many of the pending frames as there are chains, each as one used chain with the virtio-net header, the Ethernet
  header and the payload; the others stay pending. With more chains than older frames it thus gets this frame, complete.
\<close>

theorem Vhost_guest_to_guest:
  assumes "kick_fds dA t = Some (KickTx fd i)" and "t \<noteq> TOKEN_STRM" and "t \<noteq> TOKEN_WAKE" and "i < length (queues dA)"
    and "os_read OS w fd = (Ok pkt, w1)" and "kick_count pkt = Ok n" and "n \<noteq> 0"
    and "mem (queues dA ! i) = Some hA" and "enabled (queues dA ! i)"
    and "lib_iter L (queue (queues dA ! i)) hA w1 = (Ok [c], q')" and "tx_ready L ok rest content hA {c}"
    and "notifies L ok (queues dA ! i)" and "ok w1"
    and "content c w1 = vhdr @ frame_bytes f @ pl" and "length vhdr = 12"
    and "cache sw (frame_dst f) = Some b" and "frame_dst f \<noteq> frame_src f" and "\<not> MacAddress_is_broadcast (frame_dst f)"
    and "b < length (ports sw)" and "ports sw ! b = VirtioPort qb"
    and "router_port dB = b" and "queues dB = q0 # qs" and "enabled q0" and "mem q0 = Some hB"
    and "rx_ring L hB V" and "notifies L (rv_ok V) q0"
    and "pending = rxq_queue qb @ [EthernetPacket_new f pl]" and "\<forall>p \<in> set pending. length (guest_bytes p) < 2 ^ 32"
  shows "\<exists>dA' sw1 w2. device_event OS L (bridge_switch_ops enq) strmA t (dA, sw, w) = Some (Ok (), dA', sw1, w2) \<and>
     (\<forall>w3 cs. rv_ok V w3 \<and> rv_chains V (queue q0) w3 = cs \<and> (\<forall>(c, p) \<in> set (zip cs pending). rx_fits V w3 c p) \<longrightarrow>
        (\<exists>dB' sw2 w4. device_event OS L (bridge_switch_ops enq) strmB TOKEN_WAKE (dB, sw1, w3) = Some (Ok (), dB', sw2, w4) \<and>
           rv_used V w4 = rv_used V w3 @ map (\<lambda>(c, p). (lib_head_index L c, guest_bytes p)) (zip cs pending) \<and>
           sw_rx (bridge_switch_ops enq) sw2 b = drop (length cs) pending))"
proof -
  let ?S = "bridge_switch_ops enq"
  let ?sw1 = "snd (VirtioSwitch_process (bridge_port_enqueue enq) sw (router_port dA) (frame_bytes f @ pl))"
  have qA: "VirtioDevice_get_virtqueue_mut dA i = Ok (queues dA ! i)" using assms(4) by (simp add: VirtioDevice_get_virtqueue_mut_def)
  have content: "\<forall>c' \<in> set [c]. \<exists>f pl. 12 \<le> length (content c' w1) \<and> drop 12 (content c' w1) = frame_bytes f @ pl"
    using assms(14,15) by auto
  from kick_tx_event_ok [where content = content and rest = rest and sw = sw and enq = enq, OF assms(5) qA assms(6-10) _ content assms(12,13)]
    assms(11,14,15) obtain dA' w2 where
    tx: "kick_tx_event OS L ?S fd i (dA, sw, w) = Some (Ok (), dA', ?sw1, w2)" by auto
  have port: "ports ?sw1 ! b = VirtioPort (VirtioDeviceRxQueue_enqueue qb f pl)" "length (ports ?sw1) = length (ports sw)"
    using assms(16-20) by (simp_all add: VirtioSwitch_process_frame ports_forward)
  then have rx: "sw_rx ?S ?sw1 (router_port dB) = pending"
    using assms(19,21,27) by (simp add: bridge_switch_ops_def VirtioDeviceRxQueue_enqueue_def)
  have left: "sw_rx ?S (sw_set_rx ?S ?sw1 b ps) b = ps" for ps
    using port assms(19) by (simp add: bridge_switch_ops_def)
  have qB: "VirtioDevice_get_virtqueue_mut dB 0 = Ok q0" using assms(22) by (simp add: VirtioDevice_get_virtqueue_mut_def)
  have ev: "device_event OS L ?S strmA t (dA, sw, w) = kick_tx_event OS L ?S fd i (dA, sw, w)"
    "device_event OS L ?S strmB TOKEN_WAKE s = Some (wake_event L ?S s)" for s
    using assms(1-3) by (simp_all add: device_event_def TOKEN_WAKE_def TOKEN_STRM_def)
  have "\<exists>dB' sw2 w4. wake_event L ?S (dB, ?sw1, w3) = (Ok (), dB', sw2, w4) \<and>
      rv_used V w4 = rv_used V w3 @ map (\<lambda>(c, p). (lib_head_index L c, guest_bytes p)) (zip cs pending) \<and>
      sw_rx ?S sw2 b = drop (length cs) pending"
    if "rv_ok V w3" "rv_chains V (queue q0) w3 = cs" "\<forall>(c, p) \<in> set (zip cs pending). rx_fits V w3 c p" for w3 cs
    using wake_event_delivers [OF qB assms(25) that(1) assms(26,23,24) rx that(2,3) assms(28)] left assms(21) by auto
  with tx show ?thesis unfolding ev by simp
qed

section \<open>Two guests\<close>

definition sample_two_ports :: "nat bridge_port VirtioSwitch" where
  "sample_two_ports = \<lparr>ports = [VirtioPort \<lparr>rxq_queue = [], rxq_wakes = 0\<rparr>, VirtioPort \<lparr>rxq_queue = [], rxq_wakes = 0\<rparr>],
     cache = [MacAddress 2 0 0 0 0 2 \<mapsto> 1], logger = \<lparr>pcap_tx = None\<rparr>\<rparr>"

definition sample_sender :: sample_guest where
  "sample_sender = \<lparr>tx_chains_of = [(5, replicate 12 0 @ frame_bytes (pkt_frame sample_packet) @ [1, 2, 3])], rx_chains_of = [3],
     buffers_of = (\<lambda>_. []), used_of = [], sent_of = []\<rparr>"

theorem VirtioDevice_run_invariant_witness:
  "\<exists>d sw' r d' s'. VirtioDevice_new sample_vhost_os sample_lib (bridge_switch_ops (\<lambda>d f p. d)) sample_two_ports \<lparr>device_queues = 1\<rparr> = (Ok d, sw') \<and>
     VirtioDevice_run sample_vhost_os sample_lib (bridge_switch_ops (\<lambda>d f p. d)) 4 [Ok [1, 0]] (d, sw', sample_guest0) = Some (r, d', s') \<and>
     device_inv 2 2 1 d'"
proof -
  let ?S = "bridge_switch_ops (\<lambda>d f p. d) :: nat bridge_port VirtioSwitch switch_ops"
  have q: "VirtQueue_new sample_lib QUEUE_MAX_SIZE = Ok \<lparr>enabled = False, queue = 0, mem = None, desc_table = 0, avail_ring = 0,
      used_ring = 0, err_fd = None, call_fd = None, kick_fd = None\<rparr>"
    by (simp add: VirtQueue_new_def sample_lib_def)
  have "\<exists>qs. new_queues sample_lib (Suc (Suc 0)) = Ok qs" by (simp add: q)
  then obtain qs where qs: "new_queues sample_lib 2 = Ok qs" by (auto simp: numeral_2_eq_2)
  have c: "snd (sw_connect ?S sample_two_ports \<lparr>rxq_queue = [], rxq_wakes = 0\<rparr>) = 2"
    by (simp add: bridge_switch_ops_def VirtioSwitch_connect_def sample_two_ports_def)
  have "\<exists>d sw'. VirtioDevice_new sample_vhost_os sample_lib ?S sample_two_ports \<lparr>device_queues = 1\<rparr> = (Ok d, sw')"
    using qs by (simp add: VirtioDevice_new_def sample_vhost_os_def split: prod.splits)
  then obtain d sw' where d: "VirtioDevice_new sample_vhost_os sample_lib ?S sample_two_ports \<lparr>device_queues = 1\<rparr> = (Ok d, sw')" by blast
  have drain: "drain_stream sample_vhost_os sample_lib 4 (x, w) = Some (Ok (), x, w)" for x w
    by (subst drain_stream.simps)
      (simp add: VirtioDevice_read_stream_def read_header_def action_defs sample_vhost_os_def)
  have reg: "os_register sample_vhost_os w fd t = (Ok (), w)" for w fd t by (simp add: sample_vhost_os_def)
  obtain r1 d1 s1 where wk: "wake_event sample_lib ?S (d, sw', sample_guest0) = (r1, d1, s1)" by (metis prod_cases3)
  have "\<exists>r d' s'. VirtioDevice_run sample_vhost_os sample_lib ?S 4 [Ok [1, 0]] (d, sw', sample_guest0) = Some (r, d', s')"
    by (cases r1; cases s1)
      (simp_all add: VirtioDevice_run_def reg device_event_def TOKEN_STRM_def TOKEN_WAKE_def wk stream_event_def drain)
  then obtain r d' s' where run: "VirtioDevice_run sample_vhost_os sample_lib ?S 4 [Ok [1, 0]] (d, sw', sample_guest0) = Some (r, d', s')" by blast
  from VirtioDevice_run_invariant [OF d _ run] c have "device_inv 2 2 1 d'" by simp
  with d run show ?thesis by blast
qed

theorem Vhost_guest_to_guest_witness:
  "\<exists>dA' sw1 w2 dB' sw2 w4.
     device_event sample_vhost_os sample_lib (bridge_switch_ops (\<lambda>d f p. d)) 4 8 (sample_device, sample_two_ports, sample_sender) =
       Some (Ok (), dA', sw1, w2) \<and>
     device_event sample_vhost_os sample_lib (bridge_switch_ops (\<lambda>d f p. d)) 5 TOKEN_WAKE (sample_device\<lparr>router_port := 1\<rparr>, sw1, sample_sender) =
       Some (Ok (), dB', sw2, w4) \<and>
     used_of w4 = [(3, guest_bytes sample_packet)] \<and> sw_rx (bridge_switch_ops (\<lambda>d f p. d)) sw2 1 = []"
proof -
  let ?content = "\<lambda>c w. case map_of (tx_chains_of w) c of Some b \<Rightarrow> b | None \<Rightarrow> []"
  have k: "kick_count notify_bytes = Ok 1" by (simp add: kick_count_def notify_bytes_def buf_simps)
  have it: "lib_iter sample_lib (queue (queues sample_device ! 1)) () sample_sender = (Ok [5], 1)"
    by (simp add: sample_lib_def sample_device_def sample_queue_def sample_sender_def)
  have content: "?content 5 sample_sender = replicate 12 0 @ frame_bytes (pkt_frame sample_packet) @ [1, 2, 3]"
    by (simp add: sample_sender_def)
  have dev: "kick_fds sample_device 8 = Some (KickTx 8 1)" "(8 :: nat) \<noteq> TOKEN_STRM" "(8 :: nat) \<noteq> TOKEN_WAKE"
    "1 < length (queues sample_device)" "mem (queues sample_device ! 1) = Some ()" "enabled (queues sample_device ! 1)"
    by (simp_all add: sample_device_def sample_queue_def TOKEN_STRM_def TOKEN_WAKE_def)
  have rd: "os_read sample_vhost_os sample_sender 8 = (Ok notify_bytes, sample_sender)" by (simp add: sample_vhost_os_def)
  let ?f = "pkt_frame sample_packet"
  have sw: "cache sample_two_ports (frame_dst ?f) = Some 1" "frame_dst ?f \<noteq> frame_src ?f" "\<not> MacAddress_is_broadcast (frame_dst ?f)"
    "1 < length (ports sample_two_ports)" "ports sample_two_ports ! 1 = VirtioPort \<lparr>rxq_queue = [], rxq_wakes = 0\<rparr>"
    by (simp_all add: sample_two_ports_def sample_packet_def EthernetPacket_new_def EthernetFrame_new_def
        MacAddress_is_broadcast_def MacAddress_broadcast_def)
  have devB: "router_port (sample_device\<lparr>router_port := 1\<rparr>) = 1" "queues (sample_device\<lparr>router_port := 1\<rparr>) = sample_queue # [sample_queue]"
    "enabled sample_queue" "mem sample_queue = Some ()" by (simp_all add: sample_device_def sample_queue_def)
  have p: "EthernetPacket_new ?f [1, 2, 3] = sample_packet" by (simp add: sample_packet_def EthernetPacket_new_def)
  have len: "\<forall>p \<in> set [sample_packet]. length (guest_bytes p) < 2 ^ 32"
    by (simp add: guest_bytes_def sample_packet_def EthernetPacket_new_def)
  have tx: "tx_ready sample_lib (\<lambda>w. True) (\<lambda>w r. r) ?content () {5}" by (rule sample_tx_ready) simp
  have pend: "[sample_packet] = rxq_queue \<lparr>rxq_queue = [], rxq_wakes = 0\<rparr> @ [EthernetPacket_new ?f [1, 2, 3]]" using p by simp
  have ring: "rv_ok sample_view sample_sender \<and> rv_chains sample_view (queue sample_queue) sample_sender = [3] \<and>
      (\<forall>(c, p) \<in> set (zip [3] [sample_packet]). rx_fits sample_view sample_sender c p)"
    by (simp add: sample_view_def sample_queue_def sample_sender_def rx_fits_def guest_bytes_def sample_packet_def EthernetPacket_new_def)
  from Vhost_guest_to_guest [OF dev(1-4) rd k _ dev(5,6) it tx sample_notifies _ content _ sw devB sample_rx_ring sample_notifies pend len,
      of "\<lambda>d f p. d" 4 5]
  obtain dA' sw1 w2 where "device_event sample_vhost_os sample_lib (bridge_switch_ops (\<lambda>d f p. d)) 4 8 (sample_device, sample_two_ports, sample_sender) =
       Some (Ok (), dA', sw1, w2)"
    and B: "\<And>w3 cs. rv_ok sample_view w3 \<and> rv_chains sample_view (queue sample_queue) w3 = cs \<and>
        (\<forall>(c, p) \<in> set (zip cs [sample_packet]). rx_fits sample_view w3 c p) \<Longrightarrow>
      \<exists>dB' sw2 w4. device_event sample_vhost_os sample_lib (bridge_switch_ops (\<lambda>d f p. d)) 5 TOKEN_WAKE (sample_device\<lparr>router_port := 1\<rparr>, sw1, w3) =
         Some (Ok (), dB', sw2, w4) \<and>
         rv_used sample_view w4 = rv_used sample_view w3 @ map (\<lambda>(c, p). (lib_head_index sample_lib c, guest_bytes p)) (zip cs [sample_packet]) \<and>
         sw_rx (bridge_switch_ops (\<lambda>d f p. d)) sw2 1 = drop (length cs) [sample_packet]"
    by auto
  with B [OF ring] show ?thesis by (auto simp: sample_view_def sample_lib_def sample_sender_def)
qed

end
