(* ===== verification/Bridge_Run.thy ===== *)
theory Bridge_Run
  imports Bridge Bridge_Builder Capture Vhost_Run
begin

text \<open>
  A bridge that runs, \<open>Bridge::run\<close> of \<^verbatim>\<open>oathgate-bridge/src/lib.rs\<close> as a whole: its socket in the file system
  (\<open>VHostSocket::new\<close> of \<^verbatim>\<open>oathgate-vhost/src/vhost.rs\<close>), the poll loop of its main thread, and beside it the
  threads of the router, of the WAN, of the packet capture and of the connected devices. The threads are interleaved: one act of \<open>bridge_act\<close>
  is one operation on the state they share, the switch and the channels, under the lock that the source takes for it.
\<close>

section \<open>The socket file\<close>

record socket_os =
  so_pid :: nat
  so_unlink :: "string \<Rightarrow> (unit, string) res"
  so_bind :: "string \<Rightarrow> (unit, string) res"

definition path_exists :: "socket_fs \<Rightarrow> string \<Rightarrow> bool" where
  "path_exists fs path = (fs path \<noteq> None \<and> fs path \<noteq> Some DanglingLink)"

definition remove_file :: "socket_os \<Rightarrow> string \<Rightarrow> (unit, string, socket_fs) act" where
  "remove_file os path fs =
     (if fs path = None then (Err ''No such file or directory'', fs)
      else if fs path = Some Directory then (Err ''Is a directory'', fs)
      else case so_unlink os path of Ok _ \<Rightarrow> (Ok (), fs(path := None)) | r \<Rightarrow> (r, fs))"

definition UnixListener_bind :: "socket_os \<Rightarrow> string \<Rightarrow> (unit, string, socket_fs) act" where
  "UnixListener_bind os path fs =
     (if fs path \<noteq> None then (Err ''Address already in use'', fs)
      else case so_bind os path of Ok _ \<Rightarrow> (Ok (), fs(path \<mapsto> SocketFile (so_pid os))) | r \<Rightarrow> (r, fs))"

definition VHostSocket_new :: "socket_os \<Rightarrow> string \<Rightarrow> (unit, string, socket_fs) act" where
  "VHostSocket_new os path fs =
     bind (if path_exists fs path then remove_file os path else give (Ok ())) (\<lambda>_. UnixListener_bind os path) fs"

section \<open>The process\<close>

type_synonym bridge_router = "(BridgeHandler, RouterHandle bridge_port, WanHandle) Router"

datatype main_thread = Polling | Returned "(unit, BridgeError) res"

record ('q, 'h, 't) bridge_proc =
  bp_fs :: socket_fs
  bp_main :: main_thread
  bp_router :: bridge_router
  bp_router_runs :: bool
  bp_wan :: "'t WanDevice option"
  bp_sent :: "(SocketAddr \<times> bytes) list"
  bp_devices :: "(rawfd \<times> ('q, 'h) VirtioDevice) list"
  bp_capture :: "pcap_writer option"

record ('t, 'p, 'g, 'e, 'h, 'w, 'q, 'c, 'r, 'x, 'm, 'y) bridge_env =
  be_socket :: socket_os
  be_pcap :: pcap_lib
  be_os :: "('t, RouterHandle bridge_port) bridge_os"
  be_vhost :: "('p, 'g, 'e, 'h, 'w) vhost_os"
  be_lib :: "('q, 'h, 'c, 'r, 'x, 'w) virtio_lib"
  be_dhcproto :: "('m, 'y) dhcproto"
  be_wan_write :: wan_write_os
  be_wan :: "'t wan_env"

text \<open>What the router calls: the handlers, the ports of the switch and the handle of the WAN; \<open>rng\<close> is the id of a reply.\<close>

definition be_router ::
  "('t, 'p, 'g, 'e, 'h, 'w, 'q, 'c, 'r, 'x, 'm, 'y) bridge_env \<Rightarrow> u16 \<Rightarrow> (BridgeHandler, RouterHandle bridge_port, WanHandle) router_env" where
  "be_router E rng =
     \<lparr>env_handle = BridgeHandler_handle_protocol (be_dhcproto E), env_enqueue = bridge_port_enqueue RouterHandle_enqueue,
      env_wan_write = WanHandle_write (be_wan_write E), env_rng = rng\<rparr>"

text \<open>
  \<open>run\<close> up to the poll loop. The capture file is opened once there is a socket. A failure returns, and leaves the socket file
  and the capture where they are; the other threads end with the process.
\<close>

definition Bridge_capture :: "pcap_lib \<Rightarrow> string option \<Rightarrow> (unit, string) res \<Rightarrow> (pcap_writer option, NetworkError, socket_fs) act" where
  "Bridge_capture L pcap socket =
     (case (socket, pcap) of
        (Ok _, Some path) \<Rightarrow> bind (PcapLogger_spawn L path) (\<lambda>w. give (Ok (Some w)))
      | _ \<Rightarrow> give (Ok None))"

definition Bridge_run_start ::
  "('t, 'p, 'g, 'e, 'h, 'w, 'q, 'c, 'r, 'x, 'm, 'y) bridge_env \<Rightarrow> Config Bridge \<Rightarrow> socket_fs
     \<Rightarrow> (((unit, BridgeError) res \<times> socket_fs) + ('q, 'h, 't) bridge_proc) option" where
  "Bridge_run_start E self fs =
     (case VHostSocket_new (be_socket E) (br_socket_path self) fs of (socket, fs) \<Rightarrow>
       (case Bridge_capture (be_pcap E) (br_pcap self) socket fs of (capture, fs) \<Rightarrow>
         (case Bridge_start ((be_os E)\<lparr>bo_pcap_spawn := (\<lambda>_. and_then capture (\<lambda>_. Ok ())), bo_port := OtherPort\<rparr>)
                 (br_cfg self) (br_pcap self) socket of
            None \<Rightarrow> None
          | Some (Err e) \<Rightarrow> Some (Inl (Err e, fs))
          | Some Panic \<Rightarrow> Some (Inl (Panic, fs))
          | Some (Ok (router, wan)) \<Rightarrow>
              Some (Inr \<lparr>bp_fs = fs, bp_main = Polling, bp_router = router, bp_router_runs = True, bp_wan = wan, bp_sent = [],
                         bp_devices = [], bp_capture = (case capture of Ok w \<Rightarrow> w | _ \<Rightarrow> None)\<rparr>))))"

section \<open>The main thread\<close>

datatype bridge_event =
    VhostReadable "(rawfd, string) res" "(unit, string) res"
  | SignalReadable "(u32 option, string) res"
  | UnknownToken nat

definition set_switch :: "RouterHandle bridge_port VirtioSwitch \<Rightarrow> ('q, 'h, 't) bridge_proc \<Rightarrow> ('q, 'h, 't) bridge_proc" where
  "set_switch sw s = s\<lparr>bp_router := (bp_router s)\<lparr>rt_switch := sw\<rparr>\<rparr>"

text \<open>The events of one \<open>poll\<close>: whether \<open>SIGTERM\<close> (15) broke the loop. A failed accept or signal read is logged.\<close>

fun Bridge_events ::
  "('t, 'p, 'g, 'e, 'h, 'w, 'q, 'c, 'r, 'x, 'm, 'y) bridge_env \<Rightarrow> bridge_event list \<Rightarrow> ('q, 'h, 't) bridge_proc
     \<Rightarrow> (bool, BridgeError) res \<times> ('q, 'h, 't) bridge_proc" where
  "Bridge_events E [] s = (Ok False, s)"
| "Bridge_events E (VhostReadable accept spawn # es) s =
     (case VHostSocket_accept_and_spawn (be_vhost E) (be_lib E) (bridge_switch_ops RouterHandle_enqueue) accept spawn
             DeviceOpts_default (rt_switch (bp_router s)) of
        (Ok dev, sw) \<Rightarrow> Bridge_events E es ((set_switch sw s)\<lparr>bp_devices := bp_devices s @ [dev]\<rparr>)
      | (Err e, sw) \<Rightarrow> Bridge_events E es (set_switch sw s)
      | (Panic, sw) \<Rightarrow> (Panic, set_switch sw s))"
| "Bridge_events E (SignalReadable r # es) s =
     (case r of
        Ok (Some signo) \<Rightarrow> if signo = 15 then (Ok True, s) else Bridge_events E es s
      | _ \<Rightarrow> Bridge_events E es s)"
| "Bridge_events E (UnknownToken t # es) s = Bridge_events E es s"

text \<open>One turn of the poll loop, and the end of \<open>run\<close>: the socket file is removed only after \<open>SIGTERM\<close>.\<close>

definition Bridge_poll ::
  "('t, 'p, 'g, 'e, 'h, 'w, 'q, 'c, 'r, 'x, 'm, 'y) bridge_env \<Rightarrow> string \<Rightarrow> (bridge_event list, string) res \<Rightarrow> ('q, 'h, 't) bridge_proc
     \<Rightarrow> ('q, 'h, 't) bridge_proc" where
  "Bridge_poll E socket_path r s =
     (case r of
        Err e \<Rightarrow> s\<lparr>bp_main := Returned (Err (BridgeIO e))\<rparr>
      | Panic \<Rightarrow> s\<lparr>bp_main := Returned Panic\<rparr>
      | Ok es \<Rightarrow>
          (case Bridge_events E es s of
             (Ok False, s) \<Rightarrow> s
           | (Ok True, s) \<Rightarrow>
               s\<lparr>bp_fs := snd (remove_file (be_socket E) socket_path (bp_fs s)), bp_main := Returned (Ok ())\<rparr>
           | (Err e, s) \<Rightarrow> s\<lparr>bp_main := Returned (Err e)\<rparr>
           | (Panic, s) \<Rightarrow> s\<lparr>bp_main := Returned Panic\<rparr>))"

section \<open>The other threads\<close>

text \<open>The channel of the router is in its port of the switch; the WAN has the other sender of it.\<close>

fun port_handle :: "RouterHandle bridge_port \<Rightarrow> RouterHandle" where
  "port_handle (OtherPort h) = h"
| "port_handle (VirtioPort q) = \<lparr>rh_tx = []\<rparr>"

definition inbox :: "('q, 'h, 't) bridge_proc \<Rightarrow> RouterMsg list" where
  "inbox s = rh_tx (port_handle (ports (rt_switch (bp_router s)) ! rt_port (bp_router s)))"

definition set_inbox :: "RouterMsg list \<Rightarrow> ('q, 'h, 't) bridge_proc \<Rightarrow> ('q, 'h, 't) bridge_proc" where
  "set_inbox ms s =
     (let sw = rt_switch (bp_router s) in
      set_switch (sw\<lparr>ports := (ports sw)[rt_port (bp_router s) := OtherPort \<lparr>rh_tx = ms\<rparr>]\<rparr>) s)"

text \<open>The router receives a message and handles it; a panic ends its thread.\<close>

definition router_step ::
  "('t, 'p, 'g, 'e, 'h, 'w, 'q, 'c, 'r, 'x, 'm, 'y) bridge_env \<Rightarrow> u16 \<Rightarrow> ('q, 'h, 't) bridge_proc \<Rightarrow> ('q, 'h, 't) bridge_proc" where
  "router_step E rng s =
     (case inbox s of
        m # ms \<Rightarrow>
          if bp_router_runs s then
            (case Router_turn (be_router E rng) (bp_router (set_inbox ms s)) m of
               (r, router) \<Rightarrow> s\<lparr>bp_router := router, bp_router_runs := (r \<noteq> Panic)\<rparr>)
          else s
      | [] \<Rightarrow> s)"

text \<open>An event of the WAN thread; an error or a panic ends it, and its device is dropped.\<close>

definition wan_step ::
  "('t, 'p, 'g, 'e, 'h, 'w, 'q, 'c, 'r, 'x, 'm, 'y) bridge_env \<Rightarrow> wan_event \<Rightarrow> ('q, 'h, 't) bridge_proc \<Rightarrow> ('q, 'h, 't) bridge_proc option" where
  "wan_step E ev s =
     (case (bp_wan s, rt_wan (bp_router s)) of
        (Some dev, Some handle) \<Rightarrow>
          map_option (\<lambda>(r, w).
              let s = set_inbox (rh_tx (wn_router w)) s;
                  ended = (case r of Ok _ \<Rightarrow> False | _ \<Rightarrow> True)
              in s\<lparr>bp_wan := (if ended then None else Some (wn_dev w)), bp_sent := wn_sent w,
                   bp_router := (bp_router s)\<lparr>rt_wan := Some (if ended then WanHandle_hangup (wn_handle w) else wn_handle w)\<rparr>\<rparr>)
            (Wan_event (be_wan E) \<lparr>wn_dev = dev, wn_handle = handle, wn_router = \<lparr>rh_tx = inbox s\<rparr>, wn_sent = bp_sent s\<rparr> ev)
      | _ \<Rightarrow> Some s)"

text \<open>
  The thread of a device gives the switch a frame of its guest, and takes pending frames from its port (all but the last
  \<open>n\<close>).
\<close>

definition guest_sends ::
  "('t, 'p, 'g, 'e, 'h, 'w, 'q, 'c, 'r, 'x, 'm, 'y) bridge_env \<Rightarrow> nat \<Rightarrow> bytes \<Rightarrow> ('q, 'h, 't) bridge_proc \<Rightarrow> ('q, 'h, 't) bridge_proc" where
  "guest_sends E i pkt s =
     set_switch (snd (sw_process (bridge_switch_ops RouterHandle_enqueue) (rt_switch (bp_router s)) i pkt)) s"

definition guest_takes :: "nat \<Rightarrow> nat \<Rightarrow> ('q, 'h, 't) bridge_proc \<Rightarrow> ('q, 'h, 't) bridge_proc" where
  "guest_takes i n s =
     (let S = bridge_switch_ops RouterHandle_enqueue; sw = rt_switch (bp_router s); rx = sw_rx S sw i in
      set_switch (sw_set_rx S sw i (drop (length rx - n) rx)) s)"

text \<open>The capture thread writes the record of a packet, up to \<open>n\<close> bytes of it.\<close>

definition capture_step_of ::
  "('t, 'p, 'g, 'e, 'h, 'w, 'q, 'c, 'r, 'x, 'm, 'y) bridge_env \<Rightarrow> nat option \<Rightarrow> nat \<Rightarrow> ('q, 'h, 't) bridge_proc \<Rightarrow> ('q, 'h, 't) bridge_proc" where
  "capture_step_of E now n s =
     (let c = pcap_turn (be_pcap E) now n \<lparr>cp_switch = rt_switch (bp_router s), cp_writer = bp_capture s, cp_fs = bp_fs s\<rparr>
      in (set_switch (cp_switch c) s)\<lparr>bp_capture := cp_writer c, bp_fs := cp_fs c\<rparr>)"

datatype bridge_act =
    MainPoll "(bridge_event list, string) res"
  | RouterStep u16
  | WanStep wan_event
  | GuestSends nat bytes
  | GuestTakes nat nat
  | CaptureStep "nat option" nat

text \<open>One act of a process whose main thread has not returned; a device acts on its own port.\<close>

definition bridge_act ::
  "('t, 'p, 'g, 'e, 'h, 'w, 'q, 'c, 'r, 'x, 'm, 'y) bridge_env \<Rightarrow> string \<Rightarrow> ('q, 'h, 't) bridge_proc \<Rightarrow> bridge_act \<Rightarrow> ('q, 'h, 't) bridge_proc option" where
  "bridge_act E socket_path s a =
     (if bp_main s \<noteq> Polling then None
      else case a of
        MainPoll r \<Rightarrow> Some (Bridge_poll E socket_path r s)
      | RouterStep rng \<Rightarrow> Some (router_step E rng s)
      | WanStep ev \<Rightarrow> wan_step E ev s
      | GuestSends i pkt \<Rightarrow> if i \<in> (router_port \<circ> snd) ` set (bp_devices s) then Some (guest_sends E i pkt s) else None
      | GuestTakes i n \<Rightarrow> if i \<in> (router_port \<circ> snd) ` set (bp_devices s) then Some (guest_takes i n s) else None
      | CaptureStep now n \<Rightarrow> Some (capture_step_of E now n s))"

fun bridge_acts ::
  "('t, 'p, 'g, 'e, 'h, 'w, 'q, 'c, 'r, 'x, 'm, 'y) bridge_env \<Rightarrow> string \<Rightarrow> ('q, 'h, 't) bridge_proc \<Rightarrow> bridge_act list \<Rightarrow> ('q, 'h, 't) bridge_proc option" where
  "bridge_acts E socket_path s [] = Some s"
| "bridge_acts E socket_path s (a # as) = Option.bind (bridge_act E socket_path s a) (\<lambda>s. bridge_acts E socket_path s as)"

section \<open>What every act keeps\<close>

text \<open>The router has the first port; all others are those of devices.\<close>

fun is_router_port :: "'d bridge_port \<Rightarrow> bool" where
  "is_router_port (OtherPort d) = True"
| "is_router_port (VirtioPort q) = False"

definition port_kinds :: "'d bridge_port VirtioSwitch \<Rightarrow> bool list" where
  "port_kinds sw = map is_router_port (ports sw)"

lemma is_router_port_enqueue [simp]: "is_router_port (bridge_port_enqueue enq d f p) = is_router_port d"
  by (cases d) simp_all

lemma is_router_port_set_rx [simp]: "is_router_port (bridge_port_set_rx ps d) = is_router_port d"
  by (cases d) simp_all

lemma length_port_kinds [simp]: "length (port_kinds sw) = length (ports sw)"
  by (simp add: port_kinds_def)

lemma port_kinds_process [simp]:
  "port_kinds (snd (VirtioSwitch_process (bridge_port_enqueue enq) sw i pkt)) = port_kinds sw"
proof (cases rule: process_cases [where pkt = pkt and enq = "bridge_port_enqueue enq" and sw = sw and port = i])
  case (frame f pl)
  show ?thesis
    by (rule nth_equalityI) (auto simp: frame port_kinds_def VirtioSwitch_process_frame ports_forward)
qed (simp add: port_kinds_def)

lemma length_ports_process [simp]:
  "length (ports (snd (VirtioSwitch_process (bridge_port_enqueue enq) sw i pkt))) = length (ports sw)"
  by (metis length_port_kinds port_kinds_process)

lemma cache_valid_process:
  "cache_valid sw \<Longrightarrow> i < length (ports sw) \<Longrightarrow> cache_valid (snd (VirtioSwitch_process enq sw i pkt))"
  using cache_valid_step [of sw "Process i pkt" enq] by simp

lemma port_kinds_set_rx [simp]: "port_kinds (sw_set_rx (bridge_switch_ops enq) sw i ps) = port_kinds sw"
  by (auto simp: bridge_switch_ops_def port_kinds_def map_update list_update_same_conv)

text \<open>A frame through the switch, whatever the router does with a message.\<close>

definition switch_ok :: "'d bridge_port VirtioSwitch \<Rightarrow> bool" where
  "switch_ok sw \<longleftrightarrow> cache_valid sw \<and> (\<exists>n. port_kinds sw = True # replicate n False)"

lemma switch_ok_process:
  "switch_ok sw \<Longrightarrow> i < length (ports sw) \<Longrightarrow> switch_ok (snd (VirtioSwitch_process (bridge_port_enqueue enq) sw i pkt))"
  by (simp add: switch_ok_def cache_valid_process)

lemma switch_ok_connect:
  assumes "switch_ok sw"
  shows "switch_ok (fst (VirtioSwitch_connect sw (VirtioPort q)))"
proof -
  have "cache_valid (fst (VirtioSwitch_connect sw (VirtioPort q)))"
    using assms cache_valid_step [of sw "Connect (VirtioPort q)"] by (simp add: switch_ok_def)
  moreover obtain n where "port_kinds sw = True # replicate n False" using assms by (auto simp: switch_ok_def)
  then have "port_kinds (fst (VirtioSwitch_connect sw (VirtioPort q))) = True # replicate (Suc n) False"
    by (simp add: VirtioSwitch_connect_def port_kinds_def replicate_append_same)
  ultimately show ?thesis unfolding switch_ok_def by blast
qed

lemma switch_ok_nonempty: "switch_ok sw \<Longrightarrow> 0 < length (ports sw)"
  by (metis length_port_kinds length_greater_0_conv list.distinct(1) switch_ok_def)

text \<open>What a message leaves alone in the router, and how it uses the switch and the WAN.\<close>

definition router_uses ::
  "('p, 'd, 'w) router_env \<Rightarrow> ('p, 'd, 'w) Router \<Rightarrow> ('p, 'd, 'w) Router \<Rightarrow> bool" where
  "router_uses E r r' \<longleftrightarrow> rt_port r' = rt_port r \<and> rt_network r' = rt_network r \<and> rt_mac r' = rt_mac r \<and>
     (rt_switch r' = rt_switch r \<or>
      (\<exists>pkt. rt_switch r' = snd (VirtioSwitch_process (env_enqueue E) (rt_switch r) (rt_port r) pkt))) \<and>
     (rt_wan r' = rt_wan r \<or> (\<exists>w p. rt_wan r = Some w \<and> rt_wan r' = Some (snd (env_wan_write E w p))))"

definition same_links :: "('p, 'd, 'w) Router \<Rightarrow> ('p, 'd, 'w) Router \<Rightarrow> bool" where
  "same_links r r' \<longleftrightarrow> rt_port r' = rt_port r \<and> rt_network r' = rt_network r \<and> rt_mac r' = rt_mac r \<and>
     rt_switch r' = rt_switch r \<and> rt_wan r' = rt_wan r"

lemma same_links_action:
  "same_links r (snd (Router_handle_arp r b))" "same_links r (snd (Router_route_ip4 E r p))" "same_links r (snd (Router_route_ip6 r b))"
  by (auto simp: same_links_def Router_handle_arp_def Router_route_ip4_def Router_handle_local_ipv4_def Router_route_ip6_def Let_def
      split: res.splits option.splits prod.splits)

lemma router_uses_perform:
  assumes "same_links r (snd ra)"
  shows "router_uses E r (snd (Router_perform E dst ra))"
proof -
  have "router_uses E r' (snd (Router_handle_action E r' a d))" for r' a d
    by (auto simp: router_uses_def Router_handle_action_def Router_forward_packet_def Router_write_to_switch_def Let_def
        split: RouterAction.splits option.splits res.splits prod.splits)
      (metis snd_conv)+
  then have "router_uses E (snd ra) (snd (Router_perform E dst ra))"
    by (auto simp: Router_perform_def router_uses_def split: prod.splits res.splits)
  with assms show ?thesis by (simp add: router_uses_def same_links_def)
qed

lemma router_uses_turn: "router_uses E r (snd (Router_turn E r m))"
proof (cases m)
  case (FromLan pkt)
  have "same_links r (snd (case Ipv4Packet_parse b of Ok p \<Rightarrow> Router_route_ip4 E r p | Err e \<Rightarrow> (Err e, r) | Panic \<Rightarrow> (Panic, r)))" for b
    using same_links_action(2) by (auto simp: same_links_def split: res.splits)
  with FromLan show ?thesis
    using same_links_action by (auto simp: Router_route_def intro!: router_uses_perform split: EtherType.splits)
qed (simp add: router_uses_perform same_links_action)

section \<open>The provider and its handle\<close>

text \<open>The router has the handle of the provider that runs, and the provider the other end of its channel.\<close>

fun same_provider :: "'t WanDevice \<Rightarrow> WanHandle \<Rightarrow> bool" where
  "same_provider (WanTap dev) (HandleTap h) = ch_open (tth_tx h)"
| "same_provider (WanUdp dev) (HandleUdp h) = (udh_sock h = udp_sock dev \<and> udh_dests h = udp_dests dev)"
| "same_provider (WanWg dev) (HandleWg h) = ch_open (wgh_tx h)"
| "same_provider _ _ = False"

lemma Wan_spawn_same_provider: "Wan_spawn os dev = Ok h \<Longrightarrow> same_provider dev h"
  by (cases dev)
    (auto simp: Wan_spawn_def and_then_eq_Ok TunTap_as_wan_handle_def UdpDevice_as_wan_handle_def WgDevice_as_wan_handle_def)

lemma UdpDeviceHandle_send_keeps:
  "UdpDeviceHandle_send sendmsg ds h pkt = (r, h') \<Longrightarrow> udh_sock h' = udh_sock h \<and> udh_dests h' = udh_dests h"
  by (induction ds arbitrary: h) (auto split: res.splits)

lemma WanHandle_write_same_provider: "same_provider dev h \<Longrightarrow> same_provider dev (snd (WanHandle_write os h pkt))"
  by (cases dev; cases h)
    (auto simp: TunTapHandle_write_def WgHandle_write_def UdpDeviceHandle_write_def channel_send_def
      split: prod.splits dest!: UdpDeviceHandle_send_keeps)

lemma Wan_event_same_provider:
  assumes "Wan_event E w ev = Some (r, w')" and "same_provider (wn_dev w) (wn_handle w)"
  shows "same_provider (wn_dev w') (wn_handle w')"
proof (cases "wn_dev w")
  case (WanTap dev)
  with assms obtain h where "wn_handle w = HandleTap h" by (cases "wn_handle w") simp_all
  with assms WanTap show ?thesis by (auto simp: Wan_event.simps Let_def channel_take_def split: wan_event.splits)
next
  case (WanUdp dev)
  with assms obtain h where "wn_handle w = HandleUdp h" by (cases "wn_handle w") simp_all
  with assms WanUdp show ?thesis by (auto simp: Wan_event.simps split: wan_event.splits prod.splits)
next
  case (WanWg dev)
  with assms obtain h where "wn_handle w = HandleWg h" by (cases "wn_handle w") simp_all
  with assms WanWg show ?thesis by (auto simp: Wan_event.simps channel_take_def split: wan_event.splits)
qed

section \<open>The invariant of the process\<close>

definition device_ports :: "('q, 'h, 't) bridge_proc \<Rightarrow> nat list" where
  "device_ports s = map (router_port \<circ> snd) (bp_devices s)"

definition links_ok :: "('q, 'h, 't) bridge_proc \<Rightarrow> bool" where
  "links_ok s \<longleftrightarrow> switch_ok (rt_switch (bp_router s)) \<and> rt_port (bp_router s) = 0 \<and>
     distinct (device_ports s) \<and> set (device_ports s) \<subseteq> {0<..<length (ports (rt_switch (bp_router s)))} \<and>
     (\<forall>dev. bp_wan s = Some dev \<longrightarrow> (\<exists>h. rt_wan (bp_router s) = Some h \<and> same_provider dev h))"

lemma set_switch_simps [simp]:
  "rt_switch (bp_router (set_switch sw s)) = sw" "rt_port (bp_router (set_switch sw s)) = rt_port (bp_router s)"
  "rt_wan (bp_router (set_switch sw s)) = rt_wan (bp_router s)" "rt_handlers (bp_router (set_switch sw s)) = rt_handlers (bp_router s)"
  "bp_fs (set_switch sw s) = bp_fs s" "bp_main (set_switch sw s) = bp_main s" "bp_wan (set_switch sw s) = bp_wan s"
  "bp_devices (set_switch sw s) = bp_devices s" "bp_sent (set_switch sw s) = bp_sent s"
  "bp_router_runs (set_switch sw s) = bp_router_runs s" "device_ports (set_switch sw s) = device_ports s"
  "bp_capture (set_switch sw s) = bp_capture s"
  by (simp_all add: set_switch_def device_ports_def)

lemma links_ok_set_switch:
  assumes "links_ok s" and "switch_ok sw" and "length (ports (rt_switch (bp_router s))) \<le> length (ports sw)"
  shows "links_ok (set_switch sw s)"
  using assms by (fastforce simp: links_ok_def)

lemma switch_ok_update:
  assumes "switch_ok sw" and "port_kinds (sw\<lparr>ports := ps\<rparr>) = port_kinds sw"
  shows "switch_ok (sw\<lparr>ports := ps\<rparr>)"
proof -
  have "length ps = length (ports sw)" using arg_cong [OF assms(2), of length] by simp
  with assms show ?thesis by (simp add: switch_ok_def cache_valid_def)
qed

lemma links_ok_set_inbox:
  assumes "links_ok s"
  shows "links_ok (set_inbox ms s)"
proof -
  let ?sw = "rt_switch (bp_router s)"
  have p: "rt_port (bp_router s) = 0" "switch_ok ?sw" using assms by (simp_all add: links_ok_def)
  then have "is_router_port (ports ?sw ! 0)"
    using switch_ok_nonempty [OF p(2)] by (auto simp: switch_ok_def port_kinds_def)
  then have "port_kinds (?sw\<lparr>ports := (ports ?sw)[0 := OtherPort \<lparr>rh_tx = ms\<rparr>]\<rparr>) = port_kinds ?sw"
    using switch_ok_nonempty [OF p(2)] by (simp add: port_kinds_def map_update list_update_same_conv)
  from switch_ok_update [OF p(2) this] show ?thesis
    unfolding set_inbox_def Let_def p(1) by (intro links_ok_set_switch [OF assms]) simp_all
qed

text \<open>Each act keeps the links.\<close>

lemma links_ok_router:
  assumes "links_ok s" and "router_uses E (bp_router s) r" and "env_enqueue E = bridge_port_enqueue enq"
    and "env_wan_write E = WanHandle_write os"
  shows "links_ok (s\<lparr>bp_router := r, bp_router_runs := b\<rparr>)"
proof -
  let ?sw = "rt_switch (bp_router s)"
  have ok: "switch_ok ?sw" "rt_port (bp_router s) = 0" using assms(1) by (simp_all add: links_ok_def)
  have "switch_ok (rt_switch r) \<and> length (ports (rt_switch r)) = length (ports ?sw)"
    using assms(2,3) ok switch_ok_process [OF ok(1) switch_ok_nonempty [OF ok(1)]]
    by (auto simp: router_uses_def)
  moreover have "\<exists>h. rt_wan r = Some h \<and> same_provider dev h" if dev: "bp_wan s = Some dev" for dev
  proof -
    obtain h where h: "rt_wan (bp_router s) = Some h" "same_provider dev h" using assms(1) dev by (auto simp: links_ok_def)
    then show ?thesis using assms(2,4) WanHandle_write_same_provider [OF h(2)] by (auto simp: router_uses_def)
  qed
  ultimately show ?thesis using assms(1,2) by (auto simp: links_ok_def router_uses_def device_ports_def)
qed

lemma links_ok_router_step:
  assumes "links_ok s"
  shows "links_ok (router_step E rng s)"
proof (cases "inbox s")
  case (Cons m ms)
  obtain x r where r: "Router_turn (be_router E rng) (bp_router (set_inbox ms s)) m = (x, r)" by fastforce
  then have "router_uses (be_router E rng) (bp_router (set_inbox ms s)) r"
    using router_uses_turn [of "be_router E rng" "bp_router (set_inbox ms s)" m] by simp
  from links_ok_router [OF links_ok_set_inbox [OF assms] this, where b = "x \<noteq> Panic"]
  have "links_ok ((set_inbox ms s)\<lparr>bp_router := r, bp_router_runs := (x \<noteq> Panic)\<rparr>)" by (simp add: be_router_def)
  then show ?thesis
    using assms r Cons by (simp add: router_step_def set_inbox_def set_switch_def Let_def)
qed (use assms in \<open>simp add: router_step_def\<close>)

lemma links_ok_wan:
  assumes "links_ok s" and "\<And>dev. wan = Some dev \<Longrightarrow> same_provider dev h"
  shows "links_ok (s\<lparr>bp_wan := wan, bp_sent := sent, bp_router := (bp_router s)\<lparr>rt_wan := Some h\<rparr>\<rparr>)"
  using assms by (simp add: links_ok_def device_ports_def)

lemma links_ok_wan_step:
  assumes "links_ok s" and "wan_step E ev s = Some s'"
  shows "links_ok s'"
proof (cases "bp_wan s")
  case (Some dev)
  then obtain h where h: "rt_wan (bp_router s) = Some h" "same_provider dev h" using assms(1) by (auto simp: links_ok_def)
  let ?w = "\<lparr>wn_dev = dev, wn_handle = h, wn_router = \<lparr>rh_tx = inbox s\<rparr>, wn_sent = bp_sent s\<rparr>"
  obtain r w where w: "Wan_event (be_wan E) ?w ev = Some (r, w)"
    using assms(2) Some h by (auto simp: wan_step_def)
  have "same_provider (wn_dev w) (wn_handle w)" using Wan_event_same_provider [OF w] h(2) by simp
  then show ?thesis
    using assms(2) Some h w
    by (auto simp: wan_step_def Let_def intro!: links_ok_wan [OF links_ok_set_inbox [OF assms(1)]] split: if_splits)
qed (use assms in \<open>simp add: wan_step_def\<close>)

lemma links_ok_accept:
  assumes "links_ok s"
    and "VHostSocket_accept_and_spawn OS L (bridge_switch_ops RouterHandle_enqueue) accept spawn opts (rt_switch (bp_router s)) = (r, sw)"
  shows "links_ok (set_switch sw s)" "r = Ok dev \<Longrightarrow> links_ok ((set_switch sw s)\<lparr>bp_devices := bp_devices s @ [dev]\<rparr>)"
proof -
  let ?sw = "rt_switch (bp_router s)"
  have ok: "switch_ok ?sw" using assms(1) by (simp add: links_ok_def)
  define q :: VirtioDeviceRxQueue where "q = \<lparr>rxq_queue = [], rxq_wakes = 0\<rparr>"
  have new: "sw = ?sw \<or> sw = fst (VirtioSwitch_connect ?sw (VirtioPort q))"
    "r = Ok dev \<Longrightarrow> sw = fst (VirtioSwitch_connect ?sw (VirtioPort q)) \<and> router_port (snd dev) = length (ports ?sw)"
    using assms(2)
    by (auto simp: VHostSocket_accept_and_spawn_def VirtioDevice_new_def bridge_switch_ops_def VirtioSwitch_connect_def Let_def q_def
        and_then_eq_Ok split: res.splits prod.splits)
  have sw: "switch_ok sw" "length (ports ?sw) \<le> length (ports sw)"
    using new(1) ok switch_ok_connect [OF ok, of q] by (auto simp: VirtioSwitch_connect_def)
  show s': "links_ok (set_switch sw s)" by (rule links_ok_set_switch [OF assms(1) sw])
  show "links_ok ((set_switch sw s)\<lparr>bp_devices := bp_devices s @ [dev]\<rparr>)" if "r = Ok dev"
    using s' new(2) [OF that] assms(1) switch_ok_nonempty [OF ok]
    by (fastforce simp: links_ok_def device_ports_def VirtioSwitch_connect_def)
qed

lemma links_ok_events: "links_ok s \<Longrightarrow> links_ok (snd (Bridge_events E es s))"
proof (induction E es s rule: Bridge_events.induct)
  case (2 E accept spawn es s)
  obtain r sw where r: "VHostSocket_accept_and_spawn (be_vhost E) (be_lib E) (bridge_switch_ops RouterHandle_enqueue) accept spawn
      DeviceOpts_default (rt_switch (bp_router s)) = (r, sw)" by fastforce
  from links_ok_accept [OF 2(3) r] 2 r show ?case by (cases r) auto
qed (auto split: res.splits option.splits)

lemma device_port_bound: "links_ok s \<Longrightarrow> i \<in> (router_port \<circ> snd) ` set (bp_devices s) \<Longrightarrow> i < length (ports (rt_switch (bp_router s)))"
  by (auto simp: links_ok_def device_ports_def)

lemma links_ok_main [simp]:
  "links_ok (s\<lparr>bp_main := m\<rparr>) = links_ok s" "links_ok (s\<lparr>bp_fs := fs\<rparr>) = links_ok s"
  "links_ok (s\<lparr>bp_capture := w\<rparr>) = links_ok s"
  by (simp_all add: links_ok_def device_ports_def)

lemma links_ok_poll:
  assumes "links_ok s"
  shows "links_ok (Bridge_poll E path r s)"
proof (cases r)
  case (Ok es)
  obtain x t where "Bridge_events E es s = (x, t)" by fastforce
  with Ok assms links_ok_events [OF assms, of E es] show ?thesis
    by (auto simp: Bridge_poll_def split: res.splits bool.splits)
qed (use assms in \<open>simp_all add: Bridge_poll_def\<close>)

lemma links_ok_capture:
  assumes "links_ok s"
  shows "links_ok (capture_step_of E now n s)"
proof -
  have ok: "switch_ok (rt_switch (bp_router s))" using assms by (simp add: links_ok_def)
  obtain l where l: "cp_switch (pcap_turn (be_pcap E) now n \<lparr>cp_switch = rt_switch (bp_router s), cp_writer = bp_capture s, cp_fs = bp_fs s\<rparr>) =
      (rt_switch (bp_router s))\<lparr>logger := l\<rparr>"
    using pcap_turn_switch [of "be_pcap E" now n "\<lparr>cp_switch = rt_switch (bp_router s), cp_writer = bp_capture s, cp_fs = bp_fs s\<rparr>"] by auto
  have "switch_ok ((rt_switch (bp_router s))\<lparr>logger := l\<rparr>)"
    using ok by (simp add: switch_ok_def cache_valid_def port_kinds_def)
  from links_ok_set_switch [OF assms this] show ?thesis by (simp add: capture_step_of_def Let_def l)
qed

lemma links_ok_act:
  assumes "links_ok s" and "bridge_act E path s a = Some s'"
  shows "links_ok s'"
proof (cases a)
  case (GuestSends i pkt)
  with assms have i: "i < length (ports (rt_switch (bp_router s)))" and s': "s' = guest_sends E i pkt s"
    using device_port_bound by (auto simp: bridge_act_def split: if_splits)
  have "switch_ok (rt_switch (bp_router s))" using assms(1) by (simp add: links_ok_def)
  from switch_ok_process [OF this i] show ?thesis
    unfolding s' guest_sends_def by (intro links_ok_set_switch [OF assms(1)]) (simp_all add: bridge_switch_ops_def)
next
  case (GuestTakes i n)
  then have s': "s' = guest_takes i n s" using assms(2) by (auto simp: bridge_act_def split: if_splits)
  have ok: "switch_ok (rt_switch (bp_router s))" using assms(1) by (simp add: links_ok_def)
  have "switch_ok (sw_set_rx (bridge_switch_ops RouterHandle_enqueue) (rt_switch (bp_router s)) i ps)
      \<and> length (ports (sw_set_rx (bridge_switch_ops RouterHandle_enqueue) (rt_switch (bp_router s)) i ps)) = length (ports (rt_switch (bp_router s)))" for ps
    using ok port_kinds_set_rx [of RouterHandle_enqueue "rt_switch (bp_router s)" i ps]
    by (auto simp: bridge_switch_ops_def intro!: switch_ok_update [OF ok])
  then show ?thesis unfolding s' guest_takes_def Let_def by (intro links_ok_set_switch [OF assms(1)]) simp_all
qed (use assms links_ok_wan_step links_ok_poll links_ok_router_step links_ok_capture in \<open>auto simp: bridge_act_def split: if_splits\<close>)

section \<open>The file of the socket\<close>

text \<open>The events change neither the files nor the handlers; of the other threads only the capture touches the files.\<close>

lemma Bridge_events_keeps:
  "bp_fs (snd (Bridge_events E es s)) = bp_fs s" "bp_main (snd (Bridge_events E es s)) = bp_main s"
  "rt_handlers (bp_router (snd (Bridge_events E es s))) = rt_handlers (bp_router s)"
  "bp_capture (snd (Bridge_events E es s)) = bp_capture s"
  by (induction E es s rule: Bridge_events.induct) (auto split: res.splits option.splits prod.splits)

lemma threads_keep_files:
  assumes "bridge_act E path s a = Some s'" and "\<And>r. a \<noteq> MainPoll r" and "\<And>now n. a \<noteq> CaptureStep now n"
  shows "bp_fs s' = bp_fs s" "bp_main s' = bp_main s" "bp_capture s' = bp_capture s"
  using assms
  by (cases a; auto simp: bridge_act_def router_step_def wan_step_def set_inbox_def guest_sends_def guest_takes_def Let_def
      split: if_splits list.splits option.splits prod.splits)+

definition socket_left :: "socket_os \<Rightarrow> string \<Rightarrow> main_thread \<Rightarrow> fs_node option" where
  "socket_left os path m = (if m = Returned (Ok ()) \<and> so_unlink os path = Ok () then None else Some (SocketFile (so_pid os)))"

text \<open>The capture file has the header and what the thread wrote, over what it had at the start.\<close>

definition files_ok ::
  "('t, 'p, 'g, 'e, 'h, 'w, 'q, 'c, 'r, 'x, 'm, 'y) bridge_env \<Rightarrow> Config Bridge \<Rightarrow> socket_fs \<Rightarrow> ('q, 'h, 't) bridge_proc \<Rightarrow> bool" where
  "files_ok E self fs s \<longleftrightarrow>
     bp_fs s (br_socket_path self) = socket_left (be_socket E) (br_socket_path self) (bp_main s) \<and>
     (\<forall>p. p \<noteq> br_socket_path self \<longrightarrow> br_pcap self \<noteq> Some p \<longrightarrow> bp_fs s p = fs p) \<and>
     (case br_pcap self of
        None \<Rightarrow> bp_capture s = None
      | Some path \<Rightarrow> path \<noteq> br_socket_path self \<and>
          (\<exists>b. captured fs path (snd (pl_header (be_pcap E)) @ b) (bp_capture s) (bp_fs s)))"

lemma files_ok_poll:
  assumes "files_ok E self fs s" and "bp_main s = Polling"
  shows "files_ok E self fs (Bridge_poll E (br_socket_path self) r s)"
proof (cases r)
  case (Ok es)
  obtain x t where t: "Bridge_events E es s = (x, t)" by fastforce
  with Bridge_events_keeps [of E es s] have "bp_fs t = bp_fs s" "bp_main t = bp_main s" "bp_capture t = bp_capture s" by simp_all
  with assms Ok t show ?thesis
    by (auto simp: Bridge_poll_def files_ok_def captured_def socket_left_def remove_file_def split: res.splits bool.splits option.splits)
qed (use assms in \<open>simp_all add: Bridge_poll_def files_ok_def socket_left_def split: option.splits\<close>)

lemma files_ok_capture:
  assumes "files_ok E self fs s"
  shows "files_ok E self fs (capture_step_of E now n s)"
proof -
  let ?c = "\<lparr>cp_switch = rt_switch (bp_router s), cp_writer = bp_capture s, cp_fs = bp_fs s\<rparr>"
  let ?c' = "pcap_turn (be_pcap E) now n ?c" and ?h = "snd (pl_header (be_pcap E))"
  have w: "br_pcap self = Some (pw_path w) \<and> pw_path w \<noteq> br_socket_path self" if "bp_capture s = Some w" for w
    using assms that by (auto simp: files_ok_def captured_def split: option.splits)
  then have other: "cp_fs ?c' p = bp_fs s p" if "p = br_socket_path self \<or> br_pcap self \<noteq> Some p" for p
    using pcap_turn_other [of ?c p "be_pcap E" now n] that by fastforce
  moreover have "\<exists>d. captured fs path (?h @ d) (cp_writer ?c') (cp_fs ?c')" if "br_pcap self = Some path" for path
    using assms that captured_turn [of fs path _ ?c "be_pcap E" now n] by (fastforce simp: files_ok_def)
  moreover have "cp_writer ?c' = None" if "br_pcap self = None"
    using w that by (cases "bp_capture s") (simp_all add: pcap_turn_def)
  ultimately show ?thesis
    using assms by (auto simp: files_ok_def capture_step_of_def Let_def split: option.splits)
qed

lemma files_ok_act:
  assumes "files_ok E self fs s" and "bridge_act E (br_socket_path self) s a = Some s'"
  shows "files_ok E self fs s'"
proof -
  consider r where "a = MainPoll r" | now n where "a = CaptureStep now n" | "\<And>r. a \<noteq> MainPoll r" "\<And>now n. a \<noteq> CaptureStep now n"
    by (cases a) auto
  then show ?thesis
  proof cases
    case 3
    note keeps = threads_keep_files [OF assms(2) 3]
    show ?thesis using assms(1) unfolding files_ok_def keeps .
  qed (use assms files_ok_poll files_ok_capture in \<open>auto simp: bridge_act_def split: if_splits\<close>)
qed

lemma VHostSocket_new_Ok:
  "VHostSocket_new os path fs = (Ok (), fs') \<Longrightarrow> fs' = fs(path \<mapsto> SocketFile (so_pid os)) \<and> fs path \<noteq> Some Directory"
  by (auto simp: VHostSocket_new_def bind_eq_Ok remove_file_def UnixListener_bind_def give_def split: if_splits res.splits)

lemma start_router:
  assumes "Bridge_start (os\<lparr>bo_port := OtherPort\<rparr>) cfg pcap socket = Some (Ok (router, wan))"
  shows "socket = Ok () \<and> rt_port router = 0 \<and> ports (rt_switch router) = [OtherPort \<lparr>rh_tx = []\<rparr>] \<and> cache (rt_switch router) = Map.empty \<and>
     (\<exists>dev. wan = running_wan (bo_wan_spawn os) dev \<and>
        rt_wan router = Option.bind dev (\<lambda>wan. case Wan_spawn (bo_wan_spawn os) wan of Ok h \<Rightarrow> Some h | _ \<Rightarrow> None))"
  using assms
  by (auto simp: Bridge_start_def and_then_eq_Ok RouterBuilder_spawn_def VirtioSwitch_connect_def Let_def RouterBuilder_wan_def
      RouterBuilder_register_proto_handler_def VirtioSwitch_new_def split: res.splits option.splits)
    blast

lemma Bridge_capture_files_ok:
  assumes "VHostSocket_new (be_socket E) (br_socket_path self) fs = (Ok (), fs1)"
    and "Bridge_capture (be_pcap E) (br_pcap self) (Ok ()) fs1 = (Ok w, fs2)"
    and "bp_fs s = fs2" and "bp_main s = Polling" and "bp_capture s = w"
  shows "files_ok E self fs s"
proof (cases "br_pcap self")
  case None
  have "fs2 = fs1" "w = None" using assms(2) None by (simp_all add: Bridge_capture_def give_def)
  then show ?thesis
    using assms(3-5) None VHostSocket_new_Ok [OF assms(1)] by (auto simp: files_ok_def socket_left_def)
next
  case (Some path)
  then obtain v where v: "PcapLogger_spawn (be_pcap E) path fs1 = (Ok v, fs2)" "w = Some v"
    using assms(2) by (auto simp: Bridge_capture_def bind_eq_Ok give_def)
  note fs1 = VHostSocket_new_Ok [OF assms(1)] and spawned = PcapLogger_spawn_Ok [OF v(1)]
  have path: "path \<noteq> br_socket_path self" using spawned(2) [of "so_pid (be_socket E)"] fs1 by auto
  then have "captured fs path (snd (pl_header (be_pcap E)) @ []) (Some v) fs2" using spawned(1) fs1 by (simp add: captured_def)
  then have "\<exists>b. captured fs path (snd (pl_header (be_pcap E)) @ b) (Some v) fs2" by blast
  then show ?thesis
    using assms(3-5) Some v(2) path spawned(3) fs1 by (auto simp: files_ok_def socket_left_def)
qed

lemma start_ok:
  assumes "Bridge_run_start E self fs = Some (Inr s)"
  shows "links_ok s" "files_ok E self fs s" "bp_main s = Polling" "fs (br_socket_path self) \<noteq> Some Directory"
    "\<exists>f socket wan. Bridge_start ((be_os E)\<lparr>bo_pcap_spawn := f, bo_port := OtherPort\<rparr>) (br_cfg self) (br_pcap self) socket =
       Some (Ok (bp_router s, wan))"
proof -
  obtain socket fs1 where v: "VHostSocket_new (be_socket E) (br_socket_path self) fs = (socket, fs1)" by fastforce
  obtain capture fs' where c: "Bridge_capture (be_pcap E) (br_pcap self) socket fs1 = (capture, fs')" by fastforce
  obtain router wan where s:
    "Bridge_start ((be_os E)\<lparr>bo_pcap_spawn := (\<lambda>_. and_then capture (\<lambda>_. Ok ())), bo_port := OtherPort\<rparr>) (br_cfg self) (br_pcap self) socket =
       Some (Ok (router, wan))"
    "s = \<lparr>bp_fs = fs', bp_main = Polling, bp_router = router, bp_router_runs = True, bp_wan = wan, bp_sent = [], bp_devices = [],
          bp_capture = (case capture of Ok w \<Rightarrow> w | _ \<Rightarrow> None)\<rparr>"
    using assms by (auto simp: Bridge_run_start_def v c simp del: and_then.simps split: option.splits res.splits prod.splits)
  have cap: "br_pcap self = None \<or> (\<exists>w. capture = Ok w)"
    using s(1) by (auto simp: Bridge_start_def VirtioSwitch_new_def PcapLogger_new_def and_then_eq_Ok split: res.splits option.splits)
  from start_router [OF s(1), simplified] obtain dev where r: "socket = Ok ()" "rt_port router = 0" "ports (rt_switch router) = [OtherPort \<lparr>rh_tx = []\<rparr>]"
    "cache (rt_switch router) = Map.empty" "wan = running_wan (bo_wan_spawn (be_os E)) dev"
    "rt_wan router = Option.bind dev (\<lambda>wan. case Wan_spawn (bo_wan_spawn (be_os E)) wan of Ok h \<Rightarrow> Some h | _ \<Rightarrow> None)" by blast
  have "switch_ok (rt_switch router)"
    using r(3,4) by (auto simp: switch_ok_def cache_valid_def port_kinds_def intro!: exI [of _ 0])
  moreover have "\<exists>h. rt_wan router = Some h \<and> same_provider d h" if "wan = Some d" for d
    using that r(5,6) Wan_spawn_same_provider [of "bo_wan_spawn (be_os E)"]
    by (cases dev; cases "Wan_spawn (bo_wan_spawn (be_os E)) (the dev)") (auto simp: running_wan_def)
  ultimately show "links_ok s" using s(2) r(2) by (simp add: links_ok_def device_ports_def)
  have "\<exists>w. capture = Ok w" using cap c r(1) by (auto simp: Bridge_capture_def give_def)
  then show "files_ok E self fs s"
    using v c s(2) r(1) by (auto intro!: Bridge_capture_files_ok)
  show "bp_main s = Polling" "fs (br_socket_path self) \<noteq> Some Directory"
    using v s(2) r(1) VHostSocket_new_Ok by auto
  show "\<exists>f socket wan. Bridge_start ((be_os E)\<lparr>bo_pcap_spawn := f, bo_port := OtherPort\<rparr>) (br_cfg self) (br_pcap self) socket =
       Some (Ok (bp_router s, wan))"
    using s by auto
qed

lemma start_router_inbox:
  assumes "Bridge_run_start E self fs = Some (Inr s)"
  shows "inbox s = []"
  using start_ok(5) [OF assms] start_router [of "(be_os E)\<lparr>bo_pcap_spawn := _\<rparr>"] by (fastforce simp: inbox_def)

lemma acts_inv:
  assumes "bridge_acts E path s as = Some s'" and "P s" and "\<And>s a s'. P s \<Longrightarrow> bridge_act E path s a = Some s' \<Longrightarrow> P s'"
  shows "P s'"
  using assms(1,2) by (induction as arbitrary: s) (auto simp: Option.bind_eq_Some_conv intro: assms(3))

text \<open>
  C11: a bridge that runs is sound. However its threads are interleaved, whatever the guests send and whatever the system
  answers: the router has port 0 of the switch and every other port is the one of a virtio device, every learned
  address has an existing port, different devices have different ports, the router's handle is the one of the WAN
  provider that runs, with an open channel. Of the files only the socket and, when a capture is configured, the capture
  file were changed: the socket is the process's own as long as the bridge has not ended on \<open>SIGTERM\<close>, and gone then, unless
  it could not be removed; the capture is another file, and has the header of a capture and what its thread wrote, over
  what it had before the start.
\<close>

theorem Bridge_process_sound:
  assumes "Bridge_run_start E self fs = Some (Inr s0)" and "bridge_acts E (br_socket_path self) s0 as = Some s"
  shows "cache_valid (rt_switch (bp_router s)) \<and> rt_port (bp_router s) = 0 \<and>
     (\<exists>n. port_kinds (rt_switch (bp_router s)) = True # replicate n False) \<and>
     distinct (device_ports s) \<and> set (device_ports s) \<subseteq> {0<..<length (ports (rt_switch (bp_router s)))} \<and>
     (\<forall>dev. bp_wan s = Some dev \<longrightarrow> (\<exists>h. rt_wan (bp_router s) = Some h \<and> same_provider dev h)) \<and>
     bp_fs s (br_socket_path self) = socket_left (be_socket E) (br_socket_path self) (bp_main s) \<and>
     (\<forall>p. p \<noteq> br_socket_path self \<longrightarrow> br_pcap self \<noteq> Some p \<longrightarrow> bp_fs s p = fs p) \<and>
     (\<forall>path. br_pcap self = Some path \<longrightarrow> path \<noteq> br_socket_path self \<and>
        (\<exists>b. bp_fs s path = Some (RegularFile (write_at 0 (snd (pl_header (be_pcap E)) @ b) (file_content (fs path))))))"
proof -
  have "links_ok s" using acts_inv [OF assms(2), of links_ok] start_ok(1) [OF assms(1)] links_ok_act by blast
  moreover have "files_ok E self fs s"
    using acts_inv [OF assms(2), of "files_ok E self fs"] start_ok(2) [OF assms(1)] files_ok_act by blast
  ultimately show ?thesis by (auto simp: links_ok_def switch_ok_def files_ok_def captured_def split: option.splits)
qed

section \<open>The leases of a running bridge\<close>

lemma handlers_inv_switch: "bridge_handler.handlers_inv L (bp_router (set_switch sw s)) = bridge_handler.handlers_inv L (bp_router s)"
  by (simp add: bridge_handler.handlers_inv_def)

lemma handlers_inv_act:
  assumes "bridge_handler.handlers_inv L (bp_router s)" and "bridge_act E path s a = Some s'"
  shows "bridge_handler.handlers_inv L (bp_router s')"
proof (cases a)
  case (MainPoll r)
  have "rt_handlers (bp_router s') = rt_handlers (bp_router s)"
    using assms(2) MainPoll Bridge_events_keeps(3) [of E _ s]
    by (auto simp: bridge_act_def Bridge_poll_def split: if_splits res.splits prod.splits bool.splits) (metis snd_conv)+
  with assms(1) show ?thesis by (simp add: bridge_handler.handlers_inv_def)
next
  case (RouterStep rng)
  have turn: "bridge_handler.handlers_inv L (snd (Router_turn (be_router E rng) (bp_router (set_inbox ms s)) m))" for ms m
    by (rule bridge_handler.handlers_inv_turn) (use assms(1) in \<open>simp_all add: be_router_def set_inbox_def Let_def handlers_inv_switch\<close>)
  then show ?thesis
    using assms RouterStep
    by (auto simp: bridge_act_def router_step_def split: if_splits list.splits prod.splits) (metis snd_conv)+
next
  case (WanStep ev)
  have "rt_handlers (bp_router s') = rt_handlers (bp_router s)"
    using assms(2) WanStep by (auto simp: bridge_act_def wan_step_def set_inbox_def Let_def split: if_splits option.splits)
  with assms(1) show ?thesis by (simp add: bridge_handler.handlers_inv_def)
qed (use assms in \<open>auto simp: bridge_act_def guest_sends_def guest_takes_def capture_step_of_def Let_def handlers_inv_switch split: if_splits\<close>)

text \<open>
  C12: the leases of a running bridge. However the bridge was started and whatever its threads do, the DHCP pool and the
  leases stay disjoint; and the leases \<open>L\<close> that the servers have given at some point are still given, to the same
  clients, at any later point.
\<close>

theorem Bridge_process_keeps_leases:
  assumes "Bridge_run_start E self fs = Some (Inr s0)" and "rc_ipv4 (bc_router (br_cfg self)) = Ipv4Network_new ip m" and "m \<le> 32"
    and "cfg_start (rc_dhcp (bc_router (br_cfg self)))
           < Ipv4Network_broadcast (Ipv4Network_new (cfg_start (rc_dhcp (bc_router (br_cfg self)))) m)"
    and "bridge_acts E (br_socket_path self) s0 as1 = Some s1" and "bridge_acts E (br_socket_path self) s1 as2 = Some s2"
  shows "(\<forall>k h. rt_handlers (bp_router s1) k = Some h \<longrightarrow> handler_inv Map.empty h) \<and>
         ((\<forall>k h. rt_handlers (bp_router s1) k = Some h \<longrightarrow> handler_inv L h) \<longrightarrow>
          (\<forall>k h. rt_handlers (bp_router s2) k = Some h \<longrightarrow> handler_inv L h))"
proof -
  let ?inv = "\<lambda>L s. bridge_handler.handlers_inv L (bp_router s)"
  have step: "?inv L s \<Longrightarrow> bridge_act E (br_socket_path self) s a = Some s' \<Longrightarrow> ?inv L s'" for L s a s'
    by (rule handlers_inv_act)
  have "?inv Map.empty s0"
    using start_ok(5) [OF assms(1)] start_handler_inv [OF _ assms(2-4)] by (auto simp: bridge_handler.handlers_inv_def)
  then have "?inv Map.empty s1" using acts_inv [OF assms(5), of "?inv Map.empty"] step by blast
  moreover have "?inv L s1 \<Longrightarrow> ?inv L s2" using acts_inv [OF assms(6), of "?inv L"] step by blast
  ultimately show ?thesis by (simp add: bridge_handler.handlers_inv_def)
qed

section \<open>A bridge to evaluate the properties at\<close>

definition sample_proc_env ::
  "(unit, unit, unit, unit, unit, sample_guest, nat, u16, bytes, u16 \<times> nat, sample_message, unit) bridge_env" where
  "sample_proc_env =
     \<lparr>be_socket = \<lparr>so_pid = 77, so_unlink = (\<lambda>p. Ok ()), so_bind = (\<lambda>p. Ok ())\<rparr>, 
      be_pcap = \<lparr>pl_open = (\<lambda>p. Ok ()), pl_header = (Ok (), [0xA1, 0xB2, 0xC3, 0xD4]),
        pl_record = (\<lambda>t n b. to_be_bytes 4 n @ b), pl_thread = Ok ()\<rparr>, be_os = sample_os OtherPort,
      be_vhost = sample_vhost_os, be_lib = sample_lib, be_dhcproto = sample_dhcproto,
      be_wan_write = \<lparr>ww_sendmsg = (\<lambda>fd a b. Ok ()), ww_wake = Ok ()\<rparr>,
      be_wan = \<lparr>we_wg = sample_wg_env,
        we_wg_setup = \<lparr>wgo_bind = Ok (), wgo_nonblocking = Ok (), wgo_timer_new = Ok (), wgo_timer_set = (\<lambda>t. Ok ()),
          wgo_register_udp = Ok (), wgo_register_timer = Ok ()\<rparr>, we_tap_write = (\<lambda>b. Ok (length b))\<rparr>\<rparr>"

definition sample_bridge :: "Config Bridge" where
  "sample_bridge = \<lparr>br_socket_path = ''b.sock'', br_pcap = Some ''b.pcap'', br_cfg = sample_config\<rparr>"

lemma sample_start:
  "\<exists>r. Bridge_run_start sample_proc_env sample_bridge Map.empty =
     Some (Inr \<lparr>bp_fs = [''b.sock'' \<mapsto> SocketFile 77, ''b.pcap'' \<mapsto> RegularFile [0xA1, 0xB2, 0xC3, 0xD4]], bp_main = Polling, bp_router = r, bp_router_runs = True,
                bp_wan = Some (WanUdp \<lparr>udp_sock = 5, udp_dests = [SockV4 0x7F000001 9000]\<rparr>), bp_sent = [], bp_devices = [],
                bp_capture = Some \<lparr>pw_path = ''b.pcap'', pw_offset = 4\<rparr>\<rparr>)"
  by (simp add: Bridge_capture_def PcapLogger_spawn_def File_open_def PcapWriter_new_def file_write_def write_at_def on_err_def Bridge_run_start_def sample_proc_env_def sample_bridge_def VHostSocket_new_def path_exists_def bind_def give_def
      UnixListener_bind_def Bridge_start_def sample_os_def sample_wan_os_def sample_config_def UdpDevice_connect_def VirtioSwitch_new_def
      PcapLogger_new_def parse_wan_def Bridge_handlers_def sample_server_new running_wan_def Wan_spawn_def UdpDevice_as_wan_handle_def Let_def)

lemma sample_accept:
  "\<exists>dev sw'. VHostSocket_accept_and_spawn sample_vhost_os sample_lib S (Ok 9) (Ok ()) DeviceOpts_default sw = (Ok dev, sw')"
proof -
  have "\<exists>qs. new_queues sample_lib (Suc (Suc 0)) = Ok qs" by (simp add: VirtQueue_new_def sample_lib_def)
  then obtain qs where "new_queues sample_lib 2 = Ok qs" by (auto simp: numeral_2_eq_2)
  then show ?thesis
    by (simp add: VHostSocket_accept_and_spawn_def VirtioDevice_new_def sample_vhost_os_def DeviceOpts_default_def split: prod.splits)
qed

lemma sample_stop:
  assumes "bp_main s = Polling"
  shows "\<exists>s'. bridge_acts sample_proc_env ''b.sock'' s
     [MainPoll (Ok [VhostReadable (Ok 9) (Ok ()), SignalReadable (Ok (Some 15)), UnknownToken 4])] = Some s' \<and>
     bp_main s' = Returned (Ok ())"
proof -
  obtain dev sw' where "VHostSocket_accept_and_spawn (be_vhost sample_proc_env) (be_lib sample_proc_env)
      (bridge_switch_ops RouterHandle_enqueue) (Ok 9) (Ok ()) DeviceOpts_default (rt_switch (bp_router s)) = (Ok dev, sw')"
    using sample_accept [of "bridge_switch_ops RouterHandle_enqueue" "rt_switch (bp_router s)"] by (auto simp: sample_proc_env_def)
  with assms show ?thesis by (simp add: bridge_act_def Bridge_poll_def)
qed

theorem Bridge_process_sound_witness:
  "\<exists>s0 s. Bridge_run_start sample_proc_env sample_bridge Map.empty = Some (Inr s0) \<and>
     bridge_acts sample_proc_env ''b.sock'' s0
       [MainPoll (Ok [VhostReadable (Ok 9) (Ok ()), SignalReadable (Ok (Some 15)), UnknownToken 4])] = Some s \<and>
     cache_valid (rt_switch (bp_router s)) \<and> bp_fs s ''b.sock'' = None \<and>
     (\<exists>b. bp_fs s ''b.pcap'' = Some (RegularFile ([0xA1, 0xB2, 0xC3, 0xD4] @ b)))"
proof -
  obtain s0 where s0: "Bridge_run_start sample_proc_env sample_bridge Map.empty = Some (Inr s0)" "bp_main s0 = Polling"
    using sample_start by auto
  from sample_stop [OF s0(2)] obtain s where s: "bridge_acts sample_proc_env ''b.sock'' s0
       [MainPoll (Ok [VhostReadable (Ok 9) (Ok ()), SignalReadable (Ok (Some 15)), UnknownToken 4])] = Some s" "bp_main s = Returned (Ok ())"
    by blast
  have path: "br_socket_path sample_bridge = ''b.sock''" "br_pcap sample_bridge = Some ''b.pcap''" by (simp_all add: sample_bridge_def)
  have "socket_left (be_socket sample_proc_env) ''b.sock'' (Returned (Ok ())) = None"
    "snd (pl_header (be_pcap sample_proc_env)) = [0xA1, 0xB2, 0xC3, 0xD4]"
    by (simp_all add: socket_left_def sample_proc_env_def)
  with Bridge_process_sound [OF s0(1), unfolded path, OF s(1)] s0(1) s show ?thesis
    by (auto simp: write_at_first file_content_def)
qed

theorem Bridge_process_keeps_leases_witness:
  "\<exists>s0. Bridge_run_start sample_proc_env sample_bridge Map.empty = Some (Inr s0) \<and>
     bridge_acts sample_proc_env ''b.sock'' s0 [RouterStep 7] = Some s0 \<and>
     (\<forall>k h. rt_handlers (bp_router s0) k = Some h \<longrightarrow> handler_inv Map.empty h)"
proof -
  obtain s0 where s0: "Bridge_run_start sample_proc_env sample_bridge Map.empty = Some (Inr s0)" "bp_main s0 = Polling"
    using sample_start by auto
  have path: "br_socket_path sample_bridge = ''b.sock''" by (simp add: sample_bridge_def)
  have "inbox s0 = []"
    using start_router_inbox [OF s0(1)] .
  then have step: "bridge_acts sample_proc_env ''b.sock'' s0 [RouterStep 7] = Some s0"
    using s0(2) by (simp add: bridge_act_def router_step_def)
  have cfg: "rc_ipv4 (bc_router (br_cfg sample_bridge)) = Ipv4Network_new 0x0A0A0A01 24"
    "cfg_start (rc_dhcp (bc_router (br_cfg sample_bridge)))
       < Ipv4Network_broadcast (Ipv4Network_new (cfg_start (rc_dhcp (bc_router (br_cfg sample_bridge)))) 24)"
    by (simp_all add: sample_bridge_def sample_config_def Ipv4Network_broadcast_def mask4_new mask_eq_exp_minus_1)
  from Bridge_process_keeps_leases [OF s0(1) cfg(1) _ cfg(2), unfolded path, OF _ step step] s0 step show ?thesis by auto
qed

end
