(* ===== verification/Bridge_Traffic.thy ===== *)
theory Bridge_Traffic
  imports Bridge_Run
begin

text \<open>
  Traffic through a running bridge: a packet of a guest to the internet and the answer to it, through the switch, the
  router, the channels between the threads, the WireGuard device with its NAT table, and ans.
\<close>

section \<open>One act at a time\<close>

text \<open>A bridge whose threads run, and what the acts of this theory leave alone.\<close>

definition live :: "('q, 'h, 't) bridge_proc \<Rightarrow> bool" where
  "live s \<longleftrightarrow> bp_main s = Polling \<and> bp_router_runs s \<and> links_ok s"

definition same_lan :: "('q, 'h, 't) bridge_proc \<Rightarrow> ('q, 'h, 't) bridge_proc \<Rightarrow> bool" where
  "same_lan s s' \<longleftrightarrow> rt_arp (bp_router s') = rt_arp (bp_router s) \<and> rt_mac (bp_router s') = rt_mac (bp_router s) \<and>
     rt_network (bp_router s') = rt_network (bp_router s)"

abbreviation sw_of :: "('q, 'h, 't) bridge_proc \<Rightarrow> RouterHandle bridge_port VirtioSwitch" where
  "sw_of s \<equiv> rt_switch (bp_router s)"

lemma same_lan_trans: "same_lan s t \<Longrightarrow> same_lan t u \<Longrightarrow> same_lan s u"
  by (simp add: same_lan_def)

lemma live_ports:
  assumes "live s"
  shows "rt_port (bp_router s) = 0" "0 < length (ports (sw_of s))" "ports (sw_of s) ! 0 = OtherPort \<lparr>rh_tx = inbox s\<rparr>"
proof -
  have ok: "switch_ok (sw_of s)" "rt_port (bp_router s) = 0" using assms by (simp_all add: live_def links_ok_def)
  then have "is_router_port (ports (sw_of s) ! 0)"
    using switch_ok_nonempty [OF ok(1)] by (auto simp: switch_ok_def port_kinds_def)
  then show "ports (sw_of s) ! 0 = OtherPort \<lparr>rh_tx = inbox s\<rparr>"
    using ok(2) by (cases "ports (sw_of s) ! 0") (simp_all add: inbox_def)
  show "rt_port (bp_router s) = 0" "0 < length (ports (sw_of s))" using ok(2) switch_ok_nonempty [OF ok(1)] by simp_all
qed

lemma live_device:
  assumes "live s" and "j \<in> set (device_ports s)"
  shows "j \<noteq> 0" "j < length (ports (sw_of s))"
  using assms by (auto simp: live_def links_ok_def)

text \<open>A guest sends a frame to the router.\<close>

lemma guest_to_router:
  assumes "live s" and "j \<in> set (device_ports s)" and "cache (sw_of s) (frame_dst f) = Some 0"
    and "\<not> MacAddress_is_broadcast (frame_dst f)" and "frame_src f \<noteq> frame_dst f"
  shows "\<exists>s'. bridge_act E path s (GuestSends j (frame_bytes f @ b)) = Some s' \<and> live s' \<and> same_lan s s' \<and>
     inbox s' = inbox s @ [FromLan (EthernetPacket_new f b)] \<and> cache (sw_of s') = (cache (sw_of s))(frame_src f \<mapsto> j) \<and>
     ports (sw_of s') ! j = ports (sw_of s) ! j \<and> device_ports s' = device_ports s \<and> bp_wan s' = bp_wan s \<and>
     rt_wan (bp_router s') = rt_wan (bp_router s) \<and> bp_sent s' = bp_sent s"
proof -
  let ?s' = "guest_sends E j (frame_bytes f @ b) s"
  have act: "bridge_act E path s (GuestSends j (frame_bytes f @ b)) = Some ?s'"
    using assms(1,2) by (auto simp: bridge_act_def live_def device_ports_def)
  have "live ?s'"
    using assms(1) links_ok_act [OF _ act] by (simp add: live_def guest_sends_def)
  moreover have "ports (sw_of ?s') ! 0 = OtherPort (RouterHandle_enqueue \<lparr>rh_tx = inbox s\<rparr> f b)"
    "ports (sw_of ?s') ! j = ports (sw_of s) ! j" "cache (sw_of ?s') = (cache (sw_of s))(frame_src f \<mapsto> j)"
    using live_ports [OF assms(1)] live_device [OF assms(1,2)] assms(3-5)
    by (simp_all add: guest_sends_def bridge_switch_ops_def VirtioSwitch_process_frame ports_forward)
  ultimately show ?thesis
    using live_ports [OF \<open>live ?s'\<close>] act
    by (auto simp: RouterHandle_enqueue_def same_lan_def guest_sends_def set_switch_def device_ports_def)
qed

text \<open>The router passes a packet for another network to the WAN.\<close>

lemma router_to_wan:
  assumes "live s" and "inbox s = [FromLan (EthernetPacket_new f b)]" and "ethertype f = IPv4" and "Ipv4Packet_parse b = Ok p"
    and "\<not> Ipv4Network_contains (rt_network (bp_router s)) (Ipv4Packet_dest p)" and "Ipv4Packet_dest p \<noteq> 0xFFFFFFFF"
    and "rt_wan (bp_router s) = Some (HandleWg h)" and "ch_open (wgh_tx h)" and "ww_wake (be_wan_write E) = Ok ()"
    and "j \<noteq> 0"
  shows "\<exists>s' h'. bridge_act E path s (RouterStep rng) = Some s' \<and> live s' \<and> same_lan s s' \<and> inbox s' = [] \<and>
     cache (sw_of s') = cache (sw_of s) \<and> ports (sw_of s') ! j = ports (sw_of s) ! j \<and> bp_wan s' = bp_wan s \<and>
     rt_wan (bp_router s') = Some (HandleWg h') \<and> ch_queue (wgh_tx h') = ch_queue (wgh_tx h) @ [p] \<and> bp_sent s' = bp_sent s"
proof -
  let ?s = "set_inbox [] s" and ?w = "WanHandle_write (be_wan_write E)"
  have "fst (?w (HandleWg h) p) \<noteq> Panic"
    using assms(8,9) by (simp add: WgHandle_write_def channel_send_def)
  then have turn: "Router_turn (be_router E rng) (bp_router ?s) (FromLan (EthernetPacket_new f b)) =
      (Ok (), (bp_router ?s)\<lparr>rt_wan := map_option (\<lambda>w. snd (?w w p)) (rt_wan (bp_router ?s))\<rparr>)"
    using Router_lan_to_wan [OF assms(3,4), of "bp_router ?s" "be_router E rng"] assms(5-7)
    by (simp add: be_router_def set_inbox_def set_switch_def Let_def)
  let ?s' = "router_step E rng s"
  have act: "bridge_act E path s (RouterStep rng) = Some ?s'" using assms(1) by (simp add: bridge_act_def live_def)
  have s': "?s' = s\<lparr>bp_router := (bp_router ?s)\<lparr>rt_wan := Some (snd (?w (HandleWg h) p))\<rparr>, bp_router_runs := True\<rparr>"
    using assms(1,2,7) turn by (simp add: router_step_def live_def set_inbox_def set_switch_def Let_def)
  have "live ?s'" using assms(1) links_ok_act [OF _ act] by (simp add: live_def s')
  moreover have "ports (sw_of ?s') = (ports (sw_of s))[0 := OtherPort \<lparr>rh_tx = []\<rparr>]" "cache (sw_of ?s') = cache (sw_of s)"
    using live_ports [OF assms(1)] by (simp_all add: s' set_inbox_def set_switch_def Let_def)
  ultimately show ?thesis
    using act live_ports [OF assms(1)] live_ports [OF \<open>live ?s'\<close>] assms(8-10)
    by (auto simp: same_lan_def s' set_inbox_def set_switch_def Let_def WgHandle_write_def channel_send_def)
qed

text \<open>The WireGuard thread takes the packets of its channel, and a packet out of the tunnel goes to the router.\<close>

lemma wan_act:
  assumes "live s" and "bp_wan s = Some (WanWg dev)" and "rt_wan (bp_router s) = Some (HandleWg h)"
    and "WgDevice_event (we_wg (be_wan E)) \<lparr>wg_dev = dev\<lparr>wg_rx := ch_queue (wgh_tx h)\<rparr>, wg_router = \<lparr>rh_tx = inbox s\<rparr>, wg_sent = bp_sent s\<rparr> ev
           = Some (Ok (), w)" and "j \<noteq> 0"
  shows "\<exists>s' h'. bridge_act E path s (WanStep (WgEvent ev)) = Some s' \<and> live s' \<and> same_lan s s' \<and> inbox s' = rh_tx (wg_router w) \<and>
     cache (sw_of s') = cache (sw_of s) \<and> ports (sw_of s') ! j = ports (sw_of s) ! j \<and> bp_wan s' = Some (WanWg (wg_dev w)) \<and>
     rt_wan (bp_router s') = Some (HandleWg h') \<and> ch_queue (wgh_tx h') = wg_rx (wg_dev w) \<and> bp_sent s' = wg_sent w"
proof -
  let ?h = "h\<lparr>wgh_tx := channel_take (wgh_tx h) (wg_rx (wg_dev w))\<rparr>"
  let ?s = "set_inbox (rh_tx (wg_router w)) s"
  let ?s' = "?s\<lparr>bp_wan := Some (WanWg (wg_dev w)), bp_sent := wg_sent w, bp_router := (bp_router ?s)\<lparr>rt_wan := Some (HandleWg ?h)\<rparr>\<rparr>"
  have act: "bridge_act E path s (WanStep (WgEvent ev)) = Some ?s'"
    using assms(1-4) by (simp add: bridge_act_def live_def wan_step_def Wan_event.simps Let_def)
  have "live ?s'"
    using assms(1) links_ok_act [OF _ act] by (simp add: live_def set_inbox_def Let_def)
  moreover have "ports (sw_of ?s') = (ports (sw_of s))[0 := OtherPort \<lparr>rh_tx = rh_tx (wg_router w)\<rparr>]" "cache (sw_of ?s') = cache (sw_of s)"
    using live_ports [OF assms(1)] by (simp_all add: set_inbox_def Let_def)
  ultimately show ?thesis
    using act live_ports [OF assms(1)] live_ports [OF \<open>live ?s'\<close>] assms(5)
    by (intro exI [of _ ?s'] exI [of _ ?h]) (auto simp: same_lan_def set_inbox_def set_switch_def Let_def channel_take_def)
qed

lemma wg_sends_one:
  assumes "Ipv4Packet_parse b = Ok p" and "ip_ihl (packet_header p) = 5" and "ip_frag_offset (packet_header p) = 0"
    and "transport_fits (packet_header p) (drop 20 b)" and "nat_wf p" and "wg_rx (wg_dev w) = [p]"
    and "Ipv4Packet_masquerade p (wg_ipv4 (wg_dev w)) = (Ok q :: (Ipv4Packet, NetworkError) res)"
    and "wg_encapsulate E (wg_tun (wg_dev w)) (packet_data q) WG_BUF_SZ = (Some (WriteToNetwork c), t)"
    and "wg_send_to E (wg_endpoint (wg_dev w)) c = Ok ()"
  shows "\<exists>tbl. translated ((packet_header p)\<lparr>ip_src := wg_ipv4 (wg_dev w)\<rparr>) b q \<and>
     NatTable_insert (wg_nat (wg_dev w)) p = (Ok tbl :: (NatTable, NetworkError) res) \<and>
     WgDevice_event E w Woken =
       Some (Ok (), w\<lparr>wg_dev := (wg_dev w)\<lparr>wg_rx := [], wg_nat := tbl, wg_tun := t\<rparr>,
                      wg_sent := wg_sent w @ [(wg_endpoint (wg_dev w), c)]\<rparr>)"
proof -
  have "translated ((packet_header p)\<lparr>ip_src := wg_ipv4 (wg_dev w)\<rparr>) b q"
    using Ipv4Packet_masquerade_translated [OF assms(1-4), where ip = "wg_ipv4 (wg_dev w)" and 'e = NetworkError] assms(7) by auto
  moreover obtain tbl where "NatTable_insert (wg_nat (wg_dev w)) p = (Ok tbl :: (NatTable, NetworkError) res)"
    using NatTable_insert_eq [OF assms(5)] by blast
  ultimately show ?thesis
    using assms(6-9)
    by (intro exI [of _ tbl])
      (simp add: WgDevice_outbound_def WgDevice_tun_outcome_def WgDevice_handle_tun_result_def Ipv4Packet_as_bytes_def wg_set_tun_def)
qed

lemma wg_receives_one:
  assumes "Ipv4Packet_parse b = Ok q" and "ip_ihl (packet_header q) = 5" and "ip_frag_offset (packet_header q) = 0"
    and "\<not> Ipv4Packet_has_fragments q" and "transport_fits (packet_header q) (drop 20 b)"
    and "NatTable_get (wg_nat (wg_dev w)) q = (Ok (Some orig) :: (ipv4addr option, NetworkError) res)"
    and "wg_decapsulate E (wg_tun (wg_dev w)) peer (take WG_BUF_SZ d) WG_BUF_SZ = (Some (WriteToTunnelV4 b ip), t)"
  shows "\<exists>q'. translated ((packet_header q)\<lparr>ip_dst := orig\<rparr>) b q' \<and>
     WgDevice_event E w (UdpReadable [(peer, d)] None) =
       Some (Ok (), w\<lparr>wg_dev := (wg_dev w)\<lparr>wg_tun := t\<rparr>, wg_router := RouterHandle_route_ipv4 (wg_router w) q'\<rparr>)"
  using tunnel_v4_recorded [of b q "wg_set_tun w t" orig E ip] assms
  by (auto simp: WgDevice_drain.simps WgDevice_tun_outcome_def wg_set_tun_def)

text \<open>The router sends a packet from the WAN to the guest its ARP table and the switch have for it.\<close>

lemma router_to_guest:
  assumes "live s" and "inbox s = [FromWan4 p]" and "Ipv4Network_contains (rt_network (bp_router s)) (Ipv4Packet_dest p)"
    and "Ipv4Packet_dest p \<noteq> ip4 (rt_network (bp_router s))" and "Ipv4Packet_dest p \<noteq> 0xFFFFFFFF"
    and "rt_arp (bp_router s) (V4 (Ipv4Packet_dest p)) = Some host" and "cache (sw_of s) host = Some j"
    and "\<not> MacAddress_is_broadcast host" and "host \<noteq> rt_mac (bp_router s)" and "j \<noteq> 0" and "ports (sw_of s) ! j = VirtioPort q"
  shows "\<exists>s'. bridge_act E path s (RouterStep rng) = Some s' \<and> live s' \<and> bp_sent s' = bp_sent s \<and>
     ports (sw_of s') ! j = VirtioPort (VirtioDeviceRxQueue_enqueue q (EthernetFrame_new (rt_mac (bp_router s)) host IPv4) (packet_data p))"
proof -
  let ?s = "set_inbox [] s"
  have turn: "Router_turn (be_router E rng) (bp_router ?s) (FromWan4 p) =
      (Ok (), to_lan (be_router E rng) (bp_router ?s) host IPv4 (packet_data p))"
    using Router_wan_to_lan [of "bp_router ?s" p "be_router E rng"] assms(3-6) by (simp add: set_inbox_def set_switch_def Let_def)
  let ?s' = "router_step E rng s"
  have act: "bridge_act E path s (RouterStep rng) = Some ?s'" using assms(1) by (simp add: bridge_act_def live_def)
  have s': "?s' = s\<lparr>bp_router := to_lan (be_router E rng) (bp_router ?s) host IPv4 (packet_data p), bp_router_runs := True\<rparr>"
    using assms(1,2) turn by (simp add: router_step_def live_def)
  have "live ?s'" using assms(1) links_ok_act [OF _ act] by (simp add: live_def s')
  have sw: "sw_of ?s = (sw_of s)\<lparr>ports := (ports (sw_of s))[0 := OtherPort \<lparr>rh_tx = []\<rparr>]\<rparr>"
    "rt_mac (bp_router ?s) = rt_mac (bp_router s)" "rt_port (bp_router ?s) = 0"
    using live_ports [OF assms(1)] by (simp_all add: set_inbox_def set_switch_def Let_def)
  have j: "j < length (ports (sw_of s))"
    using assms(1,7) by (auto simp: live_def links_ok_def switch_ok_def cache_valid_def)
  have "ports (sw_of ?s') ! j =
      bridge_port_enqueue RouterHandle_enqueue (ports (sw_of s) ! j) (EthernetFrame_new (rt_mac (bp_router s)) host IPv4) (packet_data p)"
    unfolding s' to_lan_def using sw assms(7-10) j
    by (simp add: VirtioSwitch_process_frame ports_forward be_router_def) (simp add: EthernetFrame_new_def)
  with act \<open>live ?s'\<close> assms(11) show ?thesis by (simp add: s')
qed

text \<open>A guest asks for the router's address: the router learns the guest, the switch both, and the guest gets the reply.\<close>

lemma guest_resolves:
  assumes "live s" and "inbox s = []" and "j \<in> set (device_ports s)" and "ports (sw_of s) ! j = VirtioPort q"
    and "arp4_wf a" and "tpa a = V4 (ip4 (rt_network (bp_router s)))" and "host \<noteq> rt_mac (bp_router s)" and "\<not> MacAddress_is_broadcast host"
  shows "\<exists>s'. bridge_acts E path s
       [GuestSends j (frame_bytes (EthernetFrame_new host MacAddress_broadcast ARP) @ arp_bytes a), RouterStep i] = Some s' \<and>
     live s' \<and> inbox s' = [] \<and> rt_arp (bp_router s') = (rt_arp (bp_router s))(spa a \<mapsto> sha a) \<and>
     rt_mac (bp_router s') = rt_mac (bp_router s) \<and> rt_network (bp_router s') = rt_network (bp_router s) \<and>
     cache (sw_of s') = (cache (sw_of s))(host \<mapsto> j, rt_mac (bp_router s) \<mapsto> 0) \<and>
     ports (sw_of s') ! j = VirtioPort (VirtioDeviceRxQueue_enqueue q (EthernetFrame_new (rt_mac (bp_router s)) host ARP)
        (arp_bytes (ArpPacket_to_reply a (rt_mac (bp_router s))))) \<and>
     device_ports s' = device_ports s \<and> bp_wan s' = bp_wan s \<and> rt_wan (bp_router s') = rt_wan (bp_router s) \<and> bp_sent s' = bp_sent s"
proof -
  let ?f = "EthernetFrame_new host MacAddress_broadcast ARP" and ?reply = "arp_bytes (ArpPacket_to_reply a (rt_mac (bp_router s)))"
  let ?s1 = "guest_sends E j (frame_bytes ?f @ arp_bytes a) s" and ?E = "be_router E i"
  note j = live_device [OF assms(1,3)] and p = live_ports [OF assms(1)]
  have f: "frame_dst ?f = MacAddress_broadcast" "frame_src ?f = host" "ethertype ?f = ARP" by (simp_all add: EthernetFrame_new_def)
  have act1: "bridge_act E path s (GuestSends j (frame_bytes ?f @ arp_bytes a)) = Some ?s1"
    using assms(1,3) by (auto simp: bridge_act_def live_def device_ports_def)
  have live1: "live ?s1" using assms(1) links_ok_act [OF _ act1] by (simp add: live_def guest_sends_def)
  have s1: "ports (sw_of ?s1) ! 0 = OtherPort \<lparr>rh_tx = [FromLan (EthernetPacket_new ?f (arp_bytes a))]\<rparr>"
    "ports (sw_of ?s1) ! j = VirtioPort q" "cache (sw_of ?s1) = (cache (sw_of s))(host \<mapsto> j)" "length (ports (sw_of ?s1)) = length (ports (sw_of s))"
    using p j assms(2,4) f
    by (simp_all add: guest_sends_def bridge_switch_ops_def VirtioSwitch_process_frame ports_forward MacAddress_is_broadcast_def
        RouterHandle_enqueue_def)
  have r1: "rt_mac (bp_router ?s1) = rt_mac (bp_router s)" "rt_network (bp_router ?s1) = rt_network (bp_router s)"
    "rt_arp (bp_router ?s1) = rt_arp (bp_router s)" "rt_wan (bp_router ?s1) = rt_wan (bp_router s)" "bp_wan ?s1 = bp_wan s"
    "bp_sent ?s1 = bp_sent s" "device_ports ?s1 = device_ports s"
    by (simp_all add: guest_sends_def set_switch_def device_ports_def)
  have inbox1: "inbox ?s1 = [FromLan (EthernetPacket_new ?f (arp_bytes a))]" using live_ports [OF live1] s1(1) by simp
  let ?r = "(bp_router (set_inbox [] ?s1))\<lparr>rt_arp := (rt_arp (bp_router s))(spa a \<mapsto> sha a)\<rparr>"
  have turn: "Router_turn ?E (bp_router (set_inbox [] ?s1)) (FromLan (EthernetPacket_new ?f (arp_bytes a))) = (Ok (), to_lan ?E ?r host ARP ?reply)"
    using Router_answers_arp [OF assms(5) f(3), of ?E "bp_router (set_inbox [] ?s1)" "[]"] assms(6) f(2) r1
    by (simp add: set_inbox_def set_switch_def Let_def)
  let ?s2 = "router_step E i ?s1"
  have act2: "bridge_act E path ?s1 (RouterStep i) = Some ?s2" using live1 by (simp add: bridge_act_def live_def)
  have s2: "?s2 = ?s1\<lparr>bp_router := to_lan ?E ?r host ARP ?reply, bp_router_runs := True\<rparr>"
    using live1 inbox1 turn by (simp add: router_step_def live_def)
  have "live ?s2" using live1 links_ok_act [OF _ act2] by (simp add: live_def s2)
  have sw: "rt_switch ?r = (sw_of ?s1)\<lparr>ports := (ports (sw_of ?s1))[0 := OtherPort \<lparr>rh_tx = []\<rparr>]\<rparr>" "rt_mac ?r = rt_mac (bp_router s)" "rt_port ?r = 0"
    using live_ports [OF live1] r1 by (simp_all add: set_inbox_def set_switch_def Let_def)
  have "ports (sw_of ?s2) ! 0 = OtherPort \<lparr>rh_tx = []\<rparr>"
    "ports (sw_of ?s2) ! j = VirtioPort (VirtioDeviceRxQueue_enqueue q (EthernetFrame_new (rt_mac (bp_router s)) host ARP) ?reply)"
    "cache (sw_of ?s2) = (cache (sw_of s))(host \<mapsto> j, rt_mac (bp_router s) \<mapsto> 0)"
    unfolding s2 to_lan_def using sw s1 j p assms(7,8)
    by (simp_all add: VirtioSwitch_process_frame ports_forward be_router_def) (simp_all add: EthernetFrame_new_def)
  then show ?thesis
    using act1 act2 \<open>live ?s2\<close> live_ports [OF \<open>live ?s2\<close>] r1
    by (auto simp: s2 to_lan_def set_inbox_def set_switch_def Let_def device_ports_def)
qed

section \<open>There and back\<close>

text \<open>A packet of a guest to the internet: three turns, and the flow is recorded.\<close>

lemma guest_to_internet:
  assumes "live s" and "inbox s = []"
    and "bp_wan s = Some (WanWg dev)" and "rt_wan (bp_router s) = Some (HandleWg h)" and "ch_queue (wgh_tx h) = []"
    and "j \<in> set (device_ports s)" and "cache (sw_of s) (rt_mac (bp_router s)) = Some 0"
    and "\<not> MacAddress_is_broadcast (rt_mac (bp_router s))" and "host \<noteq> rt_mac (bp_router s)"
    and "Ipv4Packet_parse b = Ok p" and "ip_ihl (packet_header p) = 5" and "ip_frag_offset (packet_header p) = 0"
    and "transport_fits (packet_header p) (drop 20 b)" and "nat_wf p"
    and "\<not> Ipv4Network_contains (rt_network (bp_router s)) (Ipv4Packet_dest p)" and "Ipv4Packet_dest p \<noteq> 0xFFFFFFFF"
    and "Ipv4Packet_masquerade p (wg_ipv4 dev) = (Ok out :: (Ipv4Packet, NetworkError) res)"
    and "wg_encapsulate (we_wg (be_wan E)) (wg_tun dev) (packet_data out) WG_BUF_SZ = (Some (WriteToNetwork c), t1)"
    and "wg_send_to (we_wg (be_wan E)) (wg_endpoint dev) c = Ok ()" and "ww_wake (be_wan_write E) = Ok ()"
  shows "\<exists>s' h' tbl. bridge_acts E path s
       [GuestSends j (frame_bytes (EthernetFrame_new host (rt_mac (bp_router s)) IPv4) @ b), RouterStep i, WanStep (WgEvent Woken)] = Some s' \<and>
     live s' \<and> same_lan s s' \<and> inbox s' = [] \<and> cache (sw_of s') = (cache (sw_of s))(host \<mapsto> j) \<and>
     ports (sw_of s') ! j = ports (sw_of s) ! j \<and> rt_wan (bp_router s') = Some (HandleWg h') \<and> ch_queue (wgh_tx h') = [] \<and>
     bp_wan s' = Some (WanWg (dev\<lparr>wg_rx := [], wg_nat := tbl, wg_tun := t1\<rparr>)) \<and>
     NatTable_insert (wg_nat dev) p = (Ok tbl :: (NatTable, NetworkError) res) \<and>
     bp_sent s' = bp_sent s @ [(wg_endpoint dev, c)] \<and>
     translated ((packet_header p)\<lparr>ip_src := wg_ipv4 dev\<rparr>) b out"
proof -
  let ?f = "EthernetFrame_new host (rt_mac (bp_router s)) IPv4"
  have j: "j \<noteq> 0" using live_device [OF assms(1,6)] by simp
  have ch: "ch_open (wgh_tx h)" using assms(1,3,4) by (auto simp: live_def links_ok_def)
  have f: "frame_dst ?f = rt_mac (bp_router s)" "frame_src ?f = host" "ethertype ?f = IPv4" by (simp_all add: EthernetFrame_new_def)
  from guest_to_router [OF assms(1,6), of ?f E path b] f assms(2,7-9) obtain s1 where
    s1: "bridge_act E path s (GuestSends j (frame_bytes ?f @ b)) = Some s1" "live s1" "same_lan s s1"
      "inbox s1 = [FromLan (EthernetPacket_new ?f b)]" "cache (sw_of s1) = (cache (sw_of s))(host \<mapsto> j)"
      "ports (sw_of s1) ! j = ports (sw_of s) ! j" "bp_wan s1 = Some (WanWg dev)"
      "rt_wan (bp_router s1) = Some (HandleWg h)" "bp_sent s1 = bp_sent s" using assms(3,4) by auto
  have net: "rt_network (bp_router s1) = rt_network (bp_router s)" using s1(3) by (simp add: same_lan_def)
  from router_to_wan [OF s1(2,4) f(3) assms(10) _ assms(16) s1(8) ch assms(20) j, of path i] assms(5,15) net obtain s2 h2 where
    s2: "bridge_act E path s1 (RouterStep i) = Some s2" "live s2" "same_lan s1 s2" "inbox s2 = []"
      "cache (sw_of s2) = cache (sw_of s1)" "ports (sw_of s2) ! j = ports (sw_of s) ! j" "bp_wan s2 = Some (WanWg dev)"
      "rt_wan (bp_router s2) = Some (HandleWg h2)" "ch_queue (wgh_tx h2) = [p]" "bp_sent s2 = bp_sent s"
    using s1(6,7,9) by auto
  let ?w = "\<lparr>wg_dev = dev\<lparr>wg_rx := [p]\<rparr>, wg_router = \<lparr>rh_tx = []\<rparr>, wg_sent = bp_sent s\<rparr>"
  from wg_sends_one [OF assms(10-14), of ?w out "we_wg (be_wan E)" c t1] assms(17-19) obtain tbl where
    out: "translated ((packet_header p)\<lparr>ip_src := wg_ipv4 dev\<rparr>) b out"
      "NatTable_insert (wg_nat dev) p = (Ok tbl :: (NatTable, NetworkError) res)"
      "WgDevice_event (we_wg (be_wan E)) ?w Woken =
         Some (Ok (), \<lparr>wg_dev = dev\<lparr>wg_rx := [], wg_nat := tbl, wg_tun := t1\<rparr>, wg_router = \<lparr>rh_tx = []\<rparr>,
                       wg_sent = bp_sent s @ [(wg_endpoint dev, c)]\<rparr>)" by auto
  from wan_act [OF s2(2,7,8) _ j, of E Woken _ path] out s2 s1(1,3,5) show ?thesis
    by (fastforce dest: same_lan_trans)
qed

text \<open>A packet out of the tunnel to a guest: two turns.\<close>

lemma internet_to_guest:
  assumes "live s" and "inbox s = []" and "bp_wan s = Some (WanWg dev)" and "rt_wan (bp_router s) = Some (HandleWg h)"
    and "ch_queue (wgh_tx h) = []" and "wg_rx dev = []"
    and "NatTable_get (wg_nat dev) q = (Ok (Some orig) :: (ipv4addr option, NetworkError) res)"
    and "wg_decapsulate (we_wg (be_wan E)) (wg_tun dev) peer (take WG_BUF_SZ d) WG_BUF_SZ = (Some (WriteToTunnelV4 rb ip), t2)"
    and "Ipv4Packet_parse rb = Ok q" and "ip_ihl (packet_header q) = 5" and "ip_frag_offset (packet_header q) = 0"
    and "\<not> Ipv4Packet_has_fragments q" and "transport_fits (packet_header q) (drop 20 rb)"
    and "Ipv4Network_contains (rt_network (bp_router s)) orig" and "orig \<noteq> ip4 (rt_network (bp_router s))" and "orig \<noteq> 0xFFFFFFFF"
    and "rt_arp (bp_router s) (V4 orig) = Some host" and "cache (sw_of s) host = Some j"
    and "\<not> MacAddress_is_broadcast host" and "host \<noteq> rt_mac (bp_router s)" and "j \<noteq> 0" and "ports (sw_of s) ! j = VirtioPort rxq"
  shows "\<exists>s' ans. bridge_acts E path s [WanStep (WgEvent (UdpReadable [(peer, d)] None)), RouterStep i] = Some s' \<and>
     bp_sent s' = bp_sent s \<and> translated ((packet_header q)\<lparr>ip_dst := orig\<rparr>) rb ans \<and>
     ports (sw_of s') ! j =
       VirtioPort (VirtioDeviceRxQueue_enqueue rxq (EthernetFrame_new (rt_mac (bp_router s)) host IPv4) (packet_data ans))"
proof -
  let ?ev = "UdpReadable [(peer, d)] None" and ?w = "\<lparr>wg_dev = dev, wg_router = \<lparr>rh_tx = []\<rparr>, wg_sent = bp_sent s\<rparr>"
  from wg_receives_one [OF assms(9-13), of ?w orig "we_wg (be_wan E)" peer d ip t2] assms(7,8) obtain ans where
    ans: "translated ((packet_header q)\<lparr>ip_dst := orig\<rparr>) rb ans"
      "WgDevice_event (we_wg (be_wan E)) ?w ?ev =
         Some (Ok (), \<lparr>wg_dev = dev\<lparr>wg_tun := t2\<rparr>, wg_router = \<lparr>rh_tx = [FromWan4 ans]\<rparr>, wg_sent = bp_sent s\<rparr>)"
    by (auto simp: RouterHandle_route_ipv4_def)
  have rx: "dev\<lparr>wg_rx := []\<rparr> = dev" using assms(6) by (cases dev) simp
  from wan_act [OF assms(1,3,4) _ assms(21), of E ?ev _ path] ans(2) rx assms(2,5) obtain s1 where
    s1: "bridge_act E path s (WanStep (WgEvent ?ev)) = Some s1" "live s1" "same_lan s s1"
      "inbox s1 = [FromWan4 ans]" "cache (sw_of s1) = cache (sw_of s)" "ports (sw_of s1) ! j = VirtioPort rxq" "bp_sent s1 = bp_sent s"
    using assms(22) by auto
  have dest: "Ipv4Packet_dest ans = orig" using ans(1) by (simp add: translated_def Ipv4Packet_dest_def)
  from router_to_guest [OF s1(2,4) _ _ _ _ _ assms(19) _ assms(21) s1(6), of E path i] s1(3,5) dest assms(14-18,20) obtain s2 where
    "bridge_act E path s1 (RouterStep i) = Some s2" "bp_sent s2 = bp_sent s1"
    "ports (sw_of s2) ! j = VirtioPort (VirtioDeviceRxQueue_enqueue rxq (EthernetFrame_new (rt_mac (bp_router s)) host IPv4) (packet_data ans))"
    by (auto simp: same_lan_def)
  with s1(1,7) ans(1) show ?thesis by auto
qed

lemma bridge_acts_append:
  "bridge_acts E path s (as @ bs) = Option.bind (bridge_acts E path s as) (\<lambda>s. bridge_acts E path s bs)"
  by (induction as arbitrary: s) (auto split: Option.bind_splits)

text \<open>
  C1: a guest reaches the internet, and the answer the guest. In a bridge with a WireGuard WAN, in any state its threads
  can get to in which the channels are empty, a guest asks for the router's address and then sends it a frame with an IPv4
  packet \<open>p\<close> for an address outside the network, without options, not a later fragment, which opens a flow \<open>k\<close> of the NAT
  table. The tunnel is up: it encrypts the masqueraded packet into the buffer of 1600 bytes (so the packet has at most 1568:
  on a longer one the tunnel panics, \<open>WgDevice_long_packet_ends_run\<close>), and the socket sends the result. When the router and
  the WAN thread have taken their turns, one datagram has gone to the endpoint: \<open>p\<close> with the source address of the device
  and fresh checksums, encrypted by the tunnel. When the tunnel then decrypts a datagram to a packet \<open>q\<close> that answers the
  flow, and WAN and router have taken their turns, the device of the guest has two more frames pending, from the router to
  the guest: the ARP reply, and \<open>q\<close> with the guest's address as destination and fresh checksums.
\<close>

theorem Bridge_internet_round_trip:
  assumes "Bridge_run_start E self fs = Some (Inr s0)" and "bridge_acts E (br_socket_path self) s0 as = Some s"
    and "bp_main s = Polling" and "bp_router_runs s" and "inbox s = []"
    and "bp_wan s = Some (WanWg dev)" and "rt_wan (bp_router s) = Some (HandleWg h)" and "ch_queue (wgh_tx h) = []"
    and "j \<in> set (device_ports s)" and "ports (rt_switch (bp_router s)) ! j = VirtioPort rxq"
    and "\<not> MacAddress_is_broadcast (rt_mac (bp_router s))" and "host \<noteq> rt_mac (bp_router s)" and "\<not> MacAddress_is_broadcast host"
    and "arp4_wf a" and "sha a = host" and "spa a = V4 (Ipv4Packet_src p)" and "tpa a = V4 (ip4 (rt_network (bp_router s)))"
    and "Ipv4Packet_parse b = Ok p" and "ip_ihl (packet_header p) = 5" and "ip_frag_offset (packet_header p) = 0"
    and "transport_fits (packet_header p) (drop 20 b)" and "nat_wf p" and "nat_flow p = Some k"
    and "\<not> Ipv4Network_contains (rt_network (bp_router s)) (Ipv4Packet_dest p)" and "Ipv4Packet_dest p \<noteq> 0xFFFFFFFF"
    and "Ipv4Network_contains (rt_network (bp_router s)) (Ipv4Packet_src p)" and "Ipv4Packet_src p \<noteq> 0xFFFFFFFF"
    and "Ipv4Packet_src p \<noteq> ip4 (rt_network (bp_router s))"
    and "Ipv4Packet_masquerade p (wg_ipv4 dev) = (Ok out :: (Ipv4Packet, NetworkError) res)"
    and "wg_encapsulate (we_wg (be_wan E)) (wg_tun dev) (packet_data out) WG_BUF_SZ = (Some (WriteToNetwork c), t1)"
    and "wg_send_to (we_wg (be_wan E)) (wg_endpoint dev) c = Ok ()" and "ww_wake (be_wan_write E) = Ok ()"
    and "wg_decapsulate (we_wg (be_wan E)) t1 peer (take WG_BUF_SZ d) WG_BUF_SZ = (Some (WriteToTunnelV4 rb ip), t2)"
    and "Ipv4Packet_parse rb = Ok q" and "ip_ihl (packet_header q) = 5" and "ip_frag_offset (packet_header q) = 0"
    and "\<not> Ipv4Packet_has_fragments q" and "transport_fits (packet_header q) (drop 20 rb)" and "nat_wf q" and "nat_answers q = Some k"
  shows "\<exists>s' ans. bridge_acts E (br_socket_path self) s
       ([GuestSends j (frame_bytes (EthernetFrame_new host MacAddress_broadcast ARP) @ arp_bytes a), RouterStep i0] @
        [GuestSends j (frame_bytes (EthernetFrame_new host (rt_mac (bp_router s)) IPv4) @ b), RouterStep i1, WanStep (WgEvent Woken)] @
        [WanStep (WgEvent (UdpReadable [(peer, d)] None)), RouterStep i2]) = Some s' \<and>
     bp_sent s' = bp_sent s @ [(wg_endpoint dev, c)] \<and>
     translated ((packet_header p)\<lparr>ip_src := wg_ipv4 dev\<rparr>) b out \<and>
     ports (rt_switch (bp_router s')) ! j = VirtioPort
       (VirtioDeviceRxQueue_enqueue
         (VirtioDeviceRxQueue_enqueue rxq (EthernetFrame_new (rt_mac (bp_router s)) host ARP)
            (arp_bytes (ArpPacket_to_reply a (rt_mac (bp_router s)))))
         (EthernetFrame_new (rt_mac (bp_router s)) host IPv4) (packet_data ans)) \<and>
     translated ((packet_header q)\<lparr>ip_dst := Ipv4Packet_src p\<rparr>) rb ans"
proof -
  let ?path = "br_socket_path self" and ?mac = "rt_mac (bp_router s)"
  have "links_ok s" using acts_inv [OF assms(2), of links_ok] start_ok(1) [OF assms(1)] links_ok_act by blast
  then have live: "live s" using assms(3,4) by (simp add: live_def)
  have j: "j \<noteq> 0" using live_device [OF live assms(9)] by simp
  from guest_resolves [OF live assms(5,9,10,14,17,12,13), of E ?path i0] obtain s1 where
    a1: "bridge_acts E ?path s
       [GuestSends j (frame_bytes (EthernetFrame_new host MacAddress_broadcast ARP) @ arp_bytes a), RouterStep i0] = Some s1" and
    s1: "live s1" "inbox s1 = []" "rt_arp (bp_router s1) = (rt_arp (bp_router s))(spa a \<mapsto> sha a)" "rt_mac (bp_router s1) = ?mac"
      "rt_network (bp_router s1) = rt_network (bp_router s)" "cache (sw_of s1) = (cache (sw_of s))(host \<mapsto> j, ?mac \<mapsto> 0)"
      "ports (sw_of s1) ! j = VirtioPort (VirtioDeviceRxQueue_enqueue rxq (EthernetFrame_new ?mac host ARP) (arp_bytes (ArpPacket_to_reply a ?mac)))"
      "device_ports s1 = device_ports s" "bp_wan s1 = Some (WanWg dev)" "rt_wan (bp_router s1) = Some (HandleWg h)" "bp_sent s1 = bp_sent s"
    unfolding assms(6,7) by blast
  have c1: "cache (sw_of s1) (rt_mac (bp_router s1)) = Some 0" using s1(4,6) by simp
  from guest_to_internet [OF s1(1,2,9,10) assms(8), of j host b p out E c t1 ?path i1] c1 s1 assms(9,11,12,18-22,24,25,29-32) obtain s2 h2 tbl where
    a2: "bridge_acts E ?path s1
       [GuestSends j (frame_bytes (EthernetFrame_new host ?mac IPv4) @ b), RouterStep i1, WanStep (WgEvent Woken)] = Some s2" and
    s2: "live s2" "same_lan s1 s2" "inbox s2 = []" "cache (sw_of s2) = (cache (sw_of s1))(host \<mapsto> j)"
      "ports (sw_of s2) ! j = ports (sw_of s1) ! j" "rt_wan (bp_router s2) = Some (HandleWg h2)" "ch_queue (wgh_tx h2) = []"
      "bp_wan s2 = Some (WanWg (dev\<lparr>wg_rx := [], wg_nat := tbl, wg_tun := t1\<rparr>))"
      "NatTable_insert (wg_nat dev) p = (Ok tbl :: (NatTable, NetworkError) res)"
      "bp_sent s2 = bp_sent s @ [(wg_endpoint dev, c)]"
      "translated ((packet_header p)\<lparr>ip_src := wg_ipv4 dev\<rparr>) b out"
    by auto
  have look: "NatTable_get tbl q = (Ok (Some (Ipv4Packet_src p)) :: (ipv4addr option, NetworkError) res)"
    using NatTable_look_last [of p q k "[]" "[]" "wg_nat dev", where 'e = NetworkError] assms(22,23,39,40) s2(9) by auto
  have lan: "rt_arp (bp_router s2) (V4 (Ipv4Packet_src p)) = Some host" "rt_mac (bp_router s2) = ?mac"
    "rt_network (bp_router s2) = rt_network (bp_router s)" "cache (sw_of s2) host = Some j"
    using s1(3-5) s2(2,4) assms(15,16) by (auto simp: same_lan_def)
  from internet_to_guest [OF s2(1,3,8,6,7) _ _ _ assms(34-38) _ _ assms(27) lan(1,4) assms(13) _ j s2(5) [unfolded s1(7)],
      where E = E and peer = peer and d = d and ip = ip and path = ?path and i = i2] look lan assms(12,26,28,33)
  obtain s3 ans where "bridge_acts E ?path s2 [WanStep (WgEvent (UdpReadable [(peer, d)] None)), RouterStep i2] = Some s3"
    "bp_sent s3 = bp_sent s2" "translated ((packet_header q)\<lparr>ip_dst := Ipv4Packet_src p\<rparr>) rb ans"
    "ports (sw_of s3) ! j = VirtioPort (VirtioDeviceRxQueue_enqueue
       (VirtioDeviceRxQueue_enqueue rxq (EthernetFrame_new ?mac host ARP) (arp_bytes (ArpPacket_to_reply a ?mac)))
       (EthernetFrame_new ?mac host IPv4) (packet_data ans))" by auto
  with s2(10,11) show ?thesis unfolding bridge_acts_append a1 a2 Option.bind.simps by auto
qed

section \<open>After the end of a UDP thread\<close>

text \<open>
  An error, or a datagram the thread cannot parse, ends the UDP thread and drops its device with the socket; the router keeps
  writing to the number of the closed descriptor, whatever has it by then.
\<close>

lemma udp_handle_outlives_socket:
  assumes "bp_wan s = Some (WanUdp dev)" and "rt_wan (bp_router s) = Some (HandleUdp h)" and "UdpDevice_run \<lparr>rh_tx = inbox s\<rparr> [r] = (x, router)"
    and "x \<noteq> Ok ()" and "udh_dests h = [a]" and "ww_sendmsg os (udh_sock h) a (Ipv4Packet_as_bytes pkt) = Ok ()"
  shows "\<exists>s'. wan_step E (UdpReceived r) s = Some s' \<and> bp_wan s' = None \<and> rt_wan (bp_router s') = Some (HandleUdp h) \<and>
     WanHandle_write os (HandleUdp h) pkt =
       (Ok (), HandleUdp (h\<lparr>udh_sent := udh_sent h @ [(udh_sock h, a, Ipv4Packet_as_bytes pkt)]\<rparr>))"
  using assms by (cases x) (simp_all add: wan_step_def Wan_event.simps UdpDeviceHandle_write_def Let_def)

section \<open>A guest to evaluate the property at\<close>

definition sample_wg_bridge :: "Config Bridge" where
  "sample_wg_bridge =
     \<lparr>br_socket_path = ''b.sock'', br_pcap = None,
      br_cfg = \<lparr>bc_wan = CfgWireguard \<lparr>wgc_key = ''k'', wgc_ipv4 = 0xC0A80001, wgc_peer = ''p'', wgc_endpoint = SockV4 0x01020304 51820\<rparr>,
        bc_router = \<lparr>rc_ipv4 = Ipv4Network_new 0x0A000000 31, rc_dhcp = \<lparr>cfg_start = 0x0A000000, cfg_end = 0x0A000000\<rparr>, rc_dns = False\<rparr>,
        bc_queues = 2\<rparr>\<rparr>"

definition sample_wg_device :: "unit WgDevice" where
  "sample_wg_device = \<lparr>wg_tun = (), wg_endpoint = SockV4 0x01020304 51820, wg_ipv4 = 0xC0A80001, wg_rx = [], wg_nat = NatTable_new, wg_cache = Map.empty\<rparr>"

definition sample_arp :: ArpPacket where
  "sample_arp = \<lparr>hardware_type = 1, protocol_type = IPv4, hardware_len = 6, protocol_len = 4, operation = 1,
     sha = MacAddress 2 0 0 0 0 1, spa = V4 0x0A000001, tha = MacAddress_broadcast, tpa = V4 0x0A000000\<rparr>"

lemma sample_wg_start:
  "\<exists>r. Bridge_run_start sample_proc_env sample_wg_bridge Map.empty =
     Some (Inr \<lparr>bp_fs = [''b.sock'' \<mapsto> SocketFile 77], bp_main = Polling, bp_router = r, bp_router_runs = True,
                bp_wan = Some (WanWg sample_wg_device), bp_sent = [], bp_devices = [], bp_capture = None\<rparr>) \<and>
     rt_wan r = Some (HandleWg \<lparr>wgh_tx = \<lparr>ch_queue = [], ch_open = True\<rparr>\<rparr>) \<and> rt_mac r = MacAddress 82 84 0 1 2 3 \<and>
     rt_network r = Ipv4Network_new 0x0A000000 31 \<and> ports (rt_switch r) = [OtherPort \<lparr>rh_tx = []\<rparr>] \<and> rt_port r = 0"
proof -
  have "\<exists>v. DhcpServer_new (Ipv4Network_new 0x0A000000 31) \<lparr>cfg_start = 0x0A000000, cfg_end = 0x0A000000\<rparr> = Some v"
    by (simp add: DhcpServer_new_def subnet_mask_bits_new pool_loop_eq Let_def Ipv4Network_broadcast_def mask4_new mask_eq_exp_minus_1)
  then show ?thesis
    by (auto simp: Bridge_run_start_def Bridge_capture_def sample_proc_env_def sample_wg_bridge_def VHostSocket_new_def path_exists_def bind_def give_def
        UnixListener_bind_def Bridge_start_def sample_os_def sample_wan_os_def VirtioSwitch_new_def PcapLogger_new_def parse_wan_def
        WgDevice_create_def Bridge_handlers_def running_wan_def Wan_spawn_def WgDevice_as_wan_handle_def Let_def sample_wg_device_def
        RouterBuilder_spawn_def VirtioSwitch_connect_def RouterBuilder_wan_def RouterBuilder_register_proto_handler_def MacAddress_generate_def)
qed

lemma sample_connect:
  "\<exists>dev. VHostSocket_accept_and_spawn sample_vhost_os sample_lib (bridge_switch_ops RouterHandle_enqueue) (Ok 9) (Ok ()) DeviceOpts_default sw =
     (Ok (9, dev), sw\<lparr>ports := ports sw @ [VirtioPort \<lparr>rxq_queue = [], rxq_wakes = 0\<rparr>]\<rparr>) \<and> router_port dev = length (ports sw)"
proof -
  have "\<exists>qs. new_queues sample_lib (Suc (Suc 0)) = Ok qs" by (simp add: VirtQueue_new_def sample_lib_def)
  then obtain qs where "new_queues sample_lib 2 = Ok qs" by (auto simp: numeral_2_eq_2)
  then show ?thesis
    by (simp add: VHostSocket_accept_and_spawn_def VirtioDevice_new_def sample_vhost_os_def DeviceOpts_default_def bridge_switch_ops_def
        VirtioSwitch_connect_def)
qed

theorem Bridge_internet_round_trip_witness:
  "\<exists>s0 s s' out ans. Bridge_run_start sample_proc_env sample_wg_bridge Map.empty = Some (Inr s0) \<and>
     bridge_acts sample_proc_env ''b.sock'' s0 [MainPoll (Ok [VhostReadable (Ok 9) (Ok ())])] = Some s \<and>
     bridge_acts sample_proc_env ''b.sock'' s
       ([GuestSends 1 (frame_bytes (EthernetFrame_new (MacAddress 2 0 0 0 0 1) MacAddress_broadcast ARP) @ arp_bytes sample_arp), RouterStep 3] @
        [GuestSends 1 (frame_bytes (EthernetFrame_new (MacAddress 2 0 0 0 0 1) (MacAddress 82 84 0 1 2 3) IPv4) @ sample_udp), RouterStep 4, WanStep (WgEvent Woken)] @
        [WanStep (WgEvent (UdpReadable [(V4 0x01020304, replicate 32 0 @ sample_reply)] None)), RouterStep 5]) = Some s' \<and>
     bp_sent s' = [(SockV4 0x01020304 51820, replicate 32 0 @ packet_data out)] \<and>
     translated ((packet_header sample_out)\<lparr>ip_src := 0xC0A80001\<rparr>) sample_udp out \<and>
     translated ((packet_header sample_in)\<lparr>ip_dst := 0x0A000001\<rparr>) sample_reply ans"
proof -
  from sample_wg_start obtain s0 where
    s0: "Bridge_run_start sample_proc_env sample_wg_bridge Map.empty = Some (Inr s0)" and
    v0: "bp_main s0 = Polling" "bp_router_runs s0" "bp_wan s0 = Some (WanWg sample_wg_device)" "bp_sent s0 = []" "bp_devices s0 = []"
      "rt_wan (bp_router s0) = Some (HandleWg \<lparr>wgh_tx = \<lparr>ch_queue = [], ch_open = True\<rparr>\<rparr>)" "rt_mac (bp_router s0) = MacAddress 82 84 0 1 2 3"
      "rt_network (bp_router s0) = Ipv4Network_new 0x0A000000 31" "ports (sw_of s0) = [OtherPort \<lparr>rh_tx = []\<rparr>]" "rt_port (bp_router s0) = 0"
    by auto
  obtain dev where dev: "VHostSocket_accept_and_spawn (be_vhost sample_proc_env) (be_lib sample_proc_env) (bridge_switch_ops RouterHandle_enqueue)
      (Ok 9) (Ok ()) DeviceOpts_default (sw_of s0) = (Ok (9, dev), (sw_of s0)\<lparr>ports := ports (sw_of s0) @ [VirtioPort \<lparr>rxq_queue = [], rxq_wakes = 0\<rparr>]\<rparr>)"
    "router_port dev = 1"
    using sample_connect [of "sw_of s0"] v0(9) by (auto simp: sample_proc_env_def)
  define s where "s = (set_switch ((sw_of s0)\<lparr>ports := ports (sw_of s0) @ [VirtioPort \<lparr>rxq_queue = [], rxq_wakes = 0\<rparr>]\<rparr>) s0)\<lparr>bp_devices := [(9, dev)]\<rparr>"
  have s: "bridge_acts sample_proc_env ''b.sock'' s0 [MainPoll (Ok [VhostReadable (Ok 9) (Ok ())])] = Some s"
    using v0(1,5) dev(1) by (simp add: bridge_act_def Bridge_poll_def s_def)
  have v: "bp_main s = Polling" "bp_router_runs s" "inbox s = []" "bp_wan s = Some (WanWg sample_wg_device)" "bp_sent s = []"
    "rt_wan (bp_router s) = Some (HandleWg \<lparr>wgh_tx = \<lparr>ch_queue = [], ch_open = True\<rparr>\<rparr>)" "rt_mac (bp_router s) = MacAddress 82 84 0 1 2 3"
    "rt_network (bp_router s) = Ipv4Network_new 0x0A000000 31" "1 \<in> set (device_ports s)"
    "ports (sw_of s) ! 1 = VirtioPort \<lparr>rxq_queue = [], rxq_wakes = 0\<rparr>"
    using v0 dev(2) by (simp_all add: s_def inbox_def device_ports_def set_switch_def)
  have path: "br_socket_path sample_wg_bridge = ''b.sock''" by (simp add: sample_wg_bridge_def)
  from Ipv4Packet_masquerade_translated [OF sample_out_header, where ip = "wg_ipv4 sample_wg_device" and 'e = NetworkError] obtain out where
    out: "Ipv4Packet_masquerade sample_out (wg_ipv4 sample_wg_device) = (Ok out :: (Ipv4Packet, NetworkError) res)"
      "translated ((packet_header sample_out)\<lparr>ip_src := wg_ipv4 sample_wg_device\<rparr>) sample_udp out" by blast
  have len: "length (packet_data out) = 28" "length sample_reply = 28"
    using out(2) by (simp_all add: translated_def sample_udp_def sample_reply_def)
  have wg: "wg_encapsulate (we_wg (be_wan sample_proc_env)) (wg_tun sample_wg_device) (packet_data out) WG_BUF_SZ =
      (Some (WriteToNetwork (replicate 32 0 @ packet_data out)), ())" "wg_send_to (we_wg (be_wan sample_proc_env)) ad c = Ok ()"
    "ww_wake (be_wan_write sample_proc_env) = Ok ()"
    "wg_decapsulate (we_wg (be_wan sample_proc_env)) () x (take WG_BUF_SZ (replicate 32 0 @ sample_reply)) WG_BUF_SZ =
      (Some (WriteToTunnelV4 sample_reply 0), ())" for c ad x
    using len by (simp_all add: sample_proc_env_def sample_wg_env_def WG_BUF_SZ_def)
  have net: "\<not> Ipv4Network_contains (Ipv4Network_new 0x0A000000 31) 0x0A000002" "Ipv4Network_contains (Ipv4Network_new 0x0A000000 31) 0x0A000001"
    by (simp_all add: Ipv4Network_contains_def Ipv4Network_network_def mask4_new mask_eq_exp_minus_1)
  have dest: "Ipv4Packet_dest sample_out = 0x0A000002"
    by (simp add: sample_out_def Ipv4Packet_dest_def sample_udp_def header_of_bytes_def from_be_bytes_def)
  have arp: "arp4_wf sample_arp" "sha sample_arp = MacAddress 2 0 0 0 0 1" "spa sample_arp = V4 (Ipv4Packet_src sample_out)"
    "tpa sample_arp = V4 (ip4 (rt_network (bp_router s)))"
    using sample_out_nat(3) v(8) by (simp_all add: sample_arp_def arp4_wf_def)
  have mac: "\<not> MacAddress_is_broadcast (rt_mac (bp_router s))" "MacAddress 2 0 0 0 0 1 \<noteq> rt_mac (bp_router s)"
    "\<not> MacAddress_is_broadcast (MacAddress 2 0 0 0 0 1)"
    using v(7) by (simp_all add: MacAddress_is_broadcast_def MacAddress_broadcast_def)
  have addr: "\<not> Ipv4Network_contains (rt_network (bp_router s)) (Ipv4Packet_dest sample_out)" "Ipv4Packet_dest sample_out \<noteq> 0xFFFFFFFF"
    "Ipv4Network_contains (rt_network (bp_router s)) (Ipv4Packet_src sample_out)" "Ipv4Packet_src sample_out \<noteq> 0xFFFFFFFF"
    "Ipv4Packet_src sample_out \<noteq> ip4 (rt_network (bp_router s))"
    using net dest sample_out_nat(3) v(8) by simp_all
  have q: "ch_queue (wgh_tx \<lparr>wgh_tx = \<lparr>ch_queue = [], ch_open = True\<rparr>\<rparr>) = []" by simp
  have dv: "wg_endpoint sample_wg_device = SockV4 0x01020304 51820" "wg_ipv4 sample_wg_device = 0xC0A80001" by (simp_all add: sample_wg_device_def)
  from Bridge_internet_round_trip [OF s0, unfolded path, OF s v(1-4,6) q v(9,10) mac arp sample_out_header sample_out_nat(1,2) addr
      out(1) wg(1-4) sample_in_header sample_in_nat, where ?i0.0 = 3 and ?i1.0 = 4 and ?i2.0 = 5 and peer = "V4 0x01020304"]
  show ?thesis
    unfolding v(5,7) dv sample_out_nat(3) append_Nil using s0 s by blast
qed

end
