(* ===== verification/Udp_Dummy.thy ===== *)
theory Udp_Dummy
  imports Icmp Wan
begin

text \<open>
  The demo upstream, \<^verbatim>\<open>upstreams/udp-dummy/src/main.rs\<close>: a program at the other end of a UDP WAN that answers every
  packet with an ICMP message that the network is unreachable. It works in one buffer of 1600 bytes, of which a datagram
  overwrites only its own length. The socket is an argument: the outcomes of its calls and the random id of each header.
\<close>

definition MTU_SZ :: nat where "MTU_SZ = 1600"

record dummy_opts =
  dummy_port :: u16

definition dummy_opts_default :: dummy_opts where
  "dummy_opts_default = \<lparr>dummy_port = 9870\<rparr>"

datatype dummy_error = DummyProtocol ProtocolError | DummyIo string

text \<open>What a receiving call leaves in the buffer, and one turn of the loop: the answer, and the buffer afterwards.\<close>

definition received_into :: "bytes \<Rightarrow> bytes \<Rightarrow> bytes" where
  "received_into buf d = take (length buf) d @ drop (length d) buf"

definition dummy_turn :: "u16 \<Rightarrow> bytes \<Rightarrow> (bytes \<times> bytes, ProtocolError) res" where
  "dummy_turn rng buf =
     and_then (Ipv4Header_extract_from_slice buf) (\<lambda>hdr.
     and_then (get_from buf 20) (\<lambda>payload.
     and_then (IcmpPacket_destination_unreachable NetworkUnreachable hdr payload) (\<lambda>icmp.
     and_then (IcmpPacket_as_bytes icmp payload) (\<lambda>(payload, sz).
     let buf = take 20 buf @ payload in
     and_then (get_slice buf 20 (20 + sz)) (\<lambda>reply.
     let hdr = Ipv4Header_gen_reply rng hdr reply in
     and_then (Ipv4Header_as_bytes hdr buf) (\<lambda>buf.
     and_then (get_slice buf 0 (20 + sz)) (\<lambda>out.
     Ok (out, buf))))))))"

text \<open>
  The loop on the outcomes of \<open>recv_from\<close>, the ids and the outcomes of \<open>send_to\<close>: it ends when receiving fails, and with
  an error when the header or sending fails. The result has what was sent to which peer.
\<close>

fun dummy_loop ::
  "bytes \<Rightarrow> ((SocketAddr \<times> bytes, string) res \<times> u16 \<times> (unit, string) res) list
     \<Rightarrow> (unit, dummy_error) res \<times> (SocketAddr \<times> bytes) list" where
  "dummy_loop buf [] = (Ok (), [])"
| "dummy_loop buf ((recv, rng, send) # evs) =
     (case recv of
        Err e \<Rightarrow> (Ok (), [])
      | Panic \<Rightarrow> (Panic, [])
      | Ok (peer, d) \<Rightarrow>
          (case dummy_turn rng (received_into buf d) of
             Err e \<Rightarrow> (Err (DummyProtocol e), [])
           | Panic \<Rightarrow> (Panic, [])
           | Ok (out, buf) \<Rightarrow>
               (case send of
                  Ok _ \<Rightarrow> (case dummy_loop buf evs of (r, sent) \<Rightarrow> (r, (peer, out) # sent))
                | Err e \<Rightarrow> (Err (DummyIo e), [])
                | Panic \<Rightarrow> (Panic, []))))"

definition dummy_main ::
  "(string \<Rightarrow> (unit, string) res) \<Rightarrow> dummy_opts \<Rightarrow> ((SocketAddr \<times> bytes, string) res \<times> u16 \<times> (unit, string) res) list
     \<Rightarrow> (unit, dummy_error) res \<times> (SocketAddr \<times> bytes) list" where
  "dummy_main bind_to opts evs =
     (case bind_to (''0.0.0.0:'' @ show_dec (unat (dummy_port opts))) of
        Ok _ \<Rightarrow> dummy_loop (replicate MTU_SZ 0) evs
      | Err e \<Rightarrow> (Err (DummyIo e), [])
      | Panic \<Rightarrow> (Panic, []))"

section \<open>The answer\<close>

text \<open>The ICMP message about a packet: its header as the header is written, and the first eight bytes behind it.\<close>

definition unreachable_about :: "bytes \<Rightarrow> bytes" where
  "unreachable_about b =
     (let h = header_of_bytes b; m = (\<lambda>c. [3, 0] @ to_be_bytes 2 c @ [0, 0, 0, 0] @ header_bytes h 0 (header_checksum h 0) @ take 8 (drop 20 b))
      in m (checksum (m 0)))"

definition answer_header :: "u16 \<Rightarrow> bytes \<Rightarrow> Ipv4Header" where
  "answer_header rng b = Ipv4Header_new rng (ip_dst (header_of_bytes b)) (ip_src (header_of_bytes b)) (ip_protocol (header_of_bytes b)) 36"

lemma length_unreachable_about [simp]: "28 \<le> length b \<Longrightarrow> length (unreachable_about b) = 36"
  by (simp add: unreachable_about_def Let_def)

lemma length_received_into [simp]: "length (received_into buf d) = length buf"
  by (simp add: received_into_def)

lemma IcmpType_unreachable_eq:
  assumes "length d = 28" and "36 \<le> length buf"
  shows "IcmpType_as_bytes (DestinationUnreachable code d) buf =
     Ok (([3, DestinationUnreachableCode_as_u8 code] @ to_be_bytes 2 (checksum ([3, DestinationUnreachableCode_as_u8 code, 0, 0, 0, 0, 0, 0] @ d))
          @ [0, 0, 0, 0] @ d) @ drop 36 buf, 36)"
proof -
  obtain b0 b1 rest where "buf = b0 # b1 # rest" "34 \<le> length rest"
    using assms length_ge_2E [of 34 buf] by auto
  then show ?thesis
    using assms(1) by (simp add: ICMP_TY_DESTINATION_UNREACHABLE_def buf_simps take_Cons' drop_Cons')
qed

lemma dummy_turn_eq:
  assumes "length b = 1600"
  shows "dummy_turn rng b =
     (let h = answer_header rng b; out = header_bytes h (b ! 1) (header_checksum h (b ! 1)) @ unreachable_about b
      in Ok (out, out @ drop 56 b))"
proof -
  have "unat (b ! 0 AND 0x0F) \<le> 15"
    using word_and_le1 [of "b ! 0" "0x0F"] by (simp add: word_le_nat_alt)
  then have hdr: "Ipv4Header_extract_from_slice b = Ok (header_of_bytes b)"
    using assms by (auto simp: Ipv4Header_extract_from_slice_eq)
  have "IcmpType_as_bytes (DestinationUnreachable NetworkUnreachable (header_bytes (header_of_bytes b) 0 (header_checksum (header_of_bytes b) 0) @ take 8 (drop 20 b)))
       (drop 20 b) = (Ok (unreachable_about b @ drop 56 b, 36) :: (bytes \<times> nat, ProtocolError) res)"
    by (subst IcmpType_unreachable_eq) (use assms in \<open>simp_all add: unreachable_about_def Let_def to_be_bytes_zero2\<close>)
  note icmp = this
  have l: "length (take 20 b) = 20" "20 \<le> length b" "28 \<le> length b" "take 20 b ! 1 = b ! 1" using assms by simp_all
  show ?thesis
    using assms l icmp
    by (simp add: dummy_turn_def hdr buf_simps IcmpPacket_destination_unreachable_quotes IcmpPacket_as_bytes_def Let_def
        Ipv4Header_as_bytes_eq Ipv4Header_gen_reply_def answer_header_def nth_append)
qed

text \<open>Only the first 28 bytes of a packet matter.\<close>

lemma same_front:
  assumes "take 28 b = take 28 d"
  shows "header_of_bytes b = header_of_bytes d" "unreachable_about b = unreachable_about d"
proof -
  have n: "b ! i = d ! i" if "i < 28" for i using arg_cong [OF assms, of "\<lambda>x. x ! i"] that by simp
  have t: "take k (drop i b) = take k (drop i d)" if "i + k \<le> 28" for i k
    using arg_cong [OF assms, of "\<lambda>x. take k (drop i x)"] that by (simp add: drop_take min_def split: if_splits)
  show h: "header_of_bytes b = header_of_bytes d" by (simp add: header_of_bytes_def n t)
  show "unreachable_about b = unreachable_about d" by (simp add: unreachable_about_def h t)
qed

lemma received_front: "28 \<le> length d \<Longrightarrow> length buf = 1600 \<Longrightarrow> take 28 (received_into buf d) = take 28 d"
  by (simp add: received_into_def)

text \<open>The answer is a packet to the UDP WAN.\<close>

lemma answer_to_wan:
  fixes b :: bytes
  assumes "28 \<le> length b" and "out = header_bytes (answer_header rng b) tos (header_checksum (answer_header rng b) tos) @ unreachable_about b"
  shows "\<exists>q. UdpDevice_turn router out = (Ok (), RouterHandle_route_ipv4 router q) \<and>
     Ipv4Packet_src q = ip_dst (header_of_bytes b) \<and> Ipv4Packet_dest q = ip_src (header_of_bytes b) \<and>
     Ipv4Packet_protocol q = ip_protocol (header_of_bytes b) \<and>
     Ipv4Packet_payload q = (Ok (unreachable_about b) :: (bytes, ProtocolError) res)"
proof -
  let ?h = "answer_header rng b"
  have plain: "plain_header ?h" by (simp add: plain_header_def answer_header_def Ipv4Header_new_def)
  let ?q = "\<lparr>packet_header = ?h\<lparr>ip_checksum := header_checksum ?h tos\<rparr>, packet_data = out\<rparr>"
  have q: "Ipv4Packet_parse out = Ok ?q" unfolding assms(2) by (rule parse_written [OF plain])
  have "out ! 0 = push_bit 4 4 OR 5" "out \<noteq> []"
    by (simp_all add: assms(2) header_bytes_def header_front_def answer_header_def Ipv4Header_new_def)
  then have "get_at out 0 = (Ok (push_bit 4 4 OR 5) :: (u8, NetworkError) res)" by (simp add: buf_simps)
  then have "UdpDevice_turn router out = (Ok (), RouterHandle_route_ipv4 router ?q)"
    using q by (simp add: UdpDevice_turn_def)
  moreover have "Ipv4Packet_payload ?q = (Ok (unreachable_about b) :: (bytes, ProtocolError) res)"
    using assms(1) by (simp add: Ipv4Packet_payload_def Ipv4Header_header_length_def answer_header_def Ipv4Header_new_def get_from_in assms(2))
  ultimately show ?thesis
    by (intro exI [of _ ?q]) (simp add: Ipv4Packet_src_def Ipv4Packet_dest_def Ipv4Packet_protocol_def answer_header_def Ipv4Header_new_def)
qed

text \<open>The datagrams of a run in which the socket does not fail, and the loop on them.\<close>

definition served :: "(SocketAddr \<times> bytes \<times> u16) list \<Rightarrow> ((SocketAddr \<times> bytes, string) res \<times> u16 \<times> (unit, string) res) list" where
  "served ds = map (\<lambda>(peer, d, rng). (Ok (peer, d), rng, Ok ())) ds"

lemma dummy_loop_serves:
  assumes "length buf = 1600"
  shows "\<exists>sent. dummy_loop buf (served ds) = (Ok (), sent) \<and>
     list_all2 (\<lambda>(peer, d, rng) (peer', out). peer' = peer \<and>
        (\<exists>b tos. length b = 1600 \<and> (28 \<le> length d \<longrightarrow> take 28 b = take 28 d) \<and>
           out = header_bytes (answer_header rng b) tos (header_checksum (answer_header rng b) tos) @ unreachable_about b)) ds sent"
  using assms
proof (induction ds arbitrary: buf)
  case (Cons x ds)
  obtain peer d rng where x: "x = (peer, d, rng)" by (cases x)
  let ?b = "received_into buf d"
  let ?out = "header_bytes (answer_header rng ?b) (?b ! 1) (header_checksum (answer_header rng ?b) (?b ! 1)) @ unreachable_about ?b"
  have turn: "dummy_turn rng ?b = Ok (?out, ?out @ drop 56 ?b)" using Cons.prems by (simp add: dummy_turn_eq Let_def)
  have "length (?out @ drop 56 ?b) = 1600" using Cons.prems by simp
  from Cons.IH [OF this] obtain sent where "dummy_loop (?out @ drop 56 ?b) (served ds) = (Ok (), sent)" and
    all: "list_all2 (\<lambda>(peer, d, rng) (peer', out). peer' = peer \<and>
        (\<exists>b tos. length b = 1600 \<and> (28 \<le> length d \<longrightarrow> take 28 b = take 28 d) \<and>
           out = header_bytes (answer_header rng b) tos (header_checksum (answer_header rng b) tos) @ unreachable_about b)) ds sent" by blast
  moreover have "\<exists>b tos. length b = 1600 \<and> (28 \<le> length d \<longrightarrow> take 28 b = take 28 d) \<and>
      ?out = header_bytes (answer_header rng b) tos (header_checksum (answer_header rng b) tos) @ unreachable_about b"
    using Cons.prems received_front by (intro exI [of _ ?b] exI [of _ "?b ! 1"]) simp
  ultimately show ?case using turn x by (auto simp: served_def)
qed (simp add: served_def)

text \<open>
  C38: the demo upstream answers every packet. As long as its socket works it goes on, whatever it receives, and sends one
  datagram for each, to its sender. When a datagram has 28 bytes or more, the UDP WAN of a bridge takes the answer for an IPv4 packet
  from the destination of the packet to its source and hands it to the router; its payload says that the network is unreachable
  and quotes the header of the packet and the eight bytes behind it. The protocol of the answer is the one of the
  packet, not ICMP.
\<close>

theorem Udp_dummy_answers:
  assumes "bind_to (''0.0.0.0:'' @ show_dec (unat (dummy_port opts))) = Ok ()"
  shows "\<exists>sent. dummy_main bind_to opts (served ds) = (Ok (), sent) \<and> map fst sent = map fst ds \<and>
     (\<forall>i < length ds. 28 \<le> length (fst (snd (ds ! i))) \<longrightarrow>
        (let h = header_of_bytes (fst (snd (ds ! i))) in
         \<exists>q. UdpDevice_turn router (snd (sent ! i)) = (Ok (), RouterHandle_route_ipv4 router q) \<and>
           Ipv4Packet_src q = ip_dst h \<and> Ipv4Packet_dest q = ip_src h \<and> Ipv4Packet_protocol q = ip_protocol h \<and>
           Ipv4Packet_payload q = (Ok (unreachable_about (fst (snd (ds ! i)))) :: (bytes, ProtocolError) res)))"
proof -
  let ?P = "\<lambda>(peer, d, rng) (peer', out). peer' = peer \<and>
        (\<exists>b tos. length b = 1600 \<and> (28 \<le> length d \<longrightarrow> take 28 b = take 28 d) \<and>
           out = header_bytes (answer_header rng b) tos (header_checksum (answer_header rng b) tos) @ unreachable_about b)"
  obtain sent where sent: "dummy_main bind_to opts (served ds) = (Ok (), sent)" and all: "list_all2 ?P ds sent"
    using dummy_loop_serves [of "replicate MTU_SZ 0" ds] assms by (auto simp: dummy_main_def MTU_SZ_def)
  have "map fst sent = map fst ds"
    using all by (auto simp: list_all2_conv_all_nth intro!: nth_equalityI)
  moreover have "let h = header_of_bytes (fst (snd (ds ! i))) in
         \<exists>q. UdpDevice_turn router (snd (sent ! i)) = (Ok (), RouterHandle_route_ipv4 router q) \<and>
           Ipv4Packet_src q = ip_dst h \<and> Ipv4Packet_dest q = ip_src h \<and> Ipv4Packet_protocol q = ip_protocol h \<and>
           Ipv4Packet_payload q = (Ok (unreachable_about (fst (snd (ds ! i)))) :: (bytes, ProtocolError) res)"
    if i: "i < length ds" and long: "28 \<le> length (fst (snd (ds ! i)))" for i
  proof -
    obtain peer d rng where d: "ds ! i = (peer, d, rng)" by (cases "ds ! i")
    obtain b tos where b: "length b = 1600" "take 28 b = take 28 d"
      "snd (sent ! i) = header_bytes (answer_header rng b) tos (header_checksum (answer_header rng b) tos) @ unreachable_about b"
      using list_all2_nthD [OF all i] long d by (cases "sent ! i") auto
    from answer_to_wan [OF _ b(3), of router] b(1) same_front [OF b(2)] d show ?thesis by simp
  qed
  ultimately show ?thesis using sent by blast
qed

theorem Udp_dummy_answers_witness:
  "\<exists>sent q. dummy_main (\<lambda>a. Ok ()) dummy_opts_default (served [(SockV4 1 2, [], 3), (SockV4 4 5, sample_udp, 6)]) = (Ok (), sent) \<and>
     UdpDevice_turn \<lparr>rh_tx = []\<rparr> (snd (sent ! 1)) = (Ok (), RouterHandle_route_ipv4 \<lparr>rh_tx = []\<rparr> q) \<and> Ipv4Packet_dest q = 0x0A000001"
proof -
  have "28 \<le> length sample_udp" "ip_src (header_of_bytes sample_udp) = 0x0A000001"
    by (simp_all add: sample_udp_def header_of_bytes_def from_be_bytes_def)
  then show ?thesis
    using Udp_dummy_answers [of "\<lambda>a. Ok ()" dummy_opts_default "[(SockV4 1 2, [], 3), (SockV4 4 5, sample_udp, 6)]" "\<lparr>rh_tx = []\<rparr>"]
    by (fastforce simp: Let_def less_Suc_eq)
qed

end
