(* ===== verification/Fabrial_Agent.thy ===== *)
theory Fabrial_Agent
  imports Net_Types
begin

text \<open>
  The guest agent, \<^verbatim>\<open>oathgate-fabrial/src\<close>: it gives a shell on a pseudo-terminal to each
  connection of a socket (\<^verbatim>\<open>tty.rs\<close>), starts listening (\<^verbatim>\<open>main.rs\<close>; serving connections is theory \<open>Fabrial_Server\<close>) and adds contexts to its
  errors (\<^verbatim>\<open>error.rs\<close>). The system calls are parameters, in the record \<open>tty_os\<close>, on a world \<open>'w\<close>.
  A connection carries messages: their type, for input two bytes of length and the data, for a change
  of the window four bytes with its size. Reading the data of a message ends because each turn reads
  some of it; serving a readable socket has no bound of its own, \<open>None\<close> stands for not returning.
\<close>

section \<open>Errors\<close>

record 'i fabrial_error =
  err_inner :: 'i
  err_context :: "string option"

definition Error_from :: "'i \<Rightarrow> 'i fabrial_error" where
  "Error_from error = \<lparr>err_inner = error, err_context = None\<rparr>"

definition Error_source :: "'i fabrial_error \<Rightarrow> 'i" where
  "Error_source self = err_inner self"

definition Error_context_str :: "'i fabrial_error \<Rightarrow> string" where
  "Error_context_str self = (case err_context self of Some s \<Rightarrow> s | None \<Rightarrow> ''None'')"

definition Error_display :: "('i \<Rightarrow> string) \<Rightarrow> 'i fabrial_error \<Rightarrow> string" where
  "Error_display disp self =
     (case err_context self of
        Some ctx \<Rightarrow> ''Error: '' @ ctx @ '' ('' @ disp (err_inner self) @ '')''
      | None \<Rightarrow> ''Error: ('' @ disp (err_inner self) @ '')'')"

text \<open>\<open>ErrorContext\<close> for the results of other error types, and for results of this one.\<close>

definition with_context :: "string \<Rightarrow> ('a, 'i) res \<Rightarrow> ('a, 'i fabrial_error) res" where
  "with_context ctx r = map_err (\<lambda>error. \<lparr>err_inner = error, err_context = Some ctx\<rparr>) r"

definition with_context_again :: "string \<Rightarrow> ('a, 'i fabrial_error) res \<Rightarrow> ('a, 'i fabrial_error) res" where
  "with_context_again ctx r = map_err (\<lambda>error. \<lparr>err_inner = err_inner error, err_context = Some ctx\<rparr>) r"

section \<open>The terminal of a connection\<close>

record 'w tty_os =
  ty_recv :: "'w \<Rightarrow> nat \<Rightarrow> (bytes, errno) res \<times> 'w"
  ty_send :: "'w \<Rightarrow> bytes \<Rightarrow> (nat, errno) res \<times> 'w"
  ty_read :: "'w \<Rightarrow> nat \<Rightarrow> (bytes, errno) res \<times> 'w"
  ty_write :: "'w \<Rightarrow> bytes \<Rightarrow> (nat, errno) res \<times> 'w"
  ty_winsize :: "'w \<Rightarrow> u16 \<Rightarrow> u16 \<Rightarrow> (unit, errno) res \<times> 'w"

datatype SocketAction = WriteToTTY | WouldBlock | Continue

definition BUFFER_SIZE :: nat where "BUFFER_SIZE = 2048"
definition TOKEN_SOCK :: nat where "TOKEN_SOCK = 10"
definition TOKEN_TTY :: nat where "TOKEN_TTY = 20"
definition MSG_TY_ZERO :: u8 where "MSG_TY_ZERO = 0x00"
definition MSG_TY_DATA :: u8 where "MSG_TY_DATA = 0x01"
definition MSG_TY_TTYRESIZE :: u8 where "MSG_TY_TTYRESIZE = 0x02"

definition non_blocking_recv :: "'w tty_os \<Rightarrow> nat \<Rightarrow> (bytes, io_error, 'w) act" where
  "non_blocking_recv OS n w =
     (case ty_recv OS w n of
        (Ok b, w) \<Rightarrow> (Ok b, w)
      | (Err e, w) \<Rightarrow> (if e = EWOULDBLOCK then Ok [] else Err (Os e), w)
      | (Panic, w) \<Rightarrow> (Panic, w))"

text \<open>The loop that reads \<open>len\<close> bytes of data into \<open>msg\<close>, through a buffer of \<open>n\<close> bytes.\<close>

function data_loop :: "'w tty_os \<Rightarrow> nat \<Rightarrow> nat \<Rightarrow> bytes \<Rightarrow> 'w \<Rightarrow> (bytes, io_error) res \<times> 'w" where
  "data_loop OS n len msg w =
     (let sz = min len n in
      if sz = 0 then (Ok msg, w)
      else case non_blocking_recv OS sz w of
        (Ok b, w) \<Rightarrow>
          (if b = [] then (Ok msg, w)
           else if sz < length b then (Panic, w)
           else data_loop OS n (len - length b) (msg @ b) w)
      | (Err e, w) \<Rightarrow> (Err e, w)
      | (Panic, w) \<Rightarrow> (Panic, w))"
  by pat_completeness auto

termination data_loop
  by (relation "measure (\<lambda>(OS, n, len, msg, w). len)") auto

declare data_loop.simps [simp del]

definition SockTTY_handle_socket_data :: "'w tty_os \<Rightarrow> nat \<Rightarrow> bytes \<Rightarrow> (bytes, io_error, 'w) act" where
  "SockTTY_handle_socket_data OS n msg =
     bind (non_blocking_recv OS 2) (\<lambda>b.
     let len = unat (from_le_bytes (filled 2 b) :: u16) in
     if len = 0 then give (Err (OtherError ''data length missing for data msg''))
     else data_loop OS n len msg)"

definition SockTTY_handle_tty_resize :: "'w tty_os \<Rightarrow> (unit, io_error, 'w) act" where
  "SockTTY_handle_tty_resize OS =
     bind (non_blocking_recv OS 4) (\<lambda>b.
     let buf = filled 4 b;
         rows = from_le_bytes [buf ! 0, buf ! 1] :: u16;
         cols = from_le_bytes [buf ! 2, buf ! 3] :: u16 in
     if rows = 0 \<or> cols = 0 then give (Err (OtherError ''invalid resize message''))
     else on_err Os (\<lambda>w. ty_winsize OS w rows cols))"

text \<open>The action to take and the message; the message is cleared first.\<close>

definition SockTTY_read_from_socket :: "'w tty_os \<Rightarrow> nat \<Rightarrow> (SocketAction \<times> bytes, io_error, 'w) act" where
  "SockTTY_read_from_socket OS n =
     bind (non_blocking_recv OS 1) (\<lambda>b.
     let msg_type = filled 1 b ! 0 in
     if msg_type = MSG_TY_ZERO then give (Ok (WouldBlock, []))
     else if msg_type = MSG_TY_DATA then
       bind (SockTTY_handle_socket_data OS n []) (\<lambda>msg. give (Ok (WriteToTTY, msg)))
     else if msg_type = MSG_TY_TTYRESIZE then
       bind (SockTTY_handle_tty_resize OS) (\<lambda>_. give (Ok (Continue, [])))
     else give (Ok (Continue, [])))"

definition SockTTY_read_from_tty :: "'w tty_os \<Rightarrow> nat \<Rightarrow> (bytes, io_error, 'w) act" where
  "SockTTY_read_from_tty OS n = on_err Os (\<lambda>w. ty_read OS w n)"

definition SockTTY_write_to_tty :: "'w tty_os \<Rightarrow> bytes \<Rightarrow> (unit, io_error, 'w) act" where
  "SockTTY_write_to_tty OS data = bind (on_err Os (\<lambda>w. ty_write OS w data)) (\<lambda>_. give (Ok ()))"

definition SockTTY_write_to_socket :: "'w tty_os \<Rightarrow> bytes \<Rightarrow> (unit, io_error, 'w) act" where
  "SockTTY_write_to_socket OS data = bind (on_err Os (\<lambda>w. ty_send OS w data)) (\<lambda>_. give (Ok ()))"

text \<open>\<open>context\<close> on the result of an action.\<close>

definition in_context :: "string \<Rightarrow> ('a, io_error, 'w) act \<Rightarrow> ('a, io_error fabrial_error, 'w) act" where
  "in_context ctx m w = (case m w of (r, w) \<Rightarrow> (with_context ctx r, w))"

partial_function (option) sock_loop ::
  "'w tty_os \<Rightarrow> 'w \<Rightarrow> ((unit, io_error fabrial_error) res \<times> 'w) option" where
  "sock_loop OS w =
     (case in_context ''read from tty failed'' (SockTTY_read_from_socket OS BUFFER_SIZE) w of
        (Ok (action, msg), w) \<Rightarrow>
          (case action of
             WouldBlock \<Rightarrow> Some (Ok (), w)
           | Continue \<Rightarrow> sock_loop OS w
           | WriteToTTY \<Rightarrow>
               (case in_context ''write to tty failed'' (SockTTY_write_to_tty OS msg) w of
                  (Ok _, w) \<Rightarrow> sock_loop OS w
                | (Err e, w) \<Rightarrow> Some (Err e, w)
                | (Panic, w) \<Rightarrow> Some (Panic, w)))
      | (Err e, w) \<Rightarrow> Some (Err e, w)
      | (Panic, w) \<Rightarrow> Some (Panic, w))"

definition tty_event :: "'w tty_os \<Rightarrow> (unit, io_error fabrial_error, 'w) act" where
  "tty_event OS =
     bind (in_context ''read from tty failed'' (SockTTY_read_from_tty OS BUFFER_SIZE)) (\<lambda>msg.
     in_context ''write to vsock failed'' (SockTTY_write_to_socket OS msg))"

fun tty_events :: "'w tty_os \<Rightarrow> nat list \<Rightarrow> 'w \<Rightarrow> ((unit, io_error fabrial_error) res \<times> 'w) option" where
  "tty_events OS [] w = Some (Ok (), w)"
| "tty_events OS (t # ts) w =
     (case (if t = TOKEN_SOCK then sock_loop OS w
            else if t = TOKEN_TTY then Some (tty_event OS w)
            else Some (Ok (), w)) of
        Some (Ok _, w) \<Rightarrow> tty_events OS ts w
      | other \<Rightarrow> other)"

text \<open>
  \<open>run\<close> on the returns of the poller: the loop has no regular end, so the result when all of them are
  handled is the state it waits in.
\<close>

fun SockTTY_run :: "'w tty_os \<Rightarrow> (nat list, io_error) res list \<Rightarrow> 'w \<Rightarrow> ((unit, io_error fabrial_error) res \<times> 'w) option" where
  "SockTTY_run OS [] w = Some (Ok (), w)"
| "SockTTY_run OS (p # ps) w =
     (case with_context ''poll failed'' p of
        Ok ts \<Rightarrow>
          (case tty_events OS ts w of
             Some (Ok _, w) \<Rightarrow> SockTTY_run OS ps w
           | other \<Rightarrow> other)
      | Err e \<Rightarrow> Some (Err e, w)
      | Panic \<Rightarrow> Some (Panic, w))"

text \<open>
  A closed connection is not noticed: receiving no bytes counts as nothing to read, so the thread goes
  on waiting and the shell is neither killed nor waited for.
\<close>

lemma sock_loop_closed:
  assumes "ty_recv OS w 1 = (Ok [], w')"
  shows "sock_loop OS w = Some (Ok (), w')"
  using assms
  by (subst sock_loop.simps)
    (simp add: in_context_def with_context_def SockTTY_read_from_socket_def non_blocking_recv_def bind_def give_def filled_def MSG_TY_ZERO_def)

section \<open>The server\<close>

datatype host_addr = SockaddrIn u8 u8 u8 u8 u16 | VsockAddr u32 u32

datatype AddressFamily = Inet | Vsock

record Host =
  host_family :: AddressFamily
  host_address :: host_addr

definition Host_new_tcp :: "ipv4addr \<Rightarrow> u16 \<Rightarrow> Host" where
  "Host_new_tcp addr port =
     (let octets = octets4 addr in
      \<lparr>host_family = Inet, host_address = SockaddrIn (octets ! 0) (octets ! 1) (octets ! 2) (octets ! 3) port\<rparr>)"

definition Host_new_vsock :: "u32 \<Rightarrow> u32 \<Rightarrow> Host" where
  "Host_new_vsock cid port = \<lparr>host_family = Vsock, host_address = VsockAddr cid port\<rparr>"

text \<open>The system calls of the server, with their outcomes.\<close>

record server_os =
  so_interface_mac :: "string \<Rightarrow> (MacAddress, io_error) res"
  so_socket :: "AddressFamily \<Rightarrow> (rawfd, io_error) res"
  so_bind :: "rawfd \<Rightarrow> host_addr \<Rightarrow> (unit, io_error) res"
  so_connect :: "rawfd \<Rightarrow> host_addr \<Rightarrow> (unit, io_error) res"
  so_send :: "rawfd \<Rightarrow> bytes \<Rightarrow> (nat, io_error) res"
  so_listen :: "rawfd \<Rightarrow> int \<Rightarrow> (unit, io_error) res"

definition Host_connect :: "server_os \<Rightarrow> Host \<Rightarrow> (rawfd, io_error) res" where
  "Host_connect OS self =
     and_then (so_socket OS (host_family self)) (\<lambda>sock.
     and_then (so_connect OS sock (host_address self)) (\<lambda>_. Ok sock))"

definition Host_notify_started :: "server_os \<Rightarrow> Host \<Rightarrow> u32 \<Rightarrow> (unit, io_error) res" where
  "Host_notify_started OS self ident =
     and_then (Host_connect OS self) (\<lambda>sock.
     and_then (so_send OS sock (to_le_bytes 4 ident)) (\<lambda>_. Ok ()))"

text \<open>The context id is made of the last two bytes of the MAC address.\<close>

definition fabrial_cid :: "MacAddress \<Rightarrow> u32" where
  "fabrial_cid mac = (let bytes = MacAddress_as_bytes mac in from_be_bytes [0x00, 0x00, bytes ! 4, bytes ! 5])"

definition VMADDR_CID_ANY :: u32 where "VMADDR_CID_ANY = 0xFFFFFFFF"
definition MAX_BACKLOG :: int where "MAX_BACKLOG = 10"

text \<open>\<open>run\<close> up to the poll loop: the listening socket, the host to notify and the context id.\<close>

definition fabrial_run ::
  "server_os \<Rightarrow> string \<Rightarrow> u32 \<Rightarrow> bool \<Rightarrow> (rawfd \<times> Host \<times> u32, io_error fabrial_error) res" where
  "fabrial_run OS ifname port tcp =
     map_err Error_from (
     and_then (so_interface_mac OS ifname) (\<lambda>mac.
     let cid = fabrial_cid mac in
     and_then
       (if tcp then
          and_then (so_socket OS Inet) (\<lambda>sock.
          and_then (so_bind OS sock (SockaddrIn 127 0 0 1 (ucast port))) (\<lambda>_.
          Ok (sock, Host_new_tcp 0x7F000001 3714)))
        else
          and_then (so_socket OS Vsock) (\<lambda>sock.
          and_then (so_bind OS sock (VsockAddr VMADDR_CID_ANY port)) (\<lambda>_.
          Ok (sock, Host_new_vsock cid cid)))) (\<lambda>(sock, host).
     and_then (so_listen OS sock MAX_BACKLOG) (\<lambda>_. Ok (sock, host, cid)))))"

end
