(* ===== verification/Fabrial_Server.thy ===== *)
theory Fabrial_Server
  imports Fabrial_Agent
begin

text \<open>
  The guest agent as a process: \<open>main\<close> and \<open>poll\<close> of \<^verbatim>\<open>oathgate-fabrial/src/main.rs\<close> and \<open>SockTTY::spawn\<close> of
  \<^verbatim>\<open>tty.rs\<close>. Each connection forks a process that executes the shell, and a thread that serves its terminal. The definitions
  describe one process: after a fork the agent goes on with the pid of the child, and the child with the shell, or, when that cannot be
  executed, with the error that \<open>poll\<close> and \<open>run\<close> pass on to \<open>main\<close>.
\<close>

section \<open>A connection\<close>

record SockTTY =
  stty_client :: rawfd
  stty_tty :: rawfd

datatype forkpty_result = ForkChild | ForkParent nat rawfd

text \<open>What \<open>spawn\<close> asks of the system; \<open>execve\<close> returns only when it failed.\<close>

record spawn_calls =
  sc_forkpty :: "(forkpty_result, io_error) res"
  sc_execve :: "io_error option"
  sc_thread :: "(unit, io_error) res"

datatype spawned = TtyThread SockTTY nat | Shell string "string list" "string list"

text \<open>A C string has no zero byte.\<close>

definition CString_new :: "string \<Rightarrow> (string, io_error) res" where
  "CString_new s = (if CHR 0x00 \<in> set s then Err (OtherError ''nul byte found in provided data'') else Ok s)"

definition SockTTY_spawn :: "spawn_calls \<Rightarrow> rawfd \<Rightarrow> string \<Rightarrow> (spawned, io_error fabrial_error) res" where
  "SockTTY_spawn OS client cmd =
     map_err Error_from (
     and_then (CString_new cmd) (\<lambda>cmd.
     let env = List.map_filter (\<lambda>v. case CString_new v of Ok v \<Rightarrow> Some v | _ \<Rightarrow> None) [''TERM=xterm-256color''] in
     and_then (sc_forkpty OS) (\<lambda>f.
     case f of
       ForkChild \<Rightarrow> (let args = [cmd] in case sc_execve OS of None \<Rightarrow> Ok (Shell cmd args env) | Some e \<Rightarrow> Err e)
     | ForkParent child master \<Rightarrow>
         (let stty = \<lparr>stty_client = client, stty_tty = master\<rparr> in
          and_then (sc_thread OS) (\<lambda>_. Ok (TtyThread stty child))))))"

text \<open>
  The thread of a terminal: the poller with the socket and the terminal, the loop, and after its end, which is an error, the socket is shut
  down and the shell killed and waited for, each only when the step before succeeded. The result says whether the thread
  has ended, and then how that went.
\<close>

record tty_calls =
  tc_poll :: "(unit, io_error) res"
  tc_register_sock :: "(unit, io_error) res"
  tc_register_tty :: "(unit, io_error) res"
  tc_shutdown :: "(unit, errno) res"
  tc_kill :: "(unit, errno) res"
  tc_waitpid :: "(unit, errno) res"

definition SockTTY_setup :: "tty_calls \<Rightarrow> (unit, io_error fabrial_error) res" where
  "SockTTY_setup C =
     map_err Error_from (and_then (tc_poll C) (\<lambda>_. and_then (tc_register_sock C) (\<lambda>_. tc_register_tty C)))"

definition SockTTY_reap :: "tty_calls \<Rightarrow> (unit, errno) res" where
  "SockTTY_reap C = and_then (tc_shutdown C) (\<lambda>_. and_then (tc_kill C) (\<lambda>_. tc_waitpid C))"

definition SockTTY_thread ::
  "'w tty_os \<Rightarrow> tty_calls \<Rightarrow> (nat list, io_error) res list \<Rightarrow> 'w \<Rightarrow> ((unit, errno) res option \<times> 'w) option" where
  "SockTTY_thread OS C polls w =
     (case SockTTY_setup C of
        Ok _ \<Rightarrow> map_option (\<lambda>(r, w). (case r of Ok _ \<Rightarrow> None | _ \<Rightarrow> Some (SockTTY_reap C), w)) (SockTTY_run OS polls w)
      | _ \<Rightarrow> Some (Some (SockTTY_reap C), w))"

section \<open>The server\<close>

record fabrial_opts =
  fo_command :: string
  fo_interface :: string
  fo_port :: u32
  fo_tcp :: bool
  fo_verbose :: u8
  fo_logfile :: string

definition fabrial_opts_default :: fabrial_opts where
  "fabrial_opts_default =
     \<lparr>fo_command = ''/bin/bash'', fo_interface = ''eth0'', fo_port = 3715, fo_tcp = False, fo_verbose = 0,
      fo_logfile = ''/var/log/fabrial.log''\<rparr>"

text \<open>\<open>poll\<close> before its loop: the poller, a timer, both registrations, and the timer set to five seconds.\<close>

record poll_calls =
  pc_poll :: "(unit, io_error) res"
  pc_timer :: "(unit, io_error) res"
  pc_register_vsock :: "(unit, io_error) res"
  pc_register_timer :: "(unit, io_error) res"
  pc_timer_set :: "nat \<Rightarrow> (unit, io_error) res"

definition fabrial_poll_setup :: "poll_calls \<Rightarrow> (unit, io_error fabrial_error) res" where
  "fabrial_poll_setup C =
     map_err Error_from (
     and_then (pc_poll C) (\<lambda>_.
     and_then (pc_timer C) (\<lambda>_.
     and_then (pc_register_vsock C) (\<lambda>_.
     and_then (pc_register_timer C) (\<lambda>_.
     pc_timer_set C 5)))))"

text \<open>
  Its loop on the events: it ends regularly when polling fails, and with an error when a connection is not accepted or
  its terminal not started. \<open>Waiting\<close> is the state when all events are handled; \<open>Replaced\<close> is the child, now the shell.
\<close>

datatype server_event = ServerPollFailed | HealthTimer | Connection "(rawfd, io_error) res" spawn_calls | UnknownServerToken nat

datatype server_state =
    Waiting "(SockTTY \<times> nat) list"
  | Ended "(unit, io_error fabrial_error) res" "(SockTTY \<times> nat) list"
  | Replaced string "string list" "string list"

fun fabrial_poll :: "string \<Rightarrow> server_event list \<Rightarrow> (SockTTY \<times> nat) list \<Rightarrow> server_state" where
  "fabrial_poll cmd [] ts = Waiting ts"
| "fabrial_poll cmd (ServerPollFailed # es) ts = Ended (Ok ()) ts"
| "fabrial_poll cmd (HealthTimer # es) ts = fabrial_poll cmd es ts"
| "fabrial_poll cmd (UnknownServerToken t # es) ts = fabrial_poll cmd es ts"
| "fabrial_poll cmd (Connection accepted calls # es) ts =
     (case and_then (map_err Error_from accepted) (\<lambda>csock. SockTTY_spawn calls csock cmd) of
        Ok (TtyThread stty child) \<Rightarrow> fabrial_poll cmd es (ts @ [(stty, child)])
      | Ok (Shell path args env) \<Rightarrow> Replaced path args env
      | Err e \<Rightarrow> Ended (Err e) ts
      | Panic \<Rightarrow> Ended Panic ts)"

definition verbosity_level :: "u8 \<Rightarrow> tracing_level" where
  "verbosity_level v = (if v = 0 then WARN else if v = 1 then INFO else if v = 2 then DEBUG else TRACE)"

datatype log_writer = LogStdout | LogTee string

definition open_log :: "(string \<Rightarrow> (unit, io_error) res) \<Rightarrow> string \<Rightarrow> log_writer" where
  "open_log open_file logfile = (case open_file logfile of Ok _ \<Rightarrow> LogTee logfile | _ \<Rightarrow> LogStdout)"

text \<open>\<open>main\<close>: the level, where it logs to, and the server; an error of \<open>run\<close> is logged, and \<open>main\<close> returns.\<close>

definition fabrial_main ::
  "(string \<Rightarrow> (unit, io_error) res) \<Rightarrow> server_os \<Rightarrow> poll_calls \<Rightarrow> fabrial_opts \<Rightarrow> server_event list
     \<Rightarrow> tracing_level \<times> log_writer \<times> server_state" where
  "fabrial_main open_file OS C opts es =
     (verbosity_level (fo_verbose opts), open_log open_file (fo_logfile opts),
      case and_then (fabrial_run OS (fo_interface opts) (fo_port opts) (fo_tcp opts)) (\<lambda>_. fabrial_poll_setup C) of
        Ok _ \<Rightarrow> fabrial_poll (fo_command opts) es []
      | Err e \<Rightarrow> Ended (Err e) []
      | Panic \<Rightarrow> Ended Panic [])"

section \<open>What becomes of the processes\<close>

text \<open>The agent goes on to serve after connections whose terminals were started.\<close>

lemma fabrial_poll_serves:
  "fabrial_poll cmd (es @ es') ts =
     (case fabrial_poll cmd es ts of Waiting ts \<Rightarrow> fabrial_poll cmd es' ts | s \<Rightarrow> s)"
  by (induction cmd es ts rule: fabrial_poll.induct) (auto split: res.splits spawned.splits)

text \<open>
  A connection that is not accepted ends the agent, with the threads of all its terminals; the shells they served are
  neither killed nor waited for.
\<close>

lemma fabrial_accept_failure_ends:
  assumes "fabrial_poll cmd es [] = Waiting ts"
  shows "fabrial_poll cmd (es @ Connection (Err e) calls # es') [] = Ended (Err (Error_from e)) ts"
  using assms by (simp add: fabrial_poll_serves)

text \<open>The child never serves connections: it is the shell, or ends.\<close>

lemma fabrial_child:
  assumes "fabrial_poll cmd es [] = Waiting ts" and "sc_forkpty calls = Ok ForkChild" and "CHR 0x00 \<notin> set cmd"
  shows "fabrial_poll cmd (es @ Connection (Ok c) calls # es') [] =
     (case sc_execve calls of
        None \<Rightarrow> Replaced cmd [cmd] [''TERM=xterm-256color'']
      | Some e \<Rightarrow> Ended (Err (Error_from e)) ts)"
  using assms by (simp add: fabrial_poll_serves SockTTY_spawn_def CString_new_def List.map_filter_def Let_def split: option.splits)

end
