(* ===== verification/Terminal.thy ===== *)
theory Terminal
  imports Prelude
begin

text \<open>
  The terminals of a virtual machine, \<^verbatim>\<open>oathgate-runner/src\<close>: the pseudo-terminals over the pipes of
  the process and over the socket of the guest agent (\<^verbatim>\<open>pty.rs\<close>, \<^verbatim>\<open>pty/pipe.rs\<close>, \<^verbatim>\<open>pty/fabrial.rs\<close>),
  the map of terminals (\<^verbatim>\<open>hypervisor/terminal.rs\<close>) and the keyboard events that are written to the
  active one (\<^verbatim>\<open>tui/events.rs\<close>). The \<open>vt100\<close> parser and the system calls are parameters; a key event
  is the part of \<open>crossterm\<close>'s that the code looks at. The order in which a hash map is iterated is an
  argument.
\<close>

section \<open>Characters and keys\<close>

text \<open>\<open>char::encode_utf8\<close> of a Unicode scalar value.\<close>

definition encode_utf8 :: "nat \<Rightarrow> bytes" where
  "encode_utf8 c =
     (if c < 0x80 then [word_of_nat c]
      else if c < 0x800 then [0xC0 + word_of_nat (c div 64), 0x80 + word_of_nat (c mod 64)]
      else if c < 0x10000 then [0xE0 + word_of_nat (c div 4096), 0x80 + word_of_nat (c div 64 mod 64), 0x80 + word_of_nat (c mod 64)]
      else [0xF0 + word_of_nat (c div 262144), 0x80 + word_of_nat (c div 4096 mod 64),
            0x80 + word_of_nat (c div 64 mod 64), 0x80 + word_of_nat (c mod 64)])"

datatype KeyCode =
    Char nat | Esc | Enter | Backspace | Delete | Tab | Up | Down | Right | Left | F nat | OtherKey

datatype KeyModifiers = NONE | CONTROL | SHIFT | OtherModifiers

datatype KeyEventKind = Press | Release | Repeat

record KeyEvent =
  key_code :: KeyCode
  key_modifiers :: KeyModifiers
  key_kind :: KeyEventKind

section \<open>Pseudo-terminals\<close>

record 'v vt100 =
  vt_new :: "u16 \<Rightarrow> u16 \<Rightarrow> nat \<Rightarrow> 'v"
  vt_process :: "'v \<Rightarrow> bytes \<Rightarrow> 'v"
  vt_set_size :: "'v \<Rightarrow> u16 \<Rightarrow> u16 \<Rightarrow> 'v"

record 'w pty_os =
  py_recv :: "'w \<Rightarrow> rawfd \<Rightarrow> nat \<Rightarrow> (bytes, errno) res \<times> 'w"
  py_send :: "'w \<Rightarrow> rawfd \<Rightarrow> bytes \<Rightarrow> (nat, errno) res \<times> 'w"
  py_read :: "'w \<Rightarrow> rawfd \<Rightarrow> nat \<Rightarrow> (bytes, errno) res \<times> 'w"
  py_write :: "'w \<Rightarrow> rawfd \<Rightarrow> bytes \<Rightarrow> (nat, errno) res \<times> 'w"
  py_socket :: "'w \<Rightarrow> (rawfd, errno) res \<times> 'w"
  py_connect :: "'w \<Rightarrow> rawfd \<Rightarrow> u32 \<Rightarrow> u32 \<Rightarrow> (unit, errno) res \<times> 'w"

record 'v PipePty =
  pipe_parser :: 'v
  pipe_stdout :: rawfd
  pipe_stdin :: rawfd

record 'v FabrialPty =
  fab_sock :: rawfd
  fab_parser :: 'v

text \<open>The boxed \<open>OathgatePty\<close>.\<close>

datatype 'v OathgatePty = Pipe "'v PipePty" | Fabrial "'v FabrialPty"

text \<open>The pipes of the child are taken; they may be missing.\<close>

definition PipePty_new :: "'v vt100 \<Rightarrow> rawfd option \<Rightarrow> rawfd option \<Rightarrow> ('v PipePty, io_error) res" where
  "PipePty_new V child_stdout child_stdin =
     (let parser = vt_new V 24 80 0 in
      and_then (ok_or child_stdout (OtherError ''stdout missing'')) (\<lambda>stdout.
      and_then (ok_or child_stdin (OtherError ''stdin missing'')) (\<lambda>stdin.
      Ok \<lparr>pipe_parser = parser, pipe_stdout = stdout, pipe_stdin = stdin\<rparr>)))"

definition PipePty_read_pty :: "'w pty_os \<Rightarrow> 'v vt100 \<Rightarrow> nat \<Rightarrow> (unit, io_error, 'v PipePty \<times> 'w) act" where
  "PipePty_read_pty OS V n = (\<lambda>(self, w).
     case py_read OS w (pipe_stdout self) n of
       (Ok b, w) \<Rightarrow> (Ok (), self\<lparr>pipe_parser := vt_process V (pipe_parser self) b\<rparr>, w)
     | (Err e, w) \<Rightarrow> (Err (Os e), self, w)
     | (Panic, w) \<Rightarrow> (Panic, self, w))"

definition PipePty_write_pty :: "'w pty_os \<Rightarrow> 'v PipePty \<Rightarrow> bytes \<Rightarrow> (unit, io_error, 'w) act" where
  "PipePty_write_pty OS self data =
     bind (on_err Os (\<lambda>w. py_write OS w (pipe_stdin self) data)) (\<lambda>_. give (Ok ()))"

text \<open>The default method \<open>resize_pty\<close> of the trait.\<close>

definition PipePty_resize_pty :: "'v vt100 \<Rightarrow> 'v PipePty \<Rightarrow> u16 \<Rightarrow> u16 \<Rightarrow> (unit, io_error) res \<times> 'v PipePty" where
  "PipePty_resize_pty V self rows cols = (Ok (), self\<lparr>pipe_parser := vt_set_size V (pipe_parser self) rows cols\<rparr>)"

definition FabrialPty_connect :: "'w pty_os \<Rightarrow> 'v vt100 \<Rightarrow> u32 \<Rightarrow> u32 \<Rightarrow> ('v FabrialPty, io_error, 'w) act" where
  "FabrialPty_connect OS V cid port =
     bind (on_err Os (py_socket OS)) (\<lambda>sock.
     bind (on_err Os (\<lambda>w. py_connect OS w sock cid port)) (\<lambda>_.
     give (Ok \<lparr>fab_sock = sock, fab_parser = vt_new V 24 80 0\<rparr>)))"

text \<open>The loop of \<open>read_pty\<close>, which ends when there is nothing to read or reading fails.\<close>

partial_function (option) FabrialPty_read_pty ::
  "'w pty_os \<Rightarrow> 'v vt100 \<Rightarrow> nat \<Rightarrow> 'v FabrialPty \<times> 'w \<Rightarrow> ((unit, io_error) res \<times> 'v FabrialPty \<times> 'w) option" where
  "FabrialPty_read_pty OS V n s =
     (case py_recv OS (snd s) (fab_sock (fst s)) n of
        (Ok b, w) \<Rightarrow> FabrialPty_read_pty OS V n ((fst s)\<lparr>fab_parser := vt_process V (fab_parser (fst s)) b\<rparr>, w)
      | (Err e, w) \<Rightarrow> Some (if e = EWOULDBLOCK then Ok () else Err (Os e), fst s, w)
      | (Panic, w) \<Rightarrow> Some (Panic, fst s, w))"

definition FabrialPty_write_pty :: "'w pty_os \<Rightarrow> 'v FabrialPty \<Rightarrow> bytes \<Rightarrow> (unit, io_error, 'w) act" where
  "FabrialPty_write_pty OS self data =
     (let len = to_le_bytes 8 (word_of_nat (length data) :: u64);
          hdr = [0x01, len ! 0, len ! 1] in
      bind (on_err Os (\<lambda>w. py_send OS w (fab_sock self) hdr)) (\<lambda>_.
      bind (on_err Os (\<lambda>w. py_send OS w (fab_sock self) data)) (\<lambda>_. give (Ok ()))))"

definition FabrialPty_resize_pty :: "'w pty_os \<Rightarrow> 'v vt100 \<Rightarrow> u16 \<Rightarrow> u16 \<Rightarrow> (unit, io_error, 'v FabrialPty \<times> 'w) act" where
  "FabrialPty_resize_pty OS V rows cols = (\<lambda>(self, w).
     let self = self\<lparr>fab_parser := vt_set_size V (fab_parser self) rows cols\<rparr>;
         r = to_le_bytes 2 rows; c = to_le_bytes 2 cols;
         msg = [0x02, r ! 0, r ! 1, c ! 0, c ! 1] in
     case bind (on_err Os (\<lambda>w. py_send OS w (fab_sock self) msg)) (\<lambda>_. give (Ok ())) w of (res, w) \<Rightarrow> (res, self, w))"

text \<open>The methods of the trait object.\<close>

definition pty_read ::
  "'w pty_os \<Rightarrow> 'v vt100 \<Rightarrow> nat \<Rightarrow> 'v OathgatePty \<times> 'w \<Rightarrow> ((unit, io_error) res \<times> 'v OathgatePty \<times> 'w) option" where
  "pty_read OS V n = (\<lambda>(p, w).
     case p of
       Pipe q \<Rightarrow> Some (case PipePty_read_pty OS V n (q, w) of (r, q, w) \<Rightarrow> (r, Pipe q, w))
     | Fabrial q \<Rightarrow> map_option (\<lambda>(r, q, w). (r, Fabrial q, w)) (FabrialPty_read_pty OS V n (q, w)))"

definition pty_write :: "'w pty_os \<Rightarrow> 'v OathgatePty \<Rightarrow> bytes \<Rightarrow> (unit, io_error, 'w) act" where
  "pty_write OS p data = (case p of Pipe q \<Rightarrow> PipePty_write_pty OS q data | Fabrial q \<Rightarrow> FabrialPty_write_pty OS q data)"

definition pty_resize :: "'w pty_os \<Rightarrow> 'v vt100 \<Rightarrow> u16 \<Rightarrow> u16 \<Rightarrow> (unit, io_error, 'v OathgatePty \<times> 'w) act" where
  "pty_resize OS V rows cols = (\<lambda>(p, w).
     case p of
       Pipe q \<Rightarrow> (case PipePty_resize_pty V q rows cols of (r, q) \<Rightarrow> (r, Pipe q, w))
     | Fabrial q \<Rightarrow> (case FabrialPty_resize_pty OS V rows cols (q, w) of (r, q, w) \<Rightarrow> (r, Fabrial q, w)))"

section \<open>The map of terminals\<close>

record 'v TerminalMap =
  terminals :: "nat \<rightharpoonup> 'v OathgatePty"
  winsz :: "u16 \<times> u16"
  active :: "nat option"

definition TerminalMap_default :: "'v TerminalMap" where
  "TerminalMap_default = \<lparr>terminals = Map.empty, winsz = (24, 80), active = None\<rparr>"

definition TerminalMap_get_size :: "'v TerminalMap \<Rightarrow> u16 \<times> u16" where
  "TerminalMap_get_size self = winsz self"

definition TerminalMap_insert ::
  "'w pty_os \<Rightarrow> 'v vt100 \<Rightarrow> nat \<Rightarrow> 'v OathgatePty \<Rightarrow> 'v TerminalMap \<times> 'w \<Rightarrow> 'v TerminalMap \<times> 'w" where
  "TerminalMap_insert OS V token pty = (\<lambda>(self, w).
     let (rows, cols) = TerminalMap_get_size self in
     case pty_resize OS V rows cols (pty, w) of (_, pty, w) \<Rightarrow>
       (self\<lparr>terminals := (terminals self)(token \<mapsto> pty)\<rparr>, w))"

definition TerminalMap_get :: "'v TerminalMap \<Rightarrow> nat \<Rightarrow> 'v OathgatePty option" where
  "TerminalMap_get self token = terminals self token"

definition TerminalMap_get_active :: "'v TerminalMap \<Rightarrow> 'v OathgatePty option" where
  "TerminalMap_get_active self = Option.bind (active self) (TerminalMap_get self)"

definition TerminalMap_set_active :: "'v TerminalMap \<Rightarrow> nat \<Rightarrow> 'v TerminalMap" where
  "TerminalMap_set_active self token = self\<lparr>active := Some token\<rparr>"

definition TerminalMap_write_to_pty :: "'w pty_os \<Rightarrow> 'v TerminalMap \<Rightarrow> bytes \<Rightarrow> (unit, io_error, 'w) act" where
  "TerminalMap_write_to_pty OS self data =
     (case TerminalMap_get_active self of
        Some term \<Rightarrow> pty_write OS term data
      | None \<Rightarrow> give (Ok ()))"

text \<open>
  Resizing all terminals, in the order \<open>ks\<close> of their tokens; a failure is only logged.
\<close>

fun resize_all :: "'w pty_os \<Rightarrow> 'v vt100 \<Rightarrow> u16 \<Rightarrow> u16 \<Rightarrow> nat list \<Rightarrow> 'v TerminalMap \<times> 'w \<Rightarrow> 'v TerminalMap \<times> 'w" where
  "resize_all OS V rows cols [] s = s"
| "resize_all OS V rows cols (k # ks) (self, w) =
     resize_all OS V rows cols ks
       (case terminals self k of
          Some p \<Rightarrow> (case pty_resize OS V rows cols (p, w) of (_, p, w) \<Rightarrow> (self\<lparr>terminals := (terminals self)(k \<mapsto> p)\<rparr>, w))
        | None \<Rightarrow> (self, w))"

definition TerminalMap_set_size ::
  "'w pty_os \<Rightarrow> 'v vt100 \<Rightarrow> u16 \<Rightarrow> u16 \<Rightarrow> nat list \<Rightarrow> 'v TerminalMap \<times> 'w \<Rightarrow> 'v TerminalMap \<times> 'w" where
  "TerminalMap_set_size OS V rows cols ks = (\<lambda>(self, w).
     let (old_rows, old_cols) = winsz self in
     if rows \<noteq> old_rows \<or> cols \<noteq> old_cols
     then resize_all OS V rows cols ks (self\<lparr>winsz := (rows, cols)\<rparr>, w) else (self, w))"

section \<open>Keyboard events\<close>

definition EventHandler_handle_key_press ::
  "'w pty_os \<Rightarrow> 'v TerminalMap \<Rightarrow> KeyEvent \<Rightarrow> (bool, io_error, 'w) act" where
  "EventHandler_handle_key_press OS term key =
     (let write = (\<lambda>data. bind (TerminalMap_write_to_pty OS term data) (\<lambda>_. give (Ok False))) in
      case key_code key of
        F n \<Rightarrow> if n = 4 then give (Ok True) else give (Ok False)
      | Char c \<Rightarrow> write (encode_utf8 c)
      | Esc \<Rightarrow> write [0x1B]
      | Enter \<Rightarrow> write [0x0A]
      | Backspace \<Rightarrow> write [0x08]
      | Delete \<Rightarrow> write [0x7F]
      | Tab \<Rightarrow> write [0x09]
      | Up \<Rightarrow> write [0x1B, 0x5B, 0x41]
      | Down \<Rightarrow> write [0x1B, 0x5B, 0x42]
      | Right \<Rightarrow> write [0x1B, 0x5B, 0x43]
      | Left \<Rightarrow> write [0x1B, 0x5B, 0x44]
      | OtherKey \<Rightarrow> give (Ok False))"

text \<open>The code point of a character of the source.\<close>

definition code_point :: "char \<Rightarrow> nat" where
  "code_point c = of_char c"

definition EventHandler_handle_ctrl_key_press ::
  "'w pty_os \<Rightarrow> 'v TerminalMap \<Rightarrow> KeyEvent \<Rightarrow> (bool, io_error, 'w) act" where
  "EventHandler_handle_ctrl_key_press OS term key =
     (let write = (\<lambda>data. bind (TerminalMap_write_to_pty OS term data) (\<lambda>_. give (Ok False))) in
      case key_code key of
        Char c \<Rightarrow>
          (if c = code_point (CHR ''c'') then write [0x03]
           else if c = code_point (CHR ''d'') then write [0x04]
           else if c = code_point (CHR ''r'') then write [0x12]
           else if c = code_point (CHR ''u'') then write [0x15]
           else if c = code_point (CHR ''z'') then write [0x1A]
           else give (Ok False))
      | _ \<Rightarrow> give (Ok False))"

datatype tui_event = KeyPressed KeyEvent | Resized u16 u16 | OtherEvent

text \<open>
  \<open>event\<close> is what \<open>poll\<close> and \<open>read\<close> return: nothing within 50 ms, an event or an error. Resizing goes to
  the terminals directly.
\<close>

definition EventHandler_handle ::
  "'w pty_os \<Rightarrow> 'v vt100 \<Rightarrow> (tui_event option, io_error) res \<Rightarrow> nat list \<Rightarrow> (bool, io_error, 'v TerminalMap \<times> 'w) act" where
  "EventHandler_handle OS V event ks = (\<lambda>(terms, w).
     case event of
       Ok (Some (KeyPressed key)) \<Rightarrow>
         (if key_kind key = Press then
            (case key_modifiers key of
               CONTROL \<Rightarrow> (case EventHandler_handle_ctrl_key_press OS terms key w of (r, w) \<Rightarrow> (r, terms, w))
             | OtherModifiers \<Rightarrow> (Ok False, terms, w)
             | _ \<Rightarrow> (case EventHandler_handle_key_press OS terms key w of (r, w) \<Rightarrow> (r, terms, w)))
          else (Ok False, terms, w))
     | Ok (Some (Resized width height)) \<Rightarrow> (Ok False, resize_all OS V height width ks (terms, w))
     | Ok (Some OtherEvent) \<Rightarrow> (Ok False, terms, w)
     | Ok None \<Rightarrow> (Ok False, terms, w)
     | Err e \<Rightarrow> (Err e, terms, w)
     | Panic \<Rightarrow> (Panic, terms, w))"

section \<open>The sizes of the terminals\<close>

fun pty_parser :: "'v OathgatePty \<Rightarrow> 'v" where
  "pty_parser (Pipe q) = pipe_parser q"
| "pty_parser (Fabrial q) = fab_parser q"

text \<open>
  What is needed of the parser: \<open>sz\<close> is the size of its screen, which \<open>set_size\<close> sets. What is processed
  may change it (the terminal has a control sequence for it).
\<close>

definition sized :: "'v vt100 \<Rightarrow> ('v \<Rightarrow> u16 \<times> u16) \<Rightarrow> bool" where
  "sized V sz \<longleftrightarrow> (\<forall>v r c. sz (vt_set_size V v r c) = (r, c))"

definition sizes_ok :: "('v \<Rightarrow> u16 \<times> u16) \<Rightarrow> 'v TerminalMap \<Rightarrow> bool" where
  "sizes_ok sz m \<longleftrightarrow> (\<forall>k p. terminals m k = Some p \<longrightarrow> sz (pty_parser p) = winsz m)"

lemma pty_resize_size:
  assumes "sized V sz" and "pty_resize OS V rows cols (p, w) = (r, p', w')"
  shows "sz (pty_parser p') = (rows, cols)"
  using assms
  by (cases p) (auto simp: pty_resize_def PipePty_resize_pty_def FabrialPty_resize_pty_def sized_def Let_def split: prod.splits)

lemma resize_all_winsz: "winsz (fst (resize_all OS V rows cols ks s)) = winsz (fst s)"
  by (induction OS V rows cols ks s rule: resize_all.induct) (auto split: option.splits prod.splits)

lemma resize_all_lookup:
  assumes "sized V sz" and "terminals (fst (resize_all OS V rows cols ks s)) k = Some p"
  shows "sz (pty_parser p) = (rows, cols) \<or> k \<notin> set ks \<and> terminals (fst s) k = Some p"
  using assms(2)
proof (induction ks arbitrary: s)
  case (Cons k0 ks)
  obtain self w where s: "s = (self, w)" by (metis prod.exhaust)
  show ?case
  proof (cases "terminals self k0")
    case None
    with Cons.IH [of s] Cons.prems s show ?thesis by auto
  next
    case (Some p0)
    obtain r p1 w1 where p1: "pty_resize OS V rows cols (p0, w) = (r, p1, w1)" by (metis prod_cases3)
    with Cons.IH [of "(self\<lparr>terminals := (terminals self)(k0 \<mapsto> p1)\<rparr>, w1)"] Cons.prems Some s
      pty_resize_size [OF assms(1) p1] show ?thesis by (auto split: if_splits)
  qed
qed simp

lemma TerminalMap_default_sizes: "sizes_ok sz TerminalMap_default"
  by (simp add: sizes_ok_def TerminalMap_default_def)

lemma TerminalMap_insert_sizes:
  assumes "sized V sz" and "sizes_ok sz m"
  shows "sizes_ok sz (fst (TerminalMap_insert OS V token p (m, w)))"
proof -
  obtain r p1 w1 where "pty_resize OS V (fst (winsz m)) (snd (winsz m)) (p, w) = (r, p1, w1)" by (metis prod_cases3)
  with pty_resize_size [OF assms(1) this] assms(2) show ?thesis
    by (auto simp: sizes_ok_def TerminalMap_insert_def TerminalMap_get_size_def case_prod_beta)
qed

lemma TerminalMap_set_size_sizes:
  assumes "sized V sz" and "sizes_ok sz m" and "dom (terminals m) \<subseteq> set ks"
  shows "sizes_ok sz (fst (TerminalMap_set_size OS V rows cols ks (m, w)))"
proof -
  let ?m = "fst (resize_all OS V rows cols ks (m\<lparr>winsz := (rows, cols)\<rparr>, w))"
  have "sizes_ok sz ?m"
    unfolding sizes_ok_def
  proof (intro allI impI)
    fix k p assume "terminals ?m k = Some p"
    from resize_all_lookup [OF assms(1) this] assms(3) show "sz (pty_parser p) = winsz ?m"
      by (auto simp: resize_all_winsz)
  qed
  with assms(2) show ?thesis by (auto simp: TerminalMap_set_size_def split: prod.splits)
qed

text \<open>
  Every terminal is given the size of the map. A new terminal gets it, and a change of the size reaches
  all terminals (the tokens \<open>ks\<close> are all of them), also when telling the guest about it fails.
\<close>

lemma TerminalMap_sizes:
  assumes "sized V sz" and "sizes_ok sz m" and "dom (terminals m) \<subseteq> set ks"
  shows "sizes_ok sz (fst (TerminalMap_insert OS V token p (m, w))) \<and>
     sizes_ok sz (fst (TerminalMap_set_size OS V rows cols ks (m, w))) \<and>
     winsz (fst (TerminalMap_set_size OS V rows cols ks (m, w))) = (rows, cols)"
proof (intro conjI)
  show "winsz (fst (TerminalMap_set_size OS V rows cols ks (m, w))) = (rows, cols)"
    by (auto simp: TerminalMap_set_size_def resize_all_winsz split: prod.splits)
qed (rule TerminalMap_insert_sizes [OF assms(1,2)], rule TerminalMap_set_size_sizes [OF assms])

section \<open>What a terminal is connected to\<close>

text \<open>The pipes to the process or the socket of an agent; reading and resizing keep it.\<close>

fun pty_link :: "'v OathgatePty \<Rightarrow> rawfd \<times> rawfd + rawfd" where
  "pty_link (Pipe q) = Inl (pipe_stdin q, pipe_stdout q)"
| "pty_link (Fabrial q) = Inr (fab_sock q)"

lemma pty_resize_link: "pty_resize OS V rows cols (p, w) = (r, p', w') \<Longrightarrow> pty_link p' = pty_link p"
  by (cases p) (auto simp: pty_resize_def PipePty_resize_pty_def FabrialPty_resize_pty_def Let_def split: prod.splits)

lemma FabrialPty_read_sock:
  assumes "FabrialPty_read_pty OS V n s = Some y"
  shows "fab_sock (fst (snd y)) = fab_sock (fst s)"
proof (rule FabrialPty_read_pty.raw_induct [OF _ assms], goal_cases)
  case (1 rd OS V n s y)
  obtain x w where "py_recv OS (snd s) (fab_sock (fst s)) n = (x, w)" by (metis prod.exhaust)
  with 1 show ?case by (cases x) auto
qed

lemma pty_read_link: "pty_read OS V n (p, w) = Some (r, p', w') \<Longrightarrow> pty_link p' = pty_link p"
  by (cases p) (auto simp: pty_read_def PipePty_read_pty_def split: prod.splits res.splits dest!: FabrialPty_read_sock)

text \<open>
  Reading from the agent after it closed the connection does not end. A receive call then returns no
  bytes, which is not an error, and the loop asks again: while every receive call succeeds, \<open>read_pty\<close>
  does not return.
\<close>

lemma FabrialPty_read_pty_diverges:
  assumes "\<forall>w. \<exists>b w'. py_recv OS w fd n = (Ok b, w')" and "fab_sock (fst s) = fd"
  shows "FabrialPty_read_pty OS V n s = None"
proof -
  have "\<not> ((\<forall>w. \<exists>b w'. py_recv OS w fd n = (Ok b, w')) \<and> fab_sock (fst s) = fd)" if "FabrialPty_read_pty OS V n s = Some y" for s y
  proof (rule FabrialPty_read_pty.raw_induct [OF _ that], rule notI, goal_cases)
    case (1 rd OS V n s y)
    then obtain b w where "py_recv OS (snd s) (fab_sock (fst s)) n = (Ok b, w)" by blast
    with 1(2) have "rd OS V n ((fst s)\<lparr>fab_parser := vt_process V (fab_parser (fst s)) b\<rparr>, w) = Some y" by simp
    from 1(1) [OF this] 1(3) show ?case by simp
  qed
  with assms show ?thesis by (cases "FabrialPty_read_pty OS V n s") auto
qed

section \<open>A terminal to evaluate the properties at\<close>

definition sample_vt :: "(u16 \<times> u16) vt100" where
  "sample_vt = \<lparr>vt_new = (\<lambda>r c n. (r, c)), vt_process = (\<lambda>v b. v), vt_set_size = (\<lambda>v r c. (r, c))\<rparr>"

text \<open>The world of the sample is the bytes sent; a receive call finds the connection closed.\<close>

definition sample_pty_os :: "bytes pty_os" where
  "sample_pty_os = \<lparr>py_recv = (\<lambda>w fd n. (Ok [], w)), py_send = (\<lambda>w fd b. (Ok (length b), w @ b)), py_read = (\<lambda>w fd n. (Ok [], w)),
     py_write = (\<lambda>w fd b. (Ok (length b), w @ b)), py_socket = (\<lambda>w. (Ok 7, w)), py_connect = (\<lambda>w fd c p. (Ok (), w))\<rparr>"

end
