(* ===== verification/Fabrial_Link.thy ===== *)
theory Fabrial_Link
  imports Fabrial_Agent Terminal
begin

text \<open>
  The client of the guest agent on the command line, \<^verbatim>\<open>oathgate/src/cmd/shard/fabrial.rs\<close>, and what
  arrives at the agent (theory \<open>Fabrial_Agent\<close>) of what the two clients send: the one of the runner
  (\<open>FabrialPty\<close> of theory \<open>Terminal\<close>), whose messages the agent understands, and the one of the
  command line, whose messages have a longer header.
\<close>

section \<open>The client on the command line\<close>

definition put_bytes :: "bytes \<Rightarrow> nat \<Rightarrow> bytes \<Rightarrow> (bytes, 'e) res" where
  "put_bytes b i data = put_slice b i (i + length data) data"

text \<open>The bytes of a key without modifiers that is not a character.\<close>

fun plain_key :: "KeyCode \<Rightarrow> bytes" where
  "plain_key Backspace = [0x08]"
| "plain_key Tab = [0x09]"
| "plain_key Enter = [0x0A]"
| "plain_key Up = [0x1B, 0x4F, 0x41]"
| "plain_key Down = [0x1B, 0x4F, 0x42]"
| "plain_key Right = [0x1B, 0x4F, 0x43]"
| "plain_key Left = [0x1B, 0x4F, 0x44]"
| "plain_key (F n) =
     (if n = 1 then [0x1B, 0x4F, 0x50] else if n = 2 then [0x1B, 0x4F, 0x51]
      else if n = 3 then [0x1B, 0x4F, 0x52] else if n = 4 then [0x1B, 0x4F, 0x53]
      else if n = 5 then [0x1B, 0x5B, 0x31, 0x35, 0x7E] else if n = 6 then [0x1B, 0x5B, 0x31, 0x37, 0x7E]
      else if n = 7 then [0x1B, 0x5B, 0x31, 0x38, 0x7E] else if n = 8 then [0x1B, 0x5B, 0x31, 0x39, 0x7E]
      else if n = 9 then [0x1B, 0x5B, 0x32, 0x30, 0x7E] else if n = 10 then [0x1B, 0x5B, 0x32, 0x31, 0x7E]
      else if n = 11 then [0x1B, 0x5B, 0x32, 0x33, 0x7E] else if n = 12 then [0x1B, 0x5B, 0x32, 0x34, 0x7E]
      else [])"
| "plain_key _ = []"

definition ctrl_key :: "KeyCode \<Rightarrow> bytes" where
  "ctrl_key k =
     (case k of
        Char c \<Rightarrow>
          (if c = code_point (CHR ''c'') then [0x03] else if c = code_point (CHR ''d'') then [0x04]
           else if c = code_point (CHR ''r'') then [0x12] else if c = code_point (CHR ''u'') then [0x15]
           else if c = code_point (CHR ''z'') then [0x1A] else [])
      | _ \<Rightarrow> [])"

text \<open>
  The key is encoded into the buffer of ten bytes; the result is the number of its bytes. They start
  at index 5, but for a character with the shift key at index 3.
\<close>

definition encode_key :: "KeyEvent \<Rightarrow> bytes \<Rightarrow> (nat \<times> bytes, 'e) res" where
  "encode_key ev bytes =
     (let put = (\<lambda>i data. and_then (put_bytes bytes i data) (\<lambda>bytes. Ok (length data, bytes))) in
      case key_modifiers ev of
        NONE \<Rightarrow> (case key_code ev of Char ch \<Rightarrow> put 5 (encode_utf8 ch) | k \<Rightarrow> put 5 (plain_key k))
      | CONTROL \<Rightarrow> put 5 (ctrl_key (key_code ev))
      | SHIFT \<Rightarrow> (case key_code ev of Char ch \<Rightarrow> put 3 (encode_utf8 ch) | _ \<Rightarrow> Ok (0, bytes))
      | OtherModifiers \<Rightarrow> Ok (0, bytes))"

definition send_key :: "'w pty_os \<Rightarrow> rawfd \<Rightarrow> KeyEvent \<Rightarrow> (unit, io_error, bytes \<times> 'w) act" where
  "send_key OS sock ev = (\<lambda>(bytes, w).
     case encode_key ev bytes of
       Ok (sz, bytes) \<Rightarrow>
         (if 0 < sz then
            let szb = to_le_bytes 8 (word_of_nat sz :: u64) in
            case and_then (put_at bytes 0 0x01) (\<lambda>bytes.
                 and_then (put_at bytes 1 (szb ! 0)) (\<lambda>bytes.
                 and_then (put_at bytes 2 (szb ! 1)) (\<lambda>bytes.
                 and_then (put_at bytes 3 (szb ! 2)) (\<lambda>bytes.
                 and_then (put_at bytes 4 (szb ! 4)) (\<lambda>bytes.
                 and_then (get_slice bytes 0 (sz + 5)) (\<lambda>msg. Ok (bytes, msg))))))) of
              Ok (bytes, msg) \<Rightarrow> (case py_send OS w sock msg of (r, w) \<Rightarrow> (map_err Os (and_then r (\<lambda>_. Ok ())), bytes, w))
            | Err e \<Rightarrow> (Err e, bytes, w)
            | Panic \<Rightarrow> (Panic, bytes, w)
          else (Ok (), bytes, w))
     | Err e \<Rightarrow> (Err e, bytes, w)
     | Panic \<Rightarrow> (Panic, bytes, w))"

definition client_resize_pty :: "'w pty_os \<Rightarrow> rawfd \<Rightarrow> u16 \<Rightarrow> u16 \<Rightarrow> (unit, io_error, bytes \<times> 'w) act" where
  "client_resize_pty OS sock rows cols = (\<lambda>(bytes, w).
     case and_then (put_at bytes 0 0x02) (\<lambda>bytes.
          and_then (put_slice bytes 1 3 (to_le_bytes 2 rows)) (\<lambda>bytes.
          and_then (put_slice bytes 3 5 (to_le_bytes 2 cols)) (\<lambda>bytes.
          and_then (get_slice bytes 0 5) (\<lambda>msg. Ok (bytes, msg))))) of
       Ok (bytes, msg) \<Rightarrow> (case py_send OS w sock msg of (r, w) \<Rightarrow> (map_err Os (and_then r (\<lambda>_. Ok ())), bytes, w))
     | Err e \<Rightarrow> (Err e, bytes, w)
     | Panic \<Rightarrow> (Panic, bytes, w))"

text \<open>
  The loop of \<open>run_ui\<close> over the events of the terminal, until one cannot be read; \<open>term_size\<close> is the
  size of the terminal at the start, when it is known. A failure to send it is ignored.
\<close>

fun ui_events :: "'w pty_os \<Rightarrow> rawfd \<Rightarrow> (tui_event, io_error) res list \<Rightarrow> (unit, io_error, bytes \<times> 'w) act" where
  "ui_events OS sock [] s = (Ok (), s)"
| "ui_events OS sock (ev # evs) s =
     (case ev of
        Ok (KeyPressed key) \<Rightarrow> bind (send_key OS sock key) (\<lambda>_. ui_events OS sock evs) s
      | Ok (Resized cols rows) \<Rightarrow> bind (client_resize_pty OS sock rows cols) (\<lambda>_. ui_events OS sock evs) s
      | Ok OtherEvent \<Rightarrow> ui_events OS sock evs s
      | Err e \<Rightarrow> (Err e, s)
      | Panic \<Rightarrow> (Panic, s))"

definition run_ui ::
  "'w pty_os \<Rightarrow> rawfd \<Rightarrow> (u16 \<times> u16, io_error) res \<Rightarrow> (tui_event, io_error) res list \<Rightarrow> 'w \<Rightarrow> (unit, io_error) res \<times> 'w" where
  "run_ui OS sock term_size evs w =
     (let bytes = replicate 10 0;
          s = (case term_size of
                 Ok (cols, rows) \<Rightarrow> client_resize_pty OS sock rows cols (bytes, w)
               | Err e \<Rightarrow> (Ok (), bytes, w)
               | Panic \<Rightarrow> (Panic, bytes, w)) in
      if fst s = Panic then (Panic, snd (snd s))
      else case ui_events OS sock evs (snd s) of (r, _, w) \<Rightarrow> (r, w))"

text \<open>
  \<open>run_socket\<close>: the loop on a readable socket writes what it receives to the output; it ends when
  there is nothing to read (\<open>True\<close>: keep polling) or the connection is closed (\<open>False\<close>).
\<close>

partial_function (option) copy_output ::
  "'w pty_os \<Rightarrow> rawfd \<Rightarrow> ('w \<Rightarrow> bytes \<Rightarrow> (unit, io_error) res \<times> 'w) \<Rightarrow> 'w \<Rightarrow> ((bool, io_error) res \<times> 'w) option" where
  "copy_output OS sock out w =
     (case py_recv OS w sock 2048 of
        (Ok b, w) \<Rightarrow>
          (if b = [] then Some (Ok False, w)
           else case out w b of
             (Ok _, w) \<Rightarrow> copy_output OS sock out w
           | (Err e, w) \<Rightarrow> Some (Err e, w)
           | (Panic, w) \<Rightarrow> Some (Panic, w))
      | (Err e, w) \<Rightarrow> Some (if e = EWOULDBLOCK then Ok True else Err (Os e), w)
      | (Panic, w) \<Rightarrow> Some (Panic, w))"

datatype client_event = SocketReadable | SocketClosed | UnknownClientToken | PollInterrupted | ClientPollFailed io_error

text \<open>
  One event of the poll loop: the result of \<open>run_socket\<close> when it leaves the loop; leaving it regularly shuts the socket down.
  The loop runs over the events; \<open>None\<close> is its result while it is still polling.
\<close>

fun client_socket_event ::
  "'w pty_os \<Rightarrow> rawfd \<Rightarrow> ('w \<Rightarrow> bytes \<Rightarrow> (unit, io_error) res \<times> 'w) \<Rightarrow> ('w \<Rightarrow> (unit, io_error) res \<times> 'w) \<Rightarrow>
   client_event \<Rightarrow> 'w \<Rightarrow> ((unit, io_error) res option \<times> 'w) option" where
  "client_socket_event OS sock out shutdown SocketReadable w =
     (case copy_output OS sock out w of
        None \<Rightarrow> None
      | Some (Ok again, w) \<Rightarrow> Some (if again then (None, w) else case shutdown w of (r, w) \<Rightarrow> (Some r, w))
      | Some (Err e, w) \<Rightarrow> Some (Some (Err e), w)
      | Some (Panic, w) \<Rightarrow> Some (Some Panic, w))"
| "client_socket_event OS sock out shutdown SocketClosed w = Some (case shutdown w of (r, w) \<Rightarrow> (Some r, w))"
| "client_socket_event OS sock out shutdown UnknownClientToken w = Some (None, w)"
| "client_socket_event OS sock out shutdown PollInterrupted w = Some (None, w)"
| "client_socket_event OS sock out shutdown (ClientPollFailed e) w = Some (Some (Err e), w)"

fun run_socket ::
  "'w pty_os \<Rightarrow> rawfd \<Rightarrow> ('w \<Rightarrow> bytes \<Rightarrow> (unit, io_error) res \<times> 'w) \<Rightarrow> ('w \<Rightarrow> (unit, io_error) res \<times> 'w) \<Rightarrow>
   client_event list \<Rightarrow> 'w \<Rightarrow> ((unit, io_error) res option \<times> 'w) option" where
  "run_socket OS sock out shutdown [] w = Some (None, w)"
| "run_socket OS sock out shutdown (e # es) w =
     (case client_socket_event OS sock out shutdown e w of
        Some (None, w) \<Rightarrow> run_socket OS sock out shutdown es w
      | other \<Rightarrow> other)"

section \<open>One connection\<close>

text \<open>What the agent does to its terminal.\<close>

datatype tty_action = Input bytes | Window u16 u16

text \<open>
  A connection between a client and the agent: \<open>pipe\<close> is the bytes sent and not yet received, \<open>done\<close>
  what the agent has done. These are the documented effects of the calls on a connected stream
  socket with room for what is sent, and of the terminal, which takes inputs of at most \<open>cap\<close> bytes as
  a whole and of a longer one what it has room for (\<open>write\<close> says how much, and the agent does not look).
\<close>

definition connected ::
  "nat \<Rightarrow> 'w pty_os \<Rightarrow> rawfd \<Rightarrow> 'w tty_os \<Rightarrow> ('w \<Rightarrow> bytes) \<Rightarrow> ('w \<Rightarrow> tty_action list) \<Rightarrow> bool" where
  "connected cap C sock A pipe done \<longleftrightarrow>
     (\<forall>w b. \<exists>w'. py_send C w sock b = (Ok (length b), w') \<and> pipe w' = pipe w @ b \<and> done w' = done w) \<and>
     (\<forall>w n. pipe w = [] \<longrightarrow> (\<exists>w'. ty_recv A w n = (Err EWOULDBLOCK, w') \<and> pipe w' = [] \<and> done w' = done w)) \<and>
     (\<forall>w n. pipe w \<noteq> [] \<longrightarrow>
        (\<exists>w'. ty_recv A w n = (Ok (take n (pipe w)), w') \<and> pipe w' = drop n (pipe w) \<and> done w' = done w)) \<and>
     (\<forall>w b. \<exists>n w'. n \<le> length b \<and> (length b \<le> cap \<longrightarrow> n = length b) \<and>
        ty_write A w b = (Ok n, w') \<and> pipe w' = pipe w \<and> done w' = done w @ [Input (take n b)]) \<and>
     (\<forall>w r c. \<exists>w'. ty_winsize A w r c = (Ok (), w') \<and> pipe w' = pipe w \<and> done w' = done w @ [Window r c])"

lemma send_ok:
  assumes "connected cap C sock A pipe done"
  shows "\<exists>w'. py_send C w sock b = (Ok (length b), w') \<and> pipe w' = pipe w @ b \<and> done w' = done w"
  using assms unfolding connected_def by (elim conjE) (erule allE)+

lemma write_ok:
  assumes "connected cap C sock A pipe done"
  shows "\<exists>n w'. n \<le> length b \<and> (length b \<le> cap \<longrightarrow> n = length b) \<and>
     ty_write A w b = (Ok n, w') \<and> pipe w' = pipe w \<and> done w' = done w @ [Input (take n b)]"
  using assms unfolding connected_def by (elim conjE) (erule allE)+

lemma recv_next:
  assumes "connected cap C sock A pipe done" and "pipe w = b @ rest" and "length b = n" and "0 < n"
  shows "\<exists>w'. non_blocking_recv A n w = (Ok b, w') \<and> pipe w' = rest \<and> done w' = done w"
proof -
  have "pipe w \<noteq> []" using assms(2-4) by auto
  then obtain w' where "ty_recv A w n = (Ok (take n (pipe w)), w')" "pipe w' = drop n (pipe w)" "done w' = done w"
    using assms(1) unfolding connected_def by meson
  with assms(2,3) show ?thesis by (auto simp: non_blocking_recv_def)
qed

lemma recv_nothing:
  assumes "connected cap C sock A pipe done" and "pipe w = []"
  shows "\<exists>w'. non_blocking_recv A n w = (Ok [], w') \<and> pipe w' = [] \<and> done w' = done w"
proof -
  obtain w' where "ty_recv A w n = (Err EWOULDBLOCK, w')" "pipe w' = []" "done w' = done w"
    using assms unfolding connected_def by meson
  then show ?thesis by (auto simp: non_blocking_recv_def)
qed

lemma data_loop_reads:
  assumes "connected cap C sock A pipe done" and "0 < n"
  shows "pipe w = d @ rest \<Longrightarrow> length d = len \<Longrightarrow>
     \<exists>w'. data_loop A n len msg w = (Ok (msg @ d), w') \<and> pipe w' = rest \<and> done w' = done w"
proof (induction len arbitrary: d msg w rule: less_induct)
  case (less len)
  let ?sz = "min len n"
  show ?case
  proof (cases "len = 0")
    case True
    with less.prems show ?thesis by (subst data_loop.simps) simp
  next
    case False
    have "pipe w = take ?sz d @ drop ?sz d @ rest" using less.prems(1) by (metis append.assoc append_take_drop_id)
    moreover have "length (take ?sz d) = ?sz" "0 < ?sz" using less.prems(2) False assms(2) by simp_all
    ultimately obtain w1 where w1: "non_blocking_recv A ?sz w = (Ok (take ?sz d), w1)" "pipe w1 = drop ?sz d @ rest" "done w1 = done w"
      using recv_next [OF assms(1)] by blast
    have "len - ?sz < len" "length (drop ?sz d) = len - ?sz" using False assms(2) less.prems(2) by auto
    from less.IH [OF this(1) w1(2) this(2), of "msg @ take ?sz d"] obtain w2 where
      w2: "data_loop A n (len - ?sz) (msg @ take ?sz d) w1 = (Ok (msg @ take ?sz d @ drop ?sz d), w2)" "pipe w2 = rest" "done w2 = done w1" by auto
    have "data_loop A n len msg w = data_loop A n (len - ?sz) (msg @ take ?sz d) w1"
      using \<open>length (take ?sz d) = ?sz\<close> \<open>0 < ?sz\<close> w1(1) by (subst data_loop.simps) (auto simp: Let_def)
    then show ?thesis using w2 w1(3) by auto
  qed
qed

section \<open>Messages of the protocol\<close>

fun action_bytes :: "tty_action \<Rightarrow> bytes" where
  "action_bytes (Input d) = 0x01 # to_le_bytes 2 (word_of_nat (length d) :: u16) @ d"
| "action_bytes (Window r c) = 0x02 # to_le_bytes 2 r @ to_le_bytes 2 c"

text \<open>Input has between 1 and 65535 bytes, a window is not empty.\<close>

fun action_wf :: "tty_action \<Rightarrow> bool" where
  "action_wf (Input d) = (0 < length d \<and> length d < 65536)"
| "action_wf (Window r c) = (r \<noteq> 0 \<and> c \<noteq> 0)"

lemma le16_pair: "[to_le_bytes 2 x ! 0, to_le_bytes 2 x ! Suc 0] = to_le_bytes 2 (x :: u16)"
  by (simp add: numeral_2_eq_2)

lemma from_le_16 [simp]: "from_le_bytes (to_le_bytes 2 x) = (x :: u16)"
  by (simp add: from_le_to_le_bytes)

lemma agent_reads_input:
  assumes "connected cap C sock A pipe done" and "pipe w = action_bytes (Input d) @ rest" and "0 < length d" "length d < 65536"
  shows "\<exists>w'. SockTTY_read_from_socket A BUFFER_SIZE w = (Ok (WriteToTTY, d), w') \<and> pipe w' = rest \<and> done w' = done w"
proof -
  let ?len = "to_le_bytes 2 (word_of_nat (length d) :: u16)"
  have "pipe w = [0x01] @ ?len @ d @ rest" using assms(2) by simp
  from recv_next [OF assms(1) this, of 1] obtain w1 where
    w1: "non_blocking_recv A 1 w = (Ok [0x01], w1)" "pipe w1 = ?len @ d @ rest" "done w1 = done w" by auto
  from recv_next [OF assms(1) w1(2), of 2] obtain w2 where
    w2: "non_blocking_recv A 2 w1 = (Ok ?len, w2)" "pipe w2 = d @ rest" "done w2 = done w" using w1(3) by auto
  have len: "unat (word_of_nat (length d) :: u16) = length d"
    using assms(4) by (simp add: unsigned_of_nat take_bit_nat_eq_self)
  from data_loop_reads [OF assms(1) _ w2(2) refl, of BUFFER_SIZE "[]"] obtain w3 where
    w3: "data_loop A BUFFER_SIZE (length d) [] w2 = (Ok d, w3)" "pipe w3 = rest" "done w3 = done w"
    using w2(3) by (auto simp: BUFFER_SIZE_def)
  have "SockTTY_handle_socket_data A BUFFER_SIZE [] w1 = (Ok d, w3)"
    using assms(3) w2(1) w3(1) len by (simp add: SockTTY_handle_socket_data_def bind_def)
  then show ?thesis using w1(1) w3(2,3)
    by (simp add: SockTTY_read_from_socket_def bind_def give_def MSG_TY_ZERO_def MSG_TY_DATA_def)
qed

lemma agent_resizes:
  assumes "connected cap C sock A pipe done" and "pipe w = action_bytes (Window r c) @ rest" and "r \<noteq> 0" "c \<noteq> 0"
  shows "\<exists>w'. SockTTY_read_from_socket A BUFFER_SIZE w = (Ok (Continue, []), w') \<and> pipe w' = rest \<and> done w' = done w @ [Window r c]"
proof -
  let ?b = "to_le_bytes 2 r @ to_le_bytes 2 c"
  have "pipe w = [0x02] @ ?b @ rest" using assms(2) by simp
  from recv_next [OF assms(1) this, of 1] obtain w1 where
    w1: "non_blocking_recv A 1 w = (Ok [0x02], w1)" "pipe w1 = ?b @ rest" "done w1 = done w" by auto
  from recv_next [OF assms(1) w1(2), of 4] obtain w2 where
    w2: "non_blocking_recv A 4 w1 = (Ok ?b, w2)" "pipe w2 = rest" "done w2 = done w" using w1(3) by auto
  obtain w3 where w3: "ty_winsize A w2 r c = (Ok (), w3)" "pipe w3 = rest" "done w3 = done w @ [Window r c]"
    using assms(1) w2(2,3) unfolding connected_def by metis
  have "length ?b = 4" by simp
  then have "filled 4 ?b = ?b" by (simp add: filled_def)
  moreover have "from_le_bytes [?b ! 0, ?b ! 1] = r" "from_le_bytes [?b ! 2, ?b ! 3] = c"
    by (simp_all del: from_le_bytes.simps add: nth_append le16_pair)
  ultimately have "SockTTY_handle_tty_resize A w1 = on_err Os (\<lambda>w. ty_winsize A w r c) w2"
    using assms(3,4) w2(1) by (simp only: SockTTY_handle_tty_resize_def bind_def prod.case res.case Let_def) simp
  then have "SockTTY_handle_tty_resize A w1 = (Ok (), w3)" using w3(1) by (simp add: on_err_def)
  then show ?thesis using w1(1) w3(2,3)
    by (simp add: SockTTY_read_from_socket_def bind_def give_def MSG_TY_ZERO_def MSG_TY_DATA_def MSG_TY_TTYRESIZE_def)
qed

lemma agent_idle:
  assumes "connected cap C sock A pipe done" and "pipe w = [] \<or> (\<exists>rest. pipe w = 0 # rest)"
  shows "\<exists>w'. sock_loop A w = Some (Ok (), w') \<and> pipe w' = tl (pipe w) \<and> done w' = done w"
proof -
  have "\<exists>b w'. non_blocking_recv A 1 w = (Ok b, w') \<and> filled 1 b ! 0 = 0 \<and> pipe w' = tl (pipe w) \<and> done w' = done w"
    using assms(2) recv_nothing [OF assms(1), of w 1] recv_next [OF assms(1), of w "[0]" _ 1] by (auto simp: filled_def)
  then show ?thesis
    by (subst sock_loop.simps)
      (auto simp: in_context_def SockTTY_read_from_socket_def bind_def give_def MSG_TY_ZERO_def with_context_def)
qed

text \<open>
  What is asked of a terminal and what is done: an input that is longer than \<open>cap\<close> may be cut.
\<close>

fun carried_out :: "nat \<Rightarrow> tty_action \<Rightarrow> tty_action \<Rightarrow> bool" where
  "carried_out cap (Input b) x = (\<exists>n \<le> length b. x = Input (take n b) \<and> (length b \<le> cap \<longrightarrow> n = length b))"
| "carried_out cap (Window r c) x = (x = Window r c)"

lemma carried_out_exact:
  assumes "list_all2 (carried_out cap) as bs" and "\<And>d. Input d \<in> set as \<Longrightarrow> length d \<le> cap"
  shows "bs = as"
  using assms
proof (induction rule: list_all2_induct)
  case (Cons a as b bs)
  from Cons.hyps(1) Cons.prems have "b = a" by (cases a) auto
  with Cons show ?case by simp
qed simp

text \<open>The agent carries out the messages it received, in order, and then waits.\<close>

lemma agent_serves:
  assumes "connected cap C sock A pipe done" and "\<forall>a \<in> set as. action_wf a" and "pipe w = concat (map action_bytes as)"
  shows "\<exists>w' bs. sock_loop A w = Some (Ok (), w') \<and> pipe w' = [] \<and> done w' = done w @ bs \<and> list_all2 (carried_out cap) as bs"
  using assms(2,3)
proof (induction as arbitrary: w)
  case Nil
  then show ?case using agent_idle [OF assms(1), of w] by auto
next
  case (Cons a as)
  show ?case
  proof (cases a)
    case (Input d)
    then have "pipe w = action_bytes (Input d) @ concat (map action_bytes as)" "0 < length d" "length d < 65536"
      using Cons.prems by simp_all
    from agent_reads_input [OF assms(1) this] obtain w1 where
      w1: "SockTTY_read_from_socket A BUFFER_SIZE w = (Ok (WriteToTTY, d), w1)" "pipe w1 = concat (map action_bytes as)" "done w1 = done w" by blast
    from write_ok [OF assms(1), of d w1] w1(3) obtain n w2 where
      w2: "ty_write A w1 d = (Ok n, w2)" "pipe w2 = pipe w1" "done w2 = done w @ [Input (take n d)]" "carried_out cap a (Input (take n d))"
      using Input by auto
    from Cons.IH [of w2] Cons.prems w1(2) w2(2,3) obtain w3 bs where
      w3: "sock_loop A w2 = Some (Ok (), w3)" "pipe w3 = []" "done w3 = done w @ Input (take n d) # bs" "list_all2 (carried_out cap) as bs"
      by auto
    have "sock_loop A w = sock_loop A w2" using w1(1) w2(1)
      by (subst sock_loop.simps) (simp add: in_context_def with_context_def SockTTY_write_to_tty_def bind_def on_err_def give_def)
    then show ?thesis using w3 w2(4) by (intro exI [of _ w3] exI [of _ "Input (take n d) # bs"]) simp
  next
    case (Window r c)
    then have "pipe w = action_bytes (Window r c) @ concat (map action_bytes as)" "r \<noteq> 0" "c \<noteq> 0"
      using Cons.prems by simp_all
    from agent_resizes [OF assms(1) this] obtain w1 where
      w1: "SockTTY_read_from_socket A BUFFER_SIZE w = (Ok (Continue, []), w1)" "pipe w1 = concat (map action_bytes as)"
      "done w1 = done w @ [Window r c]" by blast
    from Cons.IH [of w1] Cons.prems w1(2,3) obtain w3 bs where
      w3: "sock_loop A w1 = Some (Ok (), w3)" "pipe w3 = []" "done w3 = done w @ a # bs" "list_all2 (carried_out cap) as bs" using Window by auto
    have "sock_loop A w = sock_loop A w1" using w1(1) by (subst sock_loop.simps) (simp add: in_context_def with_context_def)
    then show ?thesis using w3 Window by (intro exI [of _ w3] exI [of _ "a # bs"]) simp
  qed
qed

section \<open>The terminal of the runner\<close>

text \<open>What a user does to a terminal of the runner, carried out one after the other.\<close>

fun fabrial_op :: "'w pty_os \<Rightarrow> 'v vt100 \<Rightarrow> tty_action \<Rightarrow> (unit, io_error, 'v FabrialPty \<times> 'w) act" where
  "fabrial_op OS V (Input d) (p, w) = (case FabrialPty_write_pty OS p d w of (r, w) \<Rightarrow> (r, p, w))"
| "fabrial_op OS V (Window rows cols) (p, w) = FabrialPty_resize_pty OS V rows cols (p, w)"

text \<open>
  A schedule: operations of the user, and turns of the agent, which is served when its poller reports
  the socket. The agent's turns lie between operations.
\<close>

datatype link_step = Operation tty_action | AgentServed

fun operations :: "link_step list \<Rightarrow> tty_action list" where
  "operations [] = []"
| "operations (Operation a # ss) = a # operations ss"
| "operations (AgentServed # ss) = operations ss"

fun link_run :: "'w pty_os \<Rightarrow> 'w tty_os \<Rightarrow> 'v vt100 \<Rightarrow> link_step list \<Rightarrow> 'v FabrialPty \<times> 'w \<Rightarrow> ('v FabrialPty \<times> 'w) option" where
  "link_run C A V [] s = Some s"
| "link_run C A V (Operation a # ss) s =
     (case fabrial_op C V a s of (Ok _, s) \<Rightarrow> link_run C A V ss s | _ \<Rightarrow> None)"
| "link_run C A V (AgentServed # ss) (p, w) =
     (case sock_loop A w of Some (Ok _, w) \<Rightarrow> link_run C A V ss (p, w) | _ \<Rightarrow> None)"

lemma le16_in_le64:
  "[to_le_bytes 8 (word_of_nat n :: u64) ! 0, to_le_bytes 8 (word_of_nat n :: u64) ! Suc 0] = to_le_bytes 2 (word_of_nat n :: u16)"
proof -
  have "ucast (word_of_nat n :: u64) = (ucast (word_of_nat n :: u16) :: u8)"
    "ucast (drop_bit 8 (word_of_nat n :: u64)) = (ucast (drop_bit 8 (word_of_nat n :: u16)) :: u8)"
    by (rule bit_word_eqI; auto simp: bit_simps)+
  moreover have "to_le_bytes 8 (x :: u64) ! 0 = ucast x \<and> to_le_bytes 8 x ! Suc 0 = ucast (drop_bit 8 x)" for x
    by (simp only: numeral_eq_Suc pred_numeral_simps to_le_bytes.simps) simp
  ultimately show ?thesis by (simp add: numeral_2_eq_2)
qed

lemma send_appends:
  assumes "connected cap C sock A pipe done"
  shows "\<exists>w'. on_err Os (\<lambda>w. py_send C w sock b) w = (Ok (length b), w') \<and> pipe w' = pipe w @ b \<and> done w' = done w"
  using send_ok [OF assms, of w b] by (auto simp: on_err_def)

lemma fabrial_op_sends:
  assumes "connected cap C sock A pipe done" and "fab_sock p = sock"
  shows "\<exists>p' w'. fabrial_op C V a (p, w) = (Ok (), p', w') \<and> fab_sock p' = sock \<and>
     pipe w' = pipe w @ action_bytes a \<and> done w' = done w"
proof (cases a)
  case (Input d)
  let ?len = "to_le_bytes 2 (word_of_nat (length d) :: u16)"
  obtain w1 where w1: "on_err Os (\<lambda>w. py_send C w sock (0x01 # ?len)) w = (Ok (length (0x01 # ?len)), w1)"
    "pipe w1 = pipe w @ 0x01 # ?len" "done w1 = done w" using send_appends [OF assms(1)] by blast
  obtain w2 where w2: "on_err Os (\<lambda>w. py_send C w sock d) w1 = (Ok (length d), w2)"
    "pipe w2 = pipe w1 @ d" "done w2 = done w1" using send_appends [OF assms(1)] by blast
  have "FabrialPty_write_pty C p d w = (Ok (), w2)"
    using w1(1) w2(1) assms(2) by (simp add: FabrialPty_write_pty_def Let_def le16_in_le64 bind_def give_def)
  then show ?thesis using Input w1 w2 assms(2) by simp
next
  case (Window r c)
  obtain w1 where w1: "on_err Os (\<lambda>w. py_send C w sock (action_bytes a)) w = (Ok (length (action_bytes a)), w1)"
    "pipe w1 = pipe w @ action_bytes a" "done w1 = done w" using send_appends [OF assms(1)] by blast
  have "action_bytes a = [0x02, to_le_bytes 2 r ! 0, to_le_bytes 2 r ! 1, to_le_bytes 2 c ! 0, to_le_bytes 2 c ! 1]"
    using Window le16_pair [of r] le16_pair [of c] by simp
  then show ?thesis using Window w1 assms(2) by (simp add: FabrialPty_resize_pty_def Let_def bind_def give_def)
qed

lemma link_run_carries_out:
  assumes "connected cap C sock A pipe done" and "\<forall>a \<in> set (as @ operations ss). action_wf a"
    and "fab_sock p = sock" and "pipe w = concat (map action_bytes as)"
  shows "\<exists>p' w' bs. link_run C A V (ss @ [AgentServed]) (p, w) = Some (p', w') \<and> pipe w' = [] \<and>
     done w' = done w @ bs \<and> list_all2 (carried_out cap) (as @ operations ss) bs"
  using assms(2-4)
proof (induction ss arbitrary: as p w)
  case Nil
  with agent_serves [OF assms(1), of as w] show ?case by auto
next
  case (Cons x ss)
  show ?case
  proof (cases x)
    case (Operation a)
    from fabrial_op_sends [OF assms(1) Cons.prems(2)] obtain p1 w1 where
      1: "fabrial_op C V a (p, w) = (Ok (), p1, w1)" "fab_sock p1 = sock" "pipe w1 = concat (map action_bytes (as @ [a]))" "done w1 = done w"
      using Cons.prems(3) by force
    from Cons.IH [of "as @ [a]", OF _ 1(2,3)] Cons.prems(1) Operation 1(1,4) show ?thesis by simp
  next
    case AgentServed
    from agent_serves [OF assms(1), of as w] Cons.prems obtain w1 bs1 where
      1: "sock_loop A w = Some (Ok (), w1)" "pipe w1 = []" "done w1 = done w @ bs1" "list_all2 (carried_out cap) as bs1" by auto
    from Cons.IH [of "[]" p w1] Cons.prems(1,2) AgentServed 1(2) obtain p' w' bs2 where
      "link_run C A V (ss @ [AgentServed]) (p, w1) = Some (p', w')" "pipe w' = []" "done w' = done w1 @ bs2"
      "list_all2 (carried_out cap) (operations ss) bs2" by auto
    with 1 AgentServed show ?thesis
      by (intro exI [of _ p'] exI [of _ w'] exI [of _ "bs1 @ bs2"]) (simp add: list_all2_appendI)
  qed
qed

text \<open>
  C5: the terminal of the runner and the agent together implement a terminal. Whatever operations are
  made on it, inputs of 1 to 65535 bytes and windows that are not empty, and however often the agent is
  served between them: every operation succeeds and, when the agent has been served once more, it has
  carried out these operations on the terminal of the guest, in their order and no others, and
  nothing is left in the connection. An input that the terminal takes as a whole is carried out exactly,
  of another one the first bytes. (When the agent is served between the two send calls of one input, the
  input is lost: \<open>Fabrial_input_lost_between_sends\<close>.)
\<close>

theorem Fabrial_terminal_refines:
  assumes "connected cap C (fab_sock p) A pipe done" and "\<forall>a \<in> set (operations ss). action_wf a" and "pipe w = []"
  shows "\<exists>p' w' bs. link_run C A V (ss @ [AgentServed]) (p, w) = Some (p', w') \<and> pipe w' = [] \<and>
     done w' = done w @ bs \<and> list_all2 (carried_out cap) (operations ss) bs \<and>
     ((\<forall>d. Input d \<in> set (operations ss) \<longrightarrow> length d \<le> cap) \<longrightarrow> bs = operations ss)"
proof -
  from link_run_carries_out [OF assms(1), of "[]" ss p w V] assms(2,3) obtain p' w' bs where
    "link_run C A V (ss @ [AgentServed]) (p, w) = Some (p', w')" "pipe w' = []" "done w' = done w @ bs"
    and bs: "list_all2 (carried_out cap) (operations ss) bs" by auto
  with carried_out_exact [OF bs] show ?thesis by blast
qed

section \<open>Messages that arrive in parts, and messages of the command line\<close>

lemma agent_data_missing:
  assumes "connected cap C sock A pipe done" and "pipe w = [0x01, x, y]" and "from_le_bytes [x, y] \<noteq> (0 :: u16)"
  shows "\<exists>w'. sock_loop A w = Some (Ok (), w') \<and> pipe w' = [] \<and> done w' = done w @ [Input []]"
proof -
  from recv_next [OF assms(1), of w "[0x01]" "[x, y]" 1] assms(2) obtain w1 where
    w1: "non_blocking_recv A 1 w = (Ok [0x01], w1)" "pipe w1 = [x, y]" "done w1 = done w" by auto
  from recv_next [OF assms(1), of w1 "[x, y]" "[]" 2] w1 obtain w2 where
    w2: "non_blocking_recv A 2 w1 = (Ok [x, y], w2)" "pipe w2 = []" "done w2 = done w" by auto
  let ?n = "unat (from_le_bytes [x, y] :: u16)"
  from recv_nothing [OF assms(1) w2(2), of "min ?n BUFFER_SIZE"] obtain w3 where
    w3: "non_blocking_recv A (min ?n BUFFER_SIZE) w2 = (Ok [], w3)" "pipe w3 = []" "done w3 = done w" using w2(3) by auto
  have n: "?n \<noteq> 0" using assms(3) by (simp del: from_le_bytes.simps add: unat_eq_0)
  have "data_loop A BUFFER_SIZE ?n [] w2 = (Ok [], w3)"
    using w3(1) n by (subst data_loop.simps) (simp del: from_le_bytes.simps add: Let_def BUFFER_SIZE_def min_def)
  then have "SockTTY_handle_socket_data A BUFFER_SIZE [] w1 = (Ok [], w3)"
    using w2(1) n by (simp del: from_le_bytes.simps add: SockTTY_handle_socket_data_def bind_def Let_def)
  then have r: "SockTTY_read_from_socket A BUFFER_SIZE w = (Ok (WriteToTTY, []), w3)"
    using w1(1) by (simp add: SockTTY_read_from_socket_def bind_def give_def MSG_TY_ZERO_def MSG_TY_DATA_def)
  obtain w4 where w4: "ty_write A w3 [] = (Ok 0, w4)" "pipe w4 = []" "done w4 = done w @ [Input []]"
    using write_ok [OF assms(1), of "[]" w3] w3(2,3) by auto
  from agent_idle [OF assms(1), of w4] w4(2,3) obtain w5 where
    "sock_loop A w4 = Some (Ok (), w5)" "pipe w5 = []" "done w5 = done w @ [Input []]" by auto
  then show ?thesis using r w4(1)
    by (subst sock_loop.simps) (simp add: in_context_def with_context_def SockTTY_write_to_tty_def bind_def on_err_def give_def)
qed

lemma agent_ignores:
  assumes "connected cap C sock A pipe done"
  shows "pipe w = d \<Longrightarrow> \<forall>b \<in> set d. 2 < b \<Longrightarrow> \<exists>w'. sock_loop A w = Some (Ok (), w') \<and> pipe w' = [] \<and> done w' = done w"
proof (induction d arbitrary: w)
  case Nil
  then show ?case using agent_idle [OF assms, of w] by auto
next
  case (Cons b d)
  from recv_next [OF assms, of w "[b]" d 1] Cons.prems obtain w1 where
    w1: "non_blocking_recv A 1 w = (Ok [b], w1)" "pipe w1 = d" "done w1 = done w" by auto
  have "b \<noteq> 0" "b \<noteq> 1" "b \<noteq> 2" using Cons.prems(2) by auto
  then have "SockTTY_read_from_socket A BUFFER_SIZE w = (Ok (Continue, []), w1)"
    using w1(1) by (simp add: SockTTY_read_from_socket_def bind_def give_def MSG_TY_ZERO_def MSG_TY_DATA_def MSG_TY_TTYRESIZE_def)
  moreover from Cons.IH [OF w1(2)] Cons.prems(2) obtain w2 where
    "sock_loop A w1 = Some (Ok (), w2)" "pipe w2 = []" "done w2 = done w" using w1(3) by auto
  ultimately show ?case by (subst sock_loop.simps) (simp add: in_context_def with_context_def)
qed

text \<open>
  Input is lost when the agent is served between the two send calls of \<open>write_pty\<close>. It finds the
  header and no data, writes nothing to the terminal and forgets the message; the data that arrives
  afterwards are read as the types of messages, and bytes greater than 2, such as all printable
  characters, are skipped.
\<close>

lemma Fabrial_input_lost_between_sends:
  assumes "connected cap C sock A pipe done" and "pipe w = []"
    and "0 < length d" and "length d < 65536" and "\<forall>b \<in> set d. 2 < b"
  shows "\<exists>w1 w2 w3 w4. py_send C w sock (take 3 (action_bytes (Input d))) = (Ok 3, w1) \<and> sock_loop A w1 = Some (Ok (), w2) \<and>
     py_send C w2 sock (drop 3 (action_bytes (Input d))) = (Ok (length d), w3) \<and> sock_loop A w3 = Some (Ok (), w4) \<and>
     done w4 = done w @ [Input []] \<and> pipe w4 = []"
proof -
  let ?len = "word_of_nat (length d) :: u16"
  have hdr: "take 3 (action_bytes (Input d)) = 0x01 # to_le_bytes 2 ?len" "drop 3 (action_bytes (Input d)) = d"
    by (simp_all add: numeral_3_eq_3 numeral_2_eq_2)
  from send_ok [OF assms(1), of w "0x01 # to_le_bytes 2 ?len"] obtain w1 where
    w1: "py_send C w sock (0x01 # to_le_bytes 2 ?len) = (Ok 3, w1)" "pipe w1 = 0x01 # to_le_bytes 2 ?len" "done w1 = done w"
    by (auto simp: assms(2))
  obtain x y where xy: "to_le_bytes 2 ?len = [x, y]" by (simp add: numeral_2_eq_2)
  have "unat ?len = length d" using assms(4) by (simp add: unsigned_of_nat take_bit_nat_eq_self)
  then have "from_le_bytes [x, y] \<noteq> (0 :: u16)" using from_le_16 [of ?len] assms(3) unfolding xy by auto
  from agent_data_missing [OF assms(1) w1(2) [unfolded xy] this] w1(3) obtain w2 where
    w2: "sock_loop A w1 = Some (Ok (), w2)" "pipe w2 = []" "done w2 = done w @ [Input []]" by auto
  from send_ok [OF assms(1), of w2 d] obtain w3 where
    w3: "py_send C w2 sock d = (Ok (length d), w3)" "pipe w3 = d" "done w3 = done w2" by (auto simp: w2(2))
  from agent_ignores [OF assms(1) w3(2) assms(5)] obtain w4 where
    "sock_loop A w3 = Some (Ok (), w4)" "pipe w4 = []" "done w4 = done w @ [Input []]" by (auto simp: w3(3) w2(3))
  with w1(1) w2(1) w3(1) show ?thesis unfolding hdr by blast
qed

lemma header_written:
  assumes "length xs = 10"
  shows "take 6 (xs[0 := a, 1 := b, 2 := c, 3 := d, 4 := e]) = [a, b, c, d, e, xs ! 5]"
proof -
  have "Suc (Suc (Suc (Suc (Suc (Suc 0))))) \<le> length xs" using assms by simp
  then obtain x0 x1 x2 x3 x4 x5 xs' where "xs = x0 # x1 # x2 # x3 # x4 # x5 # xs'"
    by (auto simp: Suc_le_length_iff)
  then show ?thesis by simp
qed

lemma send_key_bytes:
  assumes "connected cap C sock A pipe done" and "encode_key ev bytes = (Ok (1, bytes') :: (_, io_error) res)" and "length bytes' = 10"
  shows "\<exists>w'. send_key C sock ev (bytes, w) = (Ok (), bytes'[0 := 1, 1 := 1, 2 := 0, 3 := 0, 4 := 0], w') \<and>
     pipe w' = pipe w @ [1, 1, 0, 0, 0, bytes' ! 5] \<and> done w' = done w"
proof -
  have szb: "to_le_bytes 8 (1 :: u64) = [1, 0, 0, 0, 0, 0, 0, 0]" by code_simp
  let ?b = "bytes'[0 := 1, 1 := 1, 2 := 0, 3 := 0, 4 := 0]" and ?m = "[1, 1, 0, 0, 0, bytes' ! 5]"
  from send_ok [OF assms(1), of w ?m] obtain w' where
    w': "py_send C w sock ?m = (Ok (length ?m), w')" "pipe w' = pipe w @ ?m" "done w' = done w" by blast
  have "take (1 + 5) ?b = ?m" using header_written [OF assms(3)] by simp
  moreover have "bytes' \<noteq> []" using assms(3) by auto
  ultimately show ?thesis using assms(2,3) szb w' by (simp add: send_key_def Let_def put_at_def get_slice_def)
qed

text \<open>
  The client on the command line puts five bytes before the input, the agent expects three. A plain
  ASCII key arrives as a zero byte of input, the agent then takes the next zero byte as the end of the
  messages, and the key itself stays in the connection, to be read as the type of a message.
\<close>

lemma cli_key_misread:
  assumes "connected cap C sock A pipe done" and "0 < cap" and "pipe w = []" and "length bytes = 10"
    and "key_modifiers ev = NONE" and "key_code ev = Char ch" and "ch < 0x80"
  shows "\<exists>bytes' w1 w2. send_key C sock ev (bytes, w) = (Ok (), bytes', w1) \<and> pipe w1 = [1, 1, 0, 0, 0, word_of_nat ch] \<and>
     sock_loop A w1 = Some (Ok (), w2) \<and> done w2 = done w @ [Input [0]] \<and> pipe w2 = [word_of_nat ch]"
proof -
  have "encode_key ev bytes = (Ok (1, bytes[5 := word_of_nat ch]) :: (_, io_error) res)"
    using assms(4-7) by (simp add: encode_key_def Let_def encode_utf8_def put_bytes_def put_slice_def upd_conv_take_nth_drop)
  from send_key_bytes [OF assms(1) this, of w] assms(3,4) obtain bytes' w1 where
    1: "send_key C sock ev (bytes, w) = (Ok (), bytes', w1)" "pipe w1 = [1, 1, 0, 0, 0, word_of_nat ch]" "done w1 = done w"
    by auto
  have "pipe w1 = action_bytes (Input [0]) @ [0, word_of_nat ch]" using 1(2) by (simp add: numeral_2_eq_2)
  from agent_reads_input [OF assms(1) this] obtain w2 where
    2: "SockTTY_read_from_socket A BUFFER_SIZE w1 = (Ok (WriteToTTY, [0]), w2)" "pipe w2 = [0, word_of_nat ch]" "done w2 = done w"
    using 1(3) by auto
  obtain w3 where 3: "ty_write A w2 [0] = (Ok 1, w3)" "pipe w3 = [0, word_of_nat ch]" "done w3 = done w @ [Input [0]]"
    using write_ok [OF assms(1), of "[0]" w2] 2(2,3) assms(2) by auto
  from agent_idle [OF assms(1), of w3] 3(2,3) obtain w4 where
    "sock_loop A w3 = Some (Ok (), w4)" "pipe w4 = [word_of_nat ch]" "done w4 = done w @ [Input [0]]" by auto
  moreover from this(1) have "sock_loop A w1 = Some (Ok (), w4)" using 2(1) 3(1)
    by (subst sock_loop.simps) (simp add: in_context_def with_context_def SockTTY_write_to_tty_def bind_def on_err_def give_def)
  ultimately show ?thesis using 1 by blast
qed

text \<open>
  A character with the shift key is encoded where the header is written next: what is sent is the byte
  the key before left in the buffer, whatever the character.
\<close>

lemma cli_shift_key_stale:
  assumes "connected cap C sock A pipe done" and "length bytes = 10"
    and "key_modifiers ev = SHIFT" and "key_code ev = Char ch" and "ch < 0x80"
  shows "\<exists>bytes' w'. send_key C sock ev (bytes, w) = (Ok (), bytes', w') \<and> pipe w' = pipe w @ [1, 1, 0, 0, 0, bytes ! 5]"
proof -
  have "encode_key ev bytes = (Ok (1, bytes[3 := word_of_nat ch]) :: (_, io_error) res)"
    using assms(2-5) by (simp add: encode_key_def Let_def encode_utf8_def put_bytes_def put_slice_def upd_conv_take_nth_drop)
  from send_key_bytes [OF assms(1) this, of w] assms(2) show ?thesis by auto
qed

section \<open>A connection to evaluate the properties at\<close>

text \<open>Its world is the bytes sent and what the agent has done.\<close>

definition link_client :: "(bytes \<times> tty_action list) pty_os" where
  "link_client = \<lparr>py_recv = (\<lambda>w fd n. (Err EWOULDBLOCK, w)), py_send = (\<lambda>(p, d) fd b. (Ok (length b), p @ b, d)),
     py_read = (\<lambda>w fd n. (Ok [], w)), py_write = (\<lambda>w fd b. (Ok (length b), w)), py_socket = (\<lambda>w. (Ok 7, w)),
     py_connect = (\<lambda>w fd c p. (Ok (), w))\<rparr>"

definition link_agent :: "(bytes \<times> tty_action list) tty_os" where
  "link_agent = \<lparr>ty_recv = (\<lambda>(p, d) n. if p = [] then (Err EWOULDBLOCK, p, d) else (Ok (take n p), drop n p, d)),
     ty_send = (\<lambda>w b. (Ok (length b), w)), ty_read = (\<lambda>w n. (Ok [], w)),
     ty_write = (\<lambda>(p, d) b. (Ok (min 4096 (length b)), p, d @ [Input (take 4096 b)])), ty_winsize = (\<lambda>(p, d) r c. (Ok (), p, d @ [Window r c]))\<rparr>"

lemma link_connected: "connected 4096 link_client sock link_agent fst snd"
proof -
  have "take 4096 b = take (min 4096 (length b)) b" for b :: bytes by (simp add: min_def)
  then show ?thesis by (auto simp: connected_def link_client_def link_agent_def case_prod_beta)
qed

theorem Fabrial_terminal_refines_witness:
  "\<exists>p' w'. link_run link_client link_agent sample_vt
       ([Operation (Window 50 120), AgentServed, Operation (Input [0x6C, 0x73, 0x0A]), Operation (Input [0x03])] @ [AgentServed])
       (\<lparr>fab_sock = 7, fab_parser = (24, 80)\<rparr>, ([], [])) = Some (p', w') \<and>
     fst w' = [] \<and> snd w' = [Window 50 120, Input [0x6C, 0x73, 0x0A], Input [0x03]]"
proof -
  let ?ss = "[Operation (Window 50 120), AgentServed, Operation (Input [0x6C, 0x73, 0x0A]), Operation (Input [0x03])]"
  have "\<forall>a \<in> set (operations ?ss). action_wf a" "\<forall>d. Input d \<in> set (operations ?ss) \<longrightarrow> length d \<le> 4096" by auto
  with Fabrial_terminal_refines [OF link_connected, of ?ss "([], [])" sample_vt "\<lparr>fab_sock = 7, fab_parser = (24, 80)\<rparr>"]
  show ?thesis by auto
qed

end
