(* ===== verification/Fabrial_Client.thy ===== *)
theory Fabrial_Client
  imports Fabrial_Link
begin

text \<open>
  The client of the guest agent as a process, \<open>connect\<close> and \<open>run\<close> of \<^verbatim>\<open>oathgate/src/cmd/shard/fabrial.rs\<close>: a thread reads the terminal, in
  raw mode, and sends what is typed, while the main thread copies what the agent sends to the output. An act of the process is an
  event of one of the two; \<open>run\<close> is over when the main thread leaves its loop. Contexts of errors are left out.
\<close>

definition client_connect :: "'w pty_os \<Rightarrow> u32 \<Rightarrow> u32 \<Rightarrow> (rawfd, io_error, 'w) act" where
  "client_connect OS cid port =
     bind (on_err Os (py_socket OS)) (\<lambda>sock.
     bind (on_err Os (\<lambda>w. py_connect OS w sock cid port)) (\<lambda>_. give (Ok sock)))"

record client_calls =
  cc_thread :: "(unit, io_error) res"
  cc_poll :: "(unit, io_error) res"
  cc_register :: "(unit, io_error) res"
  cc_enable_raw_mode :: "(unit, io_error) res"
  cc_term_size :: "(u16 \<times> u16, io_error) res"

record 'w client_state =
  cl_started :: bool
  cl_buf :: bytes
  cl_ui :: bool
  cl_raw :: bool
  cl_result :: "(unit, io_error) res option"
  cl_world :: 'w

text \<open>
  The thread of the terminal starts, once: raw mode, and the size of the terminal is sent. When its loop ends with an error raw mode is switched off
  again; a panic ends the thread before that.
\<close>

definition ui_start :: "'w pty_os \<Rightarrow> client_calls \<Rightarrow> rawfd \<Rightarrow> 'w client_state \<Rightarrow> 'w client_state" where
  "ui_start OS C sock s =
     (if cl_started s then s
      else case cc_enable_raw_mode C of
        Ok _ \<Rightarrow>
          (case cc_term_size C of
             Ok (cols, rows) \<Rightarrow>
               (case client_resize_pty OS sock rows cols (cl_buf s, cl_world s) of
                  (r, b, w) \<Rightarrow> s\<lparr>cl_started := True, cl_raw := True, cl_ui := (r \<noteq> Panic), cl_buf := b, cl_world := w\<rparr>)
           | Err e \<Rightarrow> s\<lparr>cl_started := True, cl_raw := True, cl_ui := True\<rparr>
           | Panic \<Rightarrow> s\<lparr>cl_started := True, cl_raw := True\<rparr>)
      | _ \<Rightarrow> s\<lparr>cl_started := True\<rparr>)"

definition ui_event :: "'w pty_os \<Rightarrow> rawfd \<Rightarrow> (tui_event, io_error) res \<Rightarrow> 'w client_state \<Rightarrow> 'w client_state" where
  "ui_event OS sock ev s =
     (if cl_ui s then
        (case ui_events OS sock [ev] (cl_buf s, cl_world s) of
           (Ok _, b, w) \<Rightarrow> s\<lparr>cl_buf := b, cl_world := w\<rparr>
         | (Err e, b, w) \<Rightarrow> s\<lparr>cl_buf := b, cl_world := w, cl_ui := False, cl_raw := False\<rparr>
         | (Panic, b, w) \<Rightarrow> s\<lparr>cl_buf := b, cl_world := w, cl_ui := False\<rparr>)
      else s)"

datatype client_turn = UiStart | UiEvent "(tui_event, io_error) res" | SockEvent client_event

definition client_act ::
  "'w pty_os \<Rightarrow> client_calls \<Rightarrow> ('w \<Rightarrow> bytes \<Rightarrow> (unit, io_error) res \<times> 'w) \<Rightarrow> ('w \<Rightarrow> (unit, io_error) res \<times> 'w) \<Rightarrow> rawfd
     \<Rightarrow> client_turn \<Rightarrow> 'w client_state \<Rightarrow> 'w client_state option" where
  "client_act OS C out shutdown sock a s =
     (if cl_result s \<noteq> None then Some s
      else case a of
        UiStart \<Rightarrow> Some (ui_start OS C sock s)
      | UiEvent ev \<Rightarrow> Some (ui_event OS sock ev s)
      | SockEvent ev \<Rightarrow>
          map_option (\<lambda>(r, w). s\<lparr>cl_result := r, cl_world := w\<rparr>) (client_socket_event OS sock out shutdown ev (cl_world s)))"

fun client_acts ::
  "'w pty_os \<Rightarrow> client_calls \<Rightarrow> ('w \<Rightarrow> bytes \<Rightarrow> (unit, io_error) res \<times> 'w) \<Rightarrow> ('w \<Rightarrow> (unit, io_error) res \<times> 'w) \<Rightarrow> rawfd
     \<Rightarrow> client_turn list \<Rightarrow> 'w client_state \<Rightarrow> 'w client_state option" where
  "client_acts OS C out shutdown sock [] s = Some s"
| "client_acts OS C out shutdown sock (a # as) s =
     Option.bind (client_act OS C out shutdown sock a s) (client_acts OS C out shutdown sock as)"

text \<open>\<open>run\<close>: connecting, starting the thread, the poller of \<open>run_socket\<close>, and then the acts of the two threads.\<close>

definition client_run ::
  "'w pty_os \<Rightarrow> client_calls \<Rightarrow> ('w \<Rightarrow> bytes \<Rightarrow> (unit, io_error) res \<times> 'w) \<Rightarrow> ('w \<Rightarrow> (unit, io_error) res \<times> 'w)
     \<Rightarrow> client_turn list \<Rightarrow> u32 \<Rightarrow> u32 \<Rightarrow> 'w \<Rightarrow> 'w client_state option" where
  "client_run OS C out shutdown as cid port w =
     (case bind (client_connect OS cid port) (\<lambda>sock. bind (give (cc_thread C)) (\<lambda>_. give (Ok sock))) w of
        (Ok sock, w) \<Rightarrow>
          client_acts OS C out shutdown sock as
            \<lparr>cl_started = False, cl_buf = replicate 10 0, cl_ui = False, cl_raw = False,
             cl_result = (case and_then (cc_poll C) (\<lambda>_. cc_register C) of Ok _ \<Rightarrow> None | Err e \<Rightarrow> Some (Err e) | Panic \<Rightarrow> Some Panic),
             cl_world = w\<rparr>
      | (Err e, w) \<Rightarrow> Some \<lparr>cl_started = False, cl_buf = replicate 10 0, cl_ui = False, cl_raw = False, cl_result = Some (Err e), cl_world = w\<rparr>
      | (Panic, w) \<Rightarrow> Some \<lparr>cl_started = False, cl_buf = replicate 10 0, cl_ui = False, cl_raw = False, cl_result = Some Panic, cl_world = w\<rparr>)"

text \<open>
  The terminal is left in raw mode. When the agent closes the connection the main thread returns, and with it the process ends, while the other
  thread still waits for a key: nothing switches raw mode off.
\<close>

lemma client_leaves_raw_mode:
  assumes "cl_result s = None" and "cl_ui s" and "cl_raw s" and "shutdown (cl_world s) = (Ok (), w)"
  shows "\<exists>s'. client_acts OS C out shutdown sock [SockEvent SocketClosed] s = Some s' \<and> cl_result s' = Some (Ok ()) \<and> cl_raw s'"
  using assms by (simp add: client_act_def)

end
