(* ===== verification/Process.thy ===== *)
theory Process
  imports Text_Format
begin

text \<open>
  Processes of bridges and machines, \<^verbatim>\<open>oathgate/src/process.rs\<close>: the state of a process and the loop
  that stops it, and the errors of the command line (\<^verbatim>\<open>anyhow\<close>). The system is a parameter on a world
  \<open>'w\<close>: whether a process can be signalled now, sending a signal, and sleeping for a second.
\<close>

section \<open>Errors\<close>

datatype kill_errno = ESRCH | EPERM | OtherKillErrno string

datatype sql_error =
    ConstraintViolation string | NoSuchTable string | QueryReturnedNoRows | IntegralValueOutOfRange | FromSqlError string

text \<open>\<open>anyhow::Error\<close>: a message, an error of the system or the database, or one with a context.\<close>

datatype anyhow =
    Message string | Kill kill_errno | Sql sql_error | Io io_error | Context string anyhow

fun any_context :: "string \<Rightarrow> ('a, anyhow) res \<Rightarrow> ('a, anyhow) res" where
  "any_context ctx r = map_err (Context ctx) r"

section \<open>The state of a process\<close>

type_synonym pid = int

datatype ProcessState = Running pid | PermissionDenied pid | Dead pid | Stopped

datatype proc_signal = Sigterm | Sigkill

record 'w proc_os =
  po_alive :: "'w \<Rightarrow> pid \<Rightarrow> (unit, kill_errno) res"
  po_signal :: "'w \<Rightarrow> pid \<Rightarrow> proc_signal \<Rightarrow> (unit, kill_errno) res \<times> 'w"
  po_sleep :: "'w \<Rightarrow> 'w"

definition process_check :: "'w proc_os \<Rightarrow> pid \<Rightarrow> 'w \<Rightarrow> (ProcessState, anyhow) res" where
  "process_check OS pid w =
     (case po_alive OS w pid of
        Ok _ \<Rightarrow> Ok (Running pid)
      | Err e \<Rightarrow> (case e of ESRCH \<Rightarrow> Ok (Dead pid) | EPERM \<Rightarrow> Ok (PermissionDenied pid) | _ \<Rightarrow> Err (Kill e))
      | Panic \<Rightarrow> Panic)"

text \<open>The loop of \<open>stop\<close> from its turn \<open>i\<close>, which starts at 0 and is left at 4.\<close>

function stop_loop :: "'w proc_os \<Rightarrow> pid \<Rightarrow> nat \<Rightarrow> (unit, anyhow, 'w) act" where
  "stop_loop OS pid i w =
     (case process_check OS pid w of
        Ok (Dead _) \<Rightarrow> (Ok (), w)
      | Ok Stopped \<Rightarrow> (Ok (), w)
      | Ok (PermissionDenied _) \<Rightarrow> (Err (Message ''permission denied''), w)
      | Ok (Running _) \<Rightarrow>
          (if 4 \<le> i then (Err (Message ''process did not respond to sigterm or sigkill''), w)
           else case po_signal OS w pid (if i = 3 then Sigkill else Sigterm) of
             (Ok _, w) \<Rightarrow> stop_loop OS pid (i + 1) (po_sleep OS w)
           | (Err e, w) \<Rightarrow>
               (Err (Context (''unable to send '' @ (if i = 3 then ''sigkill'' else ''sigterm'') @ '' to process '' @ show_int pid) (Kill e)), w)
           | (Panic, w) \<Rightarrow> (Panic, w))
      | Err e \<Rightarrow> (Err e, w)
      | Panic \<Rightarrow> (Panic, w))"
  by pat_completeness auto

termination stop_loop
  by (relation "measure (\<lambda>(OS, pid, i, w). 4 - i)") auto

declare stop_loop.simps [simp del]

definition process_stop :: "'w proc_os \<Rightarrow> pid \<Rightarrow> (unit, anyhow, 'w) act" where
  "process_stop OS pid = stop_loop OS pid 0"

fun ProcessState_optional :: "ProcessState \<Rightarrow> pid option" where
  "ProcessState_optional (Running pid) = Some pid"
| "ProcessState_optional (PermissionDenied pid) = Some pid"
| "ProcessState_optional (Dead _) = None"
| "ProcessState_optional Stopped = None"

fun ProcessState_to_string :: "ProcessState \<Rightarrow> string" where
  "ProcessState_to_string (Running _) = ''running''"
| "ProcessState_to_string (PermissionDenied _) = ''permission denied''"
| "ProcessState_to_string (Dead _) = ''dead''"
| "ProcessState_to_string Stopped = ''stopped''"

section \<open>Stopping a process\<close>

text \<open>The world after \<open>n\<close> signals, three of them to terminate and the fourth to kill.\<close>

fun rounds :: "'w proc_os \<Rightarrow> pid \<Rightarrow> nat \<Rightarrow> 'w \<Rightarrow> 'w" where
  "rounds OS pid 0 w = w"
| "rounds OS pid (Suc n) w =
     (let w = rounds OS pid n w in po_sleep OS (snd (po_signal OS w pid (if n = 3 then Sigkill else Sigterm))))"

text \<open>
  As long as the process has not been found gone, it is there and a signal to it arrives, or it is gone now.
  Nothing is said of the moments after it is gone.
\<close>

definition obedient :: "'w proc_os \<Rightarrow> pid \<Rightarrow> 'w \<Rightarrow> bool" where
  "obedient OS pid w \<longleftrightarrow>
     (\<forall>n \<le> 4. (\<forall>m < n. po_alive OS (rounds OS pid m w) pid = Ok ()) \<longrightarrow>
        po_alive OS (rounds OS pid n w) pid = Err ESRCH \<or>
        po_alive OS (rounds OS pid n w) pid = Ok () \<and>
        (n < 4 \<longrightarrow> fst (po_signal OS (rounds OS pid n w) pid (if n = 3 then Sigkill else Sigterm)) = Ok ()))"

lemma stop_loop_rounds:
  assumes "obedient OS pid w" and "n + k = 4" and "\<forall>m < n. po_alive OS (rounds OS pid m w) pid = Ok ()"
  shows "stop_loop OS pid n (rounds OS pid n w) =
     (case find (\<lambda>m. po_alive OS (rounds OS pid m w) pid = Err ESRCH) [n..<5] of
        Some m \<Rightarrow> (Ok (), rounds OS pid m w)
      | None \<Rightarrow> (Err (Message ''process did not respond to sigterm or sigkill''), rounds OS pid 4 w))"
  using assms(2,3)
proof (induction k arbitrary: n)
  case 0
  then have n: "n = 4" by simp
  have "[4..<5] = [4::nat]" by (simp add: upt_rec)
  moreover have "po_alive OS (rounds OS pid 4 w) pid = Err ESRCH \<or> po_alive OS (rounds OS pid 4 w) pid = Ok ()"
    using assms(1) 0 by (auto simp: obedient_def)
  ultimately show ?case unfolding n by (subst stop_loop.simps) (auto simp: process_check_def)
next
  case (Suc k)
  then have n: "n < 4" by simp
  have up: "[n..<5] = n # [Suc n..<5]" using n by (simp add: upt_conv_Cons)
  let ?w = "rounds OS pid n w"
  have here: "po_alive OS ?w pid = Err ESRCH \<or> po_alive OS ?w pid = Ok () \<and>
      fst (po_signal OS ?w pid (if n = 3 then Sigkill else Sigterm)) = Ok ()"
    using assms(1) [unfolded obedient_def, rule_format, of n] n Suc.prems(2) by (simp del: rounds.simps)
  show ?case
  proof (cases "po_alive OS ?w pid = Err ESRCH")
    case True
    then show ?thesis by (subst stop_loop.simps) (simp add: process_check_def up del: rounds.simps)
  next
    case False
    with here have alive: "po_alive OS ?w pid = Ok ()" by blast
    obtain w1 where sig: "po_signal OS ?w pid (if n = 3 then Sigkill else Sigterm) = (Ok (), w1)"
      using here alive by (metis prod.collapse res.distinct(1))
    have "rounds OS pid (Suc n) w = po_sleep OS w1" using sig by simp
    moreover have "\<forall>m < Suc n. po_alive OS (rounds OS pid m w) pid = Ok ()" using Suc.prems(2) alive by (simp add: less_Suc_eq)
    ultimately have "stop_loop OS pid (Suc n) (po_sleep OS w1) =
       (case find (\<lambda>m. po_alive OS (rounds OS pid m w) pid = Err ESRCH) [Suc n..<5] of
          Some m \<Rightarrow> (Ok (), rounds OS pid m w)
        | None \<Rightarrow> (Err (Message ''process did not respond to sigterm or sigkill''), rounds OS pid 4 w))"
      using Suc.IH [of "Suc n"] Suc.prems(1) by simp
    then show ?thesis using alive n sig by (subst stop_loop.simps) (simp add: process_check_def up del: rounds.simps)
  qed
qed

text \<open>
  C14: stopping a process is sending it at most three SIGTERM and one SIGKILL, a second apart, until it is
  gone, when every signal to it arrives as long as it is there: the function returns in the first of these
  moments at which the process is gone, and otherwise reports after the fourth signal that it did not respond.
\<close>

theorem process_stop_rounds:
  assumes "obedient OS pid w"
  shows "process_stop OS pid w =
     (case find (\<lambda>n. po_alive OS (rounds OS pid n w) pid = Err ESRCH) [0..<5] of
        Some n \<Rightarrow> (Ok (), rounds OS pid n w)
      | None \<Rightarrow> (Err (Message ''process did not respond to sigterm or sigkill''), rounds OS pid 4 w))"
  using stop_loop_rounds [OF assms, of 0 4] by (simp add: process_stop_def)

text \<open>A process that ends between the check and the signal is reported as an error.\<close>

lemma process_stop_race:
  assumes "po_alive OS w pid = Ok ()" and "po_signal OS w pid Sigterm = (Err ESRCH, w')"
  shows "process_stop OS pid w = (Err (Context (''unable to send sigterm to process '' @ show_int pid) (Kill ESRCH)), w')"
  using assms unfolding process_stop_def by (subst stop_loop.simps) (simp add: process_check_def)

text \<open>A process whose stopping succeeded is gone, whatever happened in between.\<close>

lemma stop_loop_gone:
  "stop_loop OS pid i w = (Ok (), w') \<Longrightarrow> po_alive OS w' pid = Err ESRCH"
proof (induction "4 - i" arbitrary: i w rule: less_induct)
  case less
  have IH: "po_alive OS w' pid = Err ESRCH" if "i < 4" "stop_loop OS pid (i + 1) w1 = (Ok (), w')" for w1
    using less(1) [OF _ that(2)] that(1) by simp
  from less(2) show ?case
    by (subst (asm) stop_loop.simps) (auto simp: process_check_def split: res.splits kill_errno.splits if_splits prod.splits intro: IH)
qed

text \<open>The world of the sample counts the signals left that the process ignores.\<close>

definition sample_proc_os :: "nat proc_os" where
  "sample_proc_os = \<lparr>po_alive = (\<lambda>w pid. if w = 0 then Err ESRCH else Ok ()),
     po_signal = (\<lambda>w pid s. if w = 0 then (Err ESRCH, w) else (Ok (), if s = Sigkill then 0 else w - 1)), po_sleep = (\<lambda>w. w)\<rparr>"

theorem process_stop_rounds_witness:
  "process_stop sample_proc_os 42 7 = (Ok (), 0) \<and> process_stop sample_proc_os 42 2 = (Ok (), 0)"
proof -
  have r: "rounds sample_proc_os 42 n k = (if n \<le> 3 then k - n else 0)" for n k
    by (induction n) (auto simp: sample_proc_os_def Let_def)
  have "obedient sample_proc_os 42 k" for k by (auto simp: obedient_def r) (auto simp: sample_proc_os_def split: if_splits)
  from process_stop_rounds [OF this, of 7] process_stop_rounds [OF this, of 2] show ?thesis
    by (simp add: r upt_rec) (simp add: sample_proc_os_def)
qed

end
