(* ===== verification/Logger.thy ===== *)
theory Logger
  imports Process "HOL-Library.List_Lexorder" "HOL-Library.Char_ord"
begin

text \<open>
  Log events, \<^verbatim>\<open>oathgate/src/logger.rs\<close>: their levels, the values of their fields, recording the fields
  of an event and printing it. Floating point numbers are a type parameter, finite and with their text given; the
  colours of the output are left out. Saving events is in theory \<open>Database\<close>.
\<close>

section \<open>Levels and values\<close>

datatype LogLevel = Error | Warn | Info | Debug | Trace

fun LogLevel_from :: "tracing_level \<Rightarrow> LogLevel" where
  "LogLevel_from ERROR = Error"
| "LogLevel_from WARN = Warn"
| "LogLevel_from INFO = Info"
| "LogLevel_from DEBUG = Debug"
| "LogLevel_from TRACE = Trace"

fun LogLevel_to_string :: "LogLevel \<Rightarrow> string" where
  "LogLevel_to_string Error = ''error''"
| "LogLevel_to_string Warn = ''warn''"
| "LogLevel_to_string Info = ''info''"
| "LogLevel_to_string Debug = ''debug''"
| "LogLevel_to_string Trace = ''trace''"

definition LogLevel_from_str :: "string \<Rightarrow> (LogLevel, string) res" where
  "LogLevel_from_str s =
     (if s = ''error'' then Ok Error else if s = ''warn'' then Ok Warn else if s = ''info'' then Ok Info
      else if s = ''debug'' then Ok Debug else if s = ''trace'' then Ok Trace else Err ''unknown log level'')"

datatype 'f DataType = Float 'f | U64 u64 | I64 int | U128 u128 | I128 int | Boolean bool | Str string

fun DataType_to_string :: "('f \<Rightarrow> string) \<Rightarrow> 'f DataType \<Rightarrow> string" where
  "DataType_to_string fl (Str s) = s"
| "DataType_to_string fl (Float x) = fl x"
| "DataType_to_string fl (U64 u) = show_dec (unat u)"
| "DataType_to_string fl (U128 u) = show_dec (unat u)"
| "DataType_to_string fl (I64 i) = show_int i"
| "DataType_to_string fl (I128 i) = show_int i"
| "DataType_to_string fl (Boolean b) = (if b then ''true'' else ''false'')"

section \<open>Events\<close>

text \<open>\<open>BTreeMap\<close>: the entries in the order of their keys.\<close>

fun btree_insert :: "string \<Rightarrow> 'v \<Rightarrow> (string \<times> 'v) list \<Rightarrow> (string \<times> 'v) list" where
  "btree_insert k v [] = [(k, v)]"
| "btree_insert k v ((k', v') # m) =
     (if k < k' then (k, v) # (k', v') # m else if k = k' then (k, v) # m else (k', v') # btree_insert k v m)"

record 'f OathgateEvent =
  ev_target :: string
  ev_line :: "u32 option"
  ev_module :: "string option"
  ev_level :: LogLevel
  ev_data :: "(string \<times> 'f DataType) list"
  ev_ts :: nat

text \<open>The metadata of \<open>tracing\<close> that is looked at, and the time, in a unit of its own.\<close>

record metadata =
  md_target :: string
  md_line :: "u32 option"
  md_module :: "string option"
  md_level :: tracing_level

definition OathgateEvent_new :: "nat \<Rightarrow> metadata \<Rightarrow> 'f OathgateEvent" where
  "OathgateEvent_new now md =
     \<lparr>ev_target = md_target md, ev_line = md_line md, ev_module = md_module md, ev_level = LogLevel_from (md_level md),
      ev_data = [], ev_ts = now\<rparr>"

text \<open>The value of a field as \<open>tracing\<close> hands it to the visitor; texts are already formatted.\<close>

datatype 'f field_value =
    FDebug string | FF64 'f | FI64 int | FU64 u64 | FI128 int | FU128 u128 | FBool bool | FStr string | FError string

definition ev_insert :: "string \<Rightarrow> 'f DataType \<Rightarrow> 'f OathgateEvent \<Rightarrow> 'f OathgateEvent" where
  "ev_insert name v self = self\<lparr>ev_data := btree_insert name v (ev_data self)\<rparr>"

fun DataType_from :: "'f field_value \<Rightarrow> 'f DataType" where
  "DataType_from (FDebug dbg) = Str dbg"
| "DataType_from (FF64 x) = Float x"
| "DataType_from (FI64 x) = I64 x"
| "DataType_from (FU64 x) = U64 x"
| "DataType_from (FI128 x) = I128 x"
| "DataType_from (FU128 x) = U128 x"
| "DataType_from (FBool x) = Boolean x"
| "DataType_from (FStr x) = Str x"
| "DataType_from (FError x) = Str x"

text \<open>Only the names of fields recorded with \<open>Debug\<close> lose the prefix of a raw identifier.\<close>

fun OathgateEvent_record :: "'f OathgateEvent \<Rightarrow> string \<times> 'f field_value \<Rightarrow> 'f OathgateEvent" where
  "OathgateEvent_record self (name, FDebug dbg) =
     (if take 2 name = ''r#'' then ev_insert (drop 2 name) (DataType_from (FDebug dbg)) self
      else ev_insert name (DataType_from (FDebug dbg)) self)"
| "OathgateEvent_record self (name, v) = ev_insert name (DataType_from v) self"

text \<open>The lines of a printed event.\<close>

definition OathgateEvent_display :: "('f \<Rightarrow> string) \<Rightarrow> (nat \<Rightarrow> string) \<Rightarrow> 'f OathgateEvent \<Rightarrow> string list" where
  "OathgateEvent_display fl date self =
     (case map_of (ev_data self) ''message'' of
        Some msg \<Rightarrow> [DataType_to_string fl msg]
      | None \<Rightarrow> [''<no log message>''])
     @ map (\<lambda>(k, v). ''| '' @ k @ '' = '' @ DataType_to_string fl v) (filter (\<lambda>(k, v). k \<noteq> ''message'') (ev_data self))
     @ [''| level = '' @ LogLevel_to_string (ev_level self), ''| target = '' @ ev_target self,
        ''| datetime = '' @ date (ev_ts self), '''']"

section \<open>Fields are kept in order\<close>

lemma LogLevel_text_roundtrip [simp]: "LogLevel_from_str (LogLevel_to_string l) = Ok l"
  by (cases l) (simp_all add: LogLevel_from_str_def)

lemma btree_insert_keys: "set (map fst (btree_insert k v m)) = insert k (set (map fst m))"
proof (induction m)
  case (Cons kv m)
  obtain k' v' where kv: "kv = (k', v')" by (cases kv)
  from Cons show ?case unfolding kv by (cases "k < k'"; cases "k = k'") auto
qed simp

lemma btree_insert_sorted: "sorted_wrt (<) (map fst m) \<Longrightarrow> sorted_wrt (<) (map fst (btree_insert k v m))"
proof (induction m)
  case (Cons kv m)
  obtain k' v' where kv: "kv = (k', v')" by (cases kv)
  show ?case
  proof (cases "k < k'")
    case True
    with Cons.prems kv show ?thesis by (auto dest: order.strict_trans)
  next
    case False
    with Cons kv show ?thesis using btree_insert_keys [of k v m] by (auto simp: not_less order.order_iff_strict)
  qed
qed simp

lemma btree_insert_lookup: "sorted_wrt (<) (map fst m) \<Longrightarrow> map_of (btree_insert k v m) = (map_of m)(k \<mapsto> v)"
proof (induction m)
  case (Cons kv m)
  obtain k' v' where kv: "kv = (k', v')" by (cases kv)
  from Cons show ?case unfolding kv by (auto simp: fun_eq_iff)
qed (simp add: fun_eq_iff)

end
