(* ===== verification/Runner.thy ===== *)
theory Runner
  imports Terminal Fabrial_Agent
begin

text \<open>
  The runner of a virtual machine, \<^verbatim>\<open>oathgate-runner/src\<close>: its configuration (\<^verbatim>\<open>config.rs\<close>), the command
  line of QEMU (\<^verbatim>\<open>hypervisor/vm.rs\<close>) and the event loop that serves the terminals
  (\<^verbatim>\<open>hypervisor.rs\<close>). A path is its text. The outcomes of the system calls that only succeed or fail
  are arguments or come with the events; the terminals are those of theory \<open>Terminal\<close>.
\<close>

section \<open>Configuration\<close>

datatype HypervisorError = HvIo io_error | HvErrno errno | HvYaml string | HvOther string

fun HypervisorError_display :: "(io_error \<Rightarrow> string) \<Rightarrow> (errno \<Rightarrow> string) \<Rightarrow> HypervisorError \<Rightarrow> string" where
  "HypervisorError_display io no (HvIo e) = ''i/o: '' @ io e"
| "HypervisorError_display io no (HvErrno e) = no e"
| "HypervisorError_display io no (HvYaml e) = ''yaml: '' @ e"
| "HypervisorError_display io no (HvOther e) = e"

record KernelConfig =
  kernel_cfg_path :: string
  kernel_cfg_root :: string

record DiskConfig =
  disk_cfg_path :: string
  disk_cfg_format :: "string option"

record NetDevConfig =
  netdev_mac :: "MacAddress option"

record MachineConfig =
  cfg_cpu :: string
  cfg_memory :: string
  cfg_kernel :: KernelConfig
  cfg_disk :: DiskConfig

record RunnerConfig =
  cfg_machine :: MachineConfig

text \<open>Reading a configuration: \<open>yaml\<close> stands for \<open>serde_yaml\<close> on what the reader gives, or its error.\<close>

definition Config_read_yaml :: "('r \<Rightarrow> (RunnerConfig, string) res) \<Rightarrow> 'r \<Rightarrow> (RunnerConfig, HypervisorError) res" where
  "Config_read_yaml yaml rdr = map_err HvYaml (yaml rdr)"

definition Config_from_yaml ::
  "(string \<Rightarrow> ('r, io_error) res) \<Rightarrow> ('r \<Rightarrow> (RunnerConfig, string) res) \<Rightarrow> string \<Rightarrow> (RunnerConfig, HypervisorError) res" where
  "Config_from_yaml open yaml path = and_then (map_err HvIo (open path)) (Config_read_yaml yaml)"

definition MachineConfig_new :: "string \<Rightarrow> string \<Rightarrow> KernelConfig \<Rightarrow> DiskConfig \<Rightarrow> MachineConfig" where
  "MachineConfig_new cpu memory kern disk =
     \<lparr>cfg_cpu = cpu, cfg_memory = memory, cfg_kernel = kern, cfg_disk = disk\<rparr>"

definition MachineConfig_read_yaml :: "('r \<Rightarrow> (MachineConfig, string) res) \<Rightarrow> 'r \<Rightarrow> (MachineConfig, HypervisorError) res" where
  "MachineConfig_read_yaml yaml rdr = map_err HvYaml (yaml rdr)"

definition KernelConfig_new :: "string \<Rightarrow> string \<Rightarrow> KernelConfig" where
  "KernelConfig_new path root = \<lparr>kernel_cfg_path = path, kernel_cfg_root = root\<rparr>"

definition KernelConfig_as_qemu_append :: "KernelConfig \<Rightarrow> string \<Rightarrow> string" where
  "KernelConfig_as_qemu_append self tty =
     ''earlyprintk='' @ tty @ '' console='' @ tty @ '' root='' @ kernel_cfg_root self @ '' reboot=k''"

definition DiskConfig_new :: "string \<Rightarrow> string \<Rightarrow> DiskConfig" where
  "DiskConfig_new path format = \<lparr>disk_cfg_path = path, disk_cfg_format = Some format\<rparr>"

definition DiskConfig_as_qemu_drive :: "DiskConfig \<Rightarrow> string \<Rightarrow> string" where
  "DiskConfig_as_qemu_drive self i =
     (case disk_cfg_format self of
        Some format \<Rightarrow> ''id='' @ i @ '',file='' @ disk_cfg_path self @ '',format='' @ format @ '',if=virtio''
      | None \<Rightarrow> ''id='' @ i @ '',file='' @ disk_cfg_path self @ '',if=virtio'')"

section \<open>The command line of the virtual machine\<close>

record VmHandle =
  vm_id :: u32
  vm_command :: "string list"

text \<open>The arguments for one network; \<open>rng\<close> is what the random generator gives for its MAC address.\<close>

definition network_args :: "string \<times> u8 \<times> u8 \<times> u8 \<Rightarrow> string list" where
  "network_args = (\<lambda>(socket, rng).
     [''-chardev'', ''socket,id=chr0,path='' @ socket,
      ''-netdev'', ''type=vhost-user,id=net0,chardev=chr0,queues=1'',
      ''-device'', ''virtio-net-pci,netdev=net0,mac='' @ MacAddress_to_string (MacAddress_generate rng)])"

definition VmHandle_new :: "(string \<times> u8 \<times> u8 \<times> u8) list \<Rightarrow> u32 \<Rightarrow> MachineConfig \<Rightarrow> VmHandle" where
  "VmHandle_new sockets cid machine =
     \<lparr>vm_id = cid,
      vm_command =
       [''qemu-system-x86_64'', ''-M'', cfg_cpu machine, ''-enable-kvm'', ''-cpu'', ''host'', ''-m'', cfg_memory machine,
        ''-smp'', ''1'', ''-kernel'', kernel_cfg_path (cfg_kernel machine),
        ''-append'', KernelConfig_as_qemu_append (cfg_kernel machine) ''ttyS0'',
        ''-nodefaults'', ''-no-user-config'', ''-nographic'', ''-serial'', ''stdio'',
        ''-object'', ''memory-backend-memfd,id=mem,size='' @ cfg_memory machine @ '',share=on'',
        ''-numa'', ''node,memdev=mem'', ''-drive'', DiskConfig_as_qemu_drive (cfg_disk machine) ''root'',
        ''-device'', ''vhost-vsock-pci,guest-cid='' @ show_dec (unat cid)]
       @ concat (map network_args sockets)\<rparr>"

definition VmHandle_id :: "VmHandle \<Rightarrow> u32" where
  "VmHandle_id self = vm_id self"

definition VmHandle_debug :: "VmHandle \<Rightarrow> string" where
  "VmHandle_debug self = ''VmHandle('' @ show_hex_pad 4 (unat (vm_id self)) @ '')''"

section \<open>The hypervisor\<close>

record 'v Hypervisor =
  hv_name :: string
  hv_vsock :: rawfd
  hv_vm :: VmHandle
  hv_terminals :: "'v TerminalMap"

definition VMADDR_CID_HOST :: u32 where "VMADDR_CID_HOST = 2"

text \<open>\<open>server_os\<close> has the socket calls; their errors are the numbers of \<open>nix\<close>.\<close>

fun hv_from_nix :: "io_error \<Rightarrow> HypervisorError" where
  "hv_from_nix (Os n) = HvErrno n"
| "hv_from_nix (OtherError e) = HvIo (OtherError e)"

definition Hypervisor_new ::
  "server_os \<Rightarrow> (string \<times> u8 \<times> u8 \<times> u8) list \<Rightarrow> string \<Rightarrow> u32 \<Rightarrow> MachineConfig \<Rightarrow> ('v Hypervisor, HypervisorError) res" where
  "Hypervisor_new OS networks name cid config =
     (let vm = VmHandle_new networks cid config in
      and_then (map_err hv_from_nix (so_socket OS Vsock)) (\<lambda>vsock.
      and_then (map_err hv_from_nix (so_bind OS vsock (VsockAddr VMADDR_CID_HOST (VmHandle_id vm)))) (\<lambda>_.
      and_then (map_err hv_from_nix (so_listen OS vsock MAX_BACKLOG)) (\<lambda>_.
      Ok \<lparr>hv_name = name, hv_vsock = vsock, hv_vm = vm, hv_terminals = TerminalMap_default\<rparr>))))"

definition Hypervisor_cid :: "'v Hypervisor \<Rightarrow> u32" where
  "Hypervisor_cid self = VmHandle_id (hv_vm self)"

text \<open>The state of the event loop: the terminals, and the token of the next one.\<close>

record 'v hv_state =
  hs_terminals :: "'v TerminalMap"
  poller_next_id :: nat

definition TOKEN_STDIO :: nat where "TOKEN_STDIO = 1"
definition TOKEN_STDERR :: nat where "TOKEN_STDERR = 2"
definition TOKEN_SIGNAL :: nat where "TOKEN_SIGNAL = 3"
definition TOKEN_HYPERVISOR :: nat where "TOKEN_HYPERVISOR = 4"

text \<open>
  \<open>run\<close> up to the loop. \<open>start\<close> is the outcome of creating the poller and starting the process: its
  pipes, each of which may be missing; \<open>before\<close> and \<open>after\<close> are the outcomes of what is set up before
  and after the check of \<open>stderr\<close> (signals; registration), \<open>registered\<close> of registering the terminal.
\<close>

definition Hypervisor_setup ::
  "'w pty_os \<Rightarrow> 'v vt100 \<Rightarrow> (rawfd option \<times> rawfd option \<times> rawfd option, io_error) res \<Rightarrow>
   (unit, HypervisorError) res \<Rightarrow> (unit, HypervisorError) res \<Rightarrow> (unit, io_error) res \<Rightarrow>
   'v TerminalMap \<Rightarrow> ('v hv_state, HypervisorError, 'w) act" where
  "Hypervisor_setup OS V start before after registered terms w =
     (case and_then (map_err HvIo start) (\<lambda>(stdin, stdout, stderr).
           and_then before (\<lambda>_.
           and_then (ok_or stderr (HvOther ''stderr is missing'')) (\<lambda>_.
           and_then after (\<lambda>_.
           and_then (map_err HvIo (PipePty_new V stdout stdin)) (\<lambda>stdio_term.
           and_then (map_err HvIo registered) (\<lambda>_. Ok stdio_term)))))) of
        Ok stdio_term \<Rightarrow>
          (case TerminalMap_insert OS V TOKEN_STDIO (Pipe stdio_term) (terms, w) of (terms, w) \<Rightarrow>
             (Ok \<lparr>hs_terminals = TerminalMap_set_active terms TOKEN_STDIO, poller_next_id = 10\<rparr>, w))
      | Err e \<Rightarrow> (Err e, w)
      | Panic \<Rightarrow> (Panic, w))"

text \<open>
  The events of the loop. \<open>StderrReady\<close> has the outcome of reading the pipe, \<open>SignalReady\<close> the number of
  the signal; \<open>GuestReady\<close> the outcomes of accepting the connection of the guest, of reading from it
  into the two bytes of \<open>vmid\<close>, and of registering the terminal.
\<close>

datatype hv_event =
    StderrReady "(unit, io_error) res"
  | SignalReady "(int option, errno) res"
  | GuestReady "(rawfd, errno) res" "(bytes, errno) res" "(unit, io_error) res"
  | TerminalReady nat
  | PollFailed io_error

definition SIGINT :: int where "SIGINT = 2"
definition SIGTERM :: int where "SIGTERM = 15"

definition FABRIAL_PORT :: u32 where "FABRIAL_PORT = 3715"

text \<open>A guest says it started: the terminal of its agent is added and made the active one.\<close>

definition guest_ready ::
  "'w pty_os \<Rightarrow> 'v vt100 \<Rightarrow> bytes \<Rightarrow> (unit, io_error) res \<Rightarrow> (unit, HypervisorError, 'v hv_state \<times> 'w) act" where
  "guest_ready OS V vmid registered = (\<lambda>(s, w).
     case FabrialPty_connect OS V (ucast (from_le_bytes (filled 2 vmid) :: u16)) FABRIAL_PORT w of
       (Ok fpty, w) \<Rightarrow>
         (case registered of
            Ok _ \<Rightarrow>
              (case TerminalMap_insert OS V (poller_next_id s) (Fabrial fpty) (hs_terminals s, w) of (terms, w) \<Rightarrow>
                 (Ok (), \<lparr>hs_terminals = TerminalMap_set_active terms (poller_next_id s), poller_next_id = poller_next_id s + 1\<rparr>, w))
          | Err e \<Rightarrow> (Err (HvIo e), s, w)
          | Panic \<Rightarrow> (Panic, s, w))
     | (Err e, w) \<Rightarrow> (Ok (), s, w)
     | (Panic, w) \<Rightarrow> (Panic, s, w))"

text \<open>One event; the result is whether the loop goes on. \<open>None\<close>: reading the terminal does not return.\<close>

fun hv_step ::
  "'w pty_os \<Rightarrow> 'v vt100 \<Rightarrow> hv_event \<Rightarrow> 'v hv_state \<times> 'w \<Rightarrow> ((bool, HypervisorError) res \<times> 'v hv_state \<times> 'w) option" where
  "hv_step OS V (StderrReady r) (s, w) = Some (map_err HvIo (and_then r (\<lambda>_. Ok True)), s, w)"
| "hv_step OS V (SignalReady r) (s, w) =
     Some (map_err HvErrno (and_then r (\<lambda>sig. Ok (sig \<noteq> Some SIGINT \<and> sig \<noteq> Some SIGTERM))), s, w)"
| "hv_step OS V (GuestReady accepted vmid registered) (s, w) =
     Some (case map_err HvErrno (and_then accepted (\<lambda>_. vmid)) of
        Ok vmid \<Rightarrow> bind (guest_ready OS V vmid registered) (\<lambda>_. give (Ok True)) (s, w)
      | Err e \<Rightarrow> (Err e, s, w)
      | Panic \<Rightarrow> (Panic, s, w))"
| "hv_step OS V (TerminalReady token) (s, w) =
     (case TerminalMap_get (hs_terminals s) token of
        None \<Rightarrow> Some (Ok True, s, w)
      | Some term \<Rightarrow>
          (case pty_read OS V 4096 (term, w) of
             None \<Rightarrow> None
           | Some (r, term, w) \<Rightarrow>
               Some (map_err HvIo (and_then r (\<lambda>_. Ok True)),
                     s\<lparr>hs_terminals := (hs_terminals s)\<lparr>terminals := (terminals (hs_terminals s))(token \<mapsto> term)\<rparr>\<rparr>, w)))"
| "hv_step OS V (PollFailed e) (s, w) = Some (Err (HvIo e), s, w)"

text \<open>The loop: \<open>Ok True\<close> when it waits for more events, \<open>Ok False\<close> when a signal ended it.\<close>

fun hv_loop ::
  "'w pty_os \<Rightarrow> 'v vt100 \<Rightarrow> hv_event list \<Rightarrow> 'v hv_state \<times> 'w \<Rightarrow> ((bool, HypervisorError) res \<times> 'v hv_state \<times> 'w) option" where
  "hv_loop OS V [] s = Some (Ok True, s)"
| "hv_loop OS V (e # es) s =
     (case hv_step OS V e s of
        Some (Ok True, s) \<Rightarrow> hv_loop OS V es s
      | other \<Rightarrow> other)"

text \<open>\<open>run\<close>, with the outcomes of killing the process and waiting for it.\<close>

definition Hypervisor_run ::
  "'w pty_os \<Rightarrow> 'v vt100 \<Rightarrow> (rawfd option \<times> rawfd option \<times> rawfd option, io_error) res \<Rightarrow>
   (unit, HypervisorError) res \<Rightarrow> (unit, HypervisorError) res \<Rightarrow> (unit, io_error) res \<Rightarrow>
   (unit, errno) res \<Rightarrow> (unit, io_error) res \<Rightarrow> hv_event list \<Rightarrow>
   'v TerminalMap \<Rightarrow> 'w \<Rightarrow> ((bool, HypervisorError) res \<times> 'v TerminalMap \<times> 'w) option" where
  "Hypervisor_run OS V start before after registered kill wait es terms w =
     (case Hypervisor_setup OS V start before after registered terms w of
        (Ok s, w) \<Rightarrow>
          (case hv_loop OS V es (s, w) of
             None \<Rightarrow> None
           | Some (r, s, w) \<Rightarrow>
               Some (and_then r (\<lambda>again. if again then Ok True
                       else and_then (map_err HvErrno kill) (\<lambda>_. and_then (map_err HvIo wait) (\<lambda>_. Ok False))),
                     hs_terminals s, w))
      | (Err e, w) \<Rightarrow> Some (Err e, terms, w)
      | (Panic, w) \<Rightarrow> Some (Panic, terms, w))"

section \<open>The terminals during a run\<close>

text \<open>
  The sockets of the agents that answer in a run of the loop: the connections that are made when a guest says it started
  and that can be registered, in their order.
\<close>

fun answered :: "'w pty_os \<Rightarrow> 'v vt100 \<Rightarrow> hv_event \<Rightarrow> 'w \<Rightarrow> rawfd list" where
  "answered OS V (GuestReady (Ok fd) (Ok vmid) (Ok _)) w =
     (case FabrialPty_connect OS V (ucast (from_le_bytes (filled 2 vmid) :: u16)) FABRIAL_PORT w of
        (Ok fpty, w) \<Rightarrow> [fab_sock fpty]
      | _ \<Rightarrow> [])"
| "answered OS V _ w = []"

fun agents :: "'w pty_os \<Rightarrow> 'v vt100 \<Rightarrow> hv_event list \<Rightarrow> 'v hv_state \<times> 'w \<Rightarrow> rawfd list" where
  "agents OS V [] s = []"
| "agents OS V (e # es) s =
     answered OS V e (snd s) @ (case hv_step OS V e s of Some (Ok True, s) \<Rightarrow> agents OS V es s | _ \<Rightarrow> [])"

text \<open>
  The terminal with token 1 has the pipes of the process, those from 10 on have the sockets of the agents in their order,
  there are no others, and the active one is the last of them.
\<close>

definition hv_inv :: "rawfd \<times> rawfd \<Rightarrow> rawfd list \<Rightarrow> 'v hv_state \<Rightarrow> bool" where
  "hv_inv fds socks s \<longleftrightarrow>
     (\<forall>k. map_option pty_link (terminals (hs_terminals s) k) =
        (if k = TOKEN_STDIO then Some (Inl fds)
         else if 10 \<le> k \<and> k < 10 + length socks then Some (Inr (socks ! (k - 10))) else None)) \<and>
     active (hs_terminals s) = Some (if socks = [] then TOKEN_STDIO else 9 + length socks) \<and>
     poller_next_id s = 10 + length socks"

lemma TerminalMap_insert_effect:
  assumes "TerminalMap_insert OS V token p (m, w) = (m', w')"
  shows "map_option pty_link (terminals m' k) = (if k = token then Some (pty_link p) else map_option pty_link (terminals m k))"
  using assms
  by (auto simp: TerminalMap_insert_def TerminalMap_get_size_def split: prod.splits dest: pty_resize_link)

lemma terminals_set_active [simp]: "terminals (TerminalMap_set_active m token) = terminals m"
  by (simp add: TerminalMap_set_active_def)

lemma active_set_active [simp]: "active (TerminalMap_set_active m token) = Some token"
  by (simp add: TerminalMap_set_active_def)

lemma ok_or_eq_Ok: "ok_or x e = Ok y \<longleftrightarrow> x = Some y"
  by (cases x) simp_all

lemma Hypervisor_setup_inv:
  assumes "Hypervisor_setup OS V start before after registered TerminalMap_default w = (Ok s, w')"
  shows "\<exists>stdin stdout stderr. start = Ok (Some stdin, Some stdout, Some stderr) \<and> hv_inv (stdin, stdout) [] s"
proof -
  obtain stdin stdout stderr p m where st: "start = Ok (Some stdin, Some stdout, Some stderr)"
    "PipePty_new V (Some stdout) (Some stdin) = Ok p"
    and ins: "TerminalMap_insert OS V TOKEN_STDIO (Pipe p) (TerminalMap_default, w) = (m, w')"
    and s: "s = \<lparr>hs_terminals = TerminalMap_set_active m TOKEN_STDIO, poller_next_id = 10\<rparr>"
    using assms
    by (auto simp: Hypervisor_setup_def PipePty_new_def and_then_eq_Ok ok_or_eq_Ok Let_def split: res.splits prod.splits)
  have "pty_link (Pipe p) = Inl (stdin, stdout)" using st(2) by (auto simp: PipePty_new_def Let_def)
  then show ?thesis
    using st(1) s TerminalMap_insert_effect [OF ins] by (simp add: hv_inv_def TerminalMap_default_def)
qed

lemma guest_ready_inv:
  assumes "hv_inv fds socks s" and "guest_ready OS V vmid registered (s, w) = (r, s', w')"
  shows "hv_inv fds (socks @ answered OS V (GuestReady (Ok fd) (Ok vmid) registered) w) s'"
proof (cases "FabrialPty_connect OS V (ucast (from_le_bytes (filled 2 vmid) :: u16)) FABRIAL_PORT w")
  case (Pair x w1)
  show ?thesis
  proof (cases "\<exists>p u. x = Ok p \<and> registered = Ok u")
    case True
    then obtain p u where x: "x = Ok p" "registered = Ok u" by blast
    obtain m w2 where ins: "TerminalMap_insert OS V (poller_next_id s) (Fabrial p) (hs_terminals s, w1) = (m, w2)" by (metis prod.exhaust)
    have s': "s' = \<lparr>hs_terminals = TerminalMap_set_active m (poller_next_id s), poller_next_id = poller_next_id s + 1\<rparr>"
      using assms(2) Pair x ins by (simp add: guest_ready_def)
    have "answered OS V (GuestReady (Ok fd) (Ok vmid) registered) w = [fab_sock p]" using Pair x by simp
    then show ?thesis
      using assms(1) TerminalMap_insert_effect [OF ins] by (auto simp: hv_inv_def s' nth_append TOKEN_STDIO_def)
  next
    case False
    then have "s' = s" using assms(2) Pair by (auto simp: guest_ready_def split: res.splits)
    moreover have "answered OS V (GuestReady (Ok fd) (Ok vmid) registered) w = []" using False Pair by (cases registered; cases x) auto
    ultimately show ?thesis using assms(1) by simp
  qed
qed

lemma hv_step_inv:
  assumes "hv_inv fds socks s" and "hv_step OS V e (s, w) = Some (r, s', w')"
  shows "hv_inv fds (socks @ answered OS V e w) s'"
proof (cases e)
  case (GuestReady accepted vmid registered)
  show ?thesis
  proof (cases "\<exists>fd v. accepted = Ok fd \<and> vmid = Ok v")
    case True
    then obtain fd v where a: "accepted = Ok fd" "vmid = Ok v" by blast
    obtain r1 s1 w1 where g: "guest_ready OS V v registered (s, w) = (r1, s1, w1)" by (metis prod_cases3)
    then have "s' = s1" using assms(2) GuestReady a by (auto simp: bind_def give_def split: res.splits)
    then show ?thesis using guest_ready_inv [OF assms(1) g, of fd] GuestReady a by simp
  next
    case False
    then have "s' = s" "answered OS V e w = []" using assms(2) GuestReady by (cases accepted; cases vmid; auto)+
    then show ?thesis using assms(1) by simp
  qed
next
  case (TerminalReady token)
  show ?thesis
  proof (cases "TerminalMap_get (hs_terminals s) token")
    case (Some p)
    with assms(2) TerminalReady obtain r1 p1 where 1: "pty_read OS V 4096 (p, w) = Some (r1, p1, w')"
      "s' = s\<lparr>hs_terminals := (hs_terminals s)\<lparr>terminals := (terminals (hs_terminals s))(token \<mapsto> p1)\<rparr>\<rparr>"
      by (auto split: option.splits)
    have "map_option pty_link (terminals (hs_terminals s') k) = map_option pty_link (terminals (hs_terminals s) k)" for k
      using pty_read_link [OF 1(1)] Some by (simp add: 1(2) TerminalMap_get_def)
    then show ?thesis using assms(1) TerminalReady by (simp add: hv_inv_def 1(2))
  qed (use assms TerminalReady in simp)
qed (use assms in auto)

lemma hv_loop_inv:
  "hv_inv fds socks s \<Longrightarrow> hv_loop OS V es (s, w) = Some (r, s', w') \<Longrightarrow> hv_inv fds (socks @ agents OS V es (s, w)) s'"
proof (induction es arbitrary: socks s w)
  case (Cons e es)
  obtain r1 s1 w1 where 1: "hv_step OS V e (s, w) = Some (r1, s1, w1)"
    using Cons.prems(2) by (auto split: option.splits)
  note inv = hv_step_inv [OF Cons.prems(1) 1]
  show ?case
  proof (cases "r1 = Ok True")
    case True
    with Cons.IH [OF inv] Cons.prems(2) 1 show ?thesis by simp
  next
    case False
    then have "s' = s1" "agents OS V (e # es) (s, w) = answered OS V e w"
      using Cons.prems(2) 1 by (auto split: res.splits bool.splits)
    then show ?thesis using inv by simp
  qed
qed simp

text \<open>
  C15: whatever happens during a run, the terminals are the one with the pipes of the process, under token 1, and one
  for each guest agent that answered, with the socket of its connection, under the tokens from 10 on in the order of the
  agents, and no others; the active terminal, which gets the input, is that of the last agent, and before there is one
  that of the process.
\<close>

theorem Hypervisor_run_terminals:
  assumes "Hypervisor_setup OS V start before after registered TerminalMap_default w = (Ok s0, w0)"
    and "hv_loop OS V es (s0, w0) = Some (r, s, w')"
  shows "let socks = agents OS V es (s0, w0) in
     \<exists>stdin stdout stderr. start = Ok (Some stdin, Some stdout, Some stderr) \<and>
     (\<forall>k. map_option pty_link (terminals (hs_terminals s) k) =
        (if k = 1 then Some (Inl (stdin, stdout))
         else if 10 \<le> k \<and> k < 10 + length socks then Some (Inr (socks ! (k - 10))) else None)) \<and>
     map_option pty_link (TerminalMap_get_active (hs_terminals s)) =
       Some (if socks = [] then Inl (stdin, stdout) else Inr (last socks)) \<and>
     poller_next_id s = 10 + length socks"
proof -
  obtain stdin stdout stderr where st: "start = Ok (Some stdin, Some stdout, Some stderr)" "hv_inv (stdin, stdout) [] s0"
    using Hypervisor_setup_inv [OF assms(1)] by blast
  from hv_loop_inv [OF st(2) assms(2)] have inv: "hv_inv (stdin, stdout) (agents OS V es (s0, w0)) s" by simp
  have "map_option pty_link (TerminalMap_get_active (hs_terminals s)) =
      map_option pty_link (terminals (hs_terminals s) (if agents OS V es (s0, w0) = [] then 1 else 9 + length (agents OS V es (s0, w0))))"
    using inv by (simp add: hv_inv_def TerminalMap_get_active_def TerminalMap_get_def TOKEN_STDIO_def)
  also have "\<dots> = Some (if agents OS V es (s0, w0) = [] then Inl (stdin, stdout) else Inr (last (agents OS V es (s0, w0))))"
    using inv by (cases "agents OS V es (s0, w0)") (auto simp: hv_inv_def TOKEN_STDIO_def last_conv_nth)
  finally show ?thesis using inv st(1) by (simp add: hv_inv_def Let_def TOKEN_STDIO_def)
qed

section \<open>The guest that started\<close>

text \<open>The context id of an agent fits the two bytes that are read of the four it sends.\<close>

lemma agent_cid_read_back:
  "ucast (from_le_bytes (take 2 (to_le_bytes 4 (fabrial_cid mac))) :: u16) = fabrial_cid mac"
proof -
  obtain a b c d e f where m: "mac = MacAddress a b c d e f" by (cases mac)
  have "fabrial_cid mac = ucast f OR push_bit 8 (ucast e)"
    unfolding m by (simp add: fabrial_cid_def Let_def from_be_bytes_def)
  moreover have "take 2 (to_le_bytes 4 x) = [ucast x, ucast (drop_bit 8 x)]" for x :: u32
    by (simp add: numeral_eq_Suc)
  moreover have "ucast (ucast (ucast (ucast f OR push_bit 8 (ucast e) :: u32) :: u8) OR push_bit 8 (ucast (ucast (drop_bit 8 (ucast f OR push_bit 8 (ucast e) :: u32)) :: u8)) :: u16)
      = (ucast f OR push_bit 8 (ucast e) :: u32)" for e f :: u8
    by (rule bit_word_eqI) (auto simp: bit_simps dest: bit_imp_le_length)
  ultimately show ?thesis by simp
qed

text \<open>
  When an agent says that it started, and answers, its terminal is added and the active one: the
  connection is made to the context id the agent derived from its MAC address.
\<close>

lemma guest_ready_agent:
  assumes "FabrialPty_connect OS V (fabrial_cid mac) FABRIAL_PORT w = (Ok fpty, w1)"
  shows "\<exists>s' w' p. hv_step OS V (GuestReady (Ok fd) (Ok (take 2 (to_le_bytes 4 (fabrial_cid mac)))) (Ok ())) (s, w) = Some (Ok True, s', w') \<and>
     poller_next_id s' = poller_next_id s + 1 \<and> TerminalMap_get_active (hs_terminals s') = Some (Fabrial p) \<and> fab_sock p = fab_sock fpty"
proof -
  obtain m w2 where m: "TerminalMap_insert OS V (poller_next_id s) (Fabrial fpty) (hs_terminals s, w1) = (m, w2)" by (metis prod.exhaust)
  then obtain p where ins: "terminals m (poller_next_id s) = Some (Fabrial p)" "fab_sock p = fab_sock fpty"
    by (auto simp: TerminalMap_insert_def TerminalMap_get_size_def pty_resize_def FabrialPty_resize_pty_def Let_def split: prod.splits)
  have "guest_ready OS V (take 2 (to_le_bytes 4 (fabrial_cid mac))) (Ok ()) (s, w) =
    (Ok (), \<lparr>hs_terminals = TerminalMap_set_active m (poller_next_id s), poller_next_id = poller_next_id s + 1\<rparr>, w2)"
    using assms m by (simp add: guest_ready_def agent_cid_read_back)
  then show ?thesis using ins
    by (simp add: bind_def give_def TerminalMap_get_active_def TerminalMap_get_def TerminalMap_set_active_def)
qed

text \<open>All networks of a machine get the same ids, which QEMU requires to be unique.\<close>

lemma VmHandle_network_ids:
  assumes "(sock, rng) \<in> set sockets"
  shows "{''socket,id=chr0,path='' @ sock, ''type=vhost-user,id=net0,chardev=chr0,queues=1''} \<subseteq> set (vm_command (VmHandle_new sockets cid machine))"
proof -
  have "set (network_args (sock, rng)) \<subseteq> set (vm_command (VmHandle_new sockets cid machine))"
    using assms by (auto simp: VmHandle_new_def)
  then show ?thesis by (simp add: network_args_def)
qed

theorem Hypervisor_run_terminals_witness:
  "\<exists>s0 w0 r s w'. Hypervisor_setup sample_pty_os sample_vt (Ok (Some 5, Some 6, Some 7)) (Ok ()) (Ok ()) (Ok ()) TerminalMap_default [] = (Ok s0, w0) \<and>
     hv_loop sample_pty_os sample_vt [GuestReady (Ok 8) (Ok [3, 0]) (Ok ())] (s0, w0) = Some (r, s, w') \<and>
     map_option pty_link (terminals (hs_terminals s) 1) = Some (Inl (5, 6)) \<and>
     map_option pty_link (terminals (hs_terminals s) 10) = Some (Inr 7) \<and>
     map_option pty_link (TerminalMap_get_active (hs_terminals s)) = Some (Inr 7)"
proof -
  let ?started = "Hypervisor_setup sample_pty_os sample_vt (Ok (Some 5, Some 6, Some 7)) (Ok ()) (Ok ()) (Ok ()) TerminalMap_default []"
  let ?e = "GuestReady (Ok 8) (Ok [3, 0]) (Ok ())"
  have "\<exists>s0 w0. ?started = (Ok s0, w0)" by (simp add: Hypervisor_setup_def PipePty_new_def case_prod_beta)
  then obtain s0 w0 where 1: "?started = (Ok s0, w0)" by blast
  obtain r1 s1 w1 where "hv_step sample_pty_os sample_vt ?e (s0, w0) = Some (r1, s1, w1)" by (metis hv_step.simps(3) prod_cases3)
  then have "\<exists>r s w'. hv_loop sample_pty_os sample_vt [?e] (s0, w0) = Some (r, s, w')" by (auto split: res.splits bool.splits)
  then obtain r s w' where 2: "hv_loop sample_pty_os sample_vt [?e] (s0, w0) = Some (r, s, w')" by blast
  have "answered sample_pty_os sample_vt ?e w0 = [7]"
    by (simp add: FabrialPty_connect_def sample_pty_os_def bind_def on_err_def give_def)
  then have "agents sample_pty_os sample_vt [?e] (s0, w0) = [7]"
    by (auto simp del: answered.simps hv_step.simps split: option.splits res.splits bool.splits)
  from Hypervisor_run_terminals [OF 1 2, unfolded this Let_def] have
    "\<forall>k. map_option pty_link (terminals (hs_terminals s) k) =
        (if k = 1 then Some (Inl (5, 6)) else if 10 \<le> k \<and> k < 10 + length [7::rawfd] then Some (Inr ([7] ! (k - 10))) else None)"
    "map_option pty_link (TerminalMap_get_active (hs_terminals s)) = Some (Inr 7)" by auto
  then have "map_option pty_link (terminals (hs_terminals s) 1) = Some (Inl (5, 6))"
    "map_option pty_link (terminals (hs_terminals s) 10) = Some (Inr 7)"
    "map_option pty_link (TerminalMap_get_active (hs_terminals s)) = Some (Inr 7)" by simp_all
  with 1 2 show ?thesis by blast
qed

end
