(* ===== verification/Database.thy ===== *)
theory Database
  imports Logger Runner
begin

text \<open>
  The database of bridges, kernels, images, machines and logs, \<^verbatim>\<open>oathgate/src/database\<close> and
  \<^verbatim>\<open>oathgate/src/database.rs\<close>, and the paths of the files that belong to its entries.

  SQLite is modelled at the level of the statements of the source: a table is the list of its rows in
  the order of their insertion, which is the order a scan returns them in; a column has the type its
  values are stored with (integers as \<open>int\<close>), and reading a value checks its range as \<open>rusqlite\<close> does. The
  constraints and triggers are those of \<^verbatim>\<open>migration.rs\<close>. Failures of SQLite itself (a locked or broken file)
  are not modelled. JSON values are a type parameter, and the process of an entry is looked up in the
  world \<open>'w\<close> of theory \<open>Process\<close> at the time of the query.
\<close>

section \<open>Tables\<close>

type_synonym uuid = u128

record kernel_row =
  kr_id :: uuid
  kr_hash :: string
  kr_name :: string
  kr_version :: string
  kr_is_default :: int

record image_row =
  ir_id :: uuid
  ir_hash :: string
  ir_name :: string
  ir_format :: string
  ir_root :: "int option"

record 'j device_row =
  dr_id :: uuid
  dr_pid :: "int option"
  dr_name :: string
  dr_device :: int
  dr_config :: 'j

record shard_row =
  sr_id :: uuid
  sr_name :: string
  sr_pid :: "int option"
  sr_cid :: int
  sr_cpu :: string
  sr_memory :: int
  sr_kernel :: uuid
  sr_bootdisk :: uuid

record 'f log_row =
  lr_id :: uuid
  lr_device :: "uuid option"
  lr_level :: string
  lr_target :: string
  lr_ts :: nat
  lr_module :: "string option"
  lr_line :: "int option"
  lr_data :: "(string \<times> 'f DataType) list"

record ('j, 'f) db =
  db_logs :: "'f log_row list"
  db_devices :: "'j device_row list"
  db_kernels :: "kernel_row list"
  db_images :: "image_row list"
  db_shards :: "shard_row list"

text \<open>The tables of a new database; a later migration finds them there and changes nothing.\<close>

definition version_000 :: "('j, 'f) db" where
  "version_000 = \<lparr>db_logs = [], db_devices = [], db_kernels = [], db_images = [], db_shards = []\<rparr>"

text \<open>\<open>file\<close> is the content of the database file, none when it is new, and \<open>conn\<close> the outcome of opening it.\<close>

definition Database_migrate :: "('j, 'f) db option \<Rightarrow> ('j, 'f) db" where
  "Database_migrate file = (case file of None \<Rightarrow> version_000 | Some db \<Rightarrow> db)"

definition Database_open :: "(unit, anyhow) res \<Rightarrow> ('j, 'f) db option \<Rightarrow> (('j, 'f) db, anyhow) res" where
  "Database_open conn file = and_then conn (\<lambda>_. Ok (Database_migrate file))"

text \<open>A transaction is undone when the function fails or panics.\<close>

definition transaction :: "('a, 'e, ('j, 'f) db) act \<Rightarrow> ('a, 'e, ('j, 'f) db) act" where
  "transaction f db = (case f db of (Ok v, db') \<Rightarrow> (Ok v, db') | (Err e, _) \<Rightarrow> (Err e, db) | (Panic, _) \<Rightarrow> (Panic, db))"

text \<open>
  \<open>INSERT ... ON CONFLICT(id) DO UPDATE\<close> of all columns: the row with the same id is replaced in its
  place, otherwise the row is added. \<open>clash\<close> is the other unique column of the table.
\<close>

definition upsert :: "('r \<Rightarrow> uuid) \<Rightarrow> ('r \<Rightarrow> 'r \<Rightarrow> bool) \<Rightarrow> 'r \<Rightarrow> 'r list \<Rightarrow> ('r list, anyhow) res" where
  "upsert key clash r rows =
     (if \<exists>x \<in> set rows. key x \<noteq> key r \<and> clash x r then Err (Sql (ConstraintViolation ''UNIQUE''))
      else if \<exists>x \<in> set rows. key x = key r then Ok (map (\<lambda>x. if key x = key r then r else x) rows)
      else Ok (rows @ [r]))"

text \<open>\<open>query_row\<close> takes the first row, \<open>query_map\<close> with \<open>filter_map(|r| r.ok())\<close> all rows that can be read.\<close>

definition query_row :: "('r \<Rightarrow> ('a, sql_error) res) \<Rightarrow> 'r list \<Rightarrow> ('a, sql_error) res" where
  "query_row from_row rows = (case rows of [] \<Rightarrow> Err QueryReturnedNoRows | r # _ \<Rightarrow> from_row r)"

fun query_ok :: "('r \<Rightarrow> ('a, sql_error) res) \<Rightarrow> 'r list \<Rightarrow> ('a list, 'e) res" where
  "query_ok from_row [] = Ok []"
| "query_ok from_row (r # rows) =
     (case from_row r of
        Ok x \<Rightarrow> and_then (query_ok from_row rows) (\<lambda>xs. Ok (x # xs))
      | Err _ \<Rightarrow> query_ok from_row rows
      | Panic \<Rightarrow> Panic)"

text \<open>\<open>OptionalExtension::optional\<close>.\<close>

fun optional :: "('a, sql_error) res \<Rightarrow> ('a option, sql_error) res" where
  "optional (Ok x) = Ok (Some x)"
| "optional (Err e) = (if e = QueryReturnedNoRows then Ok None else Err e)"
| "optional Panic = Panic"

definition int_in :: "int \<Rightarrow> int \<Rightarrow> int \<Rightarrow> (int, sql_error) res" where
  "int_in lo hi i = (if lo \<le> i \<and> i \<le> hi then Ok i else Err IntegralValueOutOfRange)"

fun opt_in :: "int \<Rightarrow> int \<Rightarrow> int option \<Rightarrow> (int option, sql_error) res" where
  "opt_in lo hi None = Ok None"
| "opt_in lo hi (Some i) = and_then (int_in lo hi i) (\<lambda>i. Ok (Some i))"

section \<open>Kernels\<close>

record Kernel =
  k_id :: uuid
  k_hash :: string
  k_name :: string
  k_version :: string
  k_default :: bool

definition Kernel_new :: "uuid \<Rightarrow> string \<Rightarrow> string \<Rightarrow> string \<Rightarrow> bool \<Rightarrow> Kernel" where
  "Kernel_new new_id hash name version is_default =
     \<lparr>k_id = new_id, k_hash = hash, k_name = name, k_version = version, k_default = is_default\<rparr>"

definition Kernel_from_row :: "kernel_row \<Rightarrow> (Kernel, sql_error) res" where
  "Kernel_from_row r =
     Ok \<lparr>k_id = kr_id r, k_hash = kr_hash r, k_name = kr_name r, k_version = kr_version r, k_default = (kr_is_default r \<noteq> 0)\<rparr>"

definition Kernel_get :: "string \<Rightarrow> (Kernel, anyhow, ('j, 'f) db) act" where
  "Kernel_get name = transaction (\<lambda>db.
     (map_err Sql (query_row Kernel_from_row (filter (\<lambda>r. kr_name r = name) (db_kernels db))), db))"

definition Kernel_get_default :: "(Kernel, anyhow, ('j, 'f) db) act" where
  "Kernel_get_default = transaction (\<lambda>db.
     (map_err Sql (query_row Kernel_from_row (filter (\<lambda>r. kr_is_default r = 1) (db_kernels db))), db))"

definition Kernel_get_all :: "(Kernel list, anyhow, ('j, 'f) db) act" where
  "Kernel_get_all = transaction (\<lambda>db. (query_ok Kernel_from_row (db_kernels db), db))"

text \<open>
  Saving a kernel. The triggers take the default from all kernels before a default one is written; a
  failing statement undoes what its triggers did.
\<close>

definition kernel_row_of :: "Kernel \<Rightarrow> kernel_row" where
  "kernel_row_of self =
     \<lparr>kr_id = k_id self, kr_hash = k_hash self, kr_name = k_name self, kr_version = k_version self,
      kr_is_default = (if k_default self then 1 else 0)\<rparr>"

definition enforce_kernel_default :: "kernel_row \<Rightarrow> kernel_row list \<Rightarrow> kernel_row list" where
  "enforce_kernel_default new rows =
     (if kr_is_default new = 1 then map (\<lambda>x. if kr_is_default x = 1 then x\<lparr>kr_is_default := 0\<rparr> else x) rows else rows)"

definition Kernel_save :: "Kernel \<Rightarrow> (unit, anyhow, ('j, 'f) db) act" where
  "Kernel_save self = transaction (\<lambda>db.
     let r = kernel_row_of self in
     case upsert kr_id (\<lambda>x y. kr_hash x = kr_hash y) r (enforce_kernel_default r (db_kernels db)) of
       Ok rows \<Rightarrow> (Ok (), db\<lparr>db_kernels := rows\<rparr>)
     | Err e \<Rightarrow> (Err e, db)
     | Panic \<Rightarrow> (Panic, db))"

definition Kernel_set_default :: "Kernel \<Rightarrow> Kernel" where
  "Kernel_set_default self = self\<lparr>k_default := True\<rparr>"

definition Kernel_path :: "string \<Rightarrow> Kernel \<Rightarrow> string" where
  "Kernel_path kernel_dir self = with_extension (path_join kernel_dir (k_hash self)) ''bin''"

definition Kernel_to_string :: "Kernel \<Rightarrow> string" where
  "Kernel_to_string self = k_name self @ '' ('' @ k_version self @ '')''"

section \<open>Disk images\<close>

datatype DiskFormat = Raw | Qcow2

record DiskImage =
  im_id :: uuid
  im_hash :: string
  im_name :: string
  im_format :: DiskFormat
  im_root :: "u8 option"

fun DiskFormat_to_string :: "DiskFormat \<Rightarrow> string" where
  "DiskFormat_to_string Raw = ''raw''"
| "DiskFormat_to_string Qcow2 = ''qcow2''"

text \<open>\<open>to_ascii_lowercase\<close>.\<close>

definition to_lower :: "string \<Rightarrow> string" where
  "to_lower s = map (\<lambda>c. if 65 \<le> (of_char c :: nat) \<and> of_char c \<le> (90 :: nat) then char_of (of_char c + 32 :: nat) else c) s"

definition DiskFormat_from_str :: "string \<Rightarrow> (DiskFormat, string) res" where
  "DiskFormat_from_str s =
     (let fmt = to_lower s in
      if fmt = ''raw'' then Ok Raw else if fmt = ''qcow2'' then Ok Qcow2 else Err (''unknown disk format: '' @ fmt))"

definition DiskImage_new :: "uuid \<Rightarrow> string \<Rightarrow> string \<Rightarrow> DiskFormat \<Rightarrow> u8 option \<Rightarrow> DiskImage" where
  "DiskImage_new new_id hash name format root =
     \<lparr>im_id = new_id, im_hash = hash, im_name = name, im_format = format, im_root = root\<rparr>"

definition DiskImage_from_row :: "image_row \<Rightarrow> (DiskImage, sql_error) res" where
  "DiskImage_from_row r =
     and_then (map_err FromSqlError (DiskFormat_from_str (ir_format r))) (\<lambda>format.
     and_then (opt_in 0 255 (ir_root r)) (\<lambda>root.
     Ok \<lparr>im_id = ir_id r, im_hash = ir_hash r, im_name = ir_name r, im_format = format, im_root = map_option word_of_int root\<rparr>))"

definition DiskImage_get :: "string \<Rightarrow> (DiskImage, anyhow, ('j, 'f) db) act" where
  "DiskImage_get name = transaction (\<lambda>db.
     (map_err Sql (query_row DiskImage_from_row (filter (\<lambda>r. ir_name r = name) (db_images db))), db))"

definition DiskImage_get_all :: "(DiskImage list, anyhow, ('j, 'f) db) act" where
  "DiskImage_get_all = transaction (\<lambda>db. (query_ok DiskImage_from_row (db_images db), db))"

definition image_row_of :: "DiskImage \<Rightarrow> image_row" where
  "image_row_of self =
     \<lparr>ir_id = im_id self, ir_hash = im_hash self, ir_name = im_name self, ir_format = DiskFormat_to_string (im_format self),
      ir_root = map_option uint (im_root self)\<rparr>"

definition DiskImage_save :: "DiskImage \<Rightarrow> (unit, anyhow, ('j, 'f) db) act" where
  "DiskImage_save self = transaction (\<lambda>db.
     case upsert ir_id (\<lambda>x y. ir_hash x = ir_hash y) (image_row_of self) (db_images db) of
       Ok rows \<Rightarrow> (Ok (), db\<lparr>db_images := rows\<rparr>)
     | Err e \<Rightarrow> (Err e, db)
     | Panic \<Rightarrow> (Panic, db))"

definition DiskImage_path :: "string \<Rightarrow> DiskImage \<Rightarrow> string" where
  "DiskImage_path image_dir self = with_extension (path_join image_dir (im_hash self)) ''img''"

definition DiskImage_to_string :: "DiskImage \<Rightarrow> string" where
  "DiskImage_to_string self = im_name self @ '' ('' @ DiskFormat_to_string (im_format self) @ '')''"

section \<open>Devices\<close>

datatype DeviceType = BridgeDevice

record 'j Device =
  d_id :: uuid
  d_name :: string
  d_ty :: DeviceType
  d_cfg :: 'j
  d_state :: ProcessState

fun DeviceType_to_string :: "DeviceType \<Rightarrow> string" where
  "DeviceType_to_string BridgeDevice = ''bridge''"

definition DeviceType_from_sql :: "int \<Rightarrow> (DeviceType, sql_error) res" where
  "DeviceType_from_sql i = (if i = 0 then Ok BridgeDevice else Err (FromSqlError ''invalid number for device type''))"

fun DeviceType_to_sql :: "DeviceType \<Rightarrow> int" where
  "DeviceType_to_sql BridgeDevice = 0"

definition Device_new :: "uuid \<Rightarrow> string \<Rightarrow> DeviceType \<Rightarrow> 'j \<Rightarrow> 'j Device" where
  "Device_new new_id name ty config = \<lparr>d_id = new_id, d_name = name, d_ty = ty, d_cfg = config, d_state = Stopped\<rparr>"

text \<open>A process that cannot be checked counts as dead.\<close>

definition Device_from_row :: "'w proc_os \<Rightarrow> 'w \<Rightarrow> 'j device_row \<Rightarrow> ('j Device, sql_error) res" where
  "Device_from_row OS w r =
     and_then (opt_in (- 2147483648) 2147483647 (dr_pid r)) (\<lambda>pid.
     and_then
       (case pid of
          Some pid \<Rightarrow> (case process_check OS pid w of Ok s \<Rightarrow> Ok s | Err _ \<Rightarrow> Ok (Dead pid) | Panic \<Rightarrow> Panic)
        | None \<Rightarrow> Ok Stopped) (\<lambda>state.
     and_then (DeviceType_from_sql (dr_device r)) (\<lambda>ty.
     Ok \<lparr>d_id = dr_id r, d_name = dr_name r, d_ty = ty, d_cfg = dr_config r, d_state = state\<rparr>)))"

definition device_row_of :: "'j Device \<Rightarrow> 'j device_row" where
  "device_row_of self =
     \<lparr>dr_id = d_id self, dr_pid = ProcessState_optional (d_state self), dr_name = d_name self,
      dr_device = DeviceType_to_sql (d_ty self), dr_config = d_cfg self\<rparr>"

definition Device_save :: "'j Device \<Rightarrow> (unit, anyhow, ('j, 'f) db) act" where
  "Device_save self = on_err (Context ''unable to save device in database'') (transaction (\<lambda>db.
     case upsert dr_id (\<lambda>x y. False) (device_row_of self) (db_devices db) of
       Ok rows \<Rightarrow> (Ok (), db\<lparr>db_devices := rows\<rparr>)
     | Err e \<Rightarrow> (Err e, db)
     | Panic \<Rightarrow> (Panic, db)))"

definition Device_get :: "'w proc_os \<Rightarrow> 'w \<Rightarrow> string \<Rightarrow> ('j Device option, anyhow, ('j, 'f) db) act" where
  "Device_get OS w name = transaction (\<lambda>db.
     (map_err Sql (optional (query_row (Device_from_row OS w) (filter (\<lambda>r. dr_name r = name) (db_devices db)))), db))"

definition Device_get_all :: "'w proc_os \<Rightarrow> 'w \<Rightarrow> ('j Device list, anyhow, ('j, 'f) db) act" where
  "Device_get_all OS w = transaction (\<lambda>db. (query_ok (Device_from_row OS w) (db_devices db), db))"

text \<open>
  \<open>get_many\<close>: the rows whose name is one of the given ones. The names missing are a hash set; the order
  they are listed in is not determined by the source, here it is the one they are given in.
\<close>

fun join_sep :: "string \<Rightarrow> string list \<Rightarrow> string" where
  "join_sep sep [] = []"
| "join_sep sep [x] = x"
| "join_sep sep (x # xs) = x @ sep @ join_sep sep xs"

text \<open>
  The names that were not found are the elements of a hash set: \<open>order\<close> is the order in which it is iterated.
\<close>

definition Device_get_many ::
  "'w proc_os \<Rightarrow> (string list \<Rightarrow> string list) \<Rightarrow> 'w \<Rightarrow> string list \<Rightarrow> ('j Device list, anyhow, ('j, 'f) db) act" where
  "Device_get_many OS order w names =
     bind (transaction (\<lambda>db. (query_ok (Device_from_row OS w) (filter (\<lambda>r. dr_name r \<in> set names) (db_devices db)), db))) (\<lambda>devices.
     if length devices \<noteq> length names then
       give (Err (Message (''unable to find the following devices: '' @
         join_sep '', '' (order (filter (\<lambda>n. n \<notin> d_name ` set devices) (remdups names))))))
     else give (Ok devices))"

definition Device_delete :: "'j Device \<Rightarrow> (unit, anyhow, ('j, 'f) db) act" where
  "Device_delete self = transaction (\<lambda>db. (Ok (), db\<lparr>db_devices := filter (\<lambda>r. dr_id r \<noteq> d_id self) (db_devices db)\<rparr>))"

definition Device_is_running :: "'j Device \<Rightarrow> bool" where
  "Device_is_running self = (case d_state self of Running _ \<Rightarrow> True | _ \<Rightarrow> False)"

definition Device_set_started :: "'j Device \<Rightarrow> pid \<Rightarrow> 'j Device" where
  "Device_set_started self pid = self\<lparr>d_state := Running pid\<rparr>"

definition Device_set_stopped :: "'j Device \<Rightarrow> 'j Device" where
  "Device_set_stopped self = self\<lparr>d_state := Stopped\<rparr>"

definition Device_stop :: "'w proc_os \<Rightarrow> 'j Device \<Rightarrow> ('j Device, anyhow, 'w) act" where
  "Device_stop OS self =
     (case d_state self of
        Running pid \<Rightarrow> bind (process_stop OS pid) (\<lambda>_. give (Ok (Device_set_stopped self)))
      | Dead _ \<Rightarrow> give (Ok (Device_set_stopped self))
      | Stopped \<Rightarrow> give (Ok self)
      | PermissionDenied _ \<Rightarrow> give (Err (Message ''unable to stop device: permission denied'')))"

definition Device_uds :: "string \<Rightarrow> 'j Device \<Rightarrow> string" where
  "Device_uds network_dir self = with_extension (path_join network_dir (d_name self)) ''sock''"

section \<open>Machines\<close>

record ShardNetwork =
  sn_shard_id :: uuid
  sn_network_id :: uuid
  sn_mac :: string

record ShardParams =
  sp_id :: uuid
  sp_cid :: u32
  sp_name :: string
  sp_state :: ProcessState
  sp_cpu :: string
  sp_memory :: u16

record Shard =
  sh_params :: ShardParams
  sh_kernel :: Kernel
  sh_boot_disk :: DiskImage
  sh_networks :: "ShardNetwork list"

text \<open>A process that cannot be checked makes reading the machine panic.\<close>

definition ShardParams_from_row :: "'w proc_os \<Rightarrow> 'w \<Rightarrow> shard_row \<Rightarrow> (ShardParams, sql_error) res" where
  "ShardParams_from_row OS w r =
     and_then (opt_in (- 2147483648) 2147483647 (sr_pid r)) (\<lambda>pid.
     and_then (case pid of Some pid \<Rightarrow> unwrap (process_check OS pid w) | None \<Rightarrow> Ok Stopped) (\<lambda>state.
     and_then (int_in 0 4294967295 (sr_cid r)) (\<lambda>cid.
     and_then (int_in 0 65535 (sr_memory r)) (\<lambda>memory.
     Ok \<lparr>sp_id = sr_id r, sp_cid = word_of_int cid, sp_name = sr_name r, sp_state = state, sp_cpu = sr_cpu r,
         sp_memory = word_of_int memory\<rparr>))))"

definition Shard_from_row :: "'w proc_os \<Rightarrow> 'w \<Rightarrow> shard_row \<times> kernel_row \<times> image_row \<Rightarrow> (Shard, sql_error) res" where
  "Shard_from_row OS w = (\<lambda>(s, k, i).
     and_then (ShardParams_from_row OS w s) (\<lambda>params.
     and_then (Kernel_from_row k) (\<lambda>kern.
     and_then (DiskImage_from_row i) (\<lambda>boot_disk.
     Ok \<lparr>sh_params = params, sh_kernel = kern, sh_boot_disk = boot_disk, sh_networks = []\<rparr>))))"

text \<open>The joined rows of the two queries.\<close>

definition shard_join :: "('j, 'f) db \<Rightarrow> (shard_row \<times> kernel_row \<times> image_row) list" where
  "shard_join db =
     concat (map (\<lambda>s. concat (map (\<lambda>k. map (\<lambda>i. (s, k, i)) (filter (\<lambda>i. ir_id i = sr_bootdisk s) (db_images db)))
       (filter (\<lambda>k. kr_id k = sr_kernel s) (db_kernels db)))) (db_shards db))"

definition Shard_get :: "'w proc_os \<Rightarrow> 'w \<Rightarrow> string \<Rightarrow> (Shard option, anyhow, ('j, 'f) db) act" where
  "Shard_get OS w name = transaction (\<lambda>db.
     (map_err Sql (optional (query_row (Shard_from_row OS w) (filter (\<lambda>(s, k, i). sr_name s = name) (shard_join db)))), db))"

definition Shard_get_all :: "'w proc_os \<Rightarrow> 'w \<Rightarrow> (Shard list, anyhow, ('j, 'f) db) act" where
  "Shard_get_all OS w = transaction (\<lambda>db. (query_ok (Shard_from_row OS w) (shard_join db), db))"

definition shard_row_of :: "Shard \<Rightarrow> shard_row" where
  "shard_row_of self =
     (let p = sh_params self in
      \<lparr>sr_id = sp_id p, sr_name = sp_name p, sr_pid = ProcessState_optional (sp_state p), sr_cid = uint (sp_cid p), sr_cpu = sp_cpu p,
       sr_memory = uint (sp_memory p), sr_kernel = k_id (sh_kernel self), sr_bootdisk = im_id (sh_boot_disk self)\<rparr>)"

definition Shard_save :: "Shard \<Rightarrow> (unit, anyhow, ('j, 'f) db) act" where
  "Shard_save self = on_err (Context ''unable to save state in database'') (transaction (\<lambda>db.
     case upsert sr_id (\<lambda>x y. False) (shard_row_of self) (db_shards db) of
       Ok rows \<Rightarrow> (Ok (), db\<lparr>db_shards := rows\<rparr>)
     | Err e \<Rightarrow> (Err e, db)
     | Panic \<Rightarrow> (Panic, db)))"

text \<open>Both name a table that no migration creates.\<close>

definition Shard_add_device_ref :: "Shard \<Rightarrow> 'j Device \<Rightarrow> string \<Rightarrow> (unit, anyhow, ('j, 'f) db) act" where
  "Shard_add_device_ref self dev interface = transaction (\<lambda>db. (Err (Sql (NoSuchTable ''shard_devices'')), db))"

definition Shard_networks :: "Shard \<Rightarrow> ('j Device list, anyhow, ('j, 'f) db) act" where
  "Shard_networks self = transaction (\<lambda>db. (Err (Sql (NoSuchTable ''shard_devices'')), db))"

definition Shard_delete :: "Shard \<Rightarrow> (unit, anyhow, ('j, 'f) db) act" where
  "Shard_delete self = transaction (\<lambda>db. (Ok (), db\<lparr>db_shards := filter (\<lambda>r. sr_id r \<noteq> sp_id (sh_params self)) (db_shards db)\<rparr>))"

definition Shard_is_running :: "Shard \<Rightarrow> bool" where
  "Shard_is_running self = (case sp_state (sh_params self) of Running _ \<Rightarrow> True | _ \<Rightarrow> False)"

definition Shard_set_state :: "Shard \<Rightarrow> ProcessState \<Rightarrow> Shard" where
  "Shard_set_state self s = self\<lparr>sh_params := (sh_params self)\<lparr>sp_state := s\<rparr>\<rparr>"

definition Shard_set_running :: "Shard \<Rightarrow> pid \<Rightarrow> Shard" where
  "Shard_set_running self pid = Shard_set_state self (Running pid)"

definition Shard_set_stopped :: "Shard \<Rightarrow> Shard" where
  "Shard_set_stopped self = Shard_set_state self Stopped"

definition Shard_stop :: "'w proc_os \<Rightarrow> Shard \<Rightarrow> (Shard, anyhow, 'w) act" where
  "Shard_stop OS self =
     (case sp_state (sh_params self) of
        Running pid \<Rightarrow> bind (process_stop OS pid) (\<lambda>_. give (Ok (Shard_set_stopped self)))
      | Dead _ \<Rightarrow> give (Ok (Shard_set_stopped self))
      | Stopped \<Rightarrow> give (Ok self)
      | PermissionDenied _ \<Rightarrow> give (Err (Message ''unable to stop shard: permission denied'')))"

definition Shard_dir :: "string \<Rightarrow> Shard \<Rightarrow> string" where
  "Shard_dir shard_dir self = path_join shard_dir (sp_name (sh_params self))"

definition Shard_kernel_path :: "string \<Rightarrow> Shard \<Rightarrow> string" where
  "Shard_kernel_path shard_dir self = with_extension (path_join (Shard_dir shard_dir self) (sp_name (sh_params self))) ''bin''"

definition Shard_boot_disk_path :: "string \<Rightarrow> Shard \<Rightarrow> string" where
  "Shard_boot_disk_path shard_dir self = with_extension (path_join (Shard_dir shard_dir self) (sp_name (sh_params self))) ''img''"

definition Shard_generate_machine_config :: "string \<Rightarrow> Shard \<Rightarrow> MachineConfig" where
  "Shard_generate_machine_config shard_dir self =
     (let kernel_path = Shard_kernel_path shard_dir self;
          disk_path = Shard_boot_disk_path shard_dir self;
          disk_format = DiskFormat_to_string (im_format (sh_boot_disk self));
          disk_root = (case im_root (sh_boot_disk self) of Some part \<Rightarrow> ''/dev/vda'' @ show_dec (unat part) | None \<Rightarrow> ''/dev/vda'');
          memory = show_dec (unat (sp_memory (sh_params self))) @ ''m'' in
      MachineConfig_new (sp_cpu (sh_params self)) memory (KernelConfig_new kernel_path disk_root) (DiskConfig_new disk_path disk_format))"

record ShardBuilder =
  sb_name :: "string option"
  sb_cpu :: "string option"
  sb_memory :: "u16 option"
  sb_kernel :: "Kernel option"
  sb_boot_disk :: "DiskImage option"

definition ShardBuilder_default :: ShardBuilder where
  "ShardBuilder_default = \<lparr>sb_name = None, sb_cpu = None, sb_memory = None, sb_kernel = None, sb_boot_disk = None\<rparr>"

definition ShardBuilder_name :: "ShardBuilder \<Rightarrow> string \<Rightarrow> ShardBuilder" where "ShardBuilder_name self name = self\<lparr>sb_name := Some name\<rparr>"
definition ShardBuilder_cpu :: "ShardBuilder \<Rightarrow> string \<Rightarrow> ShardBuilder" where "ShardBuilder_cpu self cpu = self\<lparr>sb_cpu := Some cpu\<rparr>"
definition ShardBuilder_memory :: "ShardBuilder \<Rightarrow> u16 \<Rightarrow> ShardBuilder" where "ShardBuilder_memory self m = self\<lparr>sb_memory := Some m\<rparr>"
definition ShardBuilder_kernel :: "ShardBuilder \<Rightarrow> Kernel \<Rightarrow> ShardBuilder" where "ShardBuilder_kernel self k = self\<lparr>sb_kernel := Some k\<rparr>"
definition ShardBuilder_boot_disk :: "ShardBuilder \<Rightarrow> DiskImage \<Rightarrow> ShardBuilder" where "ShardBuilder_boot_disk self disk = self\<lparr>sb_boot_disk := Some disk\<rparr>"

text \<open>\<open>add_network\<close> returns the builder as it is.\<close>

definition ShardBuilder_add_network :: "ShardBuilder \<Rightarrow> 'j Device \<Rightarrow> MacAddress \<Rightarrow> ShardBuilder" where
  "ShardBuilder_add_network self net mac = self"

definition ShardBuilder_build :: "uuid \<Rightarrow> u32 \<Rightarrow> ShardBuilder \<Rightarrow> (Shard, anyhow) res" where
  "ShardBuilder_build new_id new_cid self =
     and_then (ok_or (sb_name self) (Message ''name field is required'')) (\<lambda>name.
     and_then (ok_or (sb_cpu self) (Message ''cpu type is required'')) (\<lambda>cpu.
     and_then (ok_or (sb_memory self) (Message ''memory field is required'')) (\<lambda>memory.
     and_then (ok_or (sb_kernel self) (Message ''kernel field is required'')) (\<lambda>kern.
     and_then (ok_or (sb_boot_disk self) (Message ''boot disk field is required'')) (\<lambda>boot_disk.
     Ok \<lparr>sh_params = \<lparr>sp_id = new_id, sp_cid = new_cid, sp_name = name, sp_state = Stopped, sp_cpu = cpu, sp_memory = memory\<rparr>,
         sh_kernel = kern, sh_boot_disk = boot_disk, sh_networks = []\<rparr>)))))"

section \<open>Logs\<close>

text \<open>\<open>serde_json\<close> has no numbers beyond 64 bits, and \<open>json!\<close> panics on a value it cannot convert.\<close>

fun json_fits :: "'f DataType \<Rightarrow> bool" where
  "json_fits (U128 u) = (unat u < 2 ^ 64)"
| "json_fits (I128 i) = (- (2 ^ 63) \<le> i \<and> i < 2 ^ 64)"
| "json_fits _ = True"

definition LogEntry_save :: "uuid \<Rightarrow> uuid option \<Rightarrow> 'f OathgateEvent \<Rightarrow> (unit, anyhow, ('j, 'f) db) act" where
  "LogEntry_save new_id device event =
     bind (give (if list_all (\<lambda>(k, v). json_fits v) (ev_data event) then Ok () else Panic)) (\<lambda>_. transaction (\<lambda>db.
     if \<exists>r \<in> set (db_logs db). lr_id r = new_id then (Err (Sql (ConstraintViolation ''UNIQUE'')), db)
     else (Ok (), db\<lparr>db_logs := db_logs db @
       [\<lparr>lr_id = new_id, lr_device = device, lr_level = LogLevel_to_string (ev_level event), lr_target = ev_target event,
         lr_ts = ev_ts event, lr_module = ev_module event, lr_line = map_option uint (ev_line event), lr_data = ev_data event\<rparr>]\<rparr>)))"

text \<open>A level that cannot be parsed makes reading the logs panic.\<close>

definition log_from_row :: "'f log_row \<Rightarrow> ('f OathgateEvent, sql_error) res" where
  "log_from_row r =
     and_then (opt_in 0 4294967295 (lr_line r)) (\<lambda>line.
     and_then (unwrap (LogLevel_from_str (lr_level r))) (\<lambda>level.
     Ok \<lparr>ev_target = lr_target r, ev_line = map_option word_of_int line, ev_module = lr_module r, ev_level = level,
         ev_data = lr_data r, ev_ts = lr_ts r\<rparr>))"

definition LogEntry_get :: "uuid \<Rightarrow> ('f OathgateEvent list, anyhow, ('j, 'f) db) act" where
  "LogEntry_get device = transaction (\<lambda>db. (query_ok log_from_row (filter (\<lambda>r. lr_device r = Some device) (db_logs db)), db))"

record SqliteSubscriberBuilder =
  bld_max_level :: tracing_level
  bld_device_id :: "uuid option"

record SqliteSubscriber =
  sub_max_level :: tracing_level
  sub_next_id :: u64
  sub_device_id :: uuid

definition SqliteSubscriber_builder :: SqliteSubscriberBuilder where
  "SqliteSubscriber_builder = \<lparr>bld_max_level = ERROR, bld_device_id = None\<rparr>"

definition SqliteSubscriberBuilder_with_max_level :: "tracing_level \<Rightarrow> SqliteSubscriberBuilder \<Rightarrow> SqliteSubscriberBuilder" where
  "SqliteSubscriberBuilder_with_max_level level self = self\<lparr>bld_max_level := level\<rparr>"

definition SqliteSubscriberBuilder_with_device_id :: "uuid \<Rightarrow> SqliteSubscriberBuilder \<Rightarrow> SqliteSubscriberBuilder" where
  "SqliteSubscriberBuilder_with_device_id i self = self\<lparr>bld_device_id := Some i\<rparr>"

text \<open>\<open>opened\<close> is the outcome of opening the database.\<close>

definition SqliteSubscriberBuilder_finish :: "(unit, anyhow) res \<Rightarrow> SqliteSubscriberBuilder \<Rightarrow> (SqliteSubscriber, anyhow) res" where
  "SqliteSubscriberBuilder_finish opened self =
     and_then opened (\<lambda>_.
     and_then (ok_or (bld_device_id self) (Message ''missing device id'')) (\<lambda>device_id.
     Ok \<lparr>sub_max_level = bld_max_level self, sub_next_id = 0, sub_device_id = device_id\<rparr>))"

definition SqliteSubscriber_enabled :: "SqliteSubscriber \<Rightarrow> metadata \<Rightarrow> bool" where
  "SqliteSubscriber_enabled self md = (md_level md \<le> sub_max_level self)"

text \<open>\<open>span::Id::from_u64\<close> panics on zero.\<close>

definition SqliteSubscriber_new_span :: "(u64, 'e, SqliteSubscriber) act" where
  "SqliteSubscriber_new_span self =
     (let n = sub_next_id self in (if n = 0 then Panic else Ok n, self\<lparr>sub_next_id := n + 1\<rparr>))"

text \<open>An event that cannot be saved is only reported on the error output.\<close>

definition SqliteSubscriber_event ::
  "SqliteSubscriber \<Rightarrow> uuid \<Rightarrow> nat \<Rightarrow> metadata \<Rightarrow> (string \<times> 'f field_value) list \<Rightarrow> (unit, anyhow, ('j, 'f) db) act" where
  "SqliteSubscriber_event self new_id now md recorded db =
     (case LogEntry_save new_id (Some (sub_device_id self)) (foldl OathgateEvent_record (OathgateEvent_new now md) recorded) db of
        (Panic, db) \<Rightarrow> (Panic, db)
      | (_, db) \<Rightarrow> (Ok (), db))"

end
