(* ===== verification/Database_Laws.thy ===== *)
theory Database_Laws
  imports Database
begin

text \<open>
  What the database promises: primary keys and unique columns stay unique and every row can be read in
  every database the operations produce, there is at most one default kernel, and what is saved is what
  is found. The contract of a table is the locale \<open>keyed_table\<close>, interpreted for the four tables that are
  updated.
\<close>

section \<open>The contract of a table\<close>

text \<open>\<open>key\<close> is the primary key, \<open>clash\<close> says that two rows agree on another unique column.\<close>

locale keyed_table =
  fixes key :: "'r \<Rightarrow> uuid" and clash :: "'r \<Rightarrow> 'r \<Rightarrow> bool"
  assumes clash_sym: "clash x y \<Longrightarrow> clash y x"
begin

definition table_ok :: "'r list \<Rightarrow> bool" where
  "table_ok rows \<longleftrightarrow> distinct (map key rows) \<and> (\<forall>x \<in> set rows. \<forall>y \<in> set rows. key x \<noteq> key y \<longrightarrow> \<not> clash x y)"

lemma table_ok_Nil: "table_ok []"
  by (simp add: table_ok_def)

lemma upsert_set:
  assumes "upsert key clash r rows = Ok rows'"
  shows "set rows' = insert r {x \<in> set rows. key x \<noteq> key r}"
  using assms by (auto simp: upsert_def split: if_splits)

lemma upsert_ok:
  assumes "table_ok rows" and "upsert key clash r rows = Ok rows'"
  shows "table_ok rows'"
proof -
  have "distinct (map key rows')"
  proof (cases "key r \<in> key ` set rows")
    case True
    then have "rows' = map (\<lambda>x. if key x = key r then r else x) rows"
      using assms(2) by (auto simp: upsert_def split: if_splits)
    moreover have "map key (map (\<lambda>x. if key x = key r then r else x) rows) = map key rows" by simp
    ultimately show ?thesis using assms(1) by (metis table_ok_def)
  next
    case False
    then have "\<forall>x \<in> set rows. key x \<noteq> key r" by (metis image_eqI)
    then have "rows' = rows @ [r]" using assms(2) by (auto simp: upsert_def split: if_splits)
    with False assms(1) show ?thesis by (simp add: table_ok_def)
  qed
  moreover have "\<not> clash x r" if "x \<in> set rows" "key x \<noteq> key r" for x
    using assms(2) that by (auto simp: upsert_def split: if_splits)
  ultimately show ?thesis using assms(1) clash_sym unfolding table_ok_def upsert_set [OF assms(2)] by blast
qed

lemma upsert_accepts:
  assumes "\<And>x. x \<in> set rows \<Longrightarrow> key x \<noteq> key r \<Longrightarrow> \<not> clash x r"
  shows "\<exists>rows'. upsert key clash r rows = Ok rows'"
  using assms by (auto simp: upsert_def)

lemma table_ok_filter: "table_ok rows \<Longrightarrow> table_ok (filter P rows)"
  by (auto simp: table_ok_def distinct_map_filter)

lemma unique_column:
  assumes "table_ok rows" and "\<And>x y. f x = f y \<Longrightarrow> clash x y"
  shows "distinct (map f rows)"
  using assms unfolding table_ok_def distinct_map inj_on_def by metis

lemma filter_key:
  assumes "table_ok rows" and "r \<in> set rows"
  shows "filter (\<lambda>x. key x = key r) rows = [r]"
proof -
  have "distinct (map key rows)" using assms(1) by (simp add: table_ok_def)
  with assms(2) show ?thesis
  proof (induction rows)
    case (Cons x rows)
    then have "\<forall>y \<in> set rows. key y \<noteq> key x" by (metis distinct.simps(2) image_eqI list.map(2) set_map)
    with Cons show ?case by (cases "x = r") (auto simp: filter_empty_conv)
  qed simp
qed

end

interpretation kernels: keyed_table kr_id "\<lambda>x y. kr_hash x = kr_hash y"
  by unfold_locales simp

interpretation images: keyed_table ir_id "\<lambda>x y. ir_hash x = ir_hash y"
  by unfold_locales simp

interpretation devices: keyed_table dr_id "\<lambda>x y. False"
  by unfold_locales simp

interpretation shards: keyed_table sr_id "\<lambda>x y. False"
  by unfold_locales simp

section \<open>Reading back what was written\<close>

lemma DiskFormat_text_roundtrip [simp]: "DiskFormat_from_str (DiskFormat_to_string f) = Ok f"
  by (cases f) (simp_all add: DiskFormat_from_str_def to_lower_def)

lemma int_in_u16 [simp]: "int_in 0 65535 (uint (x :: u16)) = Ok (uint x)"
proof -
  have "uint x < 2 ^ LENGTH(16)" by (rule unsigned_less)
  then show ?thesis by (simp add: int_in_def)
qed

lemma int_in_u32 [simp]: "int_in 0 4294967295 (uint (x :: u32)) = Ok (uint x)"
proof -
  have "uint x < 2 ^ LENGTH(32)" by (rule unsigned_less)
  then show ?thesis by (simp add: int_in_def)
qed

lemma opt_in_u32 [simp]: "opt_in 0 4294967295 (map_option uint (x :: u32 option)) = Ok (map_option uint x)"
  by (cases x) simp_all

lemma opt_in_uint [simp]: "opt_in 0 255 (map_option uint (r :: u8 option)) = Ok (map_option uint r)"
proof (cases r)
  case (Some x)
  have "uint x < 2 ^ LENGTH(8)" by (rule unsigned_less)
  then show ?thesis using Some by (simp add: int_in_def)
qed simp

lemma Kernel_row_roundtrip [simp]: "Kernel_from_row (kernel_row_of k) = Ok k"
  by (simp add: Kernel_from_row_def kernel_row_of_def)

lemma DiskImage_row_roundtrip [simp]: "DiskImage_from_row (image_row_of i) = Ok i"
  by (simp add: DiskImage_from_row_def image_row_of_def option.map_comp o_def option.map_ident)

text \<open>A pid is an \<open>i32\<close>.\<close>

fun pid_ok :: "ProcessState \<Rightarrow> bool" where
  "pid_ok (Running pid) = (- 2147483648 \<le> pid \<and> pid \<le> 2147483647)"
| "pid_ok (PermissionDenied pid) = (- 2147483648 \<le> pid \<and> pid \<le> 2147483647)"
| "pid_ok (Dead pid) = (- 2147483648 \<le> pid \<and> pid \<le> 2147483647)"
| "pid_ok Stopped = True"

text \<open>
  The state of a saved process when it is read: a process that was running or not accessible is checked
  again, one that was dead or stopped is stopped.
\<close>

definition reread_state :: "'w proc_os \<Rightarrow> 'w \<Rightarrow> ProcessState \<Rightarrow> (ProcessState, anyhow) res" where
  "reread_state OS w s = (case ProcessState_optional s of Some pid \<Rightarrow> process_check OS pid w | None \<Rightarrow> Ok Stopped)"

lemma pid_in_range: "pid_ok s \<Longrightarrow> opt_in (- 2147483648) 2147483647 (ProcessState_optional s) = Ok (ProcessState_optional s)"
  by (cases s) (simp_all add: int_in_def)

lemma Device_row_roundtrip:
  assumes "pid_ok (d_state d)"
  shows "reread_state OS w (d_state d) = Ok s \<Longrightarrow> Device_from_row OS w (device_row_of d) = Ok (d\<lparr>d_state := s\<rparr>)"
  using assms by (cases "d_ty d"; cases "d_state d")
    (auto simp: Device_from_row_def device_row_of_def DeviceType_from_sql_def reread_state_def int_in_def)

lemma Shard_row_roundtrip:
  assumes "pid_ok (sp_state (sh_params s))" and "reread_state OS w (sp_state (sh_params s)) = Ok st"
  shows "ShardParams_from_row OS w (shard_row_of s) = Ok ((sh_params s)\<lparr>sp_state := st\<rparr>)"
proof -
  have "(case ProcessState_optional (sp_state (sh_params s)) of Some pid \<Rightarrow> unwrap (process_check OS pid w) | None \<Rightarrow> Ok Stopped)
      = (Ok st :: (_, sql_error) res)"
    using assms(2) by (auto simp: reread_state_def split: option.splits)
  then show ?thesis using pid_in_range [OF assms(1)] by (simp add: ShardParams_from_row_def shard_row_of_def Let_def)
qed

lemma log_row_roundtrip:
  "log_from_row \<lparr>lr_id = i, lr_device = d, lr_level = LogLevel_to_string (ev_level e), lr_target = ev_target e, lr_ts = ev_ts e,
     lr_module = ev_module e, lr_line = map_option uint (ev_line e), lr_data = ev_data e\<rparr> = Ok e"
  by (simp add: log_from_row_def option.map_comp o_def option.map_ident)

section \<open>The databases the program produces\<close>

inductive db_step :: "('j, 'f) db \<Rightarrow> ('j, 'f) db \<Rightarrow> bool" where
  kernel_saved: "Kernel_save k db = (r, db') \<Longrightarrow> db_step db db'"
| image_saved: "DiskImage_save i db = (r, db') \<Longrightarrow> db_step db db'"
| device_saved: "pid_ok (d_state d) \<Longrightarrow> Device_save d db = (r, db') \<Longrightarrow> db_step db db'"
| device_deleted: "Device_delete d db = (r, db') \<Longrightarrow> db_step db db'"
| shard_saved: "pid_ok (sp_state (sh_params s)) \<Longrightarrow> Shard_save s db = (r, db') \<Longrightarrow> db_step db db'"
| shard_deleted: "Shard_delete s db = (r, db') \<Longrightarrow> db_step db db'"
| event_logged: "LogEntry_save i dev e db = (r, db') \<Longrightarrow> db_step db db'"

inductive db_reachable :: "('j, 'f) db \<Rightarrow> bool" where
  new_db: "db_reachable version_000"
| next_db: "db_reachable db \<Longrightarrow> db_step db db' \<Longrightarrow> db_reachable db'"

definition one_default :: "kernel_row list \<Rightarrow> bool" where
  "one_default rows \<longleftrightarrow> (\<forall>x \<in> set rows. \<forall>y \<in> set rows. kr_is_default x = 1 \<and> kr_is_default y = 1 \<longrightarrow> x = y)"

definition log_rows_ok :: "'f log_row list \<Rightarrow> bool" where
  "log_rows_ok rows \<longleftrightarrow> distinct (map lr_id rows) \<and> (\<forall>r \<in> set rows. \<exists>e. log_from_row r = Ok e)"

definition db_wf :: "('j, 'f) db \<Rightarrow> bool" where
  "db_wf db \<longleftrightarrow>
     kernels.table_ok (db_kernels db) \<and> one_default (db_kernels db) \<and> set (db_kernels db) \<subseteq> range kernel_row_of \<and>
     images.table_ok (db_images db) \<and> set (db_images db) \<subseteq> range image_row_of \<and>
     devices.table_ok (db_devices db) \<and> set (db_devices db) \<subseteq> device_row_of ` {d. pid_ok (d_state d)} \<and>
     shards.table_ok (db_shards db) \<and> set (db_shards db) \<subseteq> shard_row_of ` {s. pid_ok (sp_state (sh_params s))} \<and>
     log_rows_ok (db_logs db)"

lemma enforce_default_none:
  "kr_is_default r = 1 \<Longrightarrow> x \<in> set (enforce_kernel_default r rows) \<Longrightarrow> kr_is_default x \<noteq> 1"
  by (auto simp: enforce_kernel_default_def)

lemma enforce_default_ok:
  assumes "kernels.table_ok rows"
  shows "kernels.table_ok (enforce_kernel_default r rows)"
proof -
  let ?f = "\<lambda>x. if kr_is_default x = 1 then x\<lparr>kr_is_default := 0\<rparr> else x :: kernel_row"
  have f: "kr_id (?f x) = kr_id x" "kr_hash (?f x) = kr_hash x" for x by simp_all
  then have "map kr_id (map ?f rows) = map kr_id rows" by simp
  then show ?thesis using assms f unfolding enforce_kernel_default_def kernels.table_ok_def by (auto simp del: map_map)
qed

lemma enforce_default_range:
  assumes "set rows \<subseteq> range kernel_row_of"
  shows "set (enforce_kernel_default r rows) \<subseteq> range kernel_row_of"
proof -
  have "(kernel_row_of k)\<lparr>kr_is_default := 0\<rparr> = kernel_row_of (k\<lparr>k_default := False\<rparr>)" for k
    by (simp add: kernel_row_of_def)
  then have "x\<lparr>kr_is_default := 0\<rparr> \<in> range kernel_row_of" if "x \<in> set rows" for x
    using that assms by (metis (mono_tags, lifting) rangeE rangeI subsetD)
  then show ?thesis using assms by (auto simp: enforce_kernel_default_def)
qed

lemma Kernel_save_wf:
  assumes "db_wf db" and "Kernel_save k db = (r, db')"
  shows "db_wf db'"
proof (cases "upsert kr_id (\<lambda>x y. kr_hash x = kr_hash y) (kernel_row_of k) (enforce_kernel_default (kernel_row_of k) (db_kernels db))")
  case (Ok rows)
  let ?r = "kernel_row_of k" and ?rows = "enforce_kernel_default (kernel_row_of k) (db_kernels db)"
  have db': "db' = db\<lparr>db_kernels := rows\<rparr>" using assms(2) Ok by (simp add: Kernel_save_def transaction_def Let_def)
  note set_rows = kernels.upsert_set [OF Ok]
  have "kernels.table_ok rows" by (rule kernels.upsert_ok [OF enforce_default_ok Ok]) (use assms(1) in \<open>simp add: db_wf_def\<close>)
  moreover have "set rows \<subseteq> range kernel_row_of"
    using enforce_default_range [of "db_kernels db" ?r] assms(1) by (auto simp: db_wf_def set_rows)
  moreover have "one_default rows"
  proof (cases "kr_is_default ?r = 1")
    case True
    then show ?thesis using enforce_default_none [OF True] by (auto simp: one_default_def set_rows)
  next
    case False
    then have "?rows = db_kernels db" by (simp add: enforce_kernel_default_def)
    with False assms(1) show ?thesis by (auto simp: one_default_def set_rows db_wf_def)
  qed
  ultimately show ?thesis using assms(1) unfolding db' db_wf_def by simp
qed (use assms in \<open>auto simp: Kernel_save_def transaction_def Let_def\<close>)

lemma DiskImage_save_wf:
  assumes "db_wf db" and "DiskImage_save i db = (r, db')"
  shows "db_wf db'"
proof (cases "upsert ir_id (\<lambda>x y. ir_hash x = ir_hash y) (image_row_of i) (db_images db)")
  case (Ok rows)
  have db': "db' = db\<lparr>db_images := rows\<rparr>" using assms(2) Ok by (simp add: DiskImage_save_def transaction_def)
  have "images.table_ok rows" by (rule images.upsert_ok [OF _ Ok]) (use assms(1) in \<open>simp add: db_wf_def\<close>)
  moreover have "set rows \<subseteq> range image_row_of" using assms(1) by (auto simp: db_wf_def images.upsert_set [OF Ok])
  ultimately show ?thesis using assms(1) unfolding db' db_wf_def by simp
qed (use assms in \<open>auto simp: DiskImage_save_def transaction_def\<close>)

lemma Device_save_wf:
  assumes "db_wf db" and "pid_ok (d_state d)" and "Device_save d db = (r, db')"
  shows "db_wf db'"
proof (cases "upsert dr_id (\<lambda>x y. False) (device_row_of d) (db_devices db)")
  case (Ok rows)
  have db': "db' = db\<lparr>db_devices := rows\<rparr>" using assms(3) Ok by (simp add: Device_save_def transaction_def on_err_def)
  have "devices.table_ok rows" by (rule devices.upsert_ok [OF _ Ok]) (use assms(1) in \<open>simp add: db_wf_def\<close>)
  moreover have "set rows \<subseteq> device_row_of ` {d. pid_ok (d_state d)}" using assms(1,2) by (auto simp: db_wf_def devices.upsert_set [OF Ok])
  ultimately show ?thesis using assms(1) unfolding db' db_wf_def by simp
qed (use assms in \<open>auto simp: Device_save_def transaction_def on_err_def\<close>)

lemma Shard_save_wf:
  assumes "db_wf db" and "pid_ok (sp_state (sh_params s))" and "Shard_save s db = (r, db')"
  shows "db_wf db'"
proof (cases "upsert sr_id (\<lambda>x y. False) (shard_row_of s) (db_shards db)")
  case (Ok rows)
  have db': "db' = db\<lparr>db_shards := rows\<rparr>" using assms(3) Ok by (simp add: Shard_save_def transaction_def on_err_def)
  have "shards.table_ok rows" by (rule shards.upsert_ok [OF _ Ok]) (use assms(1) in \<open>simp add: db_wf_def\<close>)
  moreover have "set rows \<subseteq> shard_row_of ` {s. pid_ok (sp_state (sh_params s))}"
    using assms(1,2) by (auto simp: db_wf_def shards.upsert_set [OF Ok])
  ultimately show ?thesis using assms(1) unfolding db' db_wf_def by simp
qed (use assms in \<open>auto simp: Shard_save_def transaction_def on_err_def\<close>)

lemma db_step_wf:
  assumes "db_step db db'" and "db_wf db"
  shows "db_wf db'"
  using assms
proof (induction rule: db_step.induct)
  case (device_deleted d db r db')
  then show ?case using devices.table_ok_filter by (auto simp: Device_delete_def transaction_def db_wf_def)
next
  case (shard_deleted s db r db')
  then show ?case using shards.table_ok_filter by (auto simp: Shard_delete_def transaction_def db_wf_def)
next
  case (event_logged i dev e db r db')
  then show ?case
    by (auto simp: LogEntry_save_def bind_def give_def transaction_def db_wf_def log_rows_ok_def log_row_roundtrip split: if_splits)
qed (auto intro: Kernel_save_wf DiskImage_save_wf Device_save_wf Shard_save_wf)

lemma db_reachable_wf: "db_reachable db \<Longrightarrow> db_wf db"
proof (induction rule: db_reachable.induct)
  case new_db
  show ?case
    by (simp add: db_wf_def version_000_def one_default_def log_rows_ok_def
        kernels.table_ok_Nil images.table_ok_Nil devices.table_ok_Nil shards.table_ok_Nil)
qed (auto intro: db_step_wf)

section \<open>Properties of the tables\<close>

lemma query_ok_rel:
  assumes "\<And>x. x \<in> set xs \<Longrightarrow> \<exists>y. from_row (f x) = Ok y \<and> P x y"
  shows "\<exists>ys. query_ok from_row (map f xs) = (Ok ys :: (_, 'e) res) \<and> list_all2 P xs ys"
  using assms
proof (induction xs)
  case (Cons x xs)
  from Cons.prems [of x] obtain y where "from_row (f x) = Ok y" "P x y" by auto
  moreover from Cons obtain ys where "query_ok from_row (map f xs) = (Ok ys :: (_, 'e) res)" "list_all2 P xs ys" by auto
  ultimately show ?case by auto
qed simp

lemma query_ok_rows:
  assumes "set rows \<subseteq> f ` A" and "\<And>x. x \<in> A \<Longrightarrow> \<exists>y. from_row (f x) = Ok y \<and> g y = h (f x)"
  shows "\<exists>ys. query_ok from_row rows = (Ok ys :: (_, 'e) res) \<and> map g ys = map h rows"
proof -
  have "\<exists>xs. rows = map f xs \<and> set xs \<subseteq> A"
    using assms(1)
  proof (induction rows)
    case (Cons r rows)
    then obtain x xs where "r = f x" "x \<in> A" "rows = map f xs" "set xs \<subseteq> A" by auto
    then show ?case by (intro exI [of _ "x # xs"]) simp
  qed simp
  then obtain xs where xs: "rows = map f xs" "set xs \<subseteq> A" by blast
  from query_ok_rel [of xs from_row f "\<lambda>x y. g y = h (f x)"] assms(2) xs obtain ys where
    "query_ok from_row rows = (Ok ys :: (_, 'e) res)" "list_all2 (\<lambda>x y. g y = h (f x)) xs ys" by blast
  moreover from this(2) have "map g ys = map h rows" unfolding xs(1)
    by (induction rule: list_all2_induct) auto
  ultimately show ?thesis by blast
qed

lemma process_check_returns: "po_alive OS w pid \<noteq> Panic \<Longrightarrow> process_check OS pid w \<noteq> Panic"
  by (auto simp: process_check_def split: res.splits kill_errno.splits)

lemma Device_from_row_Ok:
  assumes "pid_ok (d_state d)" and "\<forall>pid. po_alive OS w pid \<noteq> Panic"
  shows "\<exists>d'. Device_from_row OS w (device_row_of d) = Ok d' \<and> d_id d' = dr_id (device_row_of d) \<and> d_name d' = dr_name (device_row_of d)"
proof -
  have "\<exists>s. (case ProcessState_optional (d_state d) of
        Some pid \<Rightarrow> (case process_check OS pid w of Ok s \<Rightarrow> Ok s | Err _ \<Rightarrow> Ok (Dead pid) | Panic \<Rightarrow> Panic)
      | None \<Rightarrow> Ok Stopped) = (Ok s :: (_, sql_error) res)"
  proof (cases "ProcessState_optional (d_state d)")
    case (Some pid)
    with process_check_returns [of OS w pid] assms(2) show ?thesis by (cases "process_check OS pid w") auto
  qed simp
  then obtain s where "(case ProcessState_optional (d_state d) of
        Some pid \<Rightarrow> (case process_check OS pid w of Ok s \<Rightarrow> Ok s | Err _ \<Rightarrow> Ok (Dead pid) | Panic \<Rightarrow> Panic)
      | None \<Rightarrow> Ok Stopped) = (Ok s :: (_, sql_error) res)" ..
  moreover have "DeviceType_from_sql (DeviceType_to_sql (d_ty d)) = Ok (d_ty d)"
    by (cases "d_ty d") (simp add: DeviceType_from_sql_def)
  ultimately show ?thesis using pid_in_range [OF assms(1)] by (simp add: Device_from_row_def device_row_of_def)
qed

lemma length_le_1: "distinct xs \<Longrightarrow> \<forall>x \<in> set xs. \<forall>y \<in> set xs. x = y \<Longrightarrow> length xs \<le> 1"
  using card_le_Suc0_iff_eq [of "set xs"] distinct_card [of xs] by simp

text \<open>
  In every database the program produces, kernels and images have different ids and different hashes,
  devices, machines and log entries different ids, there is at most one default kernel, and no row is
  unreadable: listing kernels and images returns all of them as they were saved, listing devices one
  for each row.
\<close>

lemma Database_well_formed:
  assumes "db_reachable db" and "\<forall>pid. po_alive OS w pid \<noteq> Panic"
  shows "distinct (map kr_id (db_kernels db)) \<and> distinct (map kr_hash (db_kernels db)) \<and>
     distinct (map ir_id (db_images db)) \<and> distinct (map ir_hash (db_images db)) \<and>
     distinct (map dr_id (db_devices db)) \<and> distinct (map sr_id (db_shards db)) \<and> distinct (map lr_id (db_logs db)) \<and>
     length (filter (\<lambda>r. kr_is_default r = 1) (db_kernels db)) \<le> 1 \<and>
     (\<exists>ks. Kernel_get_all db = (Ok ks, db) \<and> map kernel_row_of ks = db_kernels db) \<and>
     (\<exists>ims. DiskImage_get_all db = (Ok ims, db) \<and> map image_row_of ims = db_images db) \<and>
     (\<exists>ds. Device_get_all OS w db = (Ok ds, db) \<and> map d_id ds = map dr_id (db_devices db))"
proof -
  note wf = db_reachable_wf [OF assms(1), unfolded db_wf_def]
  have "distinct (map kr_hash (db_kernels db))" "distinct (map ir_hash (db_images db))"
    using wf kernels.unique_column images.unique_column by blast+
  moreover have "length (filter (\<lambda>r. kr_is_default r = 1) (db_kernels db)) \<le> 1"
    using wf by (intro length_le_1) (auto simp: one_default_def kernels.table_ok_def distinct_map)
  moreover obtain ks where "query_ok Kernel_from_row (db_kernels db) = (Ok ks :: (_, anyhow) res)" "map kernel_row_of ks = map (\<lambda>x. x) (db_kernels db)"
    using query_ok_rows [of "db_kernels db" kernel_row_of UNIV Kernel_from_row kernel_row_of "\<lambda>x. x"] wf by auto
  moreover obtain ims where "query_ok DiskImage_from_row (db_images db) = (Ok ims :: (_, anyhow) res)" "map image_row_of ims = map (\<lambda>x. x) (db_images db)"
    using query_ok_rows [of "db_images db" image_row_of UNIV DiskImage_from_row image_row_of "\<lambda>x. x"] wf by auto
  moreover obtain ds where "query_ok (Device_from_row OS w) (db_devices db) = (Ok ds :: (_, anyhow) res)" "map d_id ds = map dr_id (db_devices db)"
    using query_ok_rows [of "db_devices db" device_row_of "{d. pid_ok (d_state d)}" "Device_from_row OS w" d_id dr_id]
      Device_from_row_Ok [OF _ assms(2)] wf by blast
  ultimately show ?thesis using wf
    by (simp add: Kernel_get_all_def DiskImage_get_all_def Device_get_all_def transaction_def log_rows_ok_def
        kernels.table_ok_def images.table_ok_def devices.table_ok_def shards.table_ok_def)
qed

text \<open>
  Machines are read when the check of every process gives a state, one for each row with its kernel and its image;
  log entries always.
\<close>

lemma Shard_from_row_Ok:
  assumes "pid_ok (sp_state (sh_params s))" and "\<forall>pid. po_alive OS w pid \<in> {Ok (), Err ESRCH, Err EPERM}"
  shows "\<exists>s'. Shard_from_row OS w (shard_row_of s, kernel_row_of k, image_row_of i) = Ok s' \<and> sp_id (sh_params s') = sr_id (shard_row_of s)"
proof -
  have "\<exists>st. process_check OS p w = Ok st" for p using assms(2) [rule_format, of p] by (auto simp: process_check_def)
  then have "\<exists>st. reread_state OS w (sp_state (sh_params s)) = Ok st" by (auto simp: reread_state_def split: option.splits)
  then obtain st where "reread_state OS w (sp_state (sh_params s)) = Ok st" by blast
  from Shard_row_roundtrip [OF assms(1) this] show ?thesis by (simp add: Shard_from_row_def shard_row_of_def Let_def)
qed

lemma Database_machines_read:
  assumes "db_reachable db" and "\<forall>pid. po_alive OS w pid \<in> {Ok (), Err ESRCH, Err EPERM}"
  shows "\<exists>ms. Shard_get_all OS w db = (Ok ms, db) \<and> map (sp_id \<circ> sh_params) ms = map (sr_id \<circ> fst) (shard_join db)"
proof -
  note wf = db_reachable_wf [OF assms(1), unfolded db_wf_def]
  let ?f = "\<lambda>(s, k, i). (shard_row_of s, kernel_row_of k, image_row_of i)" and ?A = "{(s, k, i). pid_ok (sp_state (sh_params s))}"
  have "set (shard_join db) \<subseteq> ?f ` ?A"
  proof
    fix x assume "x \<in> set (shard_join db)"
    then obtain s k i where x: "x = (s, k, i)" "s \<in> set (db_shards db)" "k \<in> set (db_kernels db)" "i \<in> set (db_images db)"
      by (auto simp: shard_join_def)
    then obtain s' k' i' where "s = shard_row_of s'" "pid_ok (sp_state (sh_params s'))" "k = kernel_row_of k'" "i = image_row_of i'"
      using wf by blast
    with x(1) show "x \<in> ?f ` ?A" by (intro image_eqI [of _ _ "(s', k', i')"]) simp_all
  qed
  from query_ok_rows [OF this, of "Shard_from_row OS w" "sp_id \<circ> sh_params" "sr_id \<circ> fst", where 'e = anyhow]
  have "\<exists>ms. query_ok (Shard_from_row OS w) (shard_join db) = (Ok ms :: (_, anyhow) res) \<and>
      map (sp_id \<circ> sh_params) ms = map (sr_id \<circ> fst) (shard_join db)"
    using Shard_from_row_Ok [OF _ assms(2)] by force
  then show ?thesis by (auto simp: Shard_get_all_def transaction_def)
qed

lemma query_ok_Panic: "r \<in> set rows \<Longrightarrow> f r = Panic \<Longrightarrow> query_ok f rows = Panic"
  by (induction rows) (auto split: res.splits)

lemma Database_machine_panics:
  assumes "db_reachable db" and "(s, k, i) \<in> set (shard_join db)" and "sr_pid s = Some pid" and "process_check OS pid w = Err e"
  shows "Shard_get_all OS w db = (Panic, db)"
proof -
  have "s \<in> set (db_shards db)" using assms(2) by (auto simp: shard_join_def)
  then obtain sh where sh: "s = shard_row_of sh" "pid_ok (sp_state (sh_params sh))"
    using db_reachable_wf [OF assms(1)] by (auto simp: db_wf_def)
  then have "ShardParams_from_row OS w s = Panic"
    using pid_in_range [OF sh(2)] assms(3,4) by (simp add: ShardParams_from_row_def shard_row_of_def Let_def)
  then have "Shard_from_row OS w (s, k, i) = Panic" by (simp add: Shard_from_row_def)
  then have "query_ok (Shard_from_row OS w) (shard_join db) = (Panic :: (_, anyhow) res)" by (rule query_ok_Panic [OF assms(2)])
  then show ?thesis by (simp add: Shard_get_all_def transaction_def)
qed

lemma Database_logs_read:
  fixes db :: "('j, 'c) db"
  assumes "db_reachable db"
  shows "\<exists>es. LogEntry_get device db = (Ok es, db) \<and> map ev_ts es = map lr_ts (filter (\<lambda>r. lr_device r = Some device) (db_logs db))"
proof -
  let ?rows = "filter (\<lambda>r. lr_device r = Some device) (db_logs db)"
  have "set ?rows \<subseteq> (\<lambda>r. r) ` {r. \<exists>e. log_from_row r = Ok e}"
    using db_reachable_wf [OF assms] by (auto simp: db_wf_def log_rows_ok_def)
  moreover have "ev_ts e = lr_ts r" if "log_from_row r = Ok e" for r :: "'c log_row" and e
    using that by (auto simp: log_from_row_def and_then_eq_Ok)
  ultimately have "\<exists>es. query_ok log_from_row ?rows = (Ok es :: (_, anyhow) res) \<and> map ev_ts es = map lr_ts ?rows"
    by (intro query_ok_rows [of ?rows "\<lambda>r. r" "{r. \<exists>e. log_from_row r = Ok e}"]) auto
  then show ?thesis by (auto simp: LogEntry_get_def transaction_def)
qed

section \<open>Finding a machine\<close>

lemma filter_concat_map:
  "filter (\<lambda>(s, x). P s) (concat (map (\<lambda>s. map (Pair s) (xs_of s)) rows)) = concat (map (\<lambda>s. map (Pair s) (xs_of s)) (filter P rows))"
proof (induction rows)
  case (Cons r rows)
  have "filter (\<lambda>(s, x). P s) (map (Pair r) (xs_of r)) = (if P r then map (Pair r) (xs_of r) else [])"
    by (auto simp: filter_empty_conv)
  with Cons show ?case by auto
qed simp

lemma shard_join_pairs:
  "shard_join db = concat (map (\<lambda>s. map (Pair s) (concat (map (\<lambda>k. map (Pair k) (filter (\<lambda>i. ir_id i = sr_bootdisk s) (db_images db)))
     (filter (\<lambda>k. kr_id k = sr_kernel s) (db_kernels db))))) (db_shards db))"
  by (simp add: shard_join_def map_concat o_def)

lemma shard_join_filter:
  "filter (\<lambda>(s, k, i). sr_name s = name) (shard_join db) =
   shard_join (db\<lparr>db_shards := filter (\<lambda>s. sr_name s = name) (db_shards db)\<rparr>)"
  using filter_concat_map [of "\<lambda>s. sr_name s = name"] unfolding shard_join_pairs
  by (simp add: case_prod_beta')

text \<open>
  A machine that was saved is found under its name, as it was saved, when no other machine has the
  name and its kernel and image are in the database; only the state of its process is looked up anew.
\<close>

lemma Shard_save_get:
  assumes "db_reachable db" and "kernel_row_of (sh_kernel s) \<in> set (db_kernels db)" and "image_row_of (sh_boot_disk s) \<in> set (db_images db)"
    and "pid_ok (sp_state (sh_params s))" and "reread_state OS w (sp_state (sh_params s)) = Ok st" and "sh_networks s = []"
    and "\<forall>r \<in> set (db_shards db). sr_name r = sp_name (sh_params s) \<longrightarrow> sr_id r = sp_id (sh_params s)"
  shows "\<exists>db'. Shard_save s db = (Ok (), db') \<and> Shard_get OS w (sp_name (sh_params s)) db' = (Ok (Some (Shard_set_state s st)), db')"
proof -
  note wf = db_reachable_wf [OF assms(1), unfolded db_wf_def]
  let ?r = "shard_row_of s" and ?name = "sp_name (sh_params s)"
  have row: "sr_id ?r = sp_id (sh_params s)" "sr_name ?r = ?name" "sr_kernel ?r = k_id (sh_kernel s)" "sr_bootdisk ?r = im_id (sh_boot_disk s)"
    by (simp_all add: shard_row_of_def Let_def)
  obtain rows where rows: "upsert sr_id (\<lambda>x y. False) ?r (db_shards db) = Ok rows" using shards.upsert_accepts by blast
  let ?db' = "db\<lparr>db_shards := rows\<rparr>"
  have saved: "Shard_save s db = (Ok (), ?db')" using rows by (simp add: Shard_save_def transaction_def on_err_def)
  have set_rows: "set rows = insert ?r {x \<in> set (db_shards db). sr_id x \<noteq> sr_id ?r}" by (rule shards.upsert_set [OF rows])
  have ok: "shards.table_ok rows" by (rule shards.upsert_ok [OF _ rows]) (use wf in simp)
  have "filter (\<lambda>x. sr_name x = ?name) rows = filter (\<lambda>x. sr_id x = sr_id ?r) rows"
    using assms(7) row unfolding set_rows by (intro filter_cong) (auto simp: set_rows)
  then have one: "filter (\<lambda>x. sr_name x = ?name) rows = [?r]" using shards.filter_key [OF ok, of ?r] set_rows by simp
  have "filter (\<lambda>k. kr_id k = kr_id (kernel_row_of (sh_kernel s))) (db_kernels db) = [kernel_row_of (sh_kernel s)]"
    "filter (\<lambda>i. ir_id i = ir_id (image_row_of (sh_boot_disk s))) (db_images db) = [image_row_of (sh_boot_disk s)]"
    using kernels.filter_key images.filter_key wf assms(2,3) by blast+
  then have "shard_join (?db'\<lparr>db_shards := [?r]\<rparr>) = [(?r, kernel_row_of (sh_kernel s), image_row_of (sh_boot_disk s))]"
    using row by (simp add: shard_join_def kernel_row_of_def image_row_of_def)
  then have "filter (\<lambda>(s, k, i). sr_name s = ?name) (shard_join ?db') = [(?r, kernel_row_of (sh_kernel s), image_row_of (sh_boot_disk s))]"
    unfolding shard_join_filter using one by simp
  moreover have "Shard_from_row OS w (?r, kernel_row_of (sh_kernel s), image_row_of (sh_boot_disk s)) = Ok (Shard_set_state s st)"
    using Shard_row_roundtrip [OF assms(4,5)] assms(6) by (simp add: Shard_from_row_def Shard_set_state_def)
  ultimately have "Shard_get OS w ?name ?db' = (Ok (Some (Shard_set_state s st)), ?db')"
    by (simp add: Shard_get_def transaction_def query_row_def)
  with saved show ?thesis by blast
qed

section \<open>Finding several devices\<close>

lemma length_eq_card_iff:
  assumes "distinct xs" and "set xs = set names \<inter> A"
  shows "length xs = length names \<longleftrightarrow> distinct names \<and> set names \<subseteq> A"
proof
  assume len: "length xs = length names"
  have "card (set names \<inter> A) = length xs" using assms by (metis distinct_card)
  moreover have "card (set names \<inter> A) \<le> card (set names)" "card (set names) \<le> length names"
    by (simp_all add: card_mono card_length)
  ultimately have "card (set names) = length names" "card (set names \<inter> A) = card (set names)" using len by simp_all
  then show "distinct names \<and> set names \<subseteq> A" by (metis List.finite_set card_distinct card_subset_eq inf.orderI inf_le1)
next
  assume "distinct names \<and> set names \<subseteq> A"
  then have "set xs = set names" using assms(2) by auto
  then show "length xs = length names" using assms(1) \<open>distinct names \<and> set names \<subseteq> A\<close> by (metis distinct_card)
qed

text \<open>An iteration of a hash set gives each of its elements once.\<close>

definition enumerates :: "(string list \<Rightarrow> string list) \<Rightarrow> bool" where
  "enumerates order \<longleftrightarrow> (\<forall>xs. distinct xs \<longrightarrow> distinct (order xs) \<and> set (order xs) = set xs)"

text \<open>
  C39: looking up several devices succeeds exactly when there are as many devices with one of the names as there are
  names, and then returns these devices; otherwise it lists the unknown names, each once, in some order. When no two
  devices share a name, this is when all names are known and none is given twice; a name given twice is an error, with
  an empty list of missing devices when all are known. Nothing keeps two devices from sharing a name, and then this name
  alone is not found, with an empty list too.
\<close>

theorem Device_get_many_outcome:
  assumes "db_reachable db" and "\<forall>pid. po_alive OS w pid \<noteq> Panic" and "enumerates order"
  shows "let rows = filter (\<lambda>r. dr_name r \<in> set names) (db_devices db); known = dr_name ` set (db_devices db) in
     (\<exists>ds missing. map d_name ds = map dr_name rows \<and> distinct missing \<and> set missing = set names - known \<and>
        Device_get_many OS order w names db =
          (if length rows = length names then Ok ds
           else Err (Message (''unable to find the following devices: '' @ join_sep '', '' missing)), db)) \<and>
     (distinct (map dr_name (db_devices db)) \<longrightarrow> (length rows = length names \<longleftrightarrow> distinct names \<and> set names \<subseteq> known))"
proof -
  let ?rows = "filter (\<lambda>r. dr_name r \<in> set names) (db_devices db)" and ?known = "dr_name ` set (db_devices db)"
  have "set ?rows \<subseteq> device_row_of ` {d. pid_ok (d_state d)}"
    using db_reachable_wf [OF assms(1)] by (auto simp: db_wf_def)
  from query_ok_rows [OF this, of "Device_from_row OS w" d_name dr_name] Device_from_row_Ok [OF _ assms(2)] obtain ds where
    ds: "query_ok (Device_from_row OS w) ?rows = (Ok ds :: (_, anyhow) res)" "map d_name ds = map dr_name ?rows" by blast
  let ?missing = "filter (\<lambda>n. n \<notin> d_name ` set ds) (remdups names)"
  have names: "d_name ` set ds = set names \<inter> ?known" using arg_cong [OF ds(2), of set] by auto
  have "distinct (order ?missing)" "set (order ?missing) = set names - ?known"
    using assms(3) by (auto simp: enumerates_def names)
  moreover have "length ds = length ?rows" using arg_cong [OF ds(2), of length] by simp
  then have "Device_get_many OS order w names db =
       (if length ?rows = length names then Ok ds
        else Err (Message (''unable to find the following devices: '' @ join_sep '', '' (order ?missing))), db)"
    using ds(1) by (simp add: Device_get_many_def transaction_def bind_def give_def)
  moreover have "distinct (map dr_name (db_devices db)) \<longrightarrow> (length ?rows = length names \<longleftrightarrow> distinct names \<and> set names \<subseteq> ?known)"
    using length_eq_card_iff [of "map dr_name ?rows" names ?known] distinct_map_filter [of dr_name "db_devices db"] by auto
  ultimately show ?thesis using ds(2) unfolding Let_def by blast
qed

section \<open>Sockets of bridges\<close>

lemma split_where:
  assumes "\<forall>y \<in> set c. P y" and "rest = [] \<or> \<not> P (hd rest)"
  shows "takeWhile P (c @ rest) = c" and "dropWhile P (c @ rest) = rest"
  using assms by (cases rest; simp add: takeWhile_append2 dropWhile_append2)+

lemma with_extension_name:
  assumes "CHR ''/'' \<notin> set s" and "CHR ''/'' \<notin> set ext" and "CHR ''.'' \<notin> set ext" and "s \<noteq> []" and "ext \<noteq> []"
  shows "with_extension (path_join dir (s @ ''.'' @ ext)) e = path_join dir s @ ''.'' @ e"
proof -
  obtain x xs where ext: "rev ext = x # xs" using assms(5) by (metis list.exhaust rev_is_Nil_conv)
  have x: "x \<noteq> CHR ''/''" "x \<noteq> CHR ''.''" using assms(2,3) ext by (metis list.set_intros(1) set_rev)+
  obtain pre where pre: "path_join dir (s @ ''.'' @ ext) = pre @ s @ ''.'' @ ext" "path_join dir s = pre @ s" "pre = [] \<or> last pre = CHR ''/''"
  proof -
    have "take 1 (s @ t) \<noteq> ''/''" for t using assms(1,4) by (cases s) auto
    from this [of "''.'' @ ext"] this [of "[]"] show ?thesis using that
      by (cases "dir = [] \<or> last dir = CHR ''/''") (auto simp: path_join_def)
  qed
  let ?c = "rev ext @ ''.'' @ rev s"
  have r: "rev (pre @ s @ ''.'' @ ext) = ?c @ rev pre" by simp
  have st: "strip_tail (?c @ rev pre) = ?c @ rev pre" using x ext by simp
  have c: "\<forall>y \<in> set ?c. y \<noteq> CHR ''/''" using assms(1,2) by auto
  have pre': "rev pre = [] \<or> \<not> hd (rev pre) \<noteq> CHR ''/''" using pre(3) by (auto simp: hd_rev)
  have tw: "takeWhile (\<lambda>x. x \<noteq> CHR ''/'') (strip_tail (rev (pre @ s @ ''.'' @ ext))) = ?c"
    "dropWhile (\<lambda>x. x \<noteq> CHR ''/'') (strip_tail (rev (pre @ s @ ''.'' @ ext))) = rev pre"
    unfolding r st using split_where [OF c pre'] by blast+
  have "dropWhile (\<lambda>x. x \<noteq> CHR ''.'') ?c = ''.'' @ rev s"
    by (rule split_where(2)) (use assms(3) in auto)
  then have "rev_stem ?c = rev s" using assms(4) by (simp add: rev_stem_def Let_def)
  moreover have "?c \<noteq> []" "?c \<noteq> ''..''" "?c \<noteq> ''.''" using ext x by auto
  ultimately show ?thesis unfolding pre(1) with_extension_def Let_def tw using pre(2) by simp
qed

text \<open>
  The socket of a bridge is named after the part of its name before the last dot: bridges whose names
  differ only after it, such as \<^verbatim>\<open>lab.east\<close> and \<^verbatim>\<open>lab.west\<close>, use the same socket.
\<close>

lemma Device_uds_collides:
  assumes "d_name d1 = s @ ''.'' @ ext1" and "d_name d2 = s @ ''.'' @ ext2" and "s \<noteq> []" and "ext1 \<noteq> []" and "ext2 \<noteq> []"
    and "CHR ''/'' \<notin> set (s @ ext1 @ ext2)" and "CHR ''.'' \<notin> set (ext1 @ ext2)"
  shows "Device_uds dir d1 = path_join dir s @ ''.sock'' \<and> Device_uds dir d2 = Device_uds dir d1"
  using assms with_extension_name [of s ext1 dir "''sock''"] with_extension_name [of s ext2 dir "''sock''"]
  by (simp add: Device_uds_def)

section \<open>Logs\<close>

text \<open>An event that is logged is returned last for its device, after those logged before, with its level and fields.\<close>

lemma query_ok_snoc:
  "query_ok from_row rows = (Ok xs :: (_, 'e) res) \<Longrightarrow> from_row r = Ok x \<Longrightarrow> query_ok from_row (rows @ [r]) = (Ok (xs @ [x]) :: (_, 'e) res)"
  by (induction rows arbitrary: xs) (auto simp: and_then_eq_Ok split: res.splits)

lemma btree_insert_values: "snd ` set (btree_insert k v m) \<subseteq> insert v (snd ` set m)"
proof (induction m)
  case (Cons kv m)
  obtain k' v' where kv: "kv = (k', v')" by (cases kv)
  from Cons show ?case unfolding kv by (cases "k < k'"; cases "k = k'") auto
qed simp

lemma OathgateEvent_record_fits:
  assumes "list_all (\<lambda>(k, v). json_fits (DataType_from v)) recorded" and "list_all (\<lambda>(k, v). json_fits v) (ev_data ev)"
  shows "list_all (\<lambda>(k, v). json_fits v) (ev_data (foldl OathgateEvent_record ev recorded))"
  using assms
proof (induction recorded arbitrary: ev)
  case (Cons x recorded)
  obtain name v where x: "x = (name, v)" by (cases x)
  have "list_all (\<lambda>(k, v). json_fits v) (btree_insert k w (ev_data ev))" if "json_fits w" for k w
    using btree_insert_values [of k w "ev_data ev"] Cons.prems(2) that by (fastforce simp: list_all_iff)
  with Cons show ?case unfolding x by (cases v) (simp_all add: ev_insert_def)
qed simp

lemma SqliteSubscriber_event_logged:
  assumes "LogEntry_get (sub_device_id sub) db = (Ok es, db)" and "\<forall>r \<in> set (db_logs db). lr_id r \<noteq> i"
    and "list_all (\<lambda>(k, v). json_fits (DataType_from v)) recorded"
  shows "\<exists>db'. SqliteSubscriber_event sub i now md recorded db = (Ok (), db') \<and>
     LogEntry_get (sub_device_id sub) db' = (Ok (es @ [foldl OathgateEvent_record (OathgateEvent_new now md) recorded]), db')"
proof -
  let ?e = "foldl OathgateEvent_record (OathgateEvent_new now md) recorded"
  let ?r = "\<lparr>lr_id = i, lr_device = Some (sub_device_id sub), lr_level = LogLevel_to_string (ev_level ?e), lr_target = ev_target ?e,
    lr_ts = ev_ts ?e, lr_module = ev_module ?e, lr_line = map_option uint (ev_line ?e), lr_data = ev_data ?e\<rparr>"
  have "query_ok log_from_row (filter (\<lambda>r. lr_device r = Some (sub_device_id sub)) (db_logs db)) = (Ok es :: (_, anyhow) res)"
    using assms(1) by (auto simp: LogEntry_get_def transaction_def split: res.splits)
  note get = query_ok_snoc [OF this log_row_roundtrip [of i "Some (sub_device_id sub)" ?e]]
  have "list_all (\<lambda>(k, v). json_fits v) (ev_data ?e)"
    by (rule OathgateEvent_record_fits [OF assms(3)]) (simp add: OathgateEvent_new_def)
  then show ?thesis using get assms(2)
    by (simp add: SqliteSubscriber_event_def LogEntry_save_def bind_def give_def LogEntry_get_def transaction_def)
qed

text \<open>A number of more than 64 bits panics in the logger.\<close>

lemma SqliteSubscriber_event_panics:
  assumes "(name, DataType_from v) \<in> set (ev_data (foldl OathgateEvent_record (OathgateEvent_new now md) recorded))"
    and "\<not> json_fits (DataType_from v)"
  shows "SqliteSubscriber_event sub i now md recorded db = (Panic, db)"
  using assms by (auto simp: SqliteSubscriber_event_def LogEntry_save_def bind_def give_def list_all_iff)

text \<open>The fields of an event are in the order of their names, each once, with the value recorded last.\<close>

lemma OathgateEvent_fields_sorted:
  "sorted_wrt (<) (map fst (ev_data ev)) \<Longrightarrow> sorted_wrt (<) (map fst (ev_data (foldl OathgateEvent_record ev recorded)))"
proof (induction recorded arbitrary: ev)
  case (Cons x recorded)
  obtain name v where x: "x = (name, v)" by (cases x)
  from Cons show ?case unfolding x by (cases v) (simp_all add: ev_insert_def btree_insert_sorted)
qed simp

text \<open>The first span of a subscriber has the id zero, which \<open>tracing\<close> does not accept.\<close>

lemma SqliteSubscriber_first_span_panics:
  assumes "SqliteSubscriberBuilder_finish (Ok ()) b = Ok sub"
  shows "fst (SqliteSubscriber_new_span sub) = Panic"
  using assms by (auto simp: SqliteSubscriberBuilder_finish_def SqliteSubscriber_new_span_def Let_def and_then_eq_Ok)

section \<open>A database to evaluate the properties at\<close>

definition sample_kernel :: Kernel where
  "sample_kernel = Kernel_new 1 ''K4'' ''linux'' ''6.9.1'' True"

definition sample_image :: DiskImage where
  "sample_image = DiskImage_new 2 ''I7'' ''debian'' Qcow2 (Some 1)"

definition sample_bridge :: "string Device" where
  "sample_bridge = Device_new 3 ''lab.east'' BridgeDevice ''{}''"

definition sample_shard :: Shard where
  "sample_shard = \<lparr>sh_params = \<lparr>sp_id = 4, sp_cid = 20001, sp_name = ''vm0'', sp_state = Running 42, sp_cpu = ''q35'', sp_memory = 512\<rparr>,
     sh_kernel = sample_kernel, sh_boot_disk = sample_image, sh_networks = []\<rparr>"

definition sample_db :: "(string, nat) db" where
  "sample_db = snd (Device_save sample_bridge (snd (DiskImage_save sample_image (snd (Kernel_save sample_kernel version_000)))))"

lemma sample_db_reachable: "db_reachable sample_db"
proof -
  let ?db1 = "snd (Kernel_save sample_kernel version_000) :: (string, nat) db" and ?db2 = "snd (DiskImage_save sample_image (snd (Kernel_save sample_kernel version_000))) :: (string, nat) db"
  have "db_reachable ?db1" by (rule next_db [OF new_db kernel_saved [OF prod.collapse [symmetric]]])
  then have "db_reachable ?db2" by (rule next_db [OF _ image_saved [OF prod.collapse [symmetric]]])
  then show ?thesis unfolding sample_db_def
    by (rule next_db [OF _ device_saved [OF _ prod.collapse [symmetric]]]) (simp add: sample_bridge_def Device_new_def)
qed

lemma sample_db_rows:
  "sample_db = \<lparr>db_logs = [], db_devices = [device_row_of sample_bridge], db_kernels = [kernel_row_of sample_kernel],
     db_images = [image_row_of sample_image], db_shards = []\<rparr>"
  by (simp add: sample_db_def version_000_def Kernel_save_def DiskImage_save_def Device_save_def transaction_def on_err_def
      upsert_def enforce_kernel_default_def Let_def)

theorem Device_get_many_outcome_witness:
  "Device_get_many sample_proc_os rev 7 [''lab.east'', ''lab.east''] sample_db =
     (Err (Message ''unable to find the following devices: ''), sample_db)"
proof -
  have "enumerates rev" "\<forall>pid. po_alive sample_proc_os 7 pid \<noteq> Panic" by (simp_all add: enumerates_def sample_proc_os_def)
  with Device_get_many_outcome [OF sample_db_reachable, of sample_proc_os 7 rev "[''lab.east'', ''lab.east'']"]
  show ?thesis by (auto simp: sample_db_rows device_row_of_def sample_bridge_def Device_new_def Let_def)
qed

end
