(* ===== verification/Tables.thy ===== *)
theory Tables
  imports Database
begin

text \<open>
  The tables of the listing commands, \<open>draw_table\<close> and the trait \<open>AsTable\<close> of \<^verbatim>\<open>oathgate/src/cmd.rs\<close> and its
  implementations in \<^verbatim>\<open>oathgate/src/database\<close>. A line is a list of glyphs; texts are ASCII, so that their
  length in bytes is their width. How the state of a process is styled is an argument.
\<close>

section \<open>Drawing\<close>

datatype glyph = Ch char | Box nat

definition pad :: "nat \<Rightarrow> string \<Rightarrow> glyph list" where
  "pad width field = map Ch field @ replicate (width - length field) (Ch (CHR '' ''))"

definition print_field :: "string \<Rightarrow> nat \<Rightarrow> glyph list" where
  "print_field field width = Ch (CHR '' '') # pad width field @ [Ch (CHR '' ''), Box 0x2502]"

text \<open>A row: the texts its widths are computed from, and the texts that are printed.\<close>

type_synonym table_row = "string list \<times> string list"

definition update_col_width :: "nat list \<Rightarrow> table_row \<Rightarrow> nat list" where
  "update_col_width widths row = map (\<lambda>(w, f). max w (length f)) (zip widths (fst row))"

fun separator_cells :: "nat \<Rightarrow> nat \<Rightarrow> nat list \<Rightarrow> glyph list" where
  "separator_cells l m [] = []"
| "separator_cells l m (w # ws) = Box l # replicate (w + 2) (Box 0x2500) @ separator_cells m m ws"

datatype line_kind = First | Middle | Last

fun draw_separator :: "nat list \<Rightarrow> line_kind \<Rightarrow> glyph list" where
  "draw_separator ws First = separator_cells 0x250c 0x252c ws @ [Box 0x2510]"
| "draw_separator ws Last = separator_cells 0x2514 0x2534 ws @ [Box 0x2518]"
| "draw_separator ws Middle = separator_cells 0x251c 0x253c ws @ [Box 0x2524]"

definition draw_row :: "nat list \<Rightarrow> string list \<Rightarrow> glyph list" where
  "draw_row ws cells = Box 0x2502 # concat (map (\<lambda>(f, w). print_field f w) (zip cells ws))"

definition draw_table :: "string list \<Rightarrow> table_row list \<Rightarrow> glyph list list" where
  "draw_table header rows =
     (let col_widths = foldl update_col_width (map length header) rows in
      [draw_separator col_widths First, draw_row col_widths header, draw_separator col_widths Middle]
      @ map (\<lambda>row. draw_row col_widths (snd row)) rows
      @ [draw_separator col_widths Last])"

section \<open>The rows of the listings\<close>

definition Device_header :: "string list" where "Device_header = [''Name'', ''State'', ''Type'']"

definition Device_table_row :: "(ProcessState \<Rightarrow> string) \<Rightarrow> 'j Device \<Rightarrow> table_row" where
  "Device_table_row styled self =
     ([d_name self, ProcessState_to_string (d_state self), DeviceType_to_string (d_ty self)],
      [d_name self, styled (d_state self), DeviceType_to_string (d_ty self)])"

definition DiskImage_header :: "string list" where
  "DiskImage_header = [''Hash'', ''Name'', ''Format'', ''Root Partition'']"

definition DiskImage_table_row :: "DiskImage \<Rightarrow> table_row" where
  "DiskImage_table_row self =
     (let p = (case im_root self of Some part \<Rightarrow> show_dec (unat part) | None \<Rightarrow> ''None'');
          cells = [im_hash self, im_name self, DiskFormat_to_string (im_format self), p] in (cells, cells))"

definition Kernel_header :: "string list" where
  "Kernel_header = [''Hash'', ''Name'', ''Version'', ''Default'']"

definition Kernel_table_row :: "Kernel \<Rightarrow> table_row" where
  "Kernel_table_row self =
     (let cells = [k_hash self, k_name self, k_version self, if k_default self then ''true'' else ''false''] in (cells, cells))"

definition Shard_header :: "string list" where "Shard_header = [''Name'', ''State'', ''Context Id'']"

text \<open>\<open>0x{:02x}\<close>.\<close>

definition Shard_table_row :: "(ProcessState \<Rightarrow> string) \<Rightarrow> Shard \<Rightarrow> table_row" where
  "Shard_table_row styled self =
     (let cid = ''0x'' @ show_hex_pad 2 (unat (sp_cid (sh_params self))) in
      ([sp_name (sh_params self), ProcessState_to_string (sp_state (sh_params self)), cid],
       [sp_name (sh_params self), styled (sp_state (sh_params self)), cid]))"

section \<open>Alignment\<close>

text \<open>The width of a table with these columns.\<close>

definition table_width :: "nat list \<Rightarrow> nat" where
  "table_width ws = 1 + sum_list (map (\<lambda>w. w + 3) ws)"

lemma length_separator_cells: "length (separator_cells l m ws) = sum_list (map (\<lambda>w. w + 3) ws)"
  by (induction ws arbitrary: l) simp_all

lemma length_draw_separator: "length (draw_separator ws kind) = table_width ws"
  by (cases kind) (simp_all add: length_separator_cells table_width_def)

lemma length_draw_row:
  "list_all2 (\<lambda>f w. length f \<le> w) cells ws \<Longrightarrow> length (draw_row ws cells) = table_width ws"
proof (induction rule: list_all2_induct)
  case Nil
  then show ?case by (simp add: draw_row_def table_width_def)
next
  case (Cons f fs w ws)
  then show ?case by (simp add: draw_row_def table_width_def print_field_def pad_def)
qed

text \<open>A row fits a table with \<open>n\<close> columns when it has as many texts, and the printed ones are not longer than the measured ones.\<close>

definition row_fits :: "nat \<Rightarrow> table_row \<Rightarrow> bool" where
  "row_fits n row \<longleftrightarrow> length (fst row) = n \<and> list_all2 (\<lambda>p f. length p \<le> length f) (snd row) (fst row)"

definition cols_fit :: "string list \<Rightarrow> nat list \<Rightarrow> bool" where
  "cols_fit cells ws \<longleftrightarrow> list_all2 (\<lambda>f w. length f \<le> w) cells ws"

lemma update_col_width_fits:
  assumes "row_fits (length ws) row"
  shows "cols_fit (snd row) (update_col_width ws row)" and "list_all2 (\<le>) ws (update_col_width ws row)"
  using assms by (auto simp: cols_fit_def row_fits_def update_col_width_def list_all2_conv_all_nth max_def dest: spec)

lemma cols_fit_mono: "cols_fit cells ws \<Longrightarrow> list_all2 (\<le>) ws ws' \<Longrightarrow> cols_fit cells ws'"
  unfolding cols_fit_def by (rule list_all2_trans [of _ "(\<le>)"]) auto

lemma foldl_widths:
  assumes "\<forall>row \<in> set rows. row_fits (length ws) row"
  shows "list_all2 (\<le>) ws (foldl update_col_width ws rows) \<and> (\<forall>row \<in> set rows. cols_fit (snd row) (foldl update_col_width ws rows))"
  using assms
proof (induction rows arbitrary: ws)
  case Nil
  show ?case by (simp add: list_all2_refl)
next
  case (Cons row rows)
  let ?ws = "update_col_width ws row"
  have fits: "cols_fit (snd row) ?ws" "list_all2 (\<le>) ws ?ws" using update_col_width_fits [of ws row] Cons.prems by simp_all
  then have "length ?ws = length ws" by (simp add: list_all2_lengthD)
  with Cons.IH [of ?ws] Cons.prems have IH: "list_all2 (\<le>) ?ws (foldl update_col_width ?ws rows)"
    "\<forall>row \<in> set rows. cols_fit (snd row) (foldl update_col_width ?ws rows)" by simp_all
  have "list_all2 (\<le>) ws (foldl update_col_width ?ws rows)"
    by (rule list_all2_trans [OF _ fits(2) IH(1)]) auto
  with cols_fit_mono [OF fits(1) IH(1)] IH(2) show ?case by simp
qed

text \<open>
  A table is aligned: all its lines, the separators, the header and the rows, have the same width, when
  every row has as many texts as the header and none is printed longer than it was measured. The last
  holds of the state of a process only when its style adds no characters.
\<close>

lemma draw_table_aligned:
  assumes "\<forall>row \<in> set rows. row_fits (length header) row"
  shows "\<exists>n. \<forall>line \<in> set (draw_table header rows). length line = n"
proof -
  let ?ws = "foldl update_col_width (map length header) rows"
  from foldl_widths [of rows "map length header"] assms
  have ws: "list_all2 (\<le>) (map length header) ?ws" "\<forall>row \<in> set rows. cols_fit (snd row) ?ws" by simp_all
  have "cols_fit header ?ws" using ws(1) by (simp add: cols_fit_def list_all2_map1)
  with ws(2) have "\<forall>line \<in> set (draw_table header rows). length line = table_width ?ws"
    by (auto simp: draw_table_def Let_def length_draw_separator length_draw_row cols_fit_def simp del: draw_separator.simps)
  then show ?thesis by blast
qed

lemma Device_row_fits:
  assumes "length (styled (d_state d)) \<le> length (ProcessState_to_string (d_state d))"
  shows "row_fits (length Device_header) (Device_table_row styled d)"
  using assms by (simp add: row_fits_def Device_table_row_def Device_header_def)

lemma Kernel_row_fits: "row_fits (length Kernel_header) (Kernel_table_row k)"
  by (simp add: row_fits_def Kernel_table_row_def Kernel_header_def Let_def)

lemma DiskImage_row_fits: "row_fits (length DiskImage_header) (DiskImage_table_row i)"
  by (simp add: row_fits_def DiskImage_table_row_def DiskImage_header_def Let_def)

lemma Shard_row_fits:
  assumes "length (styled (sp_state (sh_params s))) \<le> length (ProcessState_to_string (sp_state (sh_params s)))"
  shows "row_fits (length Shard_header) (Shard_table_row styled s)"
  using assms by (simp add: row_fits_def Shard_table_row_def Shard_header_def Let_def)

end
