(* ===== verification/Fork.thy ===== *)
theory Fork
  imports Process
begin

text \<open>
  Starting a process in the background, \<^verbatim>\<open>oathgate/src/fork.rs\<close>: the caller forks a child, the child makes
  itself the leader of a new session and forks a grandchild, which does the work; the child sends the pid
  of the grandchild through a pipe to the caller and exits.

  The three processes run concurrently. Each is a step function with its own program counter, and a step of
  the system is a step of one of them; they meet in the pipe, whose write end each of them inherits. What
  the system calls answer is in the record \<open>fork_calls\<close>. A write of four bytes to a pipe is atomic, as POSIX
  says of writes up to \<open>PIPE_BUF\<close> bytes.
\<close>

section \<open>The processes\<close>

record 's Forker =
  fk_subscriber :: "'s option"
  fk_cwd :: "string option"

definition Forker_with_subscriber :: "'s \<Rightarrow> 's Forker" where
  "Forker_with_subscriber subscriber = \<lparr>fk_subscriber = Some subscriber, fk_cwd = None\<rparr>"

definition Forker_cwd :: "'s Forker \<Rightarrow> string \<Rightarrow> 's Forker" where
  "Forker_cwd self cwd = self\<lparr>fk_cwd := Some cwd\<rparr>"

text \<open>
  \<open>fc_fork1\<close> and \<open>fc_fork2\<close> are the pids of the child and of the grandchild. \<open>fc_work\<close> is what the function
  run in the grandchild returns, \<open>None\<close> when it does not return.
\<close>

record fork_calls =
  fc_block :: "(unit, io_error) res"
  fc_signalfd :: "(unit, io_error) res"
  fc_pipe :: "(unit, io_error) res"
  fc_fork1 :: "(pid, io_error) res"
  fc_setsid :: "(unit, io_error) res"
  fc_fork2 :: "(pid, io_error) res"
  fc_write :: "(unit, io_error) res"
  fc_unblock :: "(unit, io_error) res"
  fc_read :: "(unit, io_error) res"
  fc_subscriber :: bool
  fc_chdir :: bool
  fc_work :: "(unit, anyhow) res option"

datatype proc = Parent | Child | Grandchild

datatype parent_pc = PBlock | PSignalFd | PPipe | PFork | PUnblock | PRead | PReturned "(pid, anyhow) res"

datatype child_pc = CAbsent | CSetsid | CFork | CWrite pid | CSleep | CExited int

datatype grandchild_pc = GAbsent | GSubscriber | GCwd | GWork | GSleep int | GExited int

text \<open>
  \<open>fs_tx\<close> are the processes that have the write end of the pipe open, \<open>fs_blocked\<close> those that block SIGTERM,
  \<open>fs_leader\<close> the leader of the new session; the subscriber and the directory are those of the grandchild, and
  \<open>fs_started\<close> counts the calls of the function.
\<close>

record 's fork_state =
  fs_parent :: parent_pc
  fs_child :: child_pc
  fs_grandchild :: grandchild_pc
  fs_pipe :: bytes
  fs_tx :: "proc set"
  fs_blocked :: "proc set"
  fs_leader :: "proc option"
  fs_subscriber :: "'s option"
  fs_dir :: "string option"
  fs_started :: nat

definition fork_init :: "'s fork_state" where
  "fork_init = \<lparr>fs_parent = PBlock, fs_child = CAbsent, fs_grandchild = GAbsent, fs_pipe = [], fs_tx = {}, fs_blocked = {},
     fs_leader = None, fs_subscriber = None, fs_dir = None, fs_started = 0\<rparr>"

text \<open>A new process has what the one that forks it has.\<close>

definition inherit :: "proc \<Rightarrow> proc \<Rightarrow> proc set \<Rightarrow> proc set" where
  "inherit p new S = (if p \<in> S then insert new S else S)"

text \<open>The pid read into a buffer of four zero bytes.\<close>

definition fork_pid :: "bytes \<Rightarrow> pid" where
  "fork_pid b = sint (from_le_bytes (filled 4 b) :: u32)"

definition pid_bytes :: "pid \<Rightarrow> bytes" where
  "pid_bytes p = to_le_bytes 4 (word_of_int p :: u32)"

text \<open>The caller, from \<open>fork\<close> to its return, which closes both ends of the pipe it still has.\<close>

definition parent_returns :: "(pid, anyhow) res \<Rightarrow> 's fork_state \<Rightarrow> 's fork_state" where
  "parent_returns r s = s\<lparr>fs_parent := PReturned r, fs_tx := fs_tx s - {Parent}\<rparr>"

text \<open>\<open>x?\<close> in the caller.\<close>

definition parent_try :: "('a, io_error) res \<Rightarrow> ('a \<Rightarrow> 's fork_state) \<Rightarrow> 's fork_state \<Rightarrow> 's fork_state option" where
  "parent_try r f s = (case r of Ok x \<Rightarrow> Some (f x) | Err e \<Rightarrow> Some (parent_returns (Err (Io e)) s) | Panic \<Rightarrow> Some (parent_returns Panic s))"

text \<open>
  Reading waits while the pipe is empty and a process has its write end open; without a writer it reads
  nothing.
\<close>

fun Forker_fork :: "fork_calls \<Rightarrow> 's fork_state \<Rightarrow> 's fork_state option" where
  "Forker_fork E s =
     (case fs_parent s of
        PBlock \<Rightarrow> parent_try (fc_block E) (\<lambda>_. s\<lparr>fs_parent := PSignalFd, fs_blocked := insert Parent (fs_blocked s)\<rparr>) s
      | PSignalFd \<Rightarrow> parent_try (fc_signalfd E) (\<lambda>_. s\<lparr>fs_parent := PPipe\<rparr>) s
      | PPipe \<Rightarrow> parent_try (fc_pipe E) (\<lambda>_. s\<lparr>fs_parent := PFork, fs_tx := {Parent}\<rparr>) s
      | PFork \<Rightarrow> parent_try (fc_fork1 E) (\<lambda>_. s\<lparr>fs_parent := PUnblock, fs_child := CSetsid,
          fs_tx := inherit Parent Child (fs_tx s), fs_blocked := inherit Parent Child (fs_blocked s)\<rparr>) s
      | PUnblock \<Rightarrow> parent_try (fc_unblock E) (\<lambda>_. s\<lparr>fs_parent := PRead, fs_blocked := fs_blocked s - {Parent}\<rparr>) s
      | PRead \<Rightarrow>
          if fc_read E = Ok () \<and> fs_pipe s = [] \<and> fs_tx s \<noteq> {} then None
          else parent_try (fc_read E) (\<lambda>_. parent_returns (Ok (fork_pid (fs_pipe s))) s\<lparr>fs_pipe := drop 4 (fs_pipe s)\<rparr>) s
      | PReturned _ \<Rightarrow> None)"

text \<open>
  The child, in \<open>run_child\<close>: an error ends the function, closes the pipe and is waited out for a second before
  the exit with code -1.
\<close>

definition child_try :: "('a, io_error) res \<Rightarrow> ('a \<Rightarrow> 's fork_state) \<Rightarrow> 's fork_state \<Rightarrow> 's fork_state option" where
  "child_try r f s =
     (case r of Ok x \<Rightarrow> Some (f x) | Err _ \<Rightarrow> Some (s\<lparr>fs_child := CSleep, fs_tx := fs_tx s - {Child}\<rparr>)
     | Panic \<Rightarrow> Some (s\<lparr>fs_child := CExited 101, fs_tx := fs_tx s - {Child}\<rparr>))"

fun Forker_run_child :: "fork_calls \<Rightarrow> 's fork_state \<Rightarrow> 's fork_state option" where
  "Forker_run_child E s =
     (case fs_child s of
        CSetsid \<Rightarrow> child_try (fc_setsid E) (\<lambda>_. s\<lparr>fs_child := CFork, fs_leader := Some Child\<rparr>) s
      | CFork \<Rightarrow> child_try (fc_fork2 E) (\<lambda>pid. s\<lparr>fs_child := CWrite pid, fs_grandchild := GSubscriber,
          fs_tx := inherit Child Grandchild (fs_tx s), fs_blocked := inherit Child Grandchild (fs_blocked s)\<rparr>) s
      | CWrite pid \<Rightarrow> child_try (fc_write E) (\<lambda>_. s\<lparr>fs_child := CExited 0, fs_pipe := fs_pipe s @ pid_bytes pid, fs_tx := fs_tx s - {Child}\<rparr>) s
      | CSleep \<Rightarrow> Some (s\<lparr>fs_child := CExited (- 1)\<rparr>)
      | _ \<Rightarrow> None)"

text \<open>
  The grandchild, in \<open>run_grandchild\<close> and back in \<open>fork\<close>. A subscriber that cannot be installed and a
  directory that cannot be entered are ignored; a panic of the function ends the process with code 101.
\<close>

fun Forker_run_grandchild :: "fork_calls \<Rightarrow> 's Forker \<Rightarrow> 's fork_state \<Rightarrow> 's fork_state option" where
  "Forker_run_grandchild E F s =
     (case fs_grandchild s of
        GSubscriber \<Rightarrow> Some (s\<lparr>fs_grandchild := GCwd, fs_subscriber := (if fc_subscriber E then fk_subscriber F else None)\<rparr>)
      | GCwd \<Rightarrow> Some (s\<lparr>fs_grandchild := GWork, fs_dir := (if fc_chdir E then fk_cwd F else None), fs_started := fs_started s + 1\<rparr>)
      | GWork \<Rightarrow> (case fc_work E of
          None \<Rightarrow> None
        | Some Panic \<Rightarrow> Some (s\<lparr>fs_grandchild := GExited 101, fs_tx := fs_tx s - {Grandchild}\<rparr>)
        | Some (Ok _) \<Rightarrow> Some (s\<lparr>fs_grandchild := GSleep 0, fs_tx := fs_tx s - {Grandchild}\<rparr>)
        | Some (Err _) \<Rightarrow> Some (s\<lparr>fs_grandchild := GSleep (- 1), fs_tx := fs_tx s - {Grandchild}\<rparr>))
      | GSleep code \<Rightarrow> Some (s\<lparr>fs_grandchild := GExited code\<rparr>)
      | _ \<Rightarrow> None)"

declare Forker_fork.simps [simp del] Forker_run_child.simps [simp del] Forker_run_grandchild.simps [simp del]

inductive fork_step :: "fork_calls \<Rightarrow> 's Forker \<Rightarrow> 's fork_state \<Rightarrow> 's fork_state \<Rightarrow> bool" for E F where
  parent: "Forker_fork E s = Some t \<Longrightarrow> fork_step E F s t"
| child: "Forker_run_child E s = Some t \<Longrightarrow> fork_step E F s t"
| grandchild: "Forker_run_grandchild E F s = Some t \<Longrightarrow> fork_step E F s t"

section \<open>The outcome of a fork\<close>

text \<open>
  What the caller gets, \<open>None\<close> when it waits for ever: the first error of its own calls, and otherwise the
  pid of the grandchild, which only arrives when all calls of the child succeed.
\<close>

definition fork_outcome :: "fork_calls \<Rightarrow> (pid, anyhow) res option" where
  "fork_outcome E =
     (case and_then (map_err Io (fc_block E)) (\<lambda>_. and_then (map_err Io (fc_signalfd E)) (\<lambda>_.
           and_then (map_err Io (fc_pipe E)) (\<lambda>_. and_then (map_err Io (fc_fork1 E)) (\<lambda>_.
           and_then (map_err Io (fc_unblock E)) (\<lambda>_. map_err Io (fc_read E)))))) of
        Err e \<Rightarrow> Some (Err e)
      | Panic \<Rightarrow> Some Panic
      | Ok _ \<Rightarrow>
          (case (fc_setsid E, fc_fork2 E, fc_write E) of
             (Ok _, Ok pid, Ok _) \<Rightarrow> Some (Ok pid)
           | _ \<Rightarrow> None))"

text \<open>The steps each process still has at most.\<close>

fun parent_rank :: "parent_pc \<Rightarrow> nat" where
  "parent_rank PBlock = 6"
| "parent_rank PSignalFd = 5"
| "parent_rank PPipe = 4"
| "parent_rank PFork = 3"
| "parent_rank PUnblock = 2"
| "parent_rank PRead = 1"
| "parent_rank (PReturned _) = 0"

fun child_rank :: "child_pc \<Rightarrow> nat" where
  "child_rank CAbsent = 4"
| "child_rank CSetsid = 4"
| "child_rank CFork = 3"
| "child_rank (CWrite _) = 2"
| "child_rank CSleep = 1"
| "child_rank (CExited _) = 0"

fun grandchild_rank :: "grandchild_pc \<Rightarrow> nat" where
  "grandchild_rank GAbsent = 4"
| "grandchild_rank GSubscriber = 4"
| "grandchild_rank GCwd = 3"
| "grandchild_rank GWork = 2"
| "grandchild_rank (GSleep _) = 1"
| "grandchild_rank (GExited _) = 0"

definition fork_rank :: "'s fork_state \<Rightarrow> nat" where
  "fork_rank s = parent_rank (fs_parent s) + child_rank (fs_child s) + grandchild_rank (fs_grandchild s)"

lemmas process_steps = Forker_fork.simps Forker_run_child.simps Forker_run_grandchild.simps
  parent_try_def parent_returns_def child_try_def inherit_def

text \<open>The calls of the caller up to the fork, and those of the child.\<close>

definition parent_forked :: "fork_calls \<Rightarrow> bool" where
  "parent_forked E \<longleftrightarrow> fc_block E = Ok () \<and> fc_signalfd E = Ok () \<and> fc_pipe E = Ok () \<and> (\<exists>p. fc_fork1 E = Ok p)"

definition child_succeeds :: "fork_calls \<Rightarrow> bool" where
  "child_succeeds E \<longleftrightarrow> fc_setsid E = Ok () \<and> (\<exists>p. fc_fork2 E = Ok p) \<and> fc_write E = Ok ()"

fun parent_past :: "fork_calls \<Rightarrow> parent_pc \<Rightarrow> bool" where
  "parent_past E PBlock = True"
| "parent_past E PSignalFd = (fc_block E = Ok ())"
| "parent_past E PPipe = (fc_block E = Ok () \<and> fc_signalfd E = Ok ())"
| "parent_past E PFork = (fc_block E = Ok () \<and> fc_signalfd E = Ok () \<and> fc_pipe E = Ok ())"
| "parent_past E PUnblock = parent_forked E"
| "parent_past E PRead = (parent_forked E \<and> fc_unblock E = Ok ())"
| "parent_past E (PReturned r) = (fork_outcome E = Some r)"

fun child_past :: "fork_calls \<Rightarrow> child_pc \<Rightarrow> bool" where
  "child_past E (CWrite pid) = (fc_setsid E = Ok () \<and> fc_fork2 E = Ok pid)"
| "child_past E CFork = (fc_setsid E = Ok ())"
| "child_past E CSleep = (\<not> child_succeeds E)"
| "child_past E (CExited code) = (child_succeeds E \<longleftrightarrow> code = 0)"
| "child_past E _ = True"

fun child_sent :: "fork_calls \<Rightarrow> child_pc \<Rightarrow> bytes" where
  "child_sent E (CExited code) = (case fc_fork2 E of Ok pid \<Rightarrow> if code = 0 then pid_bytes pid else [] | _ \<Rightarrow> [])"
| "child_sent E _ = []"

fun parent_child :: "parent_pc \<Rightarrow> child_pc \<Rightarrow> bool" where
  "parent_child PUnblock c = (c \<noteq> CAbsent)"
| "parent_child PRead c = (c \<noteq> CAbsent)"
| "parent_child (PReturned r) c = ((\<exists>p. r = Ok p) \<longrightarrow> c = CExited 0)"
| "parent_child _ c = (c = CAbsent)"

fun child_grandchild :: "child_pc \<Rightarrow> grandchild_pc \<Rightarrow> bool" where
  "child_grandchild CAbsent g = (g = GAbsent)"
| "child_grandchild CSetsid g = (g = GAbsent)"
| "child_grandchild CFork g = (g = GAbsent)"
| "child_grandchild _ g = True"

definition fork_inv :: "fork_calls \<Rightarrow> 's fork_state \<Rightarrow> bool" where
  "fork_inv E s \<longleftrightarrow>
     parent_past E (fs_parent s) \<and> child_past E (fs_child s) \<and>
     parent_child (fs_parent s) (fs_child s) \<and> child_grandchild (fs_child s) (fs_grandchild s) \<and>
     (fs_parent s = PFork \<longrightarrow> Parent \<in> fs_tx s) \<and>
     (fs_parent s = PUnblock \<or> fs_parent s = PRead \<longrightarrow> Parent \<in> fs_tx s) \<and>
     ((\<forall>r. fs_parent s \<noteq> PReturned r) \<longrightarrow> fs_pipe s = child_sent E (fs_child s))"

text \<open>\<open>i32::from_le_bytes\<close> after \<open>to_le_bytes\<close>.\<close>

lemma fork_pid_bytes:
  assumes "p \<in> {- 2147483648..2147483647}"
  shows "fork_pid (pid_bytes p) = p"
proof -
  have "fork_pid (pid_bytes p) = sint (word_of_int p :: u32)" by (simp add: fork_pid_def pid_bytes_def from_le_to_le_bytes)
  also have "\<dots> = (p + 2147483648) mod 4294967296 - 2147483648" by (simp add: int_word_sint)
  also have "\<dots> = p" using assms by simp
  finally show ?thesis .
qed

lemma length_pid_bytes [simp]: "length (pid_bytes p) = 4"
  by (simp add: pid_bytes_def)

lemma pid_bytes_not_Nil [simp]: "pid_bytes p \<noteq> []" "[] \<noteq> pid_bytes p"
  using length_pid_bytes [of p] by (auto simp del: length_pid_bytes)

lemma fork_inv_init: "fork_inv E fork_init"
  by (simp add: fork_inv_def fork_init_def)

lemma fork_step_rank:
  assumes "fork_step E F s t" and "fork_inv E s"
  shows "fork_rank t < fork_rank s"
  using assms
proof cases
  case parent
  then show ?thesis using assms(2)
    by (cases "fs_parent s") (auto simp: fork_rank_def fork_inv_def process_steps split: res.splits if_splits)
next
  case child
  then show ?thesis using assms(2)
    by (cases "fs_child s") (auto simp: fork_rank_def fork_inv_def process_steps split: res.splits)
next
  case grandchild
  then show ?thesis
    by (cases "fs_grandchild s") (auto simp: fork_rank_def process_steps split: res.splits option.splits)
qed

text \<open>The caller returns what \<open>fork_outcome\<close> says.\<close>

lemma fork_outcome_read:
  assumes "parent_forked E" and "fc_unblock E = Ok ()" and "fc_read E = Ok ()"
  shows "fork_outcome E = (if child_succeeds E then Some (Ok (case fc_fork2 E of Ok p \<Rightarrow> p)) else None)"
  using assms by (auto simp: fork_outcome_def parent_forked_def child_succeeds_def split: res.splits)

lemma parent_step_inv:
  assumes step: "Forker_fork E s = Some t" and inv: "fork_inv E s" and pid: "\<And>p. fc_fork2 E = Ok p \<Longrightarrow> p \<in> {- 2147483648..2147483647}"
  shows "fork_inv E t"
proof (cases "fs_parent s")
  case PRead
  with inv have past: "parent_forked E" "fc_unblock E = Ok ()" and pipe: "Parent \<in> fs_tx s" "fs_pipe s = child_sent E (fs_child s)"
    and child: "child_past E (fs_child s)"
    by (simp_all add: fork_inv_def)
  show ?thesis
  proof (cases "fc_read E")
    case (Ok u)
    with step PRead pipe(1) have ne: "fs_pipe s \<noteq> []" by (auto simp: process_steps split: if_splits)
    then obtain p where p: "fs_child s = CExited 0" "fc_fork2 E = Ok p"
      unfolding pipe(2) by (cases "fs_child s") (auto split: res.splits if_splits)
    with child have "child_succeeds E" by simp
    with fork_outcome_read [OF past] Ok p(2) have "fork_outcome E = Some (Ok p)" by simp
    moreover have "fork_pid (fs_pipe s) = p" using pipe(2) p pid by (simp add: fork_pid_bytes)
    ultimately show ?thesis using step PRead Ok ne inv p(1) by (auto simp: process_steps fork_inv_def)
  qed (use step PRead inv in \<open>auto simp: process_steps fork_inv_def fork_outcome_def parent_forked_def\<close>)
qed (use step inv in \<open>auto simp: process_steps fork_inv_def fork_outcome_def parent_forked_def split: res.splits\<close>)

lemma child_step_inv:
  assumes "Forker_run_child E s = Some t" and "fork_inv E s"
  shows "fork_inv E t"
  using assms
  by (cases "fs_child s"; cases "fs_parent s")
    (auto simp: fork_inv_def process_steps child_succeeds_def split: res.splits)

lemma grandchild_step_inv:
  assumes "Forker_run_grandchild E F s = Some t" and "fork_inv E s"
  shows "fork_inv E t"
proof -
  have "fs_parent t = fs_parent s" "fs_child t = fs_child s" "fs_pipe t = fs_pipe s" "fs_tx t = fs_tx s \<or> fs_tx t = fs_tx s - {Grandchild}"
    and "fs_grandchild s \<noteq> GAbsent"
    using assms(1) by (auto simp: process_steps split: grandchild_pc.splits res.splits option.splits)
  then show ?thesis using assms(2) by (cases "fs_child s") (auto simp: fork_inv_def)
qed

lemma fork_step_inv:
  assumes "fork_step E F s t" and "fork_inv E s" and "\<And>p. fc_fork2 E = Ok p \<Longrightarrow> p \<in> {- 2147483648..2147483647}"
  shows "fork_inv E t"
  using assms by (auto elim!: fork_step.cases intro: parent_step_inv child_step_inv grandchild_step_inv)

lemma fork_steps_inv:
  assumes "(fork_step E F ^^ n) fork_init s" and "\<And>p. fc_fork2 E = Ok p \<Longrightarrow> p \<in> {- 2147483648..2147483647}"
  shows "fork_inv E s \<and> n + fork_rank s \<le> 14"
  using assms(1)
proof (induction n arbitrary: s)
  case 0
  then have "s = fork_init" by simp
  then show ?case by (simp add: fork_inv_init) (simp add: fork_rank_def fork_init_def)
next
  case (Suc n)
  then obtain u where u: "fork_inv E u" "n + fork_rank u \<le> 14" "fork_step E F u s" by auto
  from fork_step_inv [OF u(3,1) assms(2)] fork_step_rank [OF u(3,1)] u(2) show ?case by simp
qed

text \<open>No process can go on: the caller has returned, or it waits for a pid nobody will send.\<close>

lemma fork_stuck:
  assumes "\<nexists>t. fork_step E F s t" and "fork_inv E s"
  shows "fs_parent s = (case fork_outcome E of Some r \<Rightarrow> PReturned r | None \<Rightarrow> PRead)"
proof -
  have parent: "Forker_fork E s = None" and child: "Forker_run_child E s = None"
    using assms(1) by (meson fork_step.intros not_None_eq)+
  show ?thesis
  proof (cases "fs_parent s")
    case PRead
    with assms(2) have past: "parent_forked E" "fc_unblock E = Ok ()" and s: "Parent \<in> fs_tx s" "fs_pipe s = child_sent E (fs_child s)"
      "child_past E (fs_child s)" "fs_child s \<noteq> CAbsent"
      by (simp_all add: fork_inv_def)
    from parent PRead have r: "fc_read E = Ok ()" "fs_pipe s = []" by (auto simp: process_steps split: if_splits res.splits)
    from child s(4) obtain code where "fs_child s = CExited code" by (auto simp: process_steps split: child_pc.splits res.splits)
    with s(2,3) r(2) have "\<not> child_succeeds E" by (auto simp: child_succeeds_def split: res.splits)
    with fork_outcome_read [OF past r(1)] PRead show ?thesis by simp
  qed (use parent assms(2) in \<open>auto simp: process_steps fork_inv_def split: res.splits\<close>)
qed

text \<open>
  C17: whatever the order in which the three processes run, they come to rest after at most 14 steps, the
  caller returns nothing but what \<open>fork_outcome\<close> says, and when they have come to rest it has returned that or, if
  \<open>fork_outcome\<close> is \<open>None\<close>, waits for ever. So the caller gets the pid of the grandchild when all calls succeed
  and the first error of its own calls; but when a call of the child fails, nothing is written to the pipe,
  and since the caller itself keeps the write end open its read never ends.
\<close>

theorem Forker_fork_outcome:
  assumes "(fork_step E F ^^ n) fork_init s" and "\<And>p. fc_fork2 E = Ok p \<Longrightarrow> p \<in> {- 2147483648..2147483647}"
  shows "n \<le> 14 \<and> (\<forall>r. fs_parent s = PReturned r \<longrightarrow> fork_outcome E = Some r) \<and>
     ((\<nexists>t. fork_step E F s t) \<longrightarrow> fs_parent s = (case fork_outcome E of Some r \<Rightarrow> PReturned r | None \<Rightarrow> PRead))"
  using fork_steps_inv [OF assms] fork_stuck by (auto simp: fork_inv_def)

section \<open>The process that does the work\<close>

fun parent_blocks :: "parent_pc \<Rightarrow> 's fork_state \<Rightarrow> bool" where
  "parent_blocks PBlock s = True"
| "parent_blocks PRead s = True"
| "parent_blocks (PReturned _) s = True"
| "parent_blocks _ s = (Parent \<in> fs_blocked s)"

fun child_settled :: "child_pc \<Rightarrow> 's fork_state \<Rightarrow> bool" where
  "child_settled CSetsid s = (Child \<in> fs_blocked s)"
| "child_settled CFork s = (Child \<in> fs_blocked s \<and> fs_leader s = Some Child)"
| "child_settled (CWrite _) s = (fs_grandchild s \<noteq> GAbsent)"
| "child_settled (CExited code) s = (code = 0 \<longrightarrow> fs_grandchild s \<noteq> GAbsent)"
| "child_settled _ s = True"

text \<open>The grandchild, once it is there, and when it is about to run or has run the function.\<close>

definition detached :: "'s fork_state \<Rightarrow> bool" where
  "detached s \<longleftrightarrow> Grandchild \<in> fs_blocked s \<and> fs_leader s = Some Child"

fun work_settled :: "fork_calls \<Rightarrow> 's Forker \<Rightarrow> grandchild_pc \<Rightarrow> 's fork_state \<Rightarrow> bool" where
  "work_settled E F GAbsent s = (fs_started s = 0)"
| "work_settled E F GSubscriber s = (fs_started s = 0 \<and> detached s)"
| "work_settled E F GCwd s = (fs_started s = 0 \<and> detached s \<and> fs_subscriber s = (if fc_subscriber E then fk_subscriber F else None))"
| "work_settled E F _ s = (fs_started s = 1 \<and> detached s \<and> fs_subscriber s = (if fc_subscriber E then fk_subscriber F else None) \<and>
     fs_dir s = (if fc_chdir E then fk_cwd F else None))"

definition work_inv :: "fork_calls \<Rightarrow> 's Forker \<Rightarrow> 's fork_state \<Rightarrow> bool" where
  "work_inv E F s \<longleftrightarrow> parent_blocks (fs_parent s) s \<and> child_settled (fs_child s) s \<and> work_settled E F (fs_grandchild s) s"

lemma parent_work_inv:
  assumes step: "Forker_fork E s = Some t" and inv: "work_inv E F s"
  shows "work_inv E F t"
proof -
  have frame: "fs_grandchild t = fs_grandchild s" "fs_leader t = fs_leader s" "fs_started t = fs_started s"
    "fs_subscriber t = fs_subscriber s" "fs_dir t = fs_dir s"
    "p \<in> fs_blocked s \<Longrightarrow> p \<noteq> Parent \<Longrightarrow> p \<in> fs_blocked t" for p
    using step by (auto simp: process_steps split: parent_pc.splits res.splits if_splits)
  have "work_settled E F (fs_grandchild t) t"
    using inv frame by (cases "fs_grandchild s") (auto simp: work_inv_def detached_def)
  moreover have "child_settled (fs_child t) t" if "fs_child t = fs_child s"
    using inv frame that by (cases "fs_child s") (auto simp: work_inv_def)
  moreover have "parent_blocks (fs_parent t) t" "fs_child t = fs_child s \<or> fs_child t = CSetsid \<and> Child \<in> fs_blocked t"
    using step inv by (auto simp: work_inv_def process_steps split: parent_pc.splits res.splits if_splits)
  ultimately show ?thesis by (auto simp: work_inv_def)
qed

lemma child_work_inv:
  assumes step: "Forker_run_child E s = Some t" and inv: "work_inv E F s" and absent: "child_grandchild (fs_child s) (fs_grandchild s)"
  shows "work_inv E F t"
proof -
  have frame: "fs_parent t = fs_parent s" "fs_started t = fs_started s" "fs_subscriber t = fs_subscriber s" "fs_dir t = fs_dir s"
    "p \<in> fs_blocked s \<Longrightarrow> p \<in> fs_blocked t" for p
    using step by (auto simp: process_steps split: child_pc.splits res.splits)
  have "parent_blocks (fs_parent t) t" using inv frame by (cases "fs_parent s") (auto simp: work_inv_def)
  moreover have "child_settled (fs_child t) t"
    using step inv by (auto simp: work_inv_def process_steps split: child_pc.splits res.splits)
  moreover have "work_settled E F (fs_grandchild t) t" if "fs_grandchild t = fs_grandchild s" "fs_leader t = fs_leader s"
    using inv frame that by (cases "fs_grandchild s") (auto simp: work_inv_def detached_def)
  moreover have "fs_grandchild t = fs_grandchild s \<and> fs_leader t = fs_leader s \<or>
      (fs_grandchild t = GAbsent \<or> fs_grandchild t = GSubscriber \<and> detached t) \<and> fs_grandchild s = GAbsent"
    using step inv absent by (auto simp: work_inv_def detached_def process_steps split: child_pc.splits res.splits)
  ultimately show ?thesis using inv frame by (auto simp: work_inv_def)
qed

lemma grandchild_work_inv:
  assumes step: "Forker_run_grandchild E F s = Some t" and inv: "work_inv E F s"
  shows "work_inv E F t"
proof -
  have frame: "fs_parent t = fs_parent s" "fs_child t = fs_child s" "fs_blocked t = fs_blocked s" "fs_leader t = fs_leader s"
    "fs_grandchild t \<noteq> GAbsent"
    using step by (auto simp: process_steps split: grandchild_pc.splits res.splits option.splits)
  have "parent_blocks (fs_parent t) t" using inv frame by (cases "fs_parent s") (auto simp: work_inv_def)
  moreover have "child_settled (fs_child t) t" using inv frame by (cases "fs_child s") (auto simp: work_inv_def)
  moreover have "work_settled E F (fs_grandchild t) t"
    using step inv by (auto simp: work_inv_def detached_def process_steps split: grandchild_pc.splits res.splits option.splits)
  ultimately show ?thesis by (simp add: work_inv_def)
qed

lemma work_inv_reachable:
  assumes "(fork_step E F ^^ n) fork_init s" and "\<And>p. fc_fork2 E = Ok p \<Longrightarrow> p \<in> {- 2147483648..2147483647}"
  shows "work_inv E F s"
  using assms(1)
proof (induction n arbitrary: s)
  case 0
  then have "s = fork_init" by simp
  then show ?case by (simp add: work_inv_def fork_init_def)
next
  case (Suc n)
  then obtain u where u: "(fork_step E F ^^ n) fork_init u" "fork_step E F u s" by auto
  from fork_steps_inv [OF u(1) assms(2)] Suc.IH [OF u(1)] u(2) show ?case
    by (auto simp: fork_inv_def elim!: fork_step.cases intro: parent_work_inv child_work_inv grandchild_work_inv)
qed

text \<open>
  C18: whatever the order in which the processes run, the function is started at most once, and only in a process
  that blocks SIGTERM and belongs to the session of the child without leading it. It has the subscriber the caller asked
  for when that one could be installed, and the working directory when it could be entered; when not, it runs without,
  since both failures are ignored. When the caller gets a pid, it is the one of that process, which starts the function.
\<close>

theorem Forker_work_detached:
  assumes "(fork_step E F ^^ n) fork_init s" and "\<And>p. fc_fork2 E = Ok p \<Longrightarrow> p \<in> {- 2147483648..2147483647}"
  shows "fs_started s \<le> 1 \<and>
     (fs_started s = 1 \<longrightarrow> Grandchild \<in> fs_blocked s \<and> fs_leader s = Some Child \<and>
        fs_subscriber s = (if fc_subscriber E then fk_subscriber F else None) \<and> fs_dir s = (if fc_chdir E then fk_cwd F else None)) \<and>
     (\<forall>p. fs_parent s = PReturned (Ok p) \<longrightarrow> fc_fork2 E = Ok p \<and> ((\<nexists>t. fork_step E F s t) \<longrightarrow> fs_started s = 1))"
proof -
  note inv = fork_steps_inv [OF assms] and work = work_inv_reachable [OF assms]
  have "fs_started s \<le> 1 \<and> (fs_started s = 1 \<longrightarrow> detached s \<and>
      fs_subscriber s = (if fc_subscriber E then fk_subscriber F else None) \<and> fs_dir s = (if fc_chdir E then fk_cwd F else None))"
    using work by (cases "fs_grandchild s") (auto simp: work_inv_def)
  moreover have "fc_fork2 E = Ok p \<and> ((\<nexists>t. fork_step E F s t) \<longrightarrow> fs_started s = 1)" if ret: "fs_parent s = PReturned (Ok p)" for p
  proof -
    have out: "fork_outcome E = Some (Ok p)" using inv ret by (simp add: fork_inv_def)
    then have fork2: "fc_fork2 E = Ok p" by (auto simp: fork_outcome_def split: res.splits prod.splits)
    have "fs_started s = 1" if "\<nexists>t. fork_step E F s t"
    proof -
      have "Forker_run_grandchild E F s = None" using that by (meson fork_step.intros not_None_eq)
      moreover have "fs_grandchild s \<noteq> GAbsent" using inv ret work by (auto simp: fork_inv_def work_inv_def)
      ultimately show ?thesis using work
        by (auto simp: work_inv_def process_steps split: grandchild_pc.splits res.splits option.splits)
    qed
    with fork2 show ?thesis by blast
  qed
  ultimately show ?thesis by (auto simp: detached_def)
qed

section \<open>Two runs\<close>

definition sample_calls :: fork_calls where
  "sample_calls = \<lparr>fc_block = Ok (), fc_signalfd = Ok (), fc_pipe = Ok (), fc_fork1 = Ok 100, fc_setsid = Ok (), fc_fork2 = Ok 4711,
     fc_write = Ok (), fc_unblock = Ok (), fc_read = Ok (), fc_subscriber = True, fc_chdir = True, fc_work = None\<rparr>"

definition sample_forker :: "nat Forker" where
  "sample_forker = Forker_cwd (Forker_with_subscriber 5) ''/tmp''"

text \<open>A run in which the child is done before the caller reads, and one in which the child cannot make a session.\<close>

definition sample_done :: "nat fork_state" where
  "sample_done = \<lparr>fs_parent = PReturned (Ok 4711), fs_child = CExited 0, fs_grandchild = GWork, fs_pipe = [], fs_tx = {Grandchild},
     fs_blocked = {Child, Grandchild}, fs_leader = Some Child, fs_subscriber = Some 5, fs_dir = Some ''/tmp'', fs_started = 1\<rparr>"

definition sample_hung :: "nat fork_state" where
  "sample_hung = \<lparr>fs_parent = PRead, fs_child = CExited (- 1), fs_grandchild = GAbsent, fs_pipe = [], fs_tx = {Parent},
     fs_blocked = {Child}, fs_leader = None, fs_subscriber = None, fs_dir = None, fs_started = 0\<rparr>"

fun run_schedule :: "fork_calls \<Rightarrow> 's Forker \<Rightarrow> proc list \<Rightarrow> 's fork_state \<Rightarrow> 's fork_state option" where
  "run_schedule E F [] s = Some s"
| "run_schedule E F (p # ps) s =
     (case (case p of Parent \<Rightarrow> Forker_fork E s | Child \<Rightarrow> Forker_run_child E s | Grandchild \<Rightarrow> Forker_run_grandchild E F s) of
        None \<Rightarrow> None
      | Some t \<Rightarrow> run_schedule E F ps t)"

lemma run_schedule_steps: "run_schedule E F ps s = Some t \<Longrightarrow> (fork_step E F ^^ length ps) s t"
proof (induction ps arbitrary: s)
  case (Cons p ps)
  then obtain u where "fork_step E F s u" "run_schedule E F ps u = Some t"
    by (cases p) (auto split: option.splits intro: fork_step.intros)
  with Cons.IH show ?case unfolding list.size(4) add_Suc_right add_0_right by (blast intro: relpowp_Suc_I2)
qed simp

lemma sample_run:
  "run_schedule sample_calls sample_forker [Parent, Parent, Parent, Parent, Child, Child, Grandchild, Child, Parent, Grandchild, Parent] fork_init =
   Some sample_done"
  by (simp add: process_steps sample_calls_def sample_forker_def sample_done_def fork_init_def Forker_cwd_def Forker_with_subscriber_def
      fork_pid_bytes insert_Diff_if insert_commute)

lemma sample_hang:
  "run_schedule (sample_calls\<lparr>fc_setsid := Err (OtherError ''EPERM'')\<rparr>) sample_forker [Parent, Parent, Parent, Parent, Child, Child, Parent] fork_init =
   Some sample_hung"
  by (simp add: process_steps sample_calls_def sample_forker_def sample_hung_def fork_init_def insert_Diff_if)

text \<open>Nothing goes on in either state.\<close>

lemma sample_stuck:
  "\<not> fork_step sample_calls sample_forker sample_done t"
  "\<not> fork_step (sample_calls\<lparr>fc_setsid := Err (OtherError ''EPERM'')\<rparr>) sample_forker sample_hung t"
  by (auto elim!: fork_step.cases simp: process_steps sample_calls_def sample_done_def sample_hung_def)

theorem Forker_fork_outcome_witness:
  "fork_outcome sample_calls = Some (Ok 4711) \<and> fs_parent sample_done = PReturned (Ok 4711) \<and>
   fork_outcome (sample_calls\<lparr>fc_setsid := Err (OtherError ''EPERM'')\<rparr>) = None \<and> fs_parent sample_hung = PRead"
proof -
  have pids: "fc_fork2 sample_calls = Ok p \<Longrightarrow> p \<in> {- 2147483648..2147483647}"
    "fc_fork2 (sample_calls\<lparr>fc_setsid := Err (OtherError ''EPERM'')\<rparr>) = Ok p \<Longrightarrow> p \<in> {- 2147483648..2147483647}" for p
    by (auto simp: sample_calls_def)
  have out: "fork_outcome sample_calls = Some (Ok 4711)" "fork_outcome (sample_calls\<lparr>fc_setsid := Err (OtherError ''EPERM'')\<rparr>) = None"
    by (simp_all add: fork_outcome_def sample_calls_def)
  have "fs_parent sample_done = (case fork_outcome sample_calls of Some r \<Rightarrow> PReturned r | None \<Rightarrow> PRead)"
    using Forker_fork_outcome [OF run_schedule_steps [OF sample_run] pids(1)] sample_stuck(1) by blast
  moreover have "fs_parent sample_hung =
      (case fork_outcome (sample_calls\<lparr>fc_setsid := Err (OtherError ''EPERM'')\<rparr>) of Some r \<Rightarrow> PReturned r | None \<Rightarrow> PRead)"
    using Forker_fork_outcome [OF run_schedule_steps [OF sample_hang] pids(2)] sample_stuck(2) by blast
  ultimately show ?thesis by (simp add: out)
qed

theorem Forker_work_detached_witness:
  "fs_started sample_done = 1 \<and> Grandchild \<in> fs_blocked sample_done \<and> fs_subscriber sample_done = Some 5 \<and> fs_dir sample_done = Some ''/tmp''"
proof -
  have pids: "fc_fork2 sample_calls = Ok p \<Longrightarrow> p \<in> {- 2147483648..2147483647}" for p by (simp add: sample_calls_def)
  have ret: "fs_parent sample_done = PReturned (Ok 4711)" by (simp add: sample_done_def)
  have "fs_started sample_done = 1"
    using Forker_work_detached [OF run_schedule_steps [OF sample_run] pids] sample_stuck(1) ret by blast
  with Forker_work_detached [OF run_schedule_steps [OF sample_run] pids] show ?thesis
    by (simp add: sample_calls_def sample_forker_def Forker_cwd_def Forker_with_subscriber_def)
qed

end
