(* ===== verification/Commands.thy ===== *)
theory Commands
  imports Database_Laws Tables Fork Bridge_Builder
begin

text \<open>
  The commands of the command line, \<^verbatim>\<open>oathgate/src/cmd.rs\<close>, \<^verbatim>\<open>oathgate/src/cmd/*.rs\<close> and the state of
  \<^verbatim>\<open>main.rs\<close>, on the database, the files, the processes and the standard output. The files are a map from
  paths to contents; a hard link is a second file with the same content. What the system, the user and other
  crates answer (prompts, failing file operations, \<open>libmagic\<close>, the output of \<open>file\<close> and \<open>strings\<close>, the hash, random
  names, numbers and ids) is in the record \<open>cmd_env\<close> or an argument, and so is what is read from the pipe of a
  started process (theory \<open>Fork\<close>). Spinners, which go to the error output, and the debug print of a machine
  configuration are not modelled. The dispatch of the commands is in theory \<open>Cli\<close>.
\<close>

section \<open>The state of the application\<close>

record ('j, 'f, 'w) app =
  a_db :: "('j, 'f) db"
  a_files :: "string \<rightharpoonup> bytes"
  a_world :: 'w
  a_out :: "glyph list list"

record 'w cmd_env =
  ce_base :: string
  ce_no_confirm :: bool
  ce_os :: "'w proc_os"
  ce_confirm :: "string \<Rightarrow> (bool, io_error) res"
  ce_fail :: "string \<Rightarrow> io_error option"
  ce_mime :: "string \<Rightarrow> (string, anyhow) res"
  ce_hash :: "bytes \<Rightarrow> string"
  ce_styled :: "ProcessState \<Rightarrow> string"
  ce_next_name :: "string option"
  ce_range :: "u32 \<Rightarrow> u32 \<Rightarrow> u32"
  ce_hash_order :: "string list \<Rightarrow> string list"

type_synonym ('a, 'j, 'f, 'w) cmd = "('a, anyhow, ('j, 'f, 'w) app) act"

definition on_db :: "('a, anyhow, ('j, 'f) db) act \<Rightarrow> ('a, 'j, 'f, 'w) cmd" where
  "on_db m s = (case m (a_db s) of (r, db) \<Rightarrow> (r, s\<lparr>a_db := db\<rparr>))"

definition on_world :: "('a, anyhow, 'w) act \<Rightarrow> ('a, 'j, 'f, 'w) cmd" where
  "on_world m s = (case m (a_world s) of (r, w) \<Rightarrow> (r, s\<lparr>a_world := w\<rparr>))"

text \<open>A query of the database that looks at processes.\<close>

definition on_query :: "('w \<Rightarrow> ('a, anyhow, ('j, 'f) db) act) \<Rightarrow> ('a, 'j, 'f, 'w) cmd" where
  "on_query m s = on_db (m (a_world s)) s"

text \<open>\<open>println!\<close> and the output of \<open>draw_table\<close>.\<close>

definition print_glyphs :: "glyph list list \<Rightarrow> (unit, 'j, 'f, 'w) cmd" where
  "print_glyphs ls s = (Ok (), s\<lparr>a_out := a_out s @ ls\<rparr>)"

definition println :: "string \<Rightarrow> (unit, 'j, 'f, 'w) cmd" where
  "println line = print_glyphs [map Ch line]"

definition io_error_of :: "'w cmd_env \<Rightarrow> string \<Rightarrow> (unit, anyhow) res" where
  "io_error_of E path = (case ce_fail E path of Some e \<Rightarrow> Err (Io e) | None \<Rightarrow> Ok ())"

definition NotFound :: anyhow where "NotFound = Io (OtherError ''not found'')"
definition AlreadyExists :: anyhow where "AlreadyExists = Io (OtherError ''already exists'')"

definition read_file :: "'w cmd_env \<Rightarrow> string \<Rightarrow> (bytes, 'j, 'f, 'w) cmd" where
  "read_file E path s = (and_then (io_error_of E path) (\<lambda>_. ok_or (a_files s path) NotFound), s)"

text \<open>
  Opening with \<open>write(true).create(true)\<close> and copying into the file: without \<open>truncate\<close>, what is behind
  the new content stays.
\<close>

definition overwrite :: "bytes \<Rightarrow> bytes option \<Rightarrow> bytes" where
  "overwrite new old = new @ (case old of Some b \<Rightarrow> drop (length new) b | None \<Rightarrow> [])"

definition write_over :: "'w cmd_env \<Rightarrow> string \<Rightarrow> bytes \<Rightarrow> (unit, 'j, 'f, 'w) cmd" where
  "write_over E path content s =
     (case io_error_of E path of
        Ok _ \<Rightarrow> (Ok (), s\<lparr>a_files := (a_files s)(path \<mapsto> overwrite content (a_files s path))\<rparr>)
      | Err e \<Rightarrow> (Err e, s)
      | Panic \<Rightarrow> (Panic, s))"

definition hard_link :: "'w cmd_env \<Rightarrow> string \<Rightarrow> string \<Rightarrow> (unit, 'j, 'f, 'w) cmd" where
  "hard_link E src dst =
     bind (read_file E src) (\<lambda>content s.
     case and_then (io_error_of E dst) (\<lambda>_. if a_files s dst = None then Ok () else Err AlreadyExists) of
       Ok _ \<Rightarrow> (Ok (), s\<lparr>a_files := (a_files s)(dst \<mapsto> content)\<rparr>)
     | Err e \<Rightarrow> (Err e, s)
     | Panic \<Rightarrow> (Panic, s))"

text \<open>\<open>std::fs::copy\<close> replaces the content of the target.\<close>

definition copy_file :: "'w cmd_env \<Rightarrow> string \<Rightarrow> string \<Rightarrow> (unit, 'j, 'f, 'w) cmd" where
  "copy_file E src dst =
     bind (read_file E src) (\<lambda>content s.
     case io_error_of E dst of
       Ok _ \<Rightarrow> (Ok (), s\<lparr>a_files := (a_files s)(dst \<mapsto> content)\<rparr>)
     | Err e \<Rightarrow> (Err e, s)
     | Panic \<Rightarrow> (Panic, s))"

text \<open>All files below a directory.\<close>

definition remove_dir_all :: "'w cmd_env \<Rightarrow> string \<Rightarrow> (unit, 'j, 'f, 'w) cmd" where
  "remove_dir_all E dir s =
     (case io_error_of E dir of
        Ok _ \<Rightarrow> (Ok (), s\<lparr>a_files := (\<lambda>p. if take (length dir + 1) p = dir @ ''/'' then None else a_files s p)\<rparr>)
      | Err e \<Rightarrow> (Err e, s)
      | Panic \<Rightarrow> (Panic, s))"

section \<open>Directories and shared functions\<close>

definition State_subdir :: "'w cmd_env \<Rightarrow> string \<Rightarrow> string" where
  "State_subdir E name = path_join (ce_base E) name"

definition State_network_dir :: "'w cmd_env \<Rightarrow> string" where "State_network_dir E = State_subdir E ''networks''"
definition State_archive_dir :: "'w cmd_env \<Rightarrow> string" where "State_archive_dir E = State_subdir E ''archives''"
definition State_shard_dir :: "'w cmd_env \<Rightarrow> string" where "State_shard_dir E = State_subdir E ''shards''"
definition State_kernel_dir :: "'w cmd_env \<Rightarrow> string" where "State_kernel_dir E = State_subdir E ''kernels''"
definition State_image_dir :: "'w cmd_env \<Rightarrow> string" where "State_image_dir E = State_subdir E ''images''"

text \<open>\<open>ce_next_name\<close> is what the generator of names gives next, \<open>ce_range\<close> draws a random number from a range.\<close>

definition State_generate_name :: "'w cmd_env \<Rightarrow> (string, anyhow) res" where
  "State_generate_name E = (case ce_next_name E of Some name \<Rightarrow> Ok name | None \<Rightarrow> Panic)"

definition State_generate_cid :: "'w cmd_env \<Rightarrow> u32" where
  "State_generate_cid E = ce_range E 20000 30000"

definition State_get_mime :: "'w cmd_env \<Rightarrow> string \<Rightarrow> (string, anyhow) res" where
  "State_get_mime E path = ce_mime E path"

text \<open>A given name, or a generated one.\<close>

definition name_or :: "'w cmd_env \<Rightarrow> string option \<Rightarrow> (string, anyhow) res" where
  "name_or E name = (case name of Some n \<Rightarrow> Ok n | None \<Rightarrow> State_generate_name E)"

definition confirm :: "'w cmd_env \<Rightarrow> string \<Rightarrow> (unit, anyhow) res" where
  "confirm E prompt =
     (if ce_no_confirm E then Ok ()
      else and_then (map_err Io (ce_confirm E prompt)) (\<lambda>yes.
        if yes then Ok () else Err (Message ''user cancelled operation'')))"

text \<open>The chunks of a slice, and the hash of the first 8192 of them.\<close>

function chunks_of :: "nat \<Rightarrow> 'a list \<Rightarrow> 'a list list" where
  "chunks_of n xs = (if n = 0 \<or> xs = [] then [] else take n xs # chunks_of n (drop n xs))"
  by pat_completeness auto

termination chunks_of
  by (relation "measure (\<lambda>(n, xs). length xs)") auto

declare chunks_of.simps [simp del]

definition hash_file :: "'w cmd_env \<Rightarrow> bytes \<Rightarrow> string" where
  "hash_file E content = ce_hash E (concat (take 8192 (chunks_of 1024 content)))"

datatype LogFormat = Pretty | Json

fun LogFormat_to_string :: "LogFormat \<Rightarrow> string" where
  "LogFormat_to_string Pretty = ''pretty''"
| "LogFormat_to_string Json = ''json''"

text \<open>How floating point numbers, times and a list of events as JSON are printed.\<close>

record 'f log_fmt =
  lf_float :: "'f \<Rightarrow> string"
  lf_date :: "nat \<Rightarrow> string"
  lf_json :: "'f OathgateEvent list \<Rightarrow> (string, anyhow) res"

definition print_logs :: "'f log_fmt \<Rightarrow> uuid \<Rightarrow> LogFormat \<Rightarrow> (unit, 'j, 'f, 'w) cmd" where
  "print_logs T i format =
     bind (on_db (LogEntry_get i)) (\<lambda>logs.
     case format of
       Pretty \<Rightarrow> print_glyphs (map (map Ch) (concat (map (OathgateEvent_display (lf_float T) (lf_date T)) logs)))
     | Json \<Rightarrow> bind (give (lf_json T logs)) println)"

section \<open>Bridges\<close>

definition get_bridge :: "'w cmd_env \<Rightarrow> string \<Rightarrow> ('j Device, 'j, 'f, 'w) cmd" where
  "get_bridge E name =
     bind (on_query (\<lambda>w. Device_get (ce_os E) w name)) (\<lambda>d.
     give (ok_or d (Message (''device '' @ [CHR 39] @ name @ [CHR 39] @ '' not found''))))"

text \<open>\<open>cfg\<close> is the outcome of loading the configuration, \<open>new_id\<close> the new id.\<close>

definition create_bridge :: "'w cmd_env \<Rightarrow> uuid \<Rightarrow> ('j, anyhow) res \<Rightarrow> string option \<Rightarrow> (unit, 'j, 'f, 'w) cmd" where
  "create_bridge E new_id cfg name =
     bind (give (ok_or (case name of Some n \<Rightarrow> Some n | None \<Rightarrow> ce_next_name E)
       (Message ''unable to generate name for device, please provide one''))) (\<lambda>name.
     bind (give (any_context ''failed to parse bridge config'' cfg)) (\<lambda>cfg.
     on_err (Context ''failed to insert bridge into database'') (on_db (Device_save (Device_new new_id name BridgeDevice cfg)))))"

text \<open>
  \<open>decode\<close> reads the configuration from the JSON of the device, \<open>logger\<close> opens the database for the logger, and
  \<open>forked\<close> forks a process that logs to it and runs the bridge; its outcome is what is read from the pipe.
\<close>

definition start_bridge ::
  "'w cmd_env \<Rightarrow> ('j \<Rightarrow> ('c, anyhow) res) \<Rightarrow> (uuid \<Rightarrow> (SqliteSubscriber, anyhow) res) \<Rightarrow>
   (SqliteSubscriber Forker \<Rightarrow> 'c Bridge \<Rightarrow> (bytes, anyhow, 'w) act) \<Rightarrow> string \<Rightarrow> string option \<Rightarrow> (unit, 'j, 'f, 'w) cmd" where
  "start_bridge E decode logger forked name pcap =
     bind (get_bridge E name) (\<lambda>device.
     bind (give (decode (d_cfg device))) (\<lambda>config.
     bind (give (BridgeBuilder_build (BridgeBuilder_base (BridgeBuilder_pcap BridgeBuilder_default pcap) (State_network_dir E)) config name)) (\<lambda>bridge.
     bind (give (logger (d_id device))) (\<lambda>logger.
     bind (on_world (forked (Forker_with_subscriber logger) bridge)) (\<lambda>b.
     on_err (Context ''unable to save device in database'') (on_db (Device_save (Device_set_started device (fork_pid b)))))))))"

definition stop_bridge :: "'w cmd_env \<Rightarrow> string \<Rightarrow> (unit, 'j, 'f, 'w) cmd" where
  "stop_bridge E name =
     bind (get_bridge E name) (\<lambda>device.
     bind (give (confirm E ''Stop bridge?'')) (\<lambda>_.
     bind (on_world (Device_stop (ce_os E) device)) (\<lambda>device.
     on_db (Device_save device))))"

definition list_bridges :: "'w cmd_env \<Rightarrow> (unit, 'j, 'f, 'w) cmd" where
  "list_bridges E =
     bind (on_query (Device_get_all (ce_os E))) (\<lambda>devices.
     if devices = [] then println ''no bridges found!''
     else print_glyphs (draw_table Device_header (map (Device_table_row (ce_styled E)) devices)))"

definition bridge_logs :: "'w cmd_env \<Rightarrow> 'f log_fmt \<Rightarrow> string \<Rightarrow> LogFormat \<Rightarrow> (unit, 'j, 'f, 'w) cmd" where
  "bridge_logs E T name format = bind (get_bridge E name) (\<lambda>device. print_logs T (d_id device) format)"

definition delete_bridge :: "'w cmd_env \<Rightarrow> string \<Rightarrow> (unit, 'j, 'f, 'w) cmd" where
  "delete_bridge E name =
     bind (get_bridge E name) (\<lambda>device.
     bind
       (if Device_is_running device then
          bind (give (confirm E ''Stop bridge?'')) (\<lambda>_.
          bind (on_world (Device_stop (ce_os E) device)) (\<lambda>device.
          bind (on_db (Device_save device)) (\<lambda>_. give (Ok device))))
        else give (Ok device)) (\<lambda>device.
     bind (give (confirm E ''Delete bridge?'')) (\<lambda>_.
     bind (on_db (Device_delete device)) (\<lambda>_. println ''delete device''))))"

section \<open>Kernels and images\<close>

text \<open>The word after \<open>version\<close>.\<close>

definition extract_version :: "string \<Rightarrow> string option" where
  "extract_version output =
     (case drop 1 (dropWhile (\<lambda>s. s \<noteq> ''version'') (split_on (\<lambda>c. c = CHR '' '') output)) of [] \<Rightarrow> None | v # _ \<Rightarrow> Some v)"

definition starts_with :: "string \<Rightarrow> string \<Rightarrow> bool" where
  "starts_with p s = (take (length p) s = p)"

text \<open>
  \<open>detect_kernel_version\<close> on the outputs of \<open>file\<close> and \<open>strings\<close>. The lines are those of \<open>str::lines\<close> up to
  a carriage return at their end, which does not matter here.
\<close>

definition detect_kernel_version :: "(string, anyhow) res \<Rightarrow> (string, anyhow) res \<Rightarrow> (string option, anyhow) res" where
  "detect_kernel_version file_output strings_output =
     and_then file_output (\<lambda>output.
     if starts_with ''Linux kernel'' output then Ok (extract_version output)
     else if starts_with ''ELF'' output then
       and_then strings_output (\<lambda>iter.
       case filter (starts_with ''Linux version'') (split_on (\<lambda>c. c = CHR 10) iter) of
         vers # _ \<Rightarrow> Ok (extract_version vers)
       | [] \<Rightarrow> Ok None)
     else Ok None)"

text \<open>\<open>detected\<close> is the outcome of detecting the version, \<open>asked\<close> what the user is asked for when there is none.\<close>

definition kernel_install ::
  "'w cmd_env \<Rightarrow> uuid \<Rightarrow> (string option, anyhow) res \<Rightarrow> (string, anyhow) res \<Rightarrow> string \<Rightarrow> string option \<Rightarrow> bool \<Rightarrow> (unit, 'j, 'f, 'w) cmd" where
  "kernel_install E new_id detected asked path name is_default =
     bind (give (name_or E name)) (\<lambda>name.
     bind (give detected) (\<lambda>detected.
     bind (case detected of
         Some vers \<Rightarrow> give (Ok vers)
       | None \<Rightarrow> bind (println (''Unable to detect kernel version. Are you sure '' @ path @
           '' is a linux kernel image? If so, specify the version'')) (\<lambda>_. give asked)) (\<lambda>version.
     bind (read_file E path) (\<lambda>content.
     let k = Kernel_new new_id (hash_file E content) name version is_default in
     bind (write_over E (Kernel_path (State_kernel_dir E) k) content) (\<lambda>_.
     on_db (Kernel_save k))))))"

definition kernel_set_default :: "string \<Rightarrow> (unit, 'j, 'f, 'w) cmd" where
  "kernel_set_default name = bind (on_db (Kernel_get name)) (\<lambda>k. on_db (Kernel_save (Kernel_set_default k)))"

definition kernel_list :: "(unit, 'j, 'f, 'w) cmd" where
  "kernel_list = bind (on_db Kernel_get_all) (\<lambda>ks. print_glyphs (draw_table Kernel_header (map Kernel_table_row ks)))"

definition mime_format :: "string \<Rightarrow> (DiskFormat, 'j, 'f, 'w) cmd" where
  "mime_format mime =
     (if mime = ''application/x-qemu-disk'' then give (Ok Qcow2)
      else if mime = ''application/octet-stream'' then give (Ok Raw)
      else bind (println (''unknown mime type '' @ mime @ '', setting format to raw'')) (\<lambda>_. give (Ok Raw)))"

definition image_install :: "'w cmd_env \<Rightarrow> uuid \<Rightarrow> string \<Rightarrow> string option \<Rightarrow> u8 option \<Rightarrow> (unit, 'j, 'f, 'w) cmd" where
  "image_install E new_id path name root =
     bind (give (name_or E name)) (\<lambda>name.
     bind (give (State_get_mime E path)) (\<lambda>mime.
     bind (mime_format mime) (\<lambda>format.
     bind (read_file E path) (\<lambda>content.
     let i = DiskImage_new new_id (hash_file E content) name format root in
     bind (write_over E (DiskImage_path (State_image_dir E) i) content) (\<lambda>_.
     on_db (DiskImage_save i))))))"

definition image_list :: "(unit, 'j, 'f, 'w) cmd" where
  "image_list = bind (on_db DiskImage_get_all) (\<lambda>ims. print_glyphs (draw_table DiskImage_header (map DiskImage_table_row ims)))"

section \<open>Machines\<close>

definition get_shard :: "'w cmd_env \<Rightarrow> string \<Rightarrow> (Shard, 'j, 'f, 'w) cmd" where
  "get_shard E name =
     bind (on_query (\<lambda>w. Shard_get (ce_os E) w name)) (\<lambda>s. give (ok_or s (Message ''shard not found'')))"

definition Shard_deploy :: "'w cmd_env \<Rightarrow> Shard \<Rightarrow> (unit, 'j, 'f, 'w) cmd" where
  "Shard_deploy E self =
     bind (give (io_error_of E (Shard_dir (State_shard_dir E) self))) (\<lambda>_.
     bind (hard_link E (Kernel_path (State_kernel_dir E) (sh_kernel self)) (Shard_kernel_path (State_shard_dir E) self)) (\<lambda>_.
     copy_file E (DiskImage_path (State_image_dir E) (sh_boot_disk self)) (Shard_boot_disk_path (State_shard_dir E) self)))"

definition Shard_purge :: "'w cmd_env \<Rightarrow> Shard \<Rightarrow> (unit, 'j, 'f, 'w) cmd" where
  "Shard_purge E self =
     bind (on_db (Shard_delete self)) (\<lambda>_. remove_dir_all E (Shard_dir (State_shard_dir E) self))"

record DeployOpts =
  do_name :: "string option"
  do_image :: string
  do_kernel :: "string option"
  do_memory :: u16
  do_cpu :: string
  do_network :: "string list"

definition deploy_banner :: "string \<Rightarrow> DiskImage \<Rightarrow> Kernel \<Rightarrow> DeployOpts \<Rightarrow> 'j Device list \<Rightarrow> string list" where
  "deploy_banner name img kern opts devices =
     [''shard configuration:'', ''--> name:    '' @ name, ''--> image:   '' @ DiskImage_to_string img,
      ''--> kernel:  '' @ Kernel_to_string kern, ''--> memory:  '' @ show_dec (unat (do_memory opts)) @ ''M'',
      ''--> cpu:     '' @ do_cpu opts] @ map (\<lambda>dev. ''--> network: '' @ d_name dev) devices"

text \<open>\<open>macs\<close> are the MAC addresses generated for the networks.\<close>

definition shard_deploy :: "'w cmd_env \<Rightarrow> uuid \<Rightarrow> MacAddress list \<Rightarrow> DeployOpts \<Rightarrow> (unit, 'j, 'f, 'w) cmd" where
  "shard_deploy E new_id macs opts =
     bind (give (name_or E (do_name opts))) (\<lambda>name.
     bind (on_db (DiskImage_get (do_image opts))) (\<lambda>image.
     bind (on_db (case do_kernel opts of None \<Rightarrow> Kernel_get_default | Some name \<Rightarrow> Kernel_get name)) (\<lambda>kern.
     bind (on_query (\<lambda>w. Device_get_many (ce_os E) (ce_hash_order E) w (do_network opts))) (\<lambda>devices.
     bind (print_glyphs (map (map Ch) (deploy_banner name image kern opts devices))) (\<lambda>_.
     bind (give (confirm E ''Deploy Shard?'')) (\<lambda>_.
     let builder = ShardBuilder_boot_disk (ShardBuilder_kernel (ShardBuilder_memory (ShardBuilder_cpu
           (ShardBuilder_name ShardBuilder_default name) (do_cpu opts)) (do_memory opts)) kern) image;
         builder = foldl (\<lambda>b (dev, mac). ShardBuilder_add_network b dev mac) builder (zip devices macs) in
     bind (give (ShardBuilder_build new_id (State_generate_cid E) builder)) (\<lambda>shard.
     bind (on_db (Shard_save shard)) (\<lambda>_.
     Shard_deploy E shard))))))))"

text \<open>\<open>hypervisor\<close> creates the hypervisor for the configuration of the machine; the networks are none.\<close>

definition shard_run ::
  "'w cmd_env \<Rightarrow> ((string \<times> u8 \<times> u8 \<times> u8) list \<Rightarrow> string \<Rightarrow> u32 \<Rightarrow> MachineConfig \<Rightarrow> ('v, anyhow) res) \<Rightarrow>
   (uuid \<Rightarrow> (SqliteSubscriber, anyhow) res) \<Rightarrow> (SqliteSubscriber Forker \<Rightarrow> 'v \<Rightarrow> (bytes, anyhow, 'w) act) \<Rightarrow> string \<Rightarrow> (unit, 'j, 'f, 'w) cmd" where
  "shard_run E hypervisor logger forked name =
     bind (get_shard E name) (\<lambda>shard.
     let cfg = Shard_generate_machine_config (State_shard_dir E) shard in
     bind (give (any_context ''unable to create hypervisor'' (hypervisor [] (sp_name (sh_params shard)) (sp_cid (sh_params shard)) cfg))) (\<lambda>hv.
     bind (give (logger (sp_id (sh_params shard)))) (\<lambda>logger.
     bind (on_world (forked (Forker_cwd (Forker_with_subscriber logger) (Shard_dir (State_shard_dir E) shard)) hv)) (\<lambda>b.
     on_db (Shard_save (Shard_set_running shard (fork_pid b)))))))"

definition list_shards :: "'w cmd_env \<Rightarrow> (unit, 'j, 'f, 'w) cmd" where
  "list_shards E =
     bind (on_query (Shard_get_all (ce_os E))) (\<lambda>shards.
     if shards = [] then println ''no shards found!''
     else print_glyphs (draw_table Shard_header (map (Shard_table_row (ce_styled E)) shards)))"

definition stop_shard :: "'w cmd_env \<Rightarrow> string \<Rightarrow> (unit, 'j, 'f, 'w) cmd" where
  "stop_shard E name =
     bind (get_shard E name) (\<lambda>shard.
     bind (give (confirm E ''Stop shard?'')) (\<lambda>_.
     bind (on_world (Shard_stop (ce_os E) shard)) (\<lambda>shard.
     on_db (Shard_save shard))))"

definition shard_delete :: "'w cmd_env \<Rightarrow> string \<Rightarrow> (unit, 'j, 'f, 'w) cmd" where
  "shard_delete E name =
     bind (get_shard E name) (\<lambda>shard.
     if Shard_is_running shard then give (Err (Message ''shard is running. stop shard before deleting''))
     else bind (println ''WARNING: this action will delete ALL shard files and is unrecoverable!'') (\<lambda>_. bind (give (confirm E ''Delete shard?'')) (\<lambda>_. Shard_purge E shard)))"

text \<open>\<open>attach\<close> is the client of the guest agent (\<open>client_run\<close> of theory \<open>Fabrial_Client\<close>).\<close>

definition attach_shard :: "'w cmd_env \<Rightarrow> (u32 \<Rightarrow> u32 \<Rightarrow> (unit, anyhow, 'w) act) \<Rightarrow> string \<Rightarrow> u32 \<Rightarrow> (unit, 'j, 'f, 'w) cmd" where
  "attach_shard E attach name port = bind (get_shard E name) (\<lambda>shard. on_world (attach (sp_cid (sh_params shard)) port))"

definition shard_logs :: "'w cmd_env \<Rightarrow> 'f log_fmt \<Rightarrow> string \<Rightarrow> LogFormat \<Rightarrow> (unit, 'j, 'f, 'w) cmd" where
  "shard_logs E T name format = bind (get_shard E name) (\<lambda>shard. print_logs T (sp_id (sh_params shard)) format)"

section \<open>The default kernel\<close>

lemma on_db_simps [simp]:
  "on_db m s = (fst (m (a_db s)), s\<lparr>a_db := snd (m (a_db s))\<rparr>)"
  by (simp add: on_db_def case_prod_beta)

lemma wf_kernel_row:
  assumes "db_wf db" and "r \<in> set (db_kernels db)"
  shows "\<exists>k. r = kernel_row_of k \<and> Kernel_from_row r = Ok k"
  using assms unfolding db_wf_def by (metis (no_types, opaque_lifting) Kernel_row_roundtrip imageE subsetD)

lemma enforce_default_keeps:
  "map (\<lambda>x. (kr_id x, kr_hash x)) (enforce_kernel_default r rows) = map (\<lambda>x. (kr_id x, kr_hash x)) rows"
  by (simp add: enforce_kernel_default_def)

text \<open>
  C21: setting the default kernel by the name of an installed kernel succeeds, and afterwards the default
  kernel is the one with this name; nothing else of the application changes.
\<close>

theorem kernel_set_default_effective:
  assumes "db_reachable (a_db s)" and "name \<in> kr_name ` set (db_kernels (a_db s))"
  shows "\<exists>s' k. kernel_set_default name s = (Ok (), s') \<and> Kernel_get_default (a_db s') = (Ok k, a_db s') \<and> k_name k = name \<and>
     a_db s' = (a_db s)\<lparr>db_kernels := db_kernels (a_db s')\<rparr> \<and> a_files s' = a_files s \<and> a_world s' = a_world s \<and> a_out s' = a_out s"
proof -
  let ?db = "a_db s"
  note wf = db_reachable_wf [OF assms(1)]
  from assms(2) obtain r rs where r: "filter (\<lambda>r. kr_name r = name) (db_kernels ?db) = r # rs"
    by (metis (mono_tags, lifting) filter_empty_conv imageE neq_Nil_conv)
  have "r \<in> set (filter (\<lambda>r. kr_name r = name) (db_kernels ?db))" unfolding r by simp
  then have r_in: "r \<in> set (db_kernels ?db)" "kr_name r = name" by simp_all
  obtain k where k: "r = kernel_row_of k" "Kernel_from_row r = Ok k" using wf_kernel_row [OF wf r_in(1)] by blast
  let ?k = "Kernel_set_default k" let ?r = "kernel_row_of ?k" let ?rows = "enforce_kernel_default ?r (db_kernels ?db)"
  have get: "Kernel_get name ?db = (Ok k, ?db)" using r k(2) by (simp add: Kernel_get_def transaction_def query_row_def)
  have def1: "kr_is_default ?r = 1" "kr_id ?r = kr_id r" "kr_hash ?r = kr_hash r" "kr_name ?r = name"
    using k(1) r_in(2) by (auto simp: kernel_row_of_def Kernel_set_default_def)
  have ok: "kernels.table_ok ?rows" by (rule enforce_default_ok) (use wf in \<open>simp add: db_wf_def\<close>)
  have "(kr_id r, kr_hash r) \<in> set (map (\<lambda>x. (kr_id x, kr_hash x)) ?rows)"
    unfolding enforce_default_keeps using r_in(1) by auto
  then have "\<exists>x \<in> set ?rows. kr_id x = kr_id r \<and> kr_hash x = kr_hash r" by auto
  then have "kr_hash x \<noteq> kr_hash ?r" if "x \<in> set ?rows" "kr_id x \<noteq> kr_id ?r" for x
    using ok that def1 unfolding kernels.table_ok_def by metis
  then obtain rows' where rows': "upsert kr_id (\<lambda>x y. kr_hash x = kr_hash y) ?r ?rows = Ok rows'"
    using kernels.upsert_accepts [of ?rows ?r] by blast
  note set_rows' = kernels.upsert_set [OF rows']
  have "filter (\<lambda>x. kr_is_default x = 1) rows' = filter (\<lambda>x. kr_id x = kr_id ?r) rows'"
    using enforce_default_none [OF def1(1)] def1(1) by (intro filter_cong) (auto simp: set_rows')
  also have "\<dots> = [?r]" using kernels.filter_key [OF kernels.upsert_ok [OF ok rows']] set_rows' by simp
  finally have "Kernel_get_default (?db\<lparr>db_kernels := rows'\<rparr>) = (Ok ?k, ?db\<lparr>db_kernels := rows'\<rparr>)"
    by (simp add: Kernel_get_default_def transaction_def query_row_def)
  moreover have "Kernel_save ?k ?db = (Ok (), ?db\<lparr>db_kernels := rows'\<rparr>)"
    using rows' by (simp add: Kernel_save_def transaction_def Let_def)
  moreover have "k_name ?k = name" using k(1) r_in(2) by (simp add: kernel_row_of_def Kernel_set_default_def)
  ultimately show ?thesis using get
    by (intro exI [of _ "s\<lparr>a_db := ?db\<lparr>db_kernels := rows'\<rparr>\<rparr>"] exI [of _ ?k]) (simp add: kernel_set_default_def bind_def)
qed

section \<open>Installing an image\<close>

lemma take_chunks:
  assumes "0 < n"
  shows "concat (take m (chunks_of n xs)) = take (m * n) xs"
proof (induction m arbitrary: xs)
  case (Suc m)
  show ?case
  proof (cases "xs = []")
    case False
    then have "concat (take (Suc m) (chunks_of n xs)) = take n xs @ take (m * n) (drop n xs)"
      using assms Suc by (subst chunks_of.simps) simp
    also have "\<dots> = take (Suc m * n) xs" by (simp add: take_add [symmetric])
    finally show ?thesis .
  qed (simp add: chunks_of.simps)
qed simp

lemma hash_file_prefix: "hash_file E content = ce_hash E (take 8388608 content)"
  by (simp add: hash_file_def take_chunks)

text \<open>
  C40: installing an image whose first 8 MiB are those of an installed one, as with a second version of an
  image, is reported as an error and changes nothing in the database, but the file of the installed
  image has been overwritten: the hash that names the file covers no more than these bytes, and the
  file is written before the row is inserted.
\<close>

theorem image_install_overwrites:
  assumes "image_row_of i \<in> set (db_images (a_db s))" and "im_id i \<noteq> new_id"
    and "im_hash i = hash_file E old" and "a_files s (DiskImage_path (State_image_dir E) i) = Some old"
    and "a_files s path = Some content" and "take 8388608 content = take 8388608 old"
    and "ce_mime E path = Ok mime" and "ce_fail E path = None" and "ce_fail E (DiskImage_path (State_image_dir E) i) = None"
  shows "\<exists>s'. image_install E new_id path (Some name) root s = (Err (Sql (ConstraintViolation ''UNIQUE'')), s') \<and> a_db s' = a_db s \<and>
     a_files s' (DiskImage_path (State_image_dir E) i) = Some (content @ drop (length content) old)"
proof -
  have "\<exists>format s1. mime_format mime s = (Ok format, s1) \<and> a_db s1 = a_db s \<and> a_files s1 = a_files s"
    by (cases "mime = ''application/x-qemu-disk''"; cases "mime = ''application/octet-stream''")
      (simp_all add: mime_format_def give_def bind_def println_def print_glyphs_def)
  then obtain format s1 where fmt: "mime_format mime s = (Ok format, s1)" "a_db s1 = a_db s" "a_files s1 = a_files s" by blast
  let ?i = "DiskImage_new new_id (hash_file E content) name format root"
  have h: "hash_file E content = im_hash i" using assms(3,6) by (simp add: hash_file_prefix)
  have path: "DiskImage_path (State_image_dir E) ?i = DiskImage_path (State_image_dir E) i"
    by (simp add: DiskImage_path_def DiskImage_new_def h)
  have "upsert ir_id (\<lambda>x y. ir_hash x = ir_hash y) (image_row_of ?i) (db_images (a_db s)) = Err (Sql (ConstraintViolation ''UNIQUE''))"
    using assms(1,2) h by (auto simp: upsert_def image_row_of_def DiskImage_new_def intro!: bexI [OF _ assms(1)])
  then have "DiskImage_save ?i (a_db s) = (Err (Sql (ConstraintViolation ''UNIQUE'')), a_db s)"
    by (simp add: DiskImage_save_def transaction_def)
  then show ?thesis using assms(4,5,7-9) path fmt
    by (simp add: image_install_def name_or_def State_get_mime_def bind_def give_def read_file_def io_error_of_def write_over_def Let_def overwrite_def)
qed

section \<open>Stopping and deleting a machine\<close>

text \<open>
  C16: when stopping a running machine succeeds, its process is gone, and the database has the machine
  without a process, with its other values as before and the other machines unchanged.
\<close>

theorem stop_shard_stops:
  assumes "Shard_get (ce_os E) (a_world s) name (a_db s) = (Ok (Some sh), a_db s)" and "sp_state (sh_params sh) = Running pid"
    and "stop_shard E name s = (Ok (), s')"
  shows "po_alive (ce_os E) (a_world s') pid = Err ESRCH \<and>
     set (db_shards (a_db s')) = insert (shard_row_of sh\<lparr>sr_pid := None\<rparr>) {r \<in> set (db_shards (a_db s)). sr_id r \<noteq> sp_id (sh_params sh)} \<and>
     a_db s' = (a_db s)\<lparr>db_shards := db_shards (a_db s')\<rparr>"
proof -
  let ?sh = "Shard_set_stopped sh"
  have get: "get_shard E name s = (Ok sh, s)" using assms(1) by (simp add: get_shard_def on_query_def bind_def give_def)
  with assms(3) have conf: "confirm E ''Stop shard?'' = Ok ()"
    by (cases "confirm E ''Stop shard?''") (auto simp: stop_shard_def bind_def give_def)
  obtain w where stopped: "process_stop (ce_os E) pid (a_world s) = (Ok (), w)"
    and saved: "on_db (Shard_save ?sh) (s\<lparr>a_world := w\<rparr>) = (Ok (), s')"
    using assms(2,3) get conf
    by (auto simp: stop_shard_def bind_def give_def on_world_def Shard_stop_def split: prod.splits res.splits)
  obtain rows where rows: "upsert sr_id (\<lambda>x y. False) (shard_row_of ?sh) (db_shards (a_db s)) = Ok rows"
    using shards.upsert_accepts by blast
  have "s' = s\<lparr>a_world := w, a_db := (a_db s)\<lparr>db_shards := rows\<rparr>\<rparr>"
    using saved rows by (simp add: Shard_save_def transaction_def on_err_def)
  moreover have "shard_row_of ?sh = shard_row_of sh\<lparr>sr_pid := None\<rparr>" "sr_id (shard_row_of ?sh) = sp_id (sh_params sh)"
    by (simp_all add: shard_row_of_def Shard_set_stopped_def Shard_set_state_def Let_def)
  ultimately show ?thesis
    using shards.upsert_set [OF rows] stop_loop_gone [OF stopped [unfolded process_stop_def]] by simp
qed

text \<open>A running machine is not deleted.\<close>

lemma shard_delete_running:
  assumes "Shard_get (ce_os E) (a_world s) name (a_db s) = (Ok (Some sh), a_db s)" and "sp_state (sh_params sh) = Running pid"
  shows "shard_delete E name s = (Err (Message ''shard is running. stop shard before deleting''), s)"
  using assms by (simp add: shard_delete_def get_shard_def on_query_def bind_def give_def Shard_is_running_def)

section \<open>An application to evaluate the properties at\<close>

definition sample_cmd_env :: "nat cmd_env" where
  "sample_cmd_env = \<lparr>ce_base = ''/tmp'', ce_no_confirm = True, ce_os = sample_proc_os, ce_confirm = (\<lambda>_. Ok True), ce_fail = (\<lambda>_. None),
     ce_mime = (\<lambda>_. Ok ''application/x-qemu-disk''), ce_hash = (\<lambda>_. ''I7''),
     ce_styled = ProcessState_to_string, ce_next_name = Some ''brave-hat'', ce_range = (\<lambda>lo hi. lo), ce_hash_order = rev\<rparr>"

text \<open>Two images of more than 8 MiB that differ in their last byte; the second is not yet installed.\<close>

definition sample_block :: bytes where
  "sample_block = replicate 8388608 0"

lemma length_sample_block: "length sample_block = 8388608"
  unfolding sample_block_def by (rule length_replicate)

definition sample_app :: "(string, nat, nat) app" where
  "sample_app = \<lparr>a_db = snd (Shard_save sample_shard sample_db),
     a_files = (\<lambda>p. if p = ''/home/new.img'' then Some (sample_block @ [2]) else Some (sample_block @ [1])), a_world = 7, a_out = []\<rparr>"

lemma sample_app_db:
  "a_db sample_app = sample_db\<lparr>db_shards := [shard_row_of sample_shard]\<rparr>" "a_world sample_app = 7"
  by (simp_all add: sample_app_def Shard_save_def transaction_def on_err_def upsert_def sample_db_rows)

lemma sample_app_reachable: "db_reachable (a_db sample_app)"
  unfolding sample_app_def
  by (simp, rule next_db [OF sample_db_reachable shard_saved [OF _ prod.collapse [symmetric]]]) (simp add: sample_shard_def)

theorem kernel_set_default_effective_witness:
  "\<exists>s' k. kernel_set_default ''linux'' sample_app = (Ok (), s') \<and> Kernel_get_default (a_db s') = (Ok k, a_db s') \<and> k_name k = ''linux''"
  using kernel_set_default_effective [OF sample_app_reachable, of "''linux''"]
  by (auto simp: sample_app_db sample_db_rows kernel_row_of_def sample_kernel_def Kernel_new_def)

theorem image_install_overwrites_witness:
  "\<exists>s'. image_install sample_cmd_env 9 ''/home/new.img'' (Some ''debian2'') None sample_app = (Err (Sql (ConstraintViolation ''UNIQUE'')), s') \<and>
     a_db s' = a_db sample_app \<and> a_files s' (DiskImage_path (State_image_dir sample_cmd_env) sample_image) = Some (sample_block @ [2])"
proof -
  have path: "DiskImage_path (State_image_dir sample_cmd_env) sample_image \<noteq> ''/home/new.img''"
    by (simp add: DiskImage_path_def State_image_dir_def State_subdir_def sample_cmd_env_def sample_image_def DiskImage_new_def
        path_join_def with_extension_def rev_stem_def Let_def)
  have fs: "a_files sample_app (DiskImage_path (State_image_dir sample_cmd_env) sample_image) = Some (sample_block @ [1])"
    "a_files sample_app ''/home/new.img'' = Some (sample_block @ [2])" using path by (simp_all add: sample_app_def)
  have pre: "take 8388608 (sample_block @ [2]) = take 8388608 (sample_block @ [1])" by (simp add: length_sample_block)
  have row: "image_row_of sample_image \<in> set (db_images (a_db sample_app))" by (simp add: sample_app_db sample_db_rows)
  have h: "im_id sample_image \<noteq> 9" "im_hash sample_image = hash_file sample_cmd_env (sample_block @ [1])"
    by (simp_all add: sample_image_def DiskImage_new_def hash_file_def sample_cmd_env_def)
  have env: "ce_mime sample_cmd_env ''/home/new.img'' = Ok ''application/x-qemu-disk''" "ce_fail sample_cmd_env ''/home/new.img'' = None"
    "ce_fail sample_cmd_env (DiskImage_path (State_image_dir sample_cmd_env) sample_image) = None"
    by (simp_all add: sample_cmd_env_def)
  from image_install_overwrites [OF row h fs pre env, of "''debian2''" None] show ?thesis by (simp add: length_sample_block)
qed

theorem stop_shard_stops_witness:
  "po_alive sample_proc_os (a_world (snd (stop_shard sample_cmd_env ''vm0'' sample_app))) 42 = Err ESRCH"
proof -
  have os: "ce_os sample_cmd_env = sample_proc_os" by (simp add: sample_cmd_env_def)
  have ids: "ir_id (image_row_of i) = im_id i" "kr_id (kernel_row_of k) = k_id k" for i k
    by (simp_all add: image_row_of_def kernel_row_of_def)
  have get: "Shard_get sample_proc_os 7 ''vm0'' (a_db sample_app) = (Ok (Some sample_shard), a_db sample_app)"
    by (simp add: Shard_get_def transaction_def query_row_def sample_app_db sample_db_rows shard_join_def Shard_from_row_def
        ShardParams_from_row_def shard_row_of_def sample_shard_def process_check_def sample_proc_os_def int_in_def ids)
  have "process_stop sample_proc_os 42 7 = (Ok (), 0)"
    by (simp add: process_stop_def stop_loop.simps sample_proc_os_def process_check_def)
  then have st: "on_world (Shard_stop sample_proc_os sample_shard) sample_app = (Ok (Shard_set_stopped sample_shard), sample_app\<lparr>a_world := 0\<rparr>)"
    by (simp add: on_world_def Shard_stop_def sample_shard_def bind_def give_def sample_app_db(2))
  have g: "get_shard sample_cmd_env ''vm0'' sample_app = (Ok sample_shard, sample_app)"
    using get by (simp add: get_shard_def on_query_def bind_def give_def os sample_app_db(2))
  have conf: "confirm sample_cmd_env p = Ok ()" for p by (simp add: confirm_def sample_cmd_env_def)
  obtain rows where "upsert sr_id (\<lambda>x y. False) (shard_row_of (Shard_set_stopped sample_shard)) (db_shards (a_db sample_app)) = Ok rows"
    using shards.upsert_accepts by blast
  then obtain s' where s': "stop_shard sample_cmd_env ''vm0'' sample_app = (Ok (), s')"
    by (simp add: stop_shard_def bind_def give_def g conf os st Shard_save_def transaction_def on_err_def)
  have run: "sp_state (sh_params sample_shard) = Running 42" by (simp add: sample_shard_def)
  have "Shard_get (ce_os sample_cmd_env) (a_world sample_app) ''vm0'' (a_db sample_app) = (Ok (Some sample_shard), a_db sample_app)"
    using get by (simp add: os sample_app_db(2))
  from stop_shard_stops [OF this run s'] show ?thesis by (simp add: s' os)
qed

end
