(* ===== verification/Cli.thy ===== *)
theory Cli
  imports Commands
begin

text \<open>
  The program of the command line, \<^verbatim>\<open>oathgate/src/main.rs\<close>, with the command enums of \<^verbatim>\<open>oathgate/src/cmd/*.rs\<close>: the
  options, the state of one invocation, the dispatch of a command, and \<open>main\<close>. Parsing the arguments is left to
  \<open>clap\<close>. What an invocation gets from its surroundings is in the record \<open>cli_env\<close>; the surroundings that last
  from one invocation to the next are \<open>cli_state\<close>, where the database file is \<open>None\<close> until it is created.
\<close>

section \<open>Commands and options\<close>

datatype BridgeCommand =
    BridgeCreate string "string option"
  | BridgeStart "string option" LogLevel string
  | BridgeList
  | BridgeLogs string LogFormat
  | BridgeStop string
  | BridgeDelete string
  | BridgeTest

datatype KernelCommand =
    KernelInstall string "string option" bool
  | KernelList
  | KernelSetDefault string

datatype ImageCommand =
    ImageInstall string "string option" "u8 option"
  | ImageList

datatype ShardCommand =
    ShardDeploy DeployOpts
  | ShardRun string
  | ShardList
  | ShardLogs string LogFormat
  | ShardAttach string u32
  | ShardStop string
  | ShardDelete string

datatype Command =
    CommandBridge BridgeCommand
  | CommandKernel KernelCommand
  | CommandImage ImageCommand
  | CommandShard ShardCommand
  | CommandStatus

record Opts =
  op_verbose :: u8
  op_silent :: bool
  op_base :: string
  op_database :: string
  op_yes_dont_ask_again :: bool
  op_command :: Command

text \<open>The base directory is created or has to be one; the database is below it unless its path is absolute.\<close>

datatype base_dir = Missing | IsDir | NotDir

definition Opts_validate :: "base_dir \<Rightarrow> (unit, io_error) res \<Rightarrow> Opts \<Rightarrow> (Opts, anyhow) res" where
  "Opts_validate kind create opts =
     and_then (case kind of Missing \<Rightarrow> unwrap create | IsDir \<Rightarrow> Ok () | NotDir \<Rightarrow> Panic) (\<lambda>_.
     Ok (if take 1 (op_database opts) = ''/'' then opts else opts\<lparr>op_database := path_join (op_base opts) (op_database opts)\<rparr>))"

definition max_log_level :: "u8 \<Rightarrow> tracing_level" where
  "max_log_level v = (if v = 0 then WARN else if v = 1 then INFO else if v = 2 then DEBUG else TRACE)"

text \<open>The state of an invocation: the environment of the commands, the level of the loggers, and the database.\<close>

definition State_new ::
  "(unit, anyhow) res \<Rightarrow> ('j, 'f) db option \<Rightarrow> 'w cmd_env \<Rightarrow> Opts \<Rightarrow> ('w cmd_env \<times> tracing_level \<times> ('j, 'f) db, anyhow) res" where
  "State_new conn file E opts =
     and_then (Database_open conn file) (\<lambda>db.
     Ok (E\<lparr>ce_base := op_base opts, ce_no_confirm := op_yes_dont_ask_again opts\<rparr>, max_log_level (op_verbose opts), db))"

definition State_subscriber :: "tracing_level \<Rightarrow> (unit, anyhow) res \<Rightarrow> uuid \<Rightarrow> (SqliteSubscriber, anyhow) res" where
  "State_subscriber level opened device_id =
     SqliteSubscriberBuilder_finish opened (SqliteSubscriberBuilder_with_device_id device_id
       (SqliteSubscriberBuilder_with_max_level level SqliteSubscriber_builder))"

section \<open>Dispatch\<close>

record ('j, 'f, 'c, 'v, 'w) cli_env =
  cl_env :: "'w cmd_env"
  cl_base_dir :: base_dir
  cl_create_base :: "(unit, io_error) res"
  cl_conn :: "(unit, anyhow) res"
  cl_log_conn :: "(unit, anyhow) res"
  cl_new_id :: uuid
  cl_macs :: "MacAddress list"
  cl_load_config :: "string \<Rightarrow> ('j, anyhow) res"
  cl_decode :: "'j \<Rightarrow> ('c, anyhow) res"
  cl_fork_bridge :: "SqliteSubscriber Forker \<Rightarrow> 'c Bridge \<Rightarrow> (bytes, anyhow, 'w) act"
  cl_hypervisor :: "(string \<times> u8 \<times> u8 \<times> u8) list \<Rightarrow> string \<Rightarrow> u32 \<Rightarrow> MachineConfig \<Rightarrow> ('v, anyhow) res"
  cl_fork_shard :: "SqliteSubscriber Forker \<Rightarrow> 'v \<Rightarrow> (bytes, anyhow, 'w) act"
  cl_file :: "string \<Rightarrow> (string, anyhow) res"
  cl_strings :: "string \<Rightarrow> (string, anyhow) res"
  cl_ask_version :: "(string, anyhow) res"
  cl_attach :: "u32 \<Rightarrow> u32 \<Rightarrow> (unit, anyhow, 'w) act"
  cl_fmt :: "'f log_fmt"

text \<open>The level given to \<open>start\<close> is not looked at.\<close>

definition BridgeCommand_execute ::
  "('j, 'f, 'c, 'v, 'w) cli_env \<Rightarrow> 'w cmd_env \<Rightarrow> tracing_level \<Rightarrow> BridgeCommand \<Rightarrow> (unit, 'j, 'f, 'w) cmd" where
  "BridgeCommand_execute C E level self =
     on_err (Context ''failed to execute bridge command'')
       (case self of
          BridgeCreate config name \<Rightarrow> create_bridge E (cl_new_id C) (cl_load_config C config) name
        | BridgeStart pcap log_level name \<Rightarrow> start_bridge E (cl_decode C) (State_subscriber level (cl_log_conn C)) (cl_fork_bridge C) name pcap
        | BridgeList \<Rightarrow> list_bridges E
        | BridgeLogs name format \<Rightarrow> bridge_logs E (cl_fmt C) name format
        | BridgeStop name \<Rightarrow> stop_bridge E name
        | BridgeDelete name \<Rightarrow> delete_bridge E name
        | BridgeTest \<Rightarrow> give (Ok ()))"

definition KernelCommand_execute ::
  "('j, 'f, 'c, 'v, 'w) cli_env \<Rightarrow> 'w cmd_env \<Rightarrow> KernelCommand \<Rightarrow> (unit, 'j, 'f, 'w) cmd" where
  "KernelCommand_execute C E self =
     (case self of
        KernelInstall path name is_default \<Rightarrow>
          kernel_install E (cl_new_id C) (detect_kernel_version (cl_file C path) (cl_strings C path)) (cl_ask_version C) path name is_default
      | KernelList \<Rightarrow> kernel_list
      | KernelSetDefault name \<Rightarrow> kernel_set_default name)"

definition ImageCommand_execute ::
  "('j, 'f, 'c, 'v, 'w) cli_env \<Rightarrow> 'w cmd_env \<Rightarrow> ImageCommand \<Rightarrow> (unit, 'j, 'f, 'w) cmd" where
  "ImageCommand_execute C E self =
     (case self of
        ImageInstall path name root \<Rightarrow> image_install E (cl_new_id C) path name root
      | ImageList \<Rightarrow> image_list)"

definition ShardCommand_execute ::
  "('j, 'f, 'c, 'v, 'w) cli_env \<Rightarrow> 'w cmd_env \<Rightarrow> tracing_level \<Rightarrow> ShardCommand \<Rightarrow> (unit, 'j, 'f, 'w) cmd" where
  "ShardCommand_execute C E level self =
     (case self of
        ShardDeploy opts \<Rightarrow> shard_deploy E (cl_new_id C) (cl_macs C) opts
      | ShardRun name \<Rightarrow> shard_run E (cl_hypervisor C) (State_subscriber level (cl_log_conn C)) (cl_fork_shard C) name
      | ShardList \<Rightarrow> list_shards E
      | ShardLogs name format \<Rightarrow> shard_logs E (cl_fmt C) name format
      | ShardAttach name port \<Rightarrow> attach_shard E (cl_attach C) name port
      | ShardStop name \<Rightarrow> stop_shard E name
      | ShardDelete name \<Rightarrow> shard_delete E name)"

fun Command_execute ::
  "('j, 'f, 'c, 'v, 'w) cli_env \<Rightarrow> 'w cmd_env \<Rightarrow> tracing_level \<Rightarrow> Command \<Rightarrow> (unit, 'j, 'f, 'w) cmd" where
  "Command_execute C E level (CommandBridge c) = BridgeCommand_execute C E level c"
| "Command_execute C E level (CommandKernel c) = KernelCommand_execute C E c"
| "Command_execute C E level (CommandImage c) = ImageCommand_execute C E c"
| "Command_execute C E level (CommandShard c) = ShardCommand_execute C E level c"
| "Command_execute C E level CommandStatus =
     bind (println ''Networks'') (\<lambda>_.
     bind (BridgeCommand_execute C E level BridgeList) (\<lambda>_.
     bind (println ''Images'') (\<lambda>_.
     bind (ImageCommand_execute C E ImageList) (\<lambda>_.
     bind (println ''Kernels'') (\<lambda>_.
     bind (KernelCommand_execute C E KernelList) (\<lambda>_.
     bind (println '''') (\<lambda>_.
     bind (println ''Shards'') (\<lambda>_.
     ShardCommand_execute C E level ShardList))))))))"

section \<open>The program\<close>

text \<open>\<open>cs_err\<close> are the errors printed on the error output.\<close>

record ('j, 'f, 'w) cli_state =
  cs_db :: "('j, 'f) db option"
  cs_files :: "string \<rightharpoonup> bytes"
  cs_world :: 'w
  cs_out :: "glyph list list"
  cs_err :: "anyhow list"

text \<open>An error of the command is printed, and the program returns successfully.\<close>

definition oathgate_main :: "('j, 'f, 'c, 'v, 'w) cli_env \<Rightarrow> Opts \<Rightarrow> (unit, anyhow, ('j, 'f, 'w) cli_state) act" where
  "oathgate_main C opts st =
     (case Opts_validate (cl_base_dir C) (cl_create_base C) opts of
        Ok opts \<Rightarrow>
          (case State_new (cl_conn C) (cs_db st) (cl_env C) opts of
             Ok (E, level, db) \<Rightarrow>
               (case Command_execute C E level (op_command opts) \<lparr>a_db = db, a_files = cs_files st, a_world = cs_world st, a_out = cs_out st\<rparr> of
                  (r, s) \<Rightarrow>
                    let st = st\<lparr>cs_db := Some (a_db s), cs_files := a_files s, cs_world := a_world s, cs_out := a_out s\<rparr> in
                    (case r of
                       Ok _ \<Rightarrow> (Ok (), st)
                     | Err e \<Rightarrow> (Ok (), st\<lparr>cs_err := cs_err st @ [e]\<rparr>)
                     | Panic \<Rightarrow> (Panic, st)))
           | Err e \<Rightarrow> (Ok (), st\<lparr>cs_err := cs_err st @ [e]\<rparr>)
           | Panic \<Rightarrow> (Panic, st))
      | Err e \<Rightarrow> (Err e, st)
      | Panic \<Rightarrow> (Panic, st))"

end
