(* ===== verification/Cli_Laws.thy ===== *)
theory Cli_Laws
  imports Cli
begin

text \<open>
  What holds over many invocations of the command line: whatever the commands, the answers of the system and the
  logging of the started processes, the database stays one the operations of theory \<open>Database_Laws\<close> produce. The
  rules \<open>keeps_rules\<close> follow the structure of a command: \<open>keeps c Q\<close> says that the command leaves such a database
  behind, also when it fails, and that its result satisfies \<open>Q\<close>.
\<close>

section \<open>Rules for the parts of a command\<close>

named_theorems keeps_rules \<open>commands keep the database\<close>

definition keeps :: "('a, 'j, 'f, 'w) cmd \<Rightarrow> ('a \<Rightarrow> bool) \<Rightarrow> bool" where
  "keeps c Q \<longleftrightarrow> (\<forall>s. db_reachable (a_db s) \<longrightarrow> db_reachable (a_db (snd (c s))) \<and> (\<forall>x. fst (c s) = Ok x \<longrightarrow> Q x))"

lemma act_keeps_bind [keeps_rules]:
  assumes "keeps m P" and "\<And>x. P x \<Longrightarrow> keeps (f x) Q"
  shows "keeps (bind m f) Q"
  unfolding keeps_def
proof (intro allI impI, goal_cases)
  case (1 s)
  with assms(1) have m: "db_reachable (a_db (snd (m s)))" "fst (m s) = Ok x \<Longrightarrow> P x" for x by (auto simp: keeps_def)
  show ?case
  proof (cases "m s")
    case (Pair r s1)
    show ?thesis
    proof (cases r)
      case (Ok x)
      with m Pair have "P x" "db_reachable (a_db s1)" by auto
      with assms(2) [of x] show ?thesis using Pair Ok by (simp add: bind_def keeps_def)
    qed (use m Pair in \<open>simp_all add: bind_def\<close>)
  qed
qed

lemma keeps_weaken: "keeps c P \<Longrightarrow> (\<And>x. P x \<Longrightarrow> Q x) \<Longrightarrow> keeps c Q"
  unfolding keeps_def by blast

lemma act_keeps_give: "(\<And>x. r = Ok x \<Longrightarrow> Q x) \<Longrightarrow> keeps (give r) Q"
  by (simp add: keeps_def give_def)

lemma keeps_on_err: "keeps c Q \<Longrightarrow> keeps (on_err f c) Q"
  unfolding keeps_def by (auto simp: on_err_def case_prod_beta)

text \<open>Steps that do not touch the database.\<close>

lemma keeps_frame:
  assumes "\<And>s. a_db (snd (c s)) = a_db s"
  shows "keeps c (\<lambda>_. True)"
  using assms by (simp add: keeps_def)

lemma keeps_print [keeps_rules]: "keeps (print_glyphs ls) (\<lambda>_. True)" "keeps (println l) (\<lambda>_. True)"
  by (rule keeps_frame, simp add: println_def print_glyphs_def)+

lemma act_keeps_world: "(\<And>w x w'. m w = (Ok x, w') \<Longrightarrow> Q x) \<Longrightarrow> keeps (on_world m) Q"
  unfolding keeps_def on_world_def by (auto simp: case_prod_beta split: prod.splits) (metis prod.collapse)

lemma keeps_read_file: "keeps (read_file E p) (\<lambda>_. True)"
  by (rule keeps_frame) (simp add: read_file_def)

lemma keeps_files [keeps_rules]:
  "keeps (read_file E p) (\<lambda>_. True)" "keeps (write_over E p b) (\<lambda>_. True)" "keeps (remove_dir_all E p) (\<lambda>_. True)"
  by (rule keeps_frame, simp add: read_file_def write_over_def remove_dir_all_def split: res.splits)+

lemma keeps_copies [keeps_rules]:
  "keeps (hard_link E src dst) (\<lambda>_. True)" "keeps (copy_file E src dst) (\<lambda>_. True)"
  unfolding hard_link_def copy_file_def
  by (rule act_keeps_bind [OF keeps_read_file], rule keeps_frame, simp split: res.splits)+

text \<open>Queries and updates of the database.\<close>

lemma keeps_query:
  assumes "\<And>db. snd (m db) = db" and "\<And>db x. fst (m db) = Ok x \<Longrightarrow> Q x"
  shows "keeps (on_db m) Q"
  using assms by (simp add: keeps_def)

lemma keeps_on_query:
  fixes m :: "'w \<Rightarrow> ('a, anyhow, ('j, 'f) db) act"
  assumes "\<And>w. keeps (on_db (m w) :: ('a, 'j, 'f, 'w) cmd) Q"
  shows "keeps (on_query m) Q"
  using assms unfolding keeps_def on_query_def by blast

lemma act_keeps_update: "(\<And>db. db_step db (snd (m db))) \<Longrightarrow> keeps (on_db m) (\<lambda>_. True)"
  by (auto simp: keeps_def intro: next_db)

lemmas step_of = prod.collapse [symmetric]

lemma keeps_saves [keeps_rules]:
  shows "keeps (on_db (Kernel_save k)) (\<lambda>_. True)" and "keeps (on_db (DiskImage_save i)) (\<lambda>_. True)"
    and "pid_ok (d_state d) \<Longrightarrow> keeps (on_db (Device_save d)) (\<lambda>_. True)" and "keeps (on_db (Device_delete d)) (\<lambda>_. True)"
    and "pid_ok (sp_state (sh_params sh)) \<Longrightarrow> keeps (on_db (Shard_save sh)) (\<lambda>_. True)" and "keeps (on_db (Shard_delete sh)) (\<lambda>_. True)"
  using act_keeps_update kernel_saved [OF step_of] image_saved [OF step_of] device_saved [OF _ step_of] device_deleted [OF step_of]
    shard_saved [OF _ step_of] shard_deleted [OF step_of]
  by blast+

lemma transaction_same: "(\<And>db. snd (f db) = db) \<Longrightarrow> snd (transaction f db) = db"
  by (simp add: transaction_def case_prod_beta split: res.splits)

lemma keeps_read:
  assumes "\<And>db x. r db = Ok x \<Longrightarrow> Q x"
  shows "keeps (on_db (transaction (\<lambda>db. (r db, db)))) Q"
  by (rule keeps_query) (use assms in \<open>auto simp: transaction_def split: res.splits\<close>)

lemma query_row_Ok: "query_row f rows = Ok x \<Longrightarrow> \<exists>r. f r = Ok x"
  by (auto simp: query_row_def split: list.splits)

lemma optional_Ok: "optional r = Ok (Some x) \<Longrightarrow> r = Ok x"
  by (cases r) (auto split: if_splits)

text \<open>Reading a row checks the range of its pid.\<close>

lemma process_check_pid: "process_check OS p w = Ok st \<Longrightarrow> st \<in> {Running p, Dead p, PermissionDenied p}"
  by (auto simp: process_check_def split: res.splits kill_errno.splits)

lemma Device_from_row_pid_ok: "Device_from_row OS w r = Ok d \<Longrightarrow> pid_ok (d_state d)"
  by (cases "dr_pid r")
    (auto simp: Device_from_row_def and_then_eq_Ok int_in_def split: if_splits res.splits dest!: process_check_pid)

lemma Shard_from_row_pid_ok: "Shard_from_row OS w r = Ok sh \<Longrightarrow> pid_ok (sp_state (sh_params sh))"
proof -
  have "pid_ok (sp_state p)" if "ShardParams_from_row OS w s = Ok p" for s p
    using that by (cases "sr_pid s")
      (auto simp: ShardParams_from_row_def and_then_eq_Ok int_in_def split: if_splits dest!: process_check_pid elim!: unwrap.elims)
  then show "Shard_from_row OS w r = Ok sh \<Longrightarrow> pid_ok (sp_state (sh_params sh))"
    by (cases r) (auto simp: Shard_from_row_def and_then_eq_Ok)
qed

lemma keeps_get_bridge [keeps_rules]: "keeps (get_bridge E name) (\<lambda>d. pid_ok (d_state d))"
  unfolding get_bridge_def Device_get_def
  by (rule act_keeps_bind [where P = "\<lambda>d. \<forall>x. d = Some x \<longrightarrow> pid_ok (d_state x)"])
    (auto intro!: keeps_on_query keeps_read act_keeps_give dest!: optional_Ok query_row_Ok Device_from_row_pid_ok elim!: ok_or.elims)

lemma keeps_get_shard [keeps_rules]: "keeps (get_shard E name) (\<lambda>sh. pid_ok (sp_state (sh_params sh)))"
  unfolding get_shard_def Shard_get_def
  by (rule act_keeps_bind [where P = "\<lambda>d. \<forall>x. d = Some x \<longrightarrow> pid_ok (sp_state (sh_params x))"])
    (auto intro!: keeps_on_query keeps_read act_keeps_give dest!: optional_Ok query_row_Ok Shard_from_row_pid_ok elim!: ok_or.elims)

lemma keeps_lists [keeps_rules]:
  "keeps (on_query (Device_get_all OS)) (\<lambda>_. True)" "keeps (on_query (Shard_get_all OS)) (\<lambda>_. True)"
  "keeps (on_db Kernel_get_all) (\<lambda>_. True)" "keeps (on_db DiskImage_get_all) (\<lambda>_. True)" "keeps (on_db (LogEntry_get i)) (\<lambda>_. True)"
  "keeps (on_db (DiskImage_get n)) (\<lambda>_. True)" "keeps (on_db (Kernel_get n)) (\<lambda>_. True)" "keeps (on_db Kernel_get_default) (\<lambda>_. True)"
  by (auto intro!: keeps_on_query keeps_read simp: Device_get_all_def Shard_get_all_def Kernel_get_all_def DiskImage_get_all_def
      LogEntry_get_def DiskImage_get_def Kernel_get_def Kernel_get_default_def)

text \<open>The pid of a forked process is an \<open>i32\<close>.\<close>

lemma fork_pid_ok: "pid_ok (Running (fork_pid b))"
proof -
  let ?w = "from_le_bytes (filled 4 b) :: u32"
  have "- (2 ^ 31) \<le> sint ?w" "sint ?w < 2 ^ 31" using sint_range_size [of ?w] by (auto simp: word_size)
  then show ?thesis by (simp add: fork_pid_def)
qed

section \<open>Every command keeps the database\<close>

lemma keeps_give_any [keeps_rules]: "keeps (give r) (\<lambda>_. True)"
  by (rule act_keeps_give) simp

lemma act_keeps_if [keeps_rules]: "(b \<Longrightarrow> keeps c Q) \<Longrightarrow> (\<not> b \<Longrightarrow> keeps d Q) \<Longrightarrow> keeps (if b then c else d) Q"
  by simp

lemma keeps_option [keeps_rules]:
  "(x = None \<Longrightarrow> keeps c Q) \<Longrightarrow> (\<And>y. x = Some y \<Longrightarrow> keeps (d y) Q) \<Longrightarrow> keeps (case x of None \<Rightarrow> c | Some y \<Rightarrow> d y) Q"
  by (cases x) simp_all

lemmas keeps_on_err_any [keeps_rules] = keeps_on_err [where Q = "\<lambda>_. True"]

lemma keeps_world_any [keeps_rules]: "keeps (on_world m) (\<lambda>_. True)"
  by (rule act_keeps_world) simp

lemma keeps_print_logs [keeps_rules]: "keeps (print_logs T i format) (\<lambda>_. True)"
  unfolding print_logs_def by (cases format) (simp_all, (rule keeps_rules)+)

lemma keeps_bridge_commands [keeps_rules]:
  "keeps (create_bridge E i cfg given) (\<lambda>_. True)"
  "keeps (start_bridge E decode logger fk nm pcap) (\<lambda>_. True)"
  "keeps (list_bridges E) (\<lambda>_. True)"
  "keeps (bridge_logs E T nm format) (\<lambda>_. True)"
  unfolding create_bridge_def start_bridge_def list_bridges_def bridge_logs_def
  by ((rule keeps_rules)+, (simp add: Device_new_def Device_set_started_def fork_pid_ok [simplified])?)+

text \<open>A stopped device or machine has no pid out of range.\<close>

lemma Device_stop_pid_ok: "pid_ok (d_state d) \<Longrightarrow> Device_stop OS d w = (Ok d', w') \<Longrightarrow> pid_ok (d_state d')"
  by (auto simp: Device_stop_def Device_set_stopped_def give_def bind_eq_Ok split: ProcessState.splits)

lemma Shard_stop_pid_ok: "pid_ok (sp_state (sh_params d)) \<Longrightarrow> Shard_stop OS d w = (Ok d', w') \<Longrightarrow> pid_ok (sp_state (sh_params d'))"
  by (auto simp: Shard_stop_def Shard_set_stopped_def Shard_set_state_def give_def bind_eq_Ok split: ProcessState.splits)

lemma keeps_stops:
  "pid_ok (d_state d) \<Longrightarrow> keeps (on_world (Device_stop OS d)) (\<lambda>d. pid_ok (d_state d))"
  "pid_ok (sp_state (sh_params sh)) \<Longrightarrow> keeps (on_world (Shard_stop OS sh)) (\<lambda>sh. pid_ok (sp_state (sh_params sh)))"
  by (rule act_keeps_world, blast intro: Device_stop_pid_ok Shard_stop_pid_ok)+

lemma keeps_stop_bridge [keeps_rules]: "keeps (stop_bridge E nm) (\<lambda>_. True)"
  unfolding stop_bridge_def by (rule keeps_stops keeps_rules | assumption)+

text \<open>The device that is deleted, stopped before when it was running.\<close>

lemma keeps_delete_bridge [keeps_rules]: "keeps (delete_bridge E nm) (\<lambda>_. True)"
  unfolding delete_bridge_def by (rule keeps_stops keeps_rules | assumption)+

lemma keeps_kernel_commands [keeps_rules]:
  "keeps (kernel_install E i detected asked p nm def1) (\<lambda>_. True)" "keeps (kernel_set_default n) (\<lambda>_. True)" "keeps kernel_list (\<lambda>_. True)"
  unfolding kernel_install_def kernel_set_default_def kernel_list_def Let_def by (rule keeps_rules)+

lemma keeps_image_commands [keeps_rules]:
  "keeps (image_install E i p nm root) (\<lambda>_. True)" "keeps image_list (\<lambda>_. True)"
  unfolding image_install_def image_list_def mime_format_def Let_def by (rule keeps_rules)+

lemma keeps_get_many [keeps_rules]: "keeps (on_query (\<lambda>w. Device_get_many OS order w names)) (\<lambda>_. True)"
  by (rule keeps_on_query, rule keeps_query) (auto simp: Device_get_many_def bind_def give_def transaction_def split: res.splits prod.splits)

lemma keeps_deploy [keeps_rules]: "keeps (shard_deploy E i macs opts) (\<lambda>_. True)"
proof -
  have a: "keeps (on_db (case k of None \<Rightarrow> Kernel_get_default | Some n \<Rightarrow> Kernel_get n)) (\<lambda>_. True)" for k
    by (cases k) (simp_all only: option.case, (rule keeps_rules)+)
  have b: "keeps (give (ShardBuilder_build i c b)) (\<lambda>sh. pid_ok (sp_state (sh_params sh)))" for c b
    by (rule act_keeps_give) (auto simp: ShardBuilder_build_def and_then_eq_Ok)
  show ?thesis
    unfolding shard_deploy_def Shard_deploy_def Let_def by (rule a b keeps_rules | assumption)+
qed

lemma keeps_shard_commands [keeps_rules]:
  "keeps (shard_run E hv logger fk nm) (\<lambda>_. True)" "keeps (list_shards E) (\<lambda>_. True)" "keeps (shard_logs E T nm format) (\<lambda>_. True)"
  "keeps (attach_shard E attach nm port) (\<lambda>_. True)" "keeps (stop_shard E nm) (\<lambda>_. True)" "keeps (shard_delete E nm) (\<lambda>_. True)"
  unfolding shard_run_def list_shards_def shard_logs_def attach_shard_def stop_shard_def shard_delete_def Shard_purge_def Let_def
  by ((rule keeps_stops keeps_rules | assumption)+,
      (simp add: Shard_set_running_def Shard_set_state_def fork_pid_ok [simplified])?)+

lemma keeps_Command_execute: "keeps (Command_execute C E level cmd) (\<lambda>_. True)"
proof -
  have a: "keeps (BridgeCommand_execute C E level b) (\<lambda>_. True)" for b
    unfolding BridgeCommand_execute_def by (cases b) (simp_all, (rule keeps_rules)+)
  have b: "keeps (KernelCommand_execute C E k) (\<lambda>_. True)" for k
    unfolding KernelCommand_execute_def by (cases k) (simp_all, (rule keeps_rules)+)
  have c: "keeps (ImageCommand_execute C E i) (\<lambda>_. True)" for i
    unfolding ImageCommand_execute_def by (cases i) (simp_all, (rule keeps_rules)+)
  have d: "keeps (ShardCommand_execute C E level sh) (\<lambda>_. True)" for sh
    unfolding ShardCommand_execute_def by (cases sh) (simp_all, (rule keeps_rules)+)
  show ?thesis by (cases cmd) (simp_all, (rule a b c d keeps_rules)+)
qed

section \<open>A system in use\<close>

text \<open>
  What happens to the state over time: the program is invoked, a started process logs an event to the
  database, or the files and processes change by themselves.
\<close>

datatype ('j, 'f, 'c, 'v, 'w) sys_event =
    Invoke "('j, 'f, 'c, 'v, 'w) cli_env" Opts
  | DaemonLogs SqliteSubscriber uuid nat metadata "(string \<times> 'f field_value) list"
  | Elsewhere "string \<rightharpoonup> bytes" 'w

fun sys_step :: "('j, 'f, 'c, 'v, 'w) sys_event \<Rightarrow> ('j, 'f, 'w) cli_state \<Rightarrow> ('j, 'f, 'w) cli_state" where
  "sys_step (Invoke C opts) st = snd (oathgate_main C opts st)"
| "sys_step (DaemonLogs sub i now md recorded) st =
     st\<lparr>cs_db := map_option (\<lambda>db. snd (SqliteSubscriber_event sub i now md recorded db)) (cs_db st)\<rparr>"
| "sys_step (Elsewhere files w) st = st\<lparr>cs_files := files, cs_world := w\<rparr>"

definition sys_run :: "('j, 'f, 'c, 'v, 'w) sys_event list \<Rightarrow> ('j, 'f, 'w) cli_state \<Rightarrow> ('j, 'f, 'w) cli_state" where
  "sys_run evs st = fold sys_step evs st"

definition file_ok :: "('j, 'f) db option \<Rightarrow> bool" where
  "file_ok file \<longleftrightarrow> db_reachable (Database_migrate file)"

lemma oathgate_main_file_ok:
  fixes C :: "('j, 'f, 'c, 'v, 'w) cli_env"
  assumes "file_ok (cs_db st)"
  shows "file_ok (cs_db (snd (oathgate_main C opts st)))"
proof -
  have "file_ok (Some (a_db (snd (Command_execute C E level cmd s))))" if "db_reachable (a_db s)" for E level cmd and s :: "('j, 'f, 'w) app"
    using keeps_Command_execute [of C E level cmd] that by (simp add: keeps_def file_ok_def Database_migrate_def)
  then have "file_ok (Some (a_db s'))" if "Command_execute C E level cmd s = (r, s')" "db_reachable (a_db s)"
    for E level cmd r s' and s :: "('j, 'f, 'w) app"
    using that by (metis snd_conv)
  then show ?thesis using assms
    by (auto simp: oathgate_main_def State_new_def Database_open_def and_then_eq_Ok Let_def file_ok_def [of "cs_db st"]
        split: res.splits prod.splits)
qed

lemma SqliteSubscriber_event_reachable:
  "db_reachable db \<Longrightarrow> db_reachable (snd (SqliteSubscriber_event sub i now md recorded db))"
  by (auto simp: SqliteSubscriber_event_def split: prod.splits res.splits intro: next_db event_logged)

lemma sys_run_file_ok: "file_ok (cs_db st) \<Longrightarrow> file_ok (cs_db (sys_run evs st))"
  unfolding sys_run_def
proof (induction evs arbitrary: st)
  case (Cons ev evs)
  have "file_ok (map_option (\<lambda>db. snd (SqliteSubscriber_event sub i now md recorded db)) (cs_db st))" for sub i now md recorded
    using Cons.prems by (cases "cs_db st") (simp_all add: file_ok_def Database_migrate_def SqliteSubscriber_event_reachable)
  then have "file_ok (cs_db (sys_step ev st))" using Cons.prems by (cases ev) (simp_all add: oathgate_main_file_ok)
  with Cons.IH show ?case by simp
qed simp

lemma new_file_ok: "file_ok None"
  by (simp add: file_ok_def Database_migrate_def new_db)

text \<open>
  C10: in a system that started without a database, whatever was invoked since, whatever the system answered and
  whatever the started processes logged, the database has kernels and images with different ids and different
  hashes, devices, machines and log entries with different ids, and at most one default kernel. Listing kernels and
  images returns all of them as they were saved, listing devices one for each row, reading the log of a device one entry
  for each row; listing machines returns one for each row with its kernel and its image when every process check
  says that the process is there, gone, or not ours (it panics when the check of a recorded process fails in another
  way: \<open>Database_machine_panics\<close>).
\<close>

theorem oathgate_database_sound:
  assumes "cs_db st = None" and "cs_db (sys_run evs st) = Some db" and "\<forall>pid. po_alive OS w pid \<noteq> Panic"
  shows "distinct (map kr_id (db_kernels db)) \<and> distinct (map kr_hash (db_kernels db)) \<and>
     distinct (map ir_id (db_images db)) \<and> distinct (map ir_hash (db_images db)) \<and>
     distinct (map dr_id (db_devices db)) \<and> distinct (map sr_id (db_shards db)) \<and> distinct (map lr_id (db_logs db)) \<and>
     length (filter (\<lambda>r. kr_is_default r = 1) (db_kernels db)) \<le> 1 \<and>
     (\<exists>ks. Kernel_get_all db = (Ok ks, db) \<and> map kernel_row_of ks = db_kernels db) \<and>
     (\<exists>ims. DiskImage_get_all db = (Ok ims, db) \<and> map image_row_of ims = db_images db) \<and>
     (\<exists>ds. Device_get_all OS w db = (Ok ds, db) \<and> map d_id ds = map dr_id (db_devices db)) \<and>
     (\<forall>i. \<exists>es. LogEntry_get i db = (Ok es, db) \<and> map ev_ts es = map lr_ts (filter (\<lambda>r. lr_device r = Some i) (db_logs db))) \<and>
     ((\<forall>pid. po_alive OS w pid \<in> {Ok (), Err ESRCH, Err EPERM}) \<longrightarrow>
        (\<exists>ms. Shard_get_all OS w db = (Ok ms, db) \<and> map (sp_id \<circ> sh_params) ms = map (sr_id \<circ> fst) (shard_join db)))"
proof -
  have "file_ok (cs_db (sys_run evs st))" by (rule sys_run_file_ok) (simp add: assms(1) new_file_ok)
  then have "db_reachable db" using assms(2) by (simp add: file_ok_def Database_migrate_def)
  from Database_well_formed [OF this assms(3)] Database_machines_read [OF this, of OS w] Database_logs_read [OF this]
  show ?thesis by blast
qed

section \<open>The status\<close>

lemma query_ok_returns:
  assumes "\<And>r. r \<in> set rows \<Longrightarrow> f r \<noteq> Panic"
  shows "\<exists>xs. query_ok f rows = (Ok xs :: (_, 'e) res)"
  using assms
proof (induction rows)
  case (Cons r rows)
  then obtain xs where "query_ok f rows = (Ok xs :: (_, 'e) res)" by auto
  with Cons.prems [of r] show ?case by (cases "f r") auto
qed simp

lemma Shard_from_row_returns:
  assumes "\<forall>pid. po_alive OS w pid \<in> {Ok (), Err ESRCH, Err EPERM}"
  shows "Shard_from_row OS w r \<noteq> Panic"
proof -
  have "\<exists>st. process_check OS p w = Ok st" for p
    using assms [rule_format, of p] by (auto simp: process_check_def)
  then have "unwrap (process_check OS p w) \<noteq> (Panic :: (_, sql_error) res)" for p by (metis res.distinct(3) unwrap.simps(1))
  then have "ShardParams_from_row OS w s \<noteq> Panic" for s
    by (cases "sr_pid s") (auto simp: ShardParams_from_row_def and_then_eq_Panic int_in_def split: if_splits)
  moreover have "Kernel_from_row k \<noteq> Panic" "DiskImage_from_row i \<noteq> Panic" for k i
    by (auto simp: Kernel_from_row_def DiskImage_from_row_def DiskFormat_from_str_def Let_def and_then_eq_Panic int_in_def
        split: if_splits elim!: opt_in.elims)
  ultimately show ?thesis by (cases r) (auto simp: Shard_from_row_def and_then_eq_Panic)
qed

text \<open>The listings on a database that can be read.\<close>

lemma listing_runs:
  "Device_get_all (ce_os E) (a_world s) (a_db s) = (Ok ds, a_db s) \<Longrightarrow> \<exists>out. list_bridges E s = (Ok (), s\<lparr>a_out := a_out s @ out\<rparr>)"
  "Shard_get_all (ce_os E) (a_world s) (a_db s) = (Ok shs, a_db s) \<Longrightarrow> \<exists>out. list_shards E s = (Ok (), s\<lparr>a_out := a_out s @ out\<rparr>)"
  "Kernel_get_all (a_db s) = (Ok ks, a_db s) \<Longrightarrow> kernel_list s = (Ok (), s\<lparr>a_out := a_out s @ draw_table Kernel_header (map Kernel_table_row ks)\<rparr>)"
  "DiskImage_get_all (a_db s) = (Ok ims, a_db s) \<Longrightarrow>
   image_list s = (Ok (), s\<lparr>a_out := a_out s @ draw_table DiskImage_header (map DiskImage_table_row ims)\<rparr>)"
  by (auto simp: list_bridges_def list_shards_def kernel_list_def image_list_def bind_def on_query_def println_def print_glyphs_def)

lemma oathgate_main_runs:
  assumes "cl_base_dir C = IsDir" and "cl_conn C = Ok ()"
    and "Command_execute C ((cl_env C)\<lparr>ce_base := op_base opts, ce_no_confirm := op_yes_dont_ask_again opts\<rparr>)
      (max_log_level (op_verbose opts)) (op_command opts)
      \<lparr>a_db = Database_migrate (cs_db st), a_files = cs_files st, a_world = cs_world st, a_out = cs_out st\<rparr> = (Ok (), s)"
    and "st' = st\<lparr>cs_db := Some (a_db s), cs_files := a_files s, cs_world := a_world s, cs_out := a_out s\<rparr>"
  shows "oathgate_main C opts st = (Ok (), st')"
proof -
  obtain opts' where "Opts_validate IsDir (cl_create_base C) opts = Ok opts'" "op_base opts' = op_base opts" "op_verbose opts' = op_verbose opts"
    "op_command opts' = op_command opts" "op_yes_dont_ask_again opts' = op_yes_dont_ask_again opts"
    by (cases "take 1 (op_database opts) = ''/''") (simp_all add: Opts_validate_def)
  then show ?thesis using assms by (simp add: oathgate_main_def State_new_def Database_open_def)
qed

text \<open>
  C19: in such a system, \<open>oathgate status\<close> always works as long as processes can be asked for their state: no error is
  reported, and nothing changes but the output, which has the table of all images and the one of all kernels
  between the bridges and the machines.
\<close>

theorem oathgate_status_works:
  assumes "cs_db st0 = None" and "st = sys_run evs st0" and "db = Database_migrate (cs_db st)"
    and "\<forall>pid. po_alive (ce_os (cl_env C)) (cs_world st) pid \<in> {Ok (), Err ESRCH, Err EPERM}"
    and "cl_base_dir C = IsDir" and "cl_conn C = Ok ()" and "op_command opts = CommandStatus"
  shows "\<exists>bridges ims ks shards.
     oathgate_main C opts st = (Ok (), st\<lparr>cs_db := Some db, cs_out := cs_out st @
       [map Ch ''Networks''] @ bridges @ [map Ch ''Images''] @ draw_table DiskImage_header (map DiskImage_table_row ims) @
       [map Ch ''Kernels''] @ draw_table Kernel_header (map Kernel_table_row ks) @ [[], map Ch ''Shards''] @ shards\<rparr>) \<and>
     map image_row_of ims = db_images db \<and> map kernel_row_of ks = db_kernels db"
proof -
  have "file_ok (cs_db st)" unfolding assms(2) by (rule sys_run_file_ok) (simp add: assms(1) new_file_ok)
  then have db: "db_reachable db" by (simp add: file_ok_def assms(3))
  let ?OS = "ce_os (cl_env C)" let ?w = "cs_world st"
  have alive: "\<forall>pid. po_alive ?OS ?w pid \<noteq> Panic"
  proof
    show "po_alive ?OS ?w pid \<noteq> Panic" for pid using assms(4) [rule_format, of pid] by auto
  qed
  from Database_well_formed [OF db alive] obtain ks ims ds where
    ks: "Kernel_get_all db = (Ok ks, db)" "map kernel_row_of ks = db_kernels db" and
    ims: "DiskImage_get_all db = (Ok ims, db)" "map image_row_of ims = db_images db" and
    ds: "Device_get_all ?OS ?w db = (Ok ds, db)" by blast
  obtain shs where "query_ok (Shard_from_row ?OS ?w) (shard_join db) = (Ok shs :: (_, anyhow) res)"
    by (rule exE [OF query_ok_returns [OF Shard_from_row_returns [OF assms(4)]]])
  then have shs: "Shard_get_all ?OS ?w db = (Ok shs, db)" by (simp add: Shard_get_all_def transaction_def)
  define E where "E = (cl_env C)\<lparr>ce_base := op_base opts, ce_no_confirm := op_yes_dont_ask_again opts\<rparr>"
  define level where "level = max_log_level (op_verbose opts)"
  let ?s = "\<lambda>out. \<lparr>a_db = db, a_files = cs_files st, a_world = ?w, a_out = out\<rparr>"
  have os: "ce_os E = ?OS" by (simp add: E_def)
  obtain bridges where bridges: "list_bridges E (?s (cs_out st @ [map Ch ''Networks''])) =
      (Ok (), ?s (cs_out st @ [map Ch ''Networks''] @ bridges))"
    using listing_runs(1) [of E "?s (cs_out st @ [map Ch ''Networks''])" ds] ds by (auto simp: os)
  let ?out = "cs_out st @ [map Ch ''Networks''] @ bridges @ [map Ch ''Images''] @ draw_table DiskImage_header (map DiskImage_table_row ims) @
    [map Ch ''Kernels''] @ draw_table Kernel_header (map Kernel_table_row ks) @ [[], map Ch ''Shards'']"
  obtain shards where shards: "list_shards E (?s ?out) = (Ok (), ?s (?out @ shards))"
    using listing_runs(2) [of E "?s ?out" shs] shs by (auto simp: os)
  have "Command_execute C E level CommandStatus (?s (cs_out st)) = (Ok (), ?s (?out @ shards))"
    using bridges shards ks(1) ims(1)
    by (simp add: bind_def println_def print_glyphs_def BridgeCommand_execute_def ImageCommand_execute_def KernelCommand_execute_def
        ShardCommand_execute_def on_err_def listing_runs(3,4))
  with assms(7) have run: "Command_execute C E level (op_command opts) (?s (cs_out st)) = (Ok (), ?s (?out @ shards))" by simp
  have "oathgate_main C opts st = (Ok (), st\<lparr>cs_db := Some db, cs_out := ?out @ shards\<rparr>)"
  proof (rule oathgate_main_runs [OF assms(5,6)])
    show "Command_execute C ((cl_env C)\<lparr>ce_base := op_base opts, ce_no_confirm := op_yes_dont_ask_again opts\<rparr>)
        (max_log_level (op_verbose opts)) (op_command opts) \<lparr>a_db = Database_migrate (cs_db st), a_files = cs_files st, a_world = ?w,
          a_out = cs_out st\<rparr> = (Ok (), ?s (?out @ shards))"
      using run unfolding E_def level_def assms(3) .
  qed simp
  then show ?thesis using ks(2) ims(2) by auto
qed

section \<open>A system to evaluate the properties at\<close>

definition sample_cli :: "(string, nat, string, nat, nat) cli_env" where
  "sample_cli = \<lparr>cl_env = sample_cmd_env, cl_base_dir = IsDir, cl_create_base = Ok (), cl_conn = Ok (), cl_log_conn = Ok (), cl_new_id = 3,
     cl_macs = [], cl_load_config = (\<lambda>_. Ok ''{}''), cl_decode = Ok, cl_fork_bridge = (\<lambda>F b w. (Ok [1, 0, 0, 0], w)),
     cl_hypervisor = (\<lambda>ns n c m. Ok 0), cl_fork_shard = (\<lambda>F v w. (Ok [1, 0, 0, 0], w)), cl_file = (\<lambda>_. Ok []), cl_strings = (\<lambda>_. Ok []),
     cl_ask_version = Ok ''6.9'', cl_attach = (\<lambda>c p w. (Ok (), w)),
     cl_fmt = \<lparr>lf_float = (\<lambda>_. []), lf_date = (\<lambda>_. []), lf_json = (\<lambda>_. Ok [])\<rparr>\<rparr>"

definition sample_invocation :: "Command \<Rightarrow> Opts" where
  "sample_invocation c = \<lparr>op_verbose = 0, op_silent = False, op_base = ''/tmp'', op_database = ''/tmp/oathgate.db'', op_yes_dont_ask_again = True, op_command = c\<rparr>"

definition sample_start :: "(string, nat, nat) cli_state" where
  "sample_start = \<lparr>cs_db = None, cs_files = Map.empty, cs_world = 0, cs_out = [], cs_err = []\<rparr>"

definition sample_create :: "(string, nat, string, nat, nat) sys_event list" where
  "sample_create = [Invoke sample_cli (sample_invocation (CommandBridge (BridgeCreate ''lab.yml'' (Some ''lab''))))]"

lemma sample_created:
  "sys_run sample_create sample_start =
   sample_start\<lparr>cs_db := Some (version_000\<lparr>db_devices := [device_row_of (Device_new 3 ''lab'' BridgeDevice ''{}'')]\<rparr>)\<rparr>"
  by (simp add: sys_run_def sample_create_def sample_invocation_def oathgate_main_def Opts_validate_def State_new_def Database_open_def
      Database_migrate_def sample_cli_def sample_start_def BridgeCommand_execute_def create_bridge_def bind_def give_def on_err_def Device_save_def
      transaction_def upsert_def version_000_def)

lemma sample_alive: "po_alive (ce_os (cl_env sample_cli)) 0 p = Err ESRCH"
  by (simp add: sample_cli_def sample_cmd_env_def sample_proc_os_def)

theorem oathgate_database_sound_witness:
  "\<exists>db. cs_db (sys_run sample_create sample_start) = Some db \<and> map dr_name (db_devices db) = [''lab''] \<and> distinct (map dr_id (db_devices db)) \<and>
     (\<exists>ms. Shard_get_all (ce_os (cl_env sample_cli)) 0 db = (Ok ms, db))"
proof -
  have new: "cs_db sample_start = None" by (simp add: sample_start_def)
  have db: "cs_db (sys_run sample_create sample_start) = Some (version_000\<lparr>db_devices := [device_row_of (Device_new 3 ''lab'' BridgeDevice ''{}'')]\<rparr>)"
    by (simp add: sample_created)
  have "\<forall>pid. po_alive (ce_os (cl_env sample_cli)) 0 pid \<noteq> Panic" by (simp add: sample_alive)
  from oathgate_database_sound [OF new db this] db sample_alive show ?thesis by (auto simp: device_row_of_def Device_new_def)
qed

theorem oathgate_status_works_witness:
  "\<exists>out. oathgate_main sample_cli (sample_invocation CommandStatus) (sys_run sample_create sample_start) =
     (Ok (), (sys_run sample_create sample_start)\<lparr>cs_out := out\<rparr>)"
proof -
  let ?st = "sys_run sample_create sample_start"
  have new: "cs_db sample_start = None" by (simp add: sample_start_def)
  have w: "cs_world ?st = 0" unfolding sample_created by (simp add: sample_start_def)
  have alive: "\<forall>pid. po_alive (ce_os (cl_env sample_cli)) (cs_world ?st) pid \<in> {Ok (), Err ESRCH, Err EPERM}"
    unfolding w by (simp add: sample_alive)
  have env: "cl_base_dir sample_cli = IsDir" "cl_conn sample_cli = Ok ()" "op_command (sample_invocation CommandStatus) = CommandStatus"
    by (simp_all add: sample_cli_def sample_invocation_def)
  have "?st\<lparr>cs_db := Some (Database_migrate (cs_db ?st))\<rparr> = ?st" by (simp add: sample_created Database_migrate_def)
  then have same: "?st\<lparr>cs_db := Some (Database_migrate (cs_db ?st)), cs_out := out\<rparr> = ?st\<lparr>cs_out := out\<rparr>" for out by metis
  from oathgate_status_works [OF new refl refl alive env] show ?thesis unfolding same by blast
qed

end
