(* ===== verification/Lifecycle.thy ===== *)
theory Lifecycle
  imports Commands
begin

text \<open>
  Commands one after the other: a machine that was deployed can be run, and boots the kernel and the copy of the
  image it was deployed with; the socket a started bridge listens on; starting a bridge that is running.
\<close>

section \<open>Paths with an extension\<close>

definition plain_name :: "string \<Rightarrow> bool" where
  "plain_name name \<longleftrightarrow> name \<noteq> [] \<and> name \<noteq> ''.'' \<and> name \<noteq> ''..'' \<and> CHR ''/'' \<notin> set name"

lemma strip_tail_plain:
  assumes "plain_name name" and "pre = [] \<or> last pre = CHR ''/''"
  shows "strip_tail (rev name @ rev pre) = rev name @ rev pre"
proof -
  obtain x xs where x: "rev name = x # xs" using assms(1) by (cases "rev name") (auto simp: plain_name_def)
  have ne: "x \<noteq> CHR ''/''" "CHR ''/'' \<notin> set xs" using assms(1) x by (auto simp: plain_name_def dest: arg_cong [of _ _ set])
  have "xs \<noteq> [] \<or> x \<noteq> CHR ''.''"
  proof (rule ccontr)
    assume "\<not> ?thesis"
    then have "name = ''.''" using x by (metis rev_singleton_conv)
    then show False using assms(1) by (simp add: plain_name_def)
  qed
  with ne show ?thesis unfolding x by (cases xs) auto
qed

lemma with_extension_plain:
  assumes "plain_name name"
  shows "\<exists>pre. \<forall>e. with_extension (path_join dir name) e = pre @ ''.'' @ e"
proof -
  have "take 1 name \<noteq> ''/''" using assms by (cases name) (auto simp: plain_name_def)
  then obtain pre where pre: "path_join dir name = pre @ name" "pre = [] \<or> last pre = CHR ''/''"
    by (cases "dir = [] \<or> last dir = CHR ''/''") (auto simp: path_join_def)
  have c: "\<forall>y \<in> set (rev name). y \<noteq> CHR ''/''" using assms by (auto simp: plain_name_def)
  have pre': "rev pre = [] \<or> \<not> hd (rev pre) \<noteq> CHR ''/''" using pre(2) by (auto simp: hd_rev)
  have "takeWhile (\<lambda>x. x \<noteq> CHR ''/'') (strip_tail (rev (pre @ name))) = rev name"
    "dropWhile (\<lambda>x. x \<noteq> CHR ''/'') (strip_tail (rev (pre @ name))) = rev pre"
    using strip_tail_plain [OF assms pre(2)] split_where [OF c pre'] by simp_all
  moreover have "rev name \<noteq> []" "rev name \<noteq> ''..''" "rev name \<noteq> ''.''"
    using assms by (auto simp: plain_name_def dest: arg_cong [of _ _ rev])
  ultimately have "with_extension (path_join dir name) e = (pre @ rev (rev_stem (rev name))) @ ''.'' @ e" for e
    unfolding pre(1) by (simp add: with_extension_def Let_def)
  then show ?thesis by blast
qed

text \<open>Any path with the extension of an image differs from one that ends in the extension of a kernel.\<close>

lemma with_extension_img: "with_extension p ''img'' \<noteq> pre @ ''.bin''"
proof
  assume eq: "with_extension p ''img'' = pre @ ''.bin''"
  let ?c = "takeWhile (\<lambda>x. x \<noteq> CHR ''/'') (strip_tail (rev p))"
  show False
  proof (cases "?c = [] \<or> ?c = ''..'' \<or> ?c = ''.''")
    case True
    then have "p = pre @ ''.bin''" using eq by (simp add: with_extension_def Let_def)
    then have "strip_tail (rev p) = rev p" "?c \<noteq> []" "hd ?c = CHR ''n''" by simp_all
    with True show False by auto
  next
    case False
    then have "last (with_extension p ''img'') = CHR ''g''" by (simp add: with_extension_def Let_def)
    with eq show False by simp
  qed
qed

section \<open>What deploying does\<close>

lemma Kernel_row_in:
  assumes "db_wf db" and "query_row Kernel_from_row (filter P (db_kernels db)) = Ok k"
  shows "kernel_row_of k \<in> set (db_kernels db)" and "P (kernel_row_of k)"
proof -
  obtain r rs where r: "filter P (db_kernels db) = r # rs" "Kernel_from_row r = Ok k"
    using assms(2) by (auto simp: query_row_def split: list.splits)
  have "r \<in> set (filter P (db_kernels db))" unfolding r(1) by simp
  then have in_r: "r \<in> set (db_kernels db)" "P r" by simp_all
  with wf_kernel_row [OF assms(1) in_r(1)] r(2) show "kernel_row_of k \<in> set (db_kernels db)" "P (kernel_row_of k)" by auto
qed

lemma image_row_in:
  assumes "db_wf db" and "query_row DiskImage_from_row (filter P (db_images db)) = Ok i"
  shows "image_row_of i \<in> set (db_images db)" and "P (image_row_of i)"
proof -
  obtain r rs where r: "filter P (db_images db) = r # rs" "DiskImage_from_row r = Ok i"
    using assms(2) by (auto simp: query_row_def split: list.splits)
  have "r \<in> set (filter P (db_images db))" unfolding r(1) by simp
  then have in_r: "r \<in> set (db_images db)" "P r" by simp_all
  then obtain j where "r = image_row_of j" using assms(1) unfolding db_wf_def by blast
  with r(2) in_r show "image_row_of i \<in> set (db_images db)" "P (image_row_of i)" by auto
qed

lemma hard_link_Ok:
  "hard_link E src dst s = (Ok (), s') \<Longrightarrow> \<exists>b. a_files s src = Some b \<and> s' = s\<lparr>a_files := (a_files s)(dst \<mapsto> b)\<rparr>"
  by (cases "io_error_of E dst") (auto simp: hard_link_def bind_eq_Ok read_file_def and_then_eq_Ok split: res.splits if_splits elim!: ok_or.elims)

lemma copy_file_Ok:
  "copy_file E src dst s = (Ok (), s') \<Longrightarrow> \<exists>b. a_files s src = Some b \<and> s' = s\<lparr>a_files := (a_files s)(dst \<mapsto> b)\<rparr>"
  by (cases "io_error_of E dst") (auto simp: copy_file_def bind_eq_Ok read_file_def and_then_eq_Ok split: res.splits elim!: ok_or.elims)

text \<open>The machine that is deployed with a kernel and an image.\<close>

definition deployed :: "'w cmd_env \<Rightarrow> uuid \<Rightarrow> string \<Rightarrow> DeployOpts \<Rightarrow> Kernel \<Rightarrow> DiskImage \<Rightarrow> Shard" where
  "deployed E new_id name opts k i =
     \<lparr>sh_params = \<lparr>sp_id = new_id, sp_cid = State_generate_cid E, sp_name = name, sp_state = Stopped, sp_cpu = do_cpu opts, sp_memory = do_memory opts\<rparr>,
      sh_kernel = k, sh_boot_disk = i, sh_networks = []\<rparr>"

lemma add_networks_none: "foldl (\<lambda>b (dev, mac). ShardBuilder_add_network b dev mac) b xs = b"
  by (induction xs arbitrary: b) (auto simp: ShardBuilder_add_network_def)

text \<open>Queries leave the database as it is.\<close>

lemma query_same:
  "snd (DiskImage_get n db) = db" "snd ((case kn of None \<Rightarrow> Kernel_get_default | Some n \<Rightarrow> Kernel_get n) db) = db"
  "snd (Device_get_many OS order w names db) = db"
  by (auto simp: DiskImage_get_def Kernel_get_def Kernel_get_default_def Device_get_many_def bind_def give_def transaction_def
      split: option.splits res.splits prod.splits)

lemma shard_deploy_Ok:
  assumes "shard_deploy E new_id macs opts s = (Ok (), s1)" and "do_name opts = Some name"
  obtains i k db' s2 where
    "DiskImage_get (do_image opts) (a_db s) = (Ok i, a_db s)"
    "(case do_kernel opts of None \<Rightarrow> Kernel_get_default | Some n \<Rightarrow> Kernel_get n) (a_db s) = (Ok k, a_db s)"
    "Shard_save (deployed E new_id name opts k i) (a_db s) = (Ok (), db')"
    "a_db s2 = db'" "a_files s2 = a_files s" "a_world s2 = a_world s"
    "Shard_deploy E (deployed E new_id name opts k i) s2 = (Ok (), s1)"
proof -
  let ?kern = "case do_kernel opts of None \<Rightarrow> Kernel_get_default | Some n \<Rightarrow> Kernel_get n"
  obtain i sa k sb ds sc sd sh se where
    i: "on_db (DiskImage_get (do_image opts)) s = (Ok i, sa)" and k: "on_db ?kern sa = (Ok k, sb)" and
    ds: "on_query (\<lambda>w. Device_get_many (ce_os E) (ce_hash_order E) w (do_network opts)) sb = (Ok ds, sc)" and
    sd: "print_glyphs (map (map Ch) (deploy_banner name i k opts ds)) sc = (Ok (), sd)" and
    sh: "ShardBuilder_build new_id (State_generate_cid E) (ShardBuilder_boot_disk (ShardBuilder_kernel (ShardBuilder_memory (ShardBuilder_cpu
      (ShardBuilder_name ShardBuilder_default name) (do_cpu opts)) (do_memory opts)) k) i) = Ok sh" and
    save: "on_db (Shard_save sh) sd = (Ok (), se)" and dep: "Shard_deploy E sh se = (Ok (), s1)"
    using assms by (auto simp: shard_deploy_def name_or_def Let_def add_networks_none bind_eq_Ok give_def simp del: on_db_simps)
  have "sh = deployed E new_id name opts k i"
    using sh by (simp add: ShardBuilder_build_def ShardBuilder_boot_disk_def ShardBuilder_kernel_def ShardBuilder_memory_def ShardBuilder_cpu_def
        ShardBuilder_name_def ShardBuilder_default_def deployed_def)
  moreover from sd have "a_db sd = a_db sc" "a_files sd = a_files sc" "a_world sd = a_world sc"
    by (auto simp: print_glyphs_def)
  moreover have "sa = s" "sb = sa" "sc = sb" using i k ds by (auto simp: on_query_def query_same)
  moreover have "fst (DiskImage_get (do_image opts) (a_db s)) = Ok i" "fst (?kern (a_db sa)) = Ok k" using i k by auto
  ultimately show ?thesis
    using that [of i k "a_db se" se] save dep
    by (auto simp: prod_eq_iff query_same)
qed

lemma Shard_deploy_Ok:
  assumes "Shard_deploy E sh s = (Ok (), s1)" and "plain_name (sp_name (sh_params sh))"
  shows "\<exists>content disk. a_files s (Kernel_path (State_kernel_dir E) (sh_kernel sh)) = Some content \<and>
     a_files s (DiskImage_path (State_image_dir E) (sh_boot_disk sh)) = Some disk \<and>
     s1 = s\<lparr>a_files := (a_files s)(Shard_kernel_path (State_shard_dir E) sh \<mapsto> content, Shard_boot_disk_path (State_shard_dir E) sh \<mapsto> disk)\<rparr> \<and>
     Shard_kernel_path (State_shard_dir E) sh \<noteq> Shard_boot_disk_path (State_shard_dir E) sh"
proof -
  obtain pre where pre: "Shard_kernel_path (State_shard_dir E) sh = pre @ ''.bin''" "Shard_boot_disk_path (State_shard_dir E) sh = pre @ ''.img''"
    using with_extension_plain [OF assms(2), of "Shard_dir (State_shard_dir E) sh"]
    by (auto simp: Shard_kernel_path_def Shard_boot_disk_path_def)
  have ne: "DiskImage_path (State_image_dir E) (sh_boot_disk sh) \<noteq> Shard_kernel_path (State_shard_dir E) sh"
    unfolding pre(1) DiskImage_path_def by (rule with_extension_img)
  from assms(1) obtain sa where
    "hard_link E (Kernel_path (State_kernel_dir E) (sh_kernel sh)) (Shard_kernel_path (State_shard_dir E) sh) s = (Ok (), sa)"
    "copy_file E (DiskImage_path (State_image_dir E) (sh_boot_disk sh)) (Shard_boot_disk_path (State_shard_dir E) sh) sa = (Ok (), s1)"
    by (auto simp: Shard_deploy_def bind_eq_Ok give_def)
  with hard_link_Ok copy_file_Ok ne pre show ?thesis by fastforce
qed

lemma shard_run_Ok:
  assumes "get_shard E name s = (Ok sh, s)" and "hv [] (sp_name (sh_params sh)) (sp_cid (sh_params sh)) (Shard_generate_machine_config (State_shard_dir E) sh) = Ok v"
    and "logger (sp_id (sh_params sh)) = Ok l"
    and "fork (Forker_cwd (Forker_with_subscriber l) (Shard_dir (State_shard_dir E) sh)) v (a_world s) = (Ok b, w)"
  shows "\<exists>s2 r. shard_run E hv logger fork name s = (Ok (), s2) \<and> a_world s2 = w \<and>
     r \<in> set (db_shards (a_db s2)) \<and> sr_name r = sp_name (sh_params sh) \<and> sr_pid r = Some (fork_pid b)"
proof -
  let ?r = "Shard_set_running sh (fork_pid b)"
  obtain rows where rows: "upsert sr_id (\<lambda>x y. False) (shard_row_of ?r) (db_shards (a_db s)) = Ok rows"
    using shards.upsert_accepts by blast
  have "shard_run E hv logger fork name s = (Ok (), s\<lparr>a_world := w, a_db := (a_db s)\<lparr>db_shards := rows\<rparr>\<rparr>)"
    using assms rows by (simp add: shard_run_def bind_def give_def Let_def on_world_def Shard_save_def transaction_def on_err_def)
  moreover have "shard_row_of ?r \<in> set rows" using shards.upsert_set [OF rows] by simp
  ultimately show ?thesis
    by (intro exI [of _ "s\<lparr>a_world := w, a_db := (a_db s)\<lparr>db_shards := rows\<rparr>\<rparr>"] exI [of _ "shard_row_of ?r"])
      (simp add: shard_row_of_def Let_def Shard_set_running_def Shard_set_state_def)
qed

text \<open>
  C20: deploying a machine and running it. After a deployment under a new name succeeded, \<open>shard run\<close> hands the
  hypervisor a configuration with the memory and the processor that were asked for, whose kernel and disk are files with
  the content of the default or the named kernel and of the named image; when the hypervisor, the logger and the
  fork succeed, the machine is recorded as running under the pid of the new process, which runs in the directory of
  the machine.
\<close>

theorem deployed_shard_runs:
  assumes "db_reachable (a_db s)" and "shard_deploy E new_id macs opts s = (Ok (), s1)" and "do_name opts = Some name" and "plain_name name"
    and "\<forall>r \<in> set (db_shards (a_db s)). sr_name r \<noteq> name"
  shows "\<exists>k i cfg content disk dir.
     (case do_kernel opts of None \<Rightarrow> k_default k | Some n \<Rightarrow> k_name k = n) \<and> im_name i = do_image opts \<and>
     a_files s (Kernel_path (State_kernel_dir E) k) = Some content \<and> a_files s (DiskImage_path (State_image_dir E) i) = Some disk \<and>
     a_files s1 (kernel_cfg_path (cfg_kernel cfg)) = Some content \<and> a_files s1 (disk_cfg_path (cfg_disk cfg)) = Some disk \<and>
     cfg_memory cfg = show_dec (unat (do_memory opts)) @ ''m'' \<and> cfg_cpu cfg = do_cpu opts \<and> dir = path_join (State_shard_dir E) name \<and>
     (\<forall>hv logger fork v l b w. hv [] name (State_generate_cid E) cfg = Ok v \<and> logger new_id = Ok l \<and>
        fork (Forker_cwd (Forker_with_subscriber l) dir) v (a_world s1) = (Ok b, w) \<longrightarrow>
        (\<exists>s2 r. shard_run E hv logger fork name s1 = (Ok (), s2) \<and> a_world s2 = w \<and>
          r \<in> set (db_shards (a_db s2)) \<and> sr_name r = name \<and> sr_pid r = Some (fork_pid b)))"
proof -
  note wf = db_reachable_wf [OF assms(1)]
  from shard_deploy_Ok [OF assms(2,3)] obtain i k s2 where
    get: "DiskImage_get (do_image opts) (a_db s) = (Ok i, a_db s)"
      "(case do_kernel opts of None \<Rightarrow> Kernel_get_default | Some n \<Rightarrow> Kernel_get n) (a_db s) = (Ok k, a_db s)" and
    save: "Shard_save (deployed E new_id name opts k i) (a_db s) = (Ok (), a_db s2)" and
    s2: "a_files s2 = a_files s" "Shard_deploy E (deployed E new_id name opts k i) s2 = (Ok (), s1)" by metis
  let ?sh = "deployed E new_id name opts k i"
  have "query_row DiskImage_from_row (filter (\<lambda>r. ir_name r = do_image opts) (db_images (a_db s))) = Ok i"
    using get(1) by (auto simp: DiskImage_get_def transaction_def split: res.splits)
  from image_row_in [OF wf this] have i: "image_row_of i \<in> set (db_images (a_db s))" "im_name i = do_image opts"
    by (simp_all add: image_row_of_def)
  have "query_row Kernel_from_row (filter (case do_kernel opts of None \<Rightarrow> \<lambda>r. kr_is_default r = 1 | Some n \<Rightarrow> \<lambda>r. kr_name r = n)
      (db_kernels (a_db s))) = Ok k"
    using get(2) by (auto simp: Kernel_get_def Kernel_get_default_def transaction_def split: res.splits option.splits)
  from Kernel_row_in [OF wf this] have k: "kernel_row_of k \<in> set (db_kernels (a_db s))"
      "case do_kernel opts of None \<Rightarrow> k_default k | Some n \<Rightarrow> k_name k = n"
    by (auto simp: kernel_row_of_def split: option.splits if_splits)
  from Shard_deploy_Ok [OF s2(2)] assms(4) obtain content disk where
    files: "a_files s (Kernel_path (State_kernel_dir E) k) = Some content" "a_files s (DiskImage_path (State_image_dir E) i) = Some disk" and
    s1: "s1 = s2\<lparr>a_files := (a_files s2)(Shard_kernel_path (State_shard_dir E) ?sh \<mapsto> content, Shard_boot_disk_path (State_shard_dir E) ?sh \<mapsto> disk)\<rparr>"
      "Shard_kernel_path (State_shard_dir E) ?sh \<noteq> Shard_boot_disk_path (State_shard_dir E) ?sh"
    unfolding s2(1) by (auto simp: deployed_def)
  let ?cfg = "Shard_generate_machine_config (State_shard_dir E) ?sh"
  have cfg: "kernel_cfg_path (cfg_kernel ?cfg) = Shard_kernel_path (State_shard_dir E) ?sh"
    "disk_cfg_path (cfg_disk ?cfg) = Shard_boot_disk_path (State_shard_dir E) ?sh"
    "cfg_memory ?cfg = show_dec (unat (do_memory opts)) @ ''m''" "cfg_cpu ?cfg = do_cpu opts"
    by (simp_all add: Shard_generate_machine_config_def Let_def MachineConfig_new_def KernelConfig_new_def DiskConfig_new_def deployed_def)
  have "Shard_get (ce_os E) (a_world s1) name (a_db s1) = (Ok (Some ?sh), a_db s1)"
    using Shard_save_get [OF assms(1), of ?sh "ce_os E" "a_world s1" Stopped] i(1) k(1) assms(5) save
    by (simp add: deployed_def reread_state_def Shard_set_state_def s1(1))
  then have get: "get_shard E name s1 = (Ok ?sh, s1)" by (simp add: get_shard_def on_query_def bind_def give_def)
  have run: "\<exists>s2 r. shard_run E hv logger fork name s1 = (Ok (), s2) \<and> a_world s2 = w \<and>
      r \<in> set (db_shards (a_db s2)) \<and> sr_name r = name \<and> sr_pid r = Some (fork_pid b)"
    if "hv [] name (State_generate_cid E) ?cfg = Ok v" "logger new_id = Ok l"
      "fork (Forker_cwd (Forker_with_subscriber l) (path_join (State_shard_dir E) name)) v (a_world s1) = (Ok b, w)" for hv logger fork v l b w
    using shard_run_Ok [OF get, of hv v logger l fork b w] that by (simp add: deployed_def Shard_dir_def)
  have fs: "a_files s1 (kernel_cfg_path (cfg_kernel ?cfg)) = Some content" "a_files s1 (disk_cfg_path (cfg_disk ?cfg)) = Some disk"
    using s1 by (simp_all add: cfg)
  show ?thesis
    by (rule exI [of _ k], rule exI [of _ i], rule exI [of _ ?cfg], rule exI [of _ content], rule exI [of _ disk],
        rule exI [of _ "path_join (State_shard_dir E) name"], intro conjI allI impI)
      (rule k(2) i(2) files fs cfg(3,4) refl | (elim conjE, rule run))+
qed

section \<open>Starting a bridge\<close>

lemma start_bridge_Ok:
  assumes "get_bridge E name s = (Ok d, s)" and "decode (d_cfg d) = Ok cfg" and "logger (d_id d) = Ok l"
    and "forked (Forker_with_subscriber l) \<lparr>br_socket_path = with_extension (path_join (State_network_dir E) name) ''sock'', br_pcap = pcap, br_cfg = cfg\<rparr>
      (a_world s) = (Ok b, w)"
  shows "\<exists>rows. start_bridge E decode logger forked name pcap s = (Ok (), s\<lparr>a_world := w, a_db := (a_db s)\<lparr>db_devices := rows\<rparr>\<rparr>) \<and>
     set rows = insert (device_row_of d\<lparr>dr_pid := Some (fork_pid b)\<rparr>) {r \<in> set (db_devices (a_db s)). dr_id r \<noteq> d_id d}"
proof -
  let ?r = "Device_set_started d (fork_pid b)"
  obtain rows where rows: "upsert dr_id (\<lambda>x y. False) (device_row_of ?r) (db_devices (a_db s)) = Ok rows"
    using devices.upsert_accepts by blast
  have "start_bridge E decode logger forked name pcap s = (Ok (), s\<lparr>a_world := w, a_db := (a_db s)\<lparr>db_devices := rows\<rparr>\<rparr>)"
    using assms rows
    by (simp add: start_bridge_def bind_def give_def on_world_def BridgeBuilder_build_def BridgeBuilder_base_def BridgeBuilder_pcap_def Let_def
        Device_save_def transaction_def on_err_def)
  moreover have "device_row_of ?r = device_row_of d\<lparr>dr_pid := Some (fork_pid b)\<rparr>" "dr_id (device_row_of ?r) = d_id d"
    by (simp_all add: device_row_of_def Device_set_started_def)
  ultimately show ?thesis using devices.upsert_set [OF rows] by (intro exI [of _ rows]) simp
qed

text \<open>A started bridge listens where machines look for its socket.\<close>

lemma bridge_socket_path:
  assumes "BridgeBuilder_build (BridgeBuilder_base (BridgeBuilder_pcap BridgeBuilder_default pcap) dir) cfg (d_name d) = Ok bridge"
  shows "br_socket_path bridge = Device_uds dir d"
  using assms by (auto simp: BridgeBuilder_build_def BridgeBuilder_base_def Device_uds_def Let_def)

text \<open>
  Starting a bridge that is already running is not refused: a second process is started for the same socket, and the
  pid of the first, which goes on running, is no longer in the database when the bridges have different ids and no
  other one has this pid.
\<close>

lemma start_bridge_orphans:
  assumes "get_bridge E name s = (Ok d, s)" and "d_state d = Running pid" and "decode (d_cfg d) = Ok cfg" and "logger (d_id d) = Ok l"
    and "forked (Forker_with_subscriber l) \<lparr>br_socket_path = with_extension (path_join (State_network_dir E) name) ''sock'', br_pcap = pcap, br_cfg = cfg\<rparr>
      (a_world s) = (Ok b, w)"
    and "po_alive (ce_os E) w pid = Ok ()" and "fork_pid b \<noteq> pid" and "\<forall>r \<in> set (db_devices (a_db s)). dr_id r \<noteq> d_id d \<longrightarrow> dr_pid r \<noteq> Some pid"
  shows "\<exists>s'. start_bridge E decode logger forked name pcap s = (Ok (), s') \<and> po_alive (ce_os E) (a_world s') pid = Ok () \<and>
     (\<forall>r \<in> set (db_devices (a_db s')). dr_pid r \<noteq> Some pid)"
proof -
  from start_bridge_Ok [where decode = decode and logger = logger and forked = forked, OF assms(1,3-5)] obtain rows where
    "start_bridge E decode logger forked name pcap s = (Ok (), s\<lparr>a_world := w, a_db := (a_db s)\<lparr>db_devices := rows\<rparr>\<rparr>)"
    "set rows = insert (device_row_of d\<lparr>dr_pid := Some (fork_pid b)\<rparr>) {r \<in> set (db_devices (a_db s)). dr_id r \<noteq> d_id d}" by blast
  with assms(6-8) show ?thesis by auto
qed

section \<open>A machine to deploy\<close>

definition sample_files :: "string \<rightharpoonup> bytes" where
  "sample_files = [Kernel_path (State_kernel_dir sample_cmd_env) sample_kernel \<mapsto> [1], DiskImage_path (State_image_dir sample_cmd_env) sample_image \<mapsto> [2]]"

definition sample_deploy :: "(string, nat, nat) app" where
  "sample_deploy = \<lparr>a_db = sample_db, a_files = sample_files, a_world = 7, a_out = []\<rparr>"

definition sample_opts :: DeployOpts where
  "sample_opts = \<lparr>do_name = Some ''vm1'', do_image = ''debian'', do_kernel = None, do_memory = 512, do_cpu = ''q35'', do_network = []\<rparr>"

theorem deployed_shard_runs_witness:
  "\<exists>s1 (cfg :: MachineConfig) content. shard_deploy sample_cmd_env 9 [] sample_opts sample_deploy = (Ok (), s1) \<and>
     a_files s1 (kernel_cfg_path (cfg_kernel cfg)) = Some content \<and> cfg_memory cfg = ''512m''"
proof -
  let ?E = sample_cmd_env and ?sh = "deployed sample_cmd_env 9 ''vm1'' sample_opts sample_kernel sample_image"
  have paths: "Kernel_path (State_kernel_dir ?E) sample_kernel = ''/tmp/kernels/K4.bin''" "DiskImage_path (State_image_dir ?E) sample_image = ''/tmp/images/I7.img''"
    "Shard_kernel_path (State_shard_dir ?E) ?sh = ''/tmp/shards/vm1/vm1.bin''" "Shard_boot_disk_path (State_shard_dir ?E) ?sh = ''/tmp/shards/vm1/vm1.img''"
    by (simp_all add: Kernel_path_def DiskImage_path_def Shard_kernel_path_def Shard_boot_disk_path_def Shard_dir_def State_kernel_dir_def
        State_image_dir_def State_shard_dir_def State_subdir_def sample_cmd_env_def sample_kernel_def sample_image_def Kernel_new_def DiskImage_new_def
        deployed_def path_join_def with_extension_def rev_stem_def Let_def)
  have "db_reachable (a_db sample_deploy)" by (simp add: sample_deploy_def sample_db_reachable)
  have get: "DiskImage_get ''debian'' sample_db = (Ok sample_image, sample_db)" "Kernel_get_default sample_db = (Ok sample_kernel, sample_db)"
    "Device_get_many OS order w [] sample_db = (Ok [], sample_db)" for OS :: "nat proc_os" and order w
    by (simp_all add: DiskImage_get_def Kernel_get_default_def Device_get_many_def bind_def give_def transaction_def query_row_def sample_db_rows
        image_row_of_def kernel_row_of_def sample_image_def sample_kernel_def DiskImage_new_def Kernel_new_def DiskImage_from_row_def Kernel_from_row_def
        DiskFormat_from_str_def to_lower_def int_in_def)
  have build: "ShardBuilder_build 9 (State_generate_cid ?E) (ShardBuilder_boot_disk (ShardBuilder_kernel (ShardBuilder_memory (ShardBuilder_cpu
      (ShardBuilder_name ShardBuilder_default ''vm1'') (do_cpu sample_opts)) (do_memory sample_opts)) sample_kernel) sample_image) = Ok ?sh"
    by (simp add: ShardBuilder_build_def ShardBuilder_boot_disk_def ShardBuilder_kernel_def ShardBuilder_memory_def ShardBuilder_cpu_def
        ShardBuilder_name_def ShardBuilder_default_def deployed_def)
  have env: "confirm ?E p = Ok ()" "io_error_of ?E p = Ok ()" for p by (simp_all add: confirm_def io_error_of_def sample_cmd_env_def)
  have sh: "sh_kernel ?sh = sample_kernel" "sh_boot_disk ?sh = sample_image" by (simp_all add: deployed_def)
  have deploy: "\<exists>s1. Shard_deploy ?E ?sh s = (Ok (), s1)" if "a_files s = sample_files" for s :: "(string, nat, nat) app"
    using that by (simp add: Shard_deploy_def bind_def give_def hard_link_def copy_file_def read_file_def env sh paths sample_files_def)
  have "\<exists>s1. shard_deploy ?E 9 [] sample_opts sample_deploy = (Ok (), s1)"
    using deploy
    by (simp add: shard_deploy_def sample_deploy_def name_or_def Let_def bind_def give_def on_query_def get build env print_glyphs_def
        Shard_save_def transaction_def on_err_def upsert_def sample_db_rows [THEN arg_cong [of _ _ db_shards]]
        sample_opts_def [THEN arg_cong [of _ _ do_name]] sample_opts_def [THEN arg_cong [of _ _ do_image]]
        sample_opts_def [THEN arg_cong [of _ _ do_kernel]] sample_opts_def [THEN arg_cong [of _ _ do_network]])
  then obtain s1 where s1: "shard_deploy ?E 9 [] sample_opts sample_deploy = (Ok (), s1)" by blast
  have "do_name sample_opts = Some ''vm1''" "plain_name ''vm1''" "\<forall>r \<in> set (db_shards (a_db sample_deploy)). sr_name r \<noteq> ''vm1''"
    by (simp_all add: sample_opts_def plain_name_def sample_deploy_def sample_db_rows)
  from deployed_shard_runs [OF \<open>db_reachable (a_db sample_deploy)\<close> s1 this] obtain cfg :: MachineConfig and content where
    "a_files s1 (kernel_cfg_path (cfg_kernel cfg)) = Some content" "cfg_memory cfg = show_dec (unat (do_memory sample_opts)) @ ''m''" by (elim exE conjE) (rule that, assumption, assumption)
  moreover have "show_dec (unat (do_memory sample_opts)) = ''512''" by code_simp
  ultimately show ?thesis using s1 by auto
qed

end
