(* ===== verification/Spec2Isabelle.thy ===== *)
theory Spec2Isabelle
  imports Bridge_Traffic Capture Udp_Dummy Fabrial_Server Fabrial_Client Cli_Laws Lifecycle
begin

text \<open>
  A verification development for \<^verbatim>\<open>oathgate\<close>, a system that runs virtual machines on private networks.

  \<^bold>\<open>The program.\<close> A bridge (\<^verbatim>\<open>oathgate-bridge\<close>) is one process with a learning switch, a router with a DHCP
  server and an upstream (WAN) provider. A virtual machine is attached to the switch through a vhost-user
  device (\<^verbatim>\<open>oathgate-vhost\<close>): QEMU configures the device over a socket and shares the memory of the guest, and
  the device moves frames between the virtqueues of the guest and the switch. The packet formats and the NAT
  table are in \<^verbatim>\<open>oathgate-net\<close>. The runner (\<^verbatim>\<open>oathgate-runner\<close>) starts QEMU and serves its terminals, one of
  which is connected to the guest agent (\<^verbatim>\<open>oathgate-fabrial\<close>), which gives a shell inside the guest. The command
  line (\<^verbatim>\<open>oathgate\<close>) keeps bridges, kernels, images and machines in a database and starts and stops their
  processes.

  \<^bold>\<open>How it is modelled.\<close> A function of the source is a definition with its name, prefixed by its type
  (\<open>VirtioSwitch_process\<close> for \<open>VirtioSwitch::process\<close>). A struct is a record, an enum a datatype, machine integers are
  words of their width with the wrap-around of a release build, \<open>usize\<close> is \<open>nat\<close>. A result is \<open>Ok\<close>, \<open>Err\<close> or
  \<open>Panic\<close> (theory \<open>Prelude\<close>); a function that changes state returns the state next to its result, also when it
  fails. Locks are taken for one step each, so that a function is one step of its thread. A process with several
  threads is a state and a list of acts, in any order: the acts of a bridge are turns of the router, of the WAN
  thread, of the packet capture and of the main thread and frames of the guests, and a property of all lists of acts
  holds for every interleaving. The two forks of a new process are a step relation with three program counters. Formatting of log
  messages is left out.

  \<^bold>\<open>The theories.\<close>
  \<^item> \<open>Prelude\<close>, \<open>Text_Format\<close>: outcomes, state, buffers, bytes of integers, levels of \<open>tracing\<close>; printing and
    parsing of numbers.
  \<^item> \<open>Net_Types\<close>, \<open>Ip_Network\<close>, \<open>Checksum\<close>: \<^verbatim>\<open>oathgate-net/src/types.rs\<close>, \<^verbatim>\<open>types/*.rs\<close> and \<^verbatim>\<open>lib.rs\<close>. The
    addresses of a network are an interval; the checksum is the one of RFC 1071 when folding once is enough.
  \<^item> \<open>Wire_Format\<close>, \<open>Frame\<close>, \<open>Ipv4\<close>, \<open>Arp\<close>, \<open>Icmp\<close>: the formats of \<^verbatim>\<open>frame.rs\<close>, \<^verbatim>\<open>ipv4.rs\<close> and \<^verbatim>\<open>protocols/*.rs\<close>.
    The locale \<open>wire_format\<close> is the contract between an encoder and a parser; round trips, the exact outcome
    of the parsers, and that address translation changes the address and the checksums only.
  \<^item> \<open>Nat_Table\<close>: \<^verbatim>\<open>nat.rs\<close>; the locale \<open>translation_table\<close> says that a reply finds the last sender of its flow.
  \<^item> \<open>Switch\<close>: \<^verbatim>\<open>net/switch.rs\<close>, with the locale \<open>switch_port\<close> for a device on a port; reachable states by rule
    induction, delivery to the learned port and to no other. \<open>Capture\<close>: its packet capture in a file, complete and in order.
  \<^item> \<open>Handlers\<close>, \<open>Dhcp\<close>, \<open>Router\<close>: \<^verbatim>\<open>net/router.rs\<close>, \<^verbatim>\<open>net/router/handler/*.rs\<close> and \<^verbatim>\<open>net/dhcp.rs\<close>; the locales
    \<open>port_handler\<close> and \<open>protocol_handler\<close> for what is registered with the router. Answers to ARP, the paths
    between LAN and WAN, the leases of the DHCP server.
  \<^item> \<open>Wan\<close>, \<open>Wan_Thread\<close>: \<^verbatim>\<open>net/wan.rs\<close> and \<^verbatim>\<open>net/wan/*.rs\<close>; the three providers with their handles and the thread that
    runs one of them; a reply from the tunnel reaches the sender. \<open>Udp_Dummy\<close>: \<^verbatim>\<open>upstreams/udp-dummy\<close>, whose
    answers the UDP provider takes for packets.
  \<^item> \<open>Bridge\<close>, \<open>Bridge_Builder\<close>, \<open>Bridge_Run\<close>, \<open>Bridge_Traffic\<close>: \<^verbatim>\<open>lib.rs\<close> and \<^verbatim>\<open>config.rs\<close> of the bridge, with its listening
    socket (\<^verbatim>\<open>oathgate-vhost/src/vhost.rs\<close>). The start, the poll loop and the process with its threads; ports, cache,
    WAN, socket and capture file are sound under every interleaving, leases are kept, the router answers pings, and a
    packet of a guest goes out through the tunnel and its answer comes back to the guest.
  \<^item> \<open>Vhost_Types\<close>, \<open>Virt_Queue\<close>, \<open>Vhost_Device\<close>, \<open>Vhost_Run\<close>: \<^verbatim>\<open>oathgate-vhost/src\<close>. Payloads, virtqueues, every
    message of the control socket, the event loop; the locales \<open>device_property\<close> and \<open>device_invariant\<close> carry a
    property through all messages. Frames that fit the chains of the driver are delivered complete
    and in order, from guest to guest.
  \<^item> \<open>Fabrial_Agent\<close>, \<open>Fabrial_Server\<close>: \<^verbatim>\<open>oathgate-fabrial/src\<close>; the connections of the agent, and the agent as a
    server that forks a shell for each.
  \<^item> \<open>Terminal\<close>, \<open>Fabrial_Link\<close>, \<open>Runner\<close>, \<open>Fabrial_Client\<close>: \<^verbatim>\<open>oathgate-runner/src\<close> and the client of the agent in
    \<^verbatim>\<open>oathgate/src/cmd/shard/fabrial.rs\<close>. The runner and the agent together refine a terminal on which the
    operations are carried out in order; the terminals of a run; the two threads of the client.
  \<^item> \<open>Process\<close>, \<open>Logger\<close>, \<open>Database\<close>, \<open>Database_Laws\<close>: \<^verbatim>\<open>process.rs\<close>, \<^verbatim>\<open>logger.rs\<close> and \<^verbatim>\<open>database/*.rs\<close> of \<^verbatim>\<open>oathgate/src\<close>. The
    locale \<open>keyed_table\<close> is the contract of a table; well-formed databases by rule induction over the operations,
    saving and finding, the default kernel, stopping processes.
  \<^item> \<open>Fork\<close>: \<^verbatim>\<open>fork.rs\<close>; caller, child and grandchild stop in any order of their steps with the outcome of a
    sequential reference, and the work runs detached.
  \<^item> \<open>Tables\<close>, \<open>Commands\<close>, \<open>Cli\<close>, \<open>Cli_Laws\<close>, \<open>Lifecycle\<close>: \<^verbatim>\<open>cmd.rs\<close>, \<^verbatim>\<open>cmd/*.rs\<close> and \<^verbatim>\<open>main.rs\<close>. The commands, their dispatch
    from \<open>main\<close>, what every command keeps of the database, installing images, stopping machines, printed
    tables, and a machine from its deployment to its run.

  \<^bold>\<open>Loops.\<close> Loops over data are structural or have a measure: the data of a message to the agent, the turns
  of stopping a process (five at most), the chunks of a file. Loops that depend on what the system answers are
  \<open>partial_function (option)\<close>, where \<open>None\<close> is not returning: the DHCP pool (\<open>pool_loop\<close>), the WireGuard tunnel
  (\<open>WgDevice_drain\<close>), reading a descriptor chain (\<open>read_chain\<close>), the control socket of a device (\<open>drain_stream\<close>), the
  socket of the agent (\<open>sock_loop\<close>) and the terminals (\<open>FabrialPty_read_pty\<close>, \<open>copy_output\<close>). Where a property says
  that something is delivered or carried out, it says that these return \<open>Some\<close>. Event loops run over the list
  of the events that occur; no bound on their number is assumed.

  \<^bold>\<open>Code from elsewhere.\<close> Third-party crates and system calls are arguments: \<open>dhcproto\<close>, the boringtun tunnel
  (\<open>wg_env\<close>), \<open>virtio_queue\<close> and \<open>vm_memory\<close> (\<open>virtio_lib\<close>), the system calls (\<open>vhost_os\<close>, \<open>wan_os\<close>, \<open>pcap_lib\<close>, \<open>socket_os\<close>, \<open>bridge_os\<close>,
  \<open>tty_os\<close>, \<open>pty_os\<close>, \<open>server_os\<close>, \<open>spawn_calls\<close>, \<open>fork_calls\<close>, \<open>proc_os\<close>, \<open>cmd_env\<close>, \<open>cli_env\<close>), the terminal emulator (\<open>vt100\<close>). What a property needs of them is a
  named hypothesis: \<open>message_laws\<close>, \<open>readable\<close> and \<open>tx_ready\<close> (a chain the driver gave for transmission can be read and
  returned), \<open>rx_ring\<close> (the driver's chains for reception: each takes as many bytes as it has room for, and fails beyond),
  \<open>notifies\<close>, \<open>connected\<close> (a stream socket delivers what was sent, in order; a terminal takes short inputs whole), \<open>obedient\<close>
  (signals reach a process that is there), \<open>enumerates\<close> (iterating a hash set gives each element once). Each is shown
  satisfiable by a sample instance on which the witnesses are evaluated; what the tunnel does with a packet is a hypothesis
  on that packet and the size of the buffer. SQLite is modelled by the effect of the statements of the
  source on lists of rows, with the constraints and triggers of the migration.

  \<^bold>\<open>Not modelled.\<close> Parsing of YAML, JSON and the command line, which the source derives or leaves to crates;
  colours, prompts and spinners. Not part of the build, and not modelled: the terminal user interface
  \<^verbatim>\<open>oathgate-runner/src/tui.rs\<close>, \<^verbatim>\<open>oathgate/src/cmd/template.rs\<close> and the stub \<^verbatim>\<open>oathgate-bridge/src/fabrial.rs\<close>. Failures of
  SQLite itself, the text of the JSON data of log entries (floats that are not finite cannot be read back), aliasing of
  hard links and of paths, and the number of bytes of a character that is not ASCII in the width of a
  table are left out.
\<close>

end
